(* ===== verification/Prelude.thy ===== *)
theory Prelude
  imports
    Main
    "HOL-Library.Word"
    "HOL-Library.Char_ord"
    "HOL-Library.List_Lexorder"
    "HOL-Library.Product_Lexorder"
    "HOL-Library.Multiset"
begin

text \<open>
  Shared vocabulary of the development: the machine integers of the contracts, results with
  errors and panics, overflow-checked arithmetic (the workspace is built with
  \<open>overflow-checks = true\<close> and \<open>panic = 'abort'\<close>, Cargo.toml), decimal rendering, and runs of
  transactions in which a failing transaction leaves the state as it was. Two locales give the
  general facts about such runs: invariants, and views that only ever grow.
\<close>

section \<open>Machine integers, strings and bytes\<close>

type_synonym u8 = "8 word"
type_synonym u16 = "16 word"
type_synonym u32 = "32 word"
type_synonym u64 = "64 word"
type_synonym u128 = "128 word"

text \<open>
  A Rust \<open>String\<close> is a list of UTF-8 bytes, as is a HOL \<^typ>\<open>string\<close>; \<open>len()\<close> counts bytes.
  \<open>Binary\<close> and \<open>HexBinary\<close> are byte vectors. An \<open>Addr\<close> is a string newtype.
\<close>

type_synonym addr = string
type_synonym binary = "u8 list"

named_theorems result_simps \<open>unfolding of the result combinators\<close>
named_theorems config_simps \<open>definitions of the loaders and guards of the contracts\<close>

text \<open>\<open>u64::to_be_bytes\<close>: the eight bytes, most significant first.\<close>

definition to_be_bytes :: "u64 \<Rightarrow> binary" where
  "to_be_bytes w = map (\<lambda>i. ucast (drop_bit (8 * i) w)) [7, 6, 5, 4, 3, 2, 1, 0]"

lemma to_be_bytes_inject [simp]: "to_be_bytes v = to_be_bytes w \<longleftrightarrow> v = w"
proof
  assume eq: "to_be_bytes v = to_be_bytes w"
  show "v = w"
  proof (rule bit_word_eqI)
    fix n assume n: "n < LENGTH(64)"
    then have "n div 8 \<in> set [7, 6, 5, 4, 3, 2, 1, 0]" by auto
    with eq have byte: "(ucast (drop_bit (8 * (n div 8)) v) :: 8 word) = ucast (drop_bit (8 * (n div 8)) w)"
      by (auto simp: to_be_bytes_def)
    have "bit (ucast (drop_bit (8 * (n div 8)) u) :: 8 word) (n mod 8) \<longleftrightarrow> bit u n" for u :: u64
      by (simp add: bit_simps)
    with byte show "bit v n = bit w n" by metis
  qed
qed simp

section \<open>Results: errors and panics\<close>

text \<open>
  A handler either returns \<open>Err(e)\<close> or aborts with a panic; the virtual machine discards the
  storage writes in both cases, so a failure carries no state.
\<close>

datatype 'e failure = Error 'e | Panic string

definition and_then :: "'e + 'a \<Rightarrow> ('a \<Rightarrow> 'e + 'b) \<Rightarrow> 'e + 'b" where
  "and_then m f = (case m of Inl e \<Rightarrow> Inl e | Inr a \<Rightarrow> f a)"

definition map_err :: "('e \<Rightarrow> 'f) \<Rightarrow> 'e + 'a \<Rightarrow> 'f + 'a" where
  "map_err f m = (case m of Inl e \<Rightarrow> Inl (f e) | Inr a \<Rightarrow> Inr a)"

definition ok_or :: "'e \<Rightarrow> 'a option \<Rightarrow> 'e + 'a" where
  "ok_or e x = (case x of None \<Rightarrow> Inl e | Some a \<Rightarrow> Inr a)"

definition unwrap_or :: "'a option \<Rightarrow> 'a \<Rightarrow> 'a" where
  "unwrap_or x d = (case x of None \<Rightarrow> d | Some a \<Rightarrow> a)"

definition result_unwrap_or :: "'e + 'a \<Rightarrow> 'a \<Rightarrow> 'a" where
  "result_unwrap_or m d = (case m of Inl _ \<Rightarrow> d | Inr a \<Rightarrow> a)"

lemma result_unwrap_or_False [simp]: "result_unwrap_or m False \<longleftrightarrow> m = Inr True"
  by (cases m) (auto simp: result_unwrap_or_def)

lemma and_then_simps [simp]:
  "and_then (Inl e) f = Inl e"
  "and_then (Inr a) f = f a"
  by (simp_all add: and_then_def)

lemma map_err_simps [simp]:
  "map_err f (Inl e) = Inl (f e)"
  "map_err f (Inr a) = Inr a"
  by (simp_all add: map_err_def)

lemma ok_or_simps [simp]:
  "ok_or e None = Inl e"
  "ok_or e (Some a) = Inr a"
  by (simp_all add: ok_or_def)

lemma unwrap_or_simps [simp]:
  "unwrap_or None d = d"
  "unwrap_or (Some a) d = a"
  by (simp_all add: unwrap_or_def)

lemma and_then_eq_Inr [simp]:
  "and_then m f = Inr b \<longleftrightarrow> (\<exists>a. m = Inr a \<and> f a = Inr b)"
  by (cases m) simp_all

lemma and_then_eq_Inl:
  "and_then m f = Inl e \<longleftrightarrow> m = Inl e \<or> (\<exists>a. m = Inr a \<and> f a = Inl e)"
  by (cases m) simp_all

lemma map_err_eq_Inr [simp]: "map_err f m = Inr a \<longleftrightarrow> m = Inr a"
  by (cases m) simp_all

lemma map_err_eq_Inl: "map_err f m = Inl e \<longleftrightarrow> (\<exists>e'. m = Inl e' \<and> e = f e')"
  by (cases m) auto

lemma ok_or_eq_Inr [simp]: "ok_or e x = Inr a \<longleftrightarrow> x = Some a"
  by (cases x) simp_all

lemma ok_or_eq_Inl: "ok_or e x = Inl e' \<longleftrightarrow> x = None \<and> e' = e"
  by (cases x) auto

text \<open>\<open>collect::<Result<Vec<_>, _>>\<close>: the first failure, or all the values.\<close>

fun collect_results :: "('e + 'a) list \<Rightarrow> 'e + 'a list" where
  "collect_results [] = Inr []"
| "collect_results (r # rs) = and_then r (\<lambda>a. and_then (collect_results rs) (\<lambda>as. Inr (a # as)))"

lemma collect_results_eq_Inr: "collect_results rs = Inr as \<longleftrightarrow> rs = map Inr as"
  by (induction rs arbitrary: as) auto

lemma collect_results_map_Inr [simp]: "collect_results (map Inr as) = Inr as"
  by (simp add: collect_results_eq_Inr)

text \<open>The rules that invert a successful computation; evaluating one forwards does without them.\<close>

lemmas result_inversion = and_then_eq_Inr map_err_eq_Inr ok_or_eq_Inr

lemmas result_splits = sum.splits option.splits if_splits prod.splits

text \<open>For recursion under \<open>and_then\<close>: the continuation is only entered with the value.\<close>

lemma and_then_cong [fundef_cong]:
  "m = m' \<Longrightarrow> (\<And>a. m' = Inr a \<Longrightarrow> f a = f' a) \<Longrightarrow> and_then m f = and_then m' f'"
  by (cases m') simp_all

section \<open>Actions: code whose writes survive an error\<close>

text \<open>
  Where the source turns an error into a value further up (an IBC acknowledgement), the
  writes made before the error stay. Such code is an action: it yields the state it leaves
  behind together with its result.
\<close>

type_synonym ('s, 'e, 'a) action = "'s \<Rightarrow> 's \<times> ('e + 'a)"

definition bind_a :: "('s, 'e, 'a) action \<Rightarrow> ('a \<Rightarrow> ('s, 'e, 'b) action) \<Rightarrow> ('s, 'e, 'b) action" where
  "bind_a m f s = (case m s of (s', Inl e) \<Rightarrow> (s', Inl e) | (s', Inr a) \<Rightarrow> f a s')"

definition return_a :: "'a \<Rightarrow> ('s, 'e, 'a) action" where
  "return_a a s = (s, Inr a)"

text \<open>A computation that only reads the state; one that writes it or fails before any write.\<close>

definition read_a :: "('s \<Rightarrow> 'e + 'a) \<Rightarrow> ('s, 'e, 'a) action" where
  "read_a f s = (s, f s)"

definition write_a :: "('s \<Rightarrow> 'e + 's) \<Rightarrow> ('s, 'e, unit) action" where
  "write_a f s = (case f s of Inl e \<Rightarrow> (s, Inl e) | Inr s' \<Rightarrow> (s', Inr ()))"

definition map_err_a :: "('e \<Rightarrow> 'f) \<Rightarrow> ('s, 'e, 'a) action \<Rightarrow> ('s, 'f, 'a) action" where
  "map_err_a f m s = (fst (m s), map_err f (snd (m s)))"

lemma bind_a_Inr [simp]:
  "bind_a m f s = (s', Inr b) \<longleftrightarrow> (\<exists>s1 a. m s = (s1, Inr a) \<and> f a s1 = (s', Inr b))"
  by (auto simp: bind_a_def split: prod.splits sum.splits)

lemma return_a_eq [simp]: "return_a a s = (s', r) \<longleftrightarrow> s' = s \<and> r = Inr a"
  by (auto simp: return_a_def)

lemma read_a_eq [simp]: "read_a f s = (s', r) \<longleftrightarrow> s' = s \<and> f s = r"
  by (auto simp: read_a_def)

lemma write_a_Inr [simp]: "write_a f s = (s', Inr u) \<longleftrightarrow> f s = Inr s'"
  by (auto simp: write_a_def split: sum.splits)

lemma map_err_a_Inr [simp]: "map_err_a f m s = (s', Inr b) \<longleftrightarrow> m s = (s', Inr b)"
  by (cases "m s") (auto simp: map_err_a_def)

lemma bind_a_Inl:
  "bind_a m f s = (s', Inl e) \<longleftrightarrow> m s = (s', Inl e) \<or> (\<exists>s1 a. m s = (s1, Inr a) \<and> f a s1 = (s', Inl e))"
  by (auto simp: bind_a_def split: prod.splits sum.splits)

lemma write_a_Inl: "write_a f s = (s', Inl e) \<longleftrightarrow> s' = s \<and> f s = Inl e"
  by (auto simp: write_a_def split: sum.splits)

lemma map_err_a_Inl: "map_err_a g m s = (s', Inl e) \<longleftrightarrow> (\<exists>e'. m s = (s', Inl e') \<and> e = g e')"
  by (cases "m s") (auto simp: map_err_a_def map_err_eq_Inl)

lemmas action_errors = bind_a_Inl write_a_Inl map_err_a_Inl

section \<open>Sorting by a key without ties\<close>

lemma filter_eq_singleton: "distinct zs \<Longrightarrow> k \<in> set zs \<Longrightarrow> filter ((=) k) zs = [k]"
  by (induction zs) (auto simp: filter_empty_conv)

lemma sort_key_unique:
  assumes "mset ys = mset xs" and "sorted (map f ys)" and "distinct (map f ys)"
  shows "sort_key f xs = ys"
proof (rule properties_for_sort_key)
  show "mset ys = mset xs" "sorted (map f ys)" by fact+
  show "filter (\<lambda>x. f k = f x) ys = filter (\<lambda>x. f k = f x) xs" if "k \<in> set ys" for k
  proof -
    have inj: "inj_on f (set ys)" and d: "distinct ys"
      using assms(3) by (simp_all add: distinct_map)
    have dx: "distinct xs" and sx: "set xs = set ys"
      using assms(1) d by (metis mset_eq_imp_distinct_iff, metis mset_eq_setD)
    have *: "filter (\<lambda>x. f k = f x) zs = [k]" if zs: "distinct zs" "set zs = set ys" for zs
    proof -
      have "filter (\<lambda>x. f k = f x) zs = filter ((=) k) zs"
        using inj \<open>k \<in> set ys\<close> zs(2) by (auto intro!: filter_cong dest: inj_onD)
      also have "\<dots> = [k]"
        using zs \<open>k \<in> set ys\<close> by (simp add: filter_eq_singleton)
      finally show ?thesis .
    qed
    show ?thesis using * [OF d refl] * [OF dx sx] by simp
  qed
qed

section \<open>Overflow-checked arithmetic\<close>

definition add_c :: "'w::len word \<Rightarrow> 'w word \<Rightarrow> 'e failure + 'w word" where
  "add_c x y = (if unat x + unat y < 2 ^ LENGTH('w) then Inr (x + y)
                else Inl (Panic ''attempt to add with overflow''))"

definition sub_c :: "'w::len word \<Rightarrow> 'w word \<Rightarrow> 'e failure + 'w word" where
  "sub_c x y = (if y \<le> x then Inr (x - y) else Inl (Panic ''attempt to subtract with overflow''))"

definition mul_c :: "'w::len word \<Rightarrow> 'w word \<Rightarrow> 'e failure + 'w word" where
  "mul_c x y = (if unat x * unat y < 2 ^ LENGTH('w) then Inr (x * y)
                else Inl (Panic ''attempt to multiply with overflow''))"

lemma add_c_eq_Inr:
  "add_c x y = Inr z \<longleftrightarrow> unat x + unat y < 2 ^ LENGTH('w) \<and> unat z = unat x + unat y"
  for x :: "'w::len word"
proof -
  have "z = x + y \<longleftrightarrow> unat z = unat x + unat y" if "unat x + unat y < 2 ^ LENGTH('w)"
    using that by (metis unat_add_lem word_unat_eq_iff)
  then show ?thesis by (auto simp: add_c_def)
qed

lemma sub_c_eq_Inr: "sub_c x y = Inr z \<longleftrightarrow> unat y \<le> unat x \<and> unat z = unat x - unat y"
  for x :: "'w::len word"
proof -
  have "z = x - y \<longleftrightarrow> unat z = unat x - unat y" if "y \<le> x"
    using that by (metis unat_sub word_unat_eq_iff)
  then show ?thesis by (auto simp: sub_c_def word_le_nat_alt)
qed

lemma mul_c_eq_Inr:
  "mul_c x y = Inr z \<longleftrightarrow> unat x * unat y < 2 ^ LENGTH('w) \<and> unat z = unat x * unat y"
  for x :: "'w::len word"
proof -
  have "z = x * y \<longleftrightarrow> unat z = unat x * unat y" if "unat x * unat y < 2 ^ LENGTH('w)"
    using that by (metis unat_mult_lem word_unat_eq_iff)
  then show ?thesis by (auto simp: mul_c_def)
qed

lemmas checked_arith = add_c_eq_Inr sub_c_eq_Inr mul_c_eq_Inr

text \<open>A checked operation that does not return panics; it never yields an error value.\<close>

lemma checked_no_Error [simp]:
  "add_c x y \<noteq> Inl (Error e)" "sub_c x y \<noteq> Inl (Error e)" "mul_c x y \<noteq> Inl (Error e)"
  by (simp_all add: add_c_def sub_c_def mul_c_def)

lemma unat_less [simp]: "unat x < 2 ^ LENGTH('w)" for x :: "'w::len word"
  by (rule unsigned_less)

lemma unat_of_nat_small: "n < 2 ^ LENGTH('w) \<Longrightarrow> unat (of_nat n :: 'w::len word) = n"
  by (simp add: unat_of_nat)

lemma unat_add_one:
  "unat x < 2 ^ LENGTH('w) - 1 \<Longrightarrow> unat (x + 1) = Suc (unat x)" for x :: "'w::len word"
  by (metis Suc_eq_plus1 less_diff_conv unat_1 unat_add_lem)

lemma unat_u64_to_u128 [simp]: "unat (ucast x :: u128) = unat x" for x :: u64
proof -
  have "unat x < 2 ^ 128" using unat_less [of x] by simp
  then show ?thesis by (simp add: unsigned_ucast_eq take_bit_nat_eq_self)
qed

section \<open>Decimal rendering\<close>

text \<open>The \<open>Display\<close> of an unsigned integer: its decimal digits, most significant first.\<close>

definition digit_char :: "nat \<Rightarrow> char" where
  "digit_char d = char_of (48 + d)"

fun show_nat :: "nat \<Rightarrow> string" where
  "show_nat n = (if n < 10 then [digit_char n] else show_nat (n div 10) @ [digit_char (n mod 10)])"

declare show_nat.simps [simp del]

definition show_word :: "'w::len word \<Rightarrow> string" where
  "show_word w = show_nat (unat w)"

definition read_nat :: "string \<Rightarrow> nat" where
  "read_nat s = foldl (\<lambda>acc c. 10 * acc + (of_char c - 48)) 0 s"

lemma of_char_digit_char [simp]: "d < 10 \<Longrightarrow> (of_char (digit_char d) :: nat) = 48 + d"
  by (simp add: digit_char_def)

lemma read_show_nat [simp]: "read_nat (show_nat n) = n"
proof (induction n rule: show_nat.induct)
  case (1 n)
  show ?case
  proof (cases "n < 10")
    case True
    then show ?thesis by (simp add: show_nat.simps [of n] read_nat_def)
  next
    case False
    with 1 have "read_nat (show_nat (n div 10)) = n div 10" by simp
    with False show ?thesis by (simp add: show_nat.simps [of n] read_nat_def)
  qed
qed

lemma show_nat_inject [simp]: "show_nat m = show_nat n \<longleftrightarrow> m = n"
  by (metis read_show_nat)

lemma show_word_inject [simp]: "show_word v = show_word w \<longleftrightarrow> v = w"
  by (simp add: show_word_def word_unat_eq_iff)

lemma show_nat_not_Nil [simp]: "show_nat n \<noteq> []"
  by (subst show_nat.simps) simp

section \<open>Runs of transactions\<close>

text \<open>
  A handler takes a transaction and the state and yields a failure or the new state with a
  response. \<open>commit\<close> is one transaction on the chain: the state is replaced on success only.
\<close>

definition commit :: "('m \<Rightarrow> 's \<Rightarrow> 'e + 's \<times> 'r) \<Rightarrow> 'm \<Rightarrow> 's \<Rightarrow> 's" where
  "commit h m s = (case h m s of Inl _ \<Rightarrow> s | Inr (s', _) \<Rightarrow> s')"

fun run :: "('m \<Rightarrow> 's \<Rightarrow> 'e + 's \<times> 'r) \<Rightarrow> 'm list \<Rightarrow> 's \<Rightarrow> 's" where
  "run h [] s = s"
| "run h (m # ms) s = run h ms (commit h m s)"

lemma commit_cases:
  obtains (failed) e where "h m s = Inl e" "commit h m s = s"
  | (succeeded) s' r where "h m s = Inr (s', r)" "commit h m s = s'"
  by (cases "h m s") (auto simp: commit_def)

lemma commit_Inr: "h m s = Inr (s', r) \<Longrightarrow> commit h m s = s'"
  by (simp add: commit_def)

lemma run_append [simp]: "run h (ms @ ns) s = run h ns (run h ms s)"
  by (induction ms arbitrary: s) simp_all

text \<open>The responses of the transactions of a run that succeed, in their order.\<close>

fun responses :: "('m \<Rightarrow> 's \<Rightarrow> 'e + 's \<times> 'r) \<Rightarrow> 'm list \<Rightarrow> 's \<Rightarrow> 'r list" where
  "responses h [] s = []"
| "responses h (m # ms) s = (case h m s of Inl _ \<Rightarrow> [] | Inr (_, r) \<Rightarrow> [r]) @ responses h ms (commit h m s)"

lemma responses_Inr: "h m s = Inr (s', r) \<Longrightarrow> responses h (m # ms) s = r # responses h ms s'"
  by (simp add: commit_def)

text \<open>What a run costs, for a cost charged to each transaction in the state it starts from.\<close>

fun total_cost :: "('m \<Rightarrow> 's \<Rightarrow> 'e + 's \<times> 'r) \<Rightarrow> ('m \<Rightarrow> 's \<Rightarrow> nat) \<Rightarrow> 'm list \<Rightarrow> 's \<Rightarrow> nat" where
  "total_cost h cost [] s = 0"
| "total_cost h cost (m # ms) s = cost m s + total_cost h cost ms (commit h m s)"

text \<open>A state predicate that every successful transaction keeps holds after every run.\<close>

locale invariant_machine =
  fixes handler :: "'m \<Rightarrow> 's \<Rightarrow> 'e + 's \<times> 'r"
    and inv :: "'s \<Rightarrow> bool"
  assumes handler_inv: "inv s \<Longrightarrow> handler m s = Inr (s', r) \<Longrightarrow> inv s'"
begin

lemma commit_inv: "inv s \<Longrightarrow> inv (commit handler m s)"
  by (cases rule: commit_cases [of handler m s]) (auto intro: handler_inv)

lemma run_inv: "inv s \<Longrightarrow> inv (run handler ms s)"
  by (induction ms arbitrary: s) (auto intro: commit_inv)

end

text \<open>
  A history: a partial map read off the state to which transactions may add entries, but whose
  entries they neither change nor drop. Once an entry is there it is there after every run.
\<close>

locale history_machine = invariant_machine handler inv
  for handler :: "'m \<Rightarrow> 's \<Rightarrow> 'e + 's \<times> 'r" and inv :: "'s \<Rightarrow> bool" +
  fixes view :: "'s \<Rightarrow> 'k \<rightharpoonup> 'v"
  assumes handler_extends: "inv s \<Longrightarrow> handler m s = Inr (s', r) \<Longrightarrow> view s \<subseteq>\<^sub>m view s'"
begin

lemma commit_extends: "inv s \<Longrightarrow> view s \<subseteq>\<^sub>m view (commit handler m s)"
  by (cases rule: commit_cases [of handler m s]) (auto dest: handler_extends)

lemma run_extends: "inv s \<Longrightarrow> view s \<subseteq>\<^sub>m view (run handler ms s)"
proof (induction ms arbitrary: s)
  case Nil
  show ?case by simp
next
  case (Cons m ms)
  from Cons.prems have "view s \<subseteq>\<^sub>m view (commit handler m s)"
    by (rule commit_extends)
  moreover have "view (commit handler m s) \<subseteq>\<^sub>m view (run handler ms (commit handler m s))"
    by (rule Cons.IH [OF commit_inv [OF Cons.prems]])
  ultimately show ?case by (auto intro: map_le_trans)
qed

lemma run_keeps:
  assumes "inv s" and "view s k = Some v"
  shows "view (run handler ms s) k = Some v"
  using run_extends [OF assms(1), of ms] assms(2) by (metis domI map_le_def)

end

text \<open>
  A meter: a quantity read off the state that grows by at least what each transaction costs.
  The cost of a run is then bounded by the growth of the meter.
\<close>

locale metered_machine = invariant_machine handler inv
  for handler :: "'m \<Rightarrow> 's \<Rightarrow> 'e + 's \<times> 'r" and inv :: "'s \<Rightarrow> bool" +
  fixes cost :: "'m \<Rightarrow> 's \<Rightarrow> nat" and meter :: "'s \<Rightarrow> nat"
  assumes cost_metered: "inv s \<Longrightarrow> cost m s + meter s \<le> meter (commit handler m s)"
begin

lemma run_metered: "inv s \<Longrightarrow> total_cost handler cost ms s + meter s \<le> meter (run handler ms s)"
proof (induction ms arbitrary: s)
  case Nil
  show ?case by simp
next
  case (Cons m ms)
  have "total_cost handler cost ms (commit handler m s) + meter (commit handler m s)
      \<le> meter (run handler ms (commit handler m s))"
    by (rule Cons.IH [OF commit_inv [OF Cons.prems]])
  with cost_metered [OF Cons.prems, of m] show ?case by simp
qed

end

end
