(* ===== verification/KVStore.thy ===== *)
theory KVStore
  imports Prelude
begin

text \<open>
  The contract storage: \<open>cw_storage_plus\<close> maps as association lists in ascending key order,
  which is the order their iterators use (keys are stored as big-endian integers or raw string
  bytes, compound keys component by component). Lookup, save and remove satisfy the laws of a
  finite map whatever the list; \<open>kv_ordered\<close> is the representation invariant that makes
  iteration ascending. The locale \<open>kv_store\<close> is the interface the contracts rely on.
\<close>

type_synonym ('k, 'v) kv = "('k \<times> 'v) list"

datatype order = Ascending | Descending

definition kv_may_load :: "('k, 'v) kv \<Rightarrow> 'k \<Rightarrow> 'v option" where
  "kv_may_load m k = map_of m k"

definition kv_has :: "('k, 'v) kv \<Rightarrow> 'k \<Rightarrow> bool" where
  "kv_has m k = (kv_may_load m k \<noteq> None)"

fun kv_save :: "'k::linorder \<Rightarrow> 'v \<Rightarrow> ('k, 'v) kv \<Rightarrow> ('k, 'v) kv" where
  "kv_save k v [] = [(k, v)]"
| "kv_save k v ((a, b) # m) =
     (if k < a then (k, v) # (a, b) # m
      else if k = a then (k, v) # m
      else (a, b) # kv_save k v m)"

definition kv_remove :: "'k \<Rightarrow> ('k, 'v) kv \<Rightarrow> ('k, 'v) kv" where
  "kv_remove k m = filter (\<lambda>e. fst e \<noteq> k) m"

text \<open>Iteration between two exclusive bounds (\<open>Bound::exclusive\<close>), in either direction.\<close>

definition in_bounds :: "'k::linorder option \<Rightarrow> 'k option \<Rightarrow> 'k \<Rightarrow> bool" where
  "in_bounds lo hi k =
     ((case lo of None \<Rightarrow> True | Some l \<Rightarrow> l < k) \<and> (case hi of None \<Rightarrow> True | Some h \<Rightarrow> k < h))"

definition kv_range ::
  "'k::linorder option \<Rightarrow> 'k option \<Rightarrow> order \<Rightarrow> ('k, 'v) kv \<Rightarrow> ('k, 'v) kv" where
  "kv_range lo hi ord m =
     (let xs = filter (\<lambda>e. in_bounds lo hi (fst e)) m
      in case ord of Ascending \<Rightarrow> xs | Descending \<Rightarrow> rev xs)"

text \<open>The entries below the first component of a compound key (\<open>Map::prefix\<close>).\<close>

definition kv_prefix :: "'a \<Rightarrow> ('a \<times> 'b, 'v) kv \<Rightarrow> ('b, 'v) kv" where
  "kv_prefix a m = map (\<lambda>e. (snd (fst e), snd e)) (filter (\<lambda>e. fst (fst e) = a) m)"

definition kv_ordered :: "('k::linorder, 'v) kv \<Rightarrow> bool" where
  "kv_ordered m = sorted_wrt (<) (map fst m)"

section \<open>The interface and its laws\<close>

locale kv_store =
  fixes lookup :: "'m \<Rightarrow> 'k \<Rightarrow> 'v option"
    and save :: "'k \<Rightarrow> 'v \<Rightarrow> 'm \<Rightarrow> 'm"
    and remove :: "'k \<Rightarrow> 'm \<Rightarrow> 'm"
  assumes lookup_save: "lookup (save k v m) = (lookup m)(k \<mapsto> v)"
    and lookup_remove: "lookup (remove k m) = (lookup m)(k := None)"
begin

lemma dom_save: "dom (lookup (save k v m)) = insert k (dom (lookup m))"
  by (simp add: lookup_save)

lemma dom_remove: "dom (lookup (remove k m)) = dom (lookup m) - {k}"
  by (simp add: lookup_remove)

lemma dom_fold_save: "dom (lookup (fold (\<lambda>k. save k v) ks m)) = dom (lookup m) \<union> set ks"
  by (induction ks arbitrary: m) (auto simp: lookup_save)

lemma dom_fold_remove: "dom (lookup (fold remove ks m)) = dom (lookup m) - set ks"
  by (induction ks arbitrary: m) (auto simp: lookup_remove)

text \<open>Adding a list of keys and then removing another: what is removed is out.\<close>

lemma dom_add_then_remove:
  "dom (lookup (fold remove rs (fold (\<lambda>k. save k v) ks m))) = (dom (lookup m) \<union> set ks) - set rs"
  by (simp add: dom_fold_remove dom_fold_save)

end

lemma kv_may_load_Nil [simp]: "kv_may_load [] k = None"
  by (simp add: kv_may_load_def)

lemma kv_may_load_save: "kv_may_load (kv_save k v m) = (kv_may_load m)(k \<mapsto> v)"
  unfolding kv_may_load_def by (induction k v m rule: kv_save.induct) auto

lemma kv_may_load_remove: "kv_may_load (kv_remove k m) = (kv_may_load m)(k := None)"
  unfolding kv_may_load_def kv_remove_def by (induction m) (auto simp: fun_eq_iff)

interpretation kv: kv_store kv_may_load kv_save kv_remove
  by unfold_locales (rule kv_may_load_save kv_may_load_remove)+

lemma kv_load_save [simp]:
  "kv_may_load (kv_save k v m) k' = (if k' = k then Some v else kv_may_load m k')"
  by (simp add: kv.lookup_save)

lemma kv_load_remove [simp]:
  "kv_may_load (kv_remove k m) k' = (if k' = k then None else kv_may_load m k')"
  by (simp add: kv_may_load_remove)

lemma kv_has_simps [simp]:
  "\<not> kv_has [] k"
  "kv_has (kv_save k v m) k' \<longleftrightarrow> k' = k \<or> kv_has m k'"
  "kv_has (kv_remove k m) k' \<longleftrightarrow> k' \<noteq> k \<and> kv_has m k'"
  by (simp_all add: kv_has_def)

lemma kv_has_dom: "kv_has m k \<longleftrightarrow> k \<in> dom (kv_may_load m)"
  by (auto simp: kv_has_def)

lemma kv_has_fst: "kv_has m k \<longleftrightarrow> k \<in> fst ` set m"
  by (auto simp: kv_has_def kv_may_load_def map_of_eq_None_iff)

lemma finite_dom_kv [simp]: "finite (dom (kv_may_load m))"
  by (simp add: kv_may_load_def [abs_def] finite_dom_map_of)

lemma kv_has_load: "kv_has m k \<longleftrightarrow> (\<exists>v. kv_may_load m k = Some v)"
  by (auto simp: kv_has_def)

lemma set_keys_save: "fst ` set (kv_save k v m) = insert k (fst ` set m)"
  by (induction k v m rule: kv_save.induct) auto

section \<open>Ordered stores\<close>

lemma kv_ordered_Nil [simp]: "kv_ordered []"
  by (simp add: kv_ordered_def)

lemma kv_ordered_Cons:
  "kv_ordered (e # m) \<longleftrightarrow> (\<forall>e' \<in> set m. fst e < fst e') \<and> kv_ordered m"
  by (auto simp: kv_ordered_def)

lemma kv_ordered_save [simp]: "kv_ordered m \<Longrightarrow> kv_ordered (kv_save k v m)"
proof (induction k v m rule: kv_save.induct)
  case (1 k v)
  show ?case by (simp add: kv_ordered_def)
next
  case (2 k v a b m)
  have keys: "fst e \<in> insert k (fst ` set m)" if "e \<in> set (kv_save k v m)" for e
    using that set_keys_save [of k v m] by (metis image_eqI)
  show ?case using 2 by (fastforce simp: kv_ordered_Cons dest: keys)
qed

lemma kv_ordered_filter: "kv_ordered m \<Longrightarrow> kv_ordered (filter P m)"
  by (induction m) (auto simp: kv_ordered_Cons)

lemma kv_ordered_remove [simp]: "kv_ordered m \<Longrightarrow> kv_ordered (kv_remove k m)"
  by (simp add: kv_remove_def kv_ordered_filter)

lemma kv_ordered_distinct: "kv_ordered m \<Longrightarrow> distinct (map fst m)"
  by (auto simp: kv_ordered_def strict_sorted_iff)

lemma kv_load_mem: "kv_ordered m \<Longrightarrow> kv_may_load m k = Some v \<longleftrightarrow> (k, v) \<in> set m"
  by (simp add: kv_may_load_def kv_ordered_distinct)

lemma kv_load_in_set: "kv_may_load m k = Some v \<Longrightarrow> (k, v) \<in> set m"
  by (simp add: kv_may_load_def map_of_SomeD)

lemma kv_load_None_iff: "kv_may_load m k = None \<longleftrightarrow> k \<notin> fst ` set m"
  by (simp add: kv_may_load_def map_of_eq_None_iff)

lemma set_kv_save:
  "kv_ordered m \<Longrightarrow> set (kv_save k v m) = insert (k, v) {e \<in> set m. fst e \<noteq> k}"
proof -
  assume ord: "kv_ordered m"
  have "(k', v') \<in> set (kv_save k v m) \<longleftrightarrow> (k', v') \<in> insert (k, v) {e \<in> set m. fst e \<noteq> k}" for k' v'
    using kv_load_mem [OF ord, of k' v'] kv_load_mem [OF kv_ordered_save [OF ord], of k v k' v']
    by (auto split: if_splits)
  then show ?thesis unfolding set_eq_iff split_paired_All by blast
qed

text \<open>A key above every stored key goes to the end.\<close>

lemma kv_save_last:
  "(\<forall>e \<in> set m. fst e < k) \<Longrightarrow> kv_save k v m = m @ [(k, v)]"
  by (induction k v m rule: kv_save.induct) auto

lemma length_kv_save:
  "length (kv_save k v m) = (if k \<in> fst ` set m then length m else Suc (length m))"
  if "kv_ordered m"
proof -
  have "length (kv_save k v m) = card (fst ` set (kv_save k v m))"
    using distinct_card [OF kv_ordered_distinct [OF kv_ordered_save [OF that, of k v]]]
    by simp
  also have "\<dots> = card (insert k (fst ` set m))"
    by (simp add: set_keys_save)
  also have "\<dots> = (if k \<in> fst ` set m then length m else Suc (length m))"
    using distinct_card [OF kv_ordered_distinct [OF that]] by (simp add: insert_absorb)
  finally show ?thesis .
qed

lemma mset_kv_save: "\<not> kv_has m k \<Longrightarrow> mset (kv_save k v m) = add_mset (k, v) (mset m)"
proof (induction m)
  case Nil
  show ?case by simp
next
  case (Cons e m)
  obtain a b where e: "e = (a, b)" by (cases e)
  have "\<not> kv_has m k" and ne: "k \<noteq> a"
    using Cons.prems by (simp_all add: kv_has_fst e)
  with Cons.IH show ?case by (cases "k < a") (simp_all add: e)
qed

lemma sum_kv_save:
  "kv_ordered m \<Longrightarrow>
     sum_list (map (\<lambda>e. f (snd e)) (kv_save k v m)) + (case kv_may_load m k of None \<Rightarrow> 0 | Some u \<Rightarrow> f u)
       = sum_list (map (\<lambda>e. f (snd e)) m) + (f v :: nat)"
proof (induction m)
  case Nil
  show ?case by simp
next
  case (Cons e m)
  obtain a b where e: "e = (a, b)" by (cases e)
  have m: "kv_ordered m" "\<forall>x \<in> set m. a < fst x"
    using Cons.prems by (simp_all add: kv_ordered_Cons e)
  consider "k < a" | "k = a" | "a < k" by (rule linorder_cases)
  then show ?case
  proof cases
    case 1
    then have "kv_may_load (e # m) k = None"
      using m(2) by (force simp: kv_load_None_iff e)
    with 1 show ?thesis by (simp add: e)
  next
    case 2
    then show ?thesis by (simp add: e kv_may_load_def)
  next
    case 3
    then have "kv_may_load (e # m) k = kv_may_load m k" "\<not> k < a" "k \<noteq> a"
      by (auto simp: kv_may_load_def e)
    then show ?thesis using Cons.IH [OF m(1)] by (simp add: e)
  qed
qed

section \<open>Iteration and pagination\<close>

lemma set_kv_range: "set (kv_range lo hi ord m) = {e \<in> set m. in_bounds lo hi (fst e)}"
  by (cases ord) (auto simp: kv_range_def Let_def)

lemma kv_range_all [simp]: "kv_range None None Ascending m = m" "kv_range None None Descending m = rev m"
  by (simp_all add: kv_range_def in_bounds_def)

section \<open>Compound keys\<close>

lemma kv_ordered_prefix: "kv_ordered m \<Longrightarrow> kv_ordered (kv_prefix a m)"
  for a :: "'a::linorder" and m :: "('a \<times> 'b::linorder, 'v) kv"
  by (induction m) (auto simp: kv_prefix_def kv_ordered_Cons less_prod_def)

lemma set_kv_prefix: "set (kv_prefix a m) = {(b, v). ((a, b), v) \<in> set m}"
  by (force simp: kv_prefix_def)

lemma kv_prefix_Nil [simp]: "kv_prefix a [] = []"
  by (simp add: kv_prefix_def)

lemma kv_prefix_save_other:
  "a' \<noteq> a \<Longrightarrow> kv_prefix a' (kv_save (a, b) v m) = kv_prefix a' m"
  for a :: "'a::linorder" and b :: "'b::linorder"
proof (induction m)
  case Nil
  then show ?case by (simp add: kv_prefix_def)
next
  case (Cons e m)
  then show ?case by (cases e) (auto simp: kv_prefix_def)
qed

lemma mset_kv_prefix_save:
  "\<not> kv_has m (a, b) \<Longrightarrow> mset (kv_prefix a (kv_save (a, b) v m)) = add_mset (b, v) (mset (kv_prefix a m))"
  for a :: "'a::linorder" and b :: "'b::linorder"
  by (simp add: kv_prefix_def mset_filter mset_kv_save)

lemma kv_prefix_remove_other:
  "a' \<noteq> a \<Longrightarrow> kv_prefix a' (kv_remove (a, b) m) = kv_prefix a' m"
  by (induction m) (auto simp: kv_prefix_def kv_remove_def)

text \<open>
  Saving under a second component above all stored ones of the prefix appends; removing the
  first entry of a prefix drops the head. These are the two queue operations of a job table.
\<close>

lemma kv_prefix_save_last:
  "kv_ordered m \<Longrightarrow> (\<forall>e \<in> set (kv_prefix a m). fst e < b) \<Longrightarrow>
     kv_prefix a (kv_save (a, b) v m) = kv_prefix a m @ [(b, v)]"
  for a :: "'a::linorder" and b :: "'b::linorder"
proof (induction m)
  case Nil
  show ?case by (simp add: kv_prefix_def)
next
  case (Cons e m)
  obtain a' b' v' where e: "e = ((a', b'), v')"
    by (cases e) auto
  show ?case
  proof (cases "(a, b) < (a', b')")
    case True
    have "fst (fst x) \<noteq> a" if mem: "x \<in> set (e # m)" for x
    proof
      assume a: "fst (fst x) = a"
      have "x = e \<or> fst e < fst x"
        using Cons.prems(1) mem by (auto simp: kv_ordered_Cons)
      then have "(a', b') \<le> (a, snd (fst x))"
        using a e by (metis fst_conv less_imp_le order_refl prod.collapse)
      with True have "(a, b) < (a, snd (fst x))"
        by (rule order.strict_trans2)
      moreover have "snd (fst x) < b"
        using Cons.prems(2) mem a by (force simp: kv_prefix_def)
      ultimately show False by simp
    qed
    then have "filter (\<lambda>x. fst (fst x) = a) (e # m) = []"
      by (simp add: filter_empty_conv)
    with True e show ?thesis by (simp add: kv_prefix_def)
  next
    case False
    have "b' < b" if "a' = a"
      using Cons.prems(2) e that by (simp add: kv_prefix_def)
    then have ne: "(a, b) \<noteq> (a', b')" by auto
    have "kv_ordered m" "\<forall>e \<in> set (kv_prefix a m). fst e < b"
      using Cons.prems by (simp_all add: kv_ordered_Cons kv_prefix_def)
    then have "kv_prefix a (kv_save (a, b) v m) = kv_prefix a m @ [(b, v)]"
      by (rule Cons.IH)
    moreover have "kv_save (a, b) v (e # m) = e # kv_save (a, b) v m"
      using False ne by (simp only: e kv_save.simps if_False)
    ultimately show ?thesis by (simp add: kv_prefix_def)
  qed
qed

lemma kv_prefix_remove:
  "kv_prefix a (kv_remove (a, b) m) = filter (\<lambda>e. fst e \<noteq> b) (kv_prefix a m)"
  by (induction m) (auto simp: kv_prefix_def kv_remove_def)

lemma kv_prefix_remove_first:
  fixes a :: "'a::linorder" and b :: "'b::linorder"
  assumes "kv_ordered m" and "kv_prefix a m = (b, v) # rest"
  shows "kv_prefix a (kv_remove (a, b) m) = rest"
proof -
  have "kv_ordered ((b, v) # rest)"
    using kv_ordered_prefix [OF assms(1), of a] assms(2) by simp
  then have "filter (\<lambda>e. fst e \<noteq> b) ((b, v) # rest) = rest"
    by (auto simp: kv_ordered_Cons filter_id_conv)
  with assms(2) show ?thesis by (simp add: kv_prefix_remove)
qed

end
