(* ===== verification/Cosmos.thy ===== *)
theory Cosmos
  imports KVStore
begin

text \<open>
  The vocabulary of \<open>cosmwasm-std\<close> the contracts are written in: coins and timestamps,
  the call environment, messages, responses, acknowledgements and IBC events. Messages to other
  contracts keep the typed message (the type parameter \<open>'m\<close>) at the point where the code
  serialises it with \<open>to_json_binary\<close>. Attribute values keep the value whose rendering the code
  emits. What the host computes for a contract (address validation, hashing, queries, protobuf
  encoding) is not defined here: it is a field of the records \<open>api\<close> and \<open>querier\<close>, which every
  handler that uses it takes as an argument.
\<close>

section \<open>Values\<close>

type_synonym timestamp = u64

record coin =
  amount :: u128
  denom :: string

datatype std_error = NotFound string | GenericErr string | OtherStdError string

text \<open>\<open>Timestamp\<close> counts nanoseconds; its additions panic on overflow.\<close>

definition plus_nanos :: "timestamp \<Rightarrow> u64 \<Rightarrow> 'e failure + timestamp" where
  "plus_nanos t n = add_c t n"

definition plus_seconds :: "timestamp \<Rightarrow> u64 \<Rightarrow> 'e failure + timestamp" where
  "plus_seconds t s = and_then (mul_c s 1000000000) (\<lambda>n. add_c t n)"

lemma plus_nanos_eq_Inr:
  "plus_nanos t n = Inr t' \<longleftrightarrow> unat t + unat n < 2 ^ 64 \<and> unat t' = unat t + unat n"
  by (simp add: plus_nanos_def add_c_eq_Inr)

lemma plus_seconds_eq_Inr:
  "(plus_seconds t s :: 'e failure + timestamp) = Inr t' \<longleftrightarrow>
     unat t + unat s * 1000000000 < 2 ^ 64 \<and> unat t' = unat t + unat s * 1000000000"
proof (cases "unat s * 1000000000 < 2 ^ 64")
  case True
  then have n: "unat (s * 1000000000) = unat s * 1000000000"
    using unat_mult_lem [of s 1000000000] by simp
  have "mul_c s 1000000000 = (Inr (s * 1000000000) :: 'e failure + u64)"
    using True by (simp add: mul_c_eq_Inr n)
  with n show ?thesis by (simp add: plus_seconds_def add_c_eq_Inr)
next
  case False
  then have "mul_c s 1000000000 \<noteq> (Inr n :: 'e failure + u64)" for n
    by (simp add: mul_c_eq_Inr)
  with False show ?thesis by (simp add: plus_seconds_def)
qed

lemma plus_no_Error [simp]:
  "plus_seconds t s \<noteq> Inl (Error e)" "plus_nanos t s \<noteq> Inl (Error e)"
  by (auto simp: plus_seconds_def plus_nanos_def and_then_eq_Inl)

text \<open>
  \<open>Uint128::mul_floor\<close>: multiplication with a fraction in full width, rounded down; it panics if
  the denominator is zero or the result does not fit.
\<close>

definition mul_floor :: "u128 \<Rightarrow> u128 \<times> u128 \<Rightarrow> 'e failure + u128" where
  "mul_floor x frac =
     (if snd frac = 0 then Inl (Panic ''DivideByZero'')
      else let r = unat x * unat (fst frac) div unat (snd frac)
           in if r < 2 ^ 128 then Inr (of_nat r) else Inl (Panic ''ConversionOverflow''))"

section \<open>Call environment\<close>

record env =
  block_height :: u64
  block_time :: timestamp
  tx_index :: "u32 option"
  contract_address :: addr

record message_info =
  sender :: addr
  funds :: "coin list"

section \<open>Messages and responses\<close>

datatype 'm cosmos_msg =
    BankSend addr "coin list"
  | BankBurn "coin list"
  | WasmExecute addr 'm "coin list"
  | WasmInstantiate2 "addr option" u64 string 'm "coin list" binary
  | IbcTransfer string string coin timestamp "string option"
  | IbcSendPacket string binary timestamp
  | StakingDelegate string coin
  | StakingUndelegate string coin
  | StakingRedelegate string string coin
  | WithdrawDelegatorReward string
  | Stargate string binary

datatype reply_on = ReplyNever | ReplyOnError

datatype 'm sub_msg =
  SubMsg (sub_id: u64) (sub_msg: "'m cosmos_msg") (gas_limit: "u64 option") (reply_on: reply_on)

text \<open>\<open>SubMsg::new\<close>: what \<open>add_message\<close> wraps a message into.\<close>

definition new_msg :: "'m cosmos_msg \<Rightarrow> 'm sub_msg" where
  "new_msg m = SubMsg 0 m None ReplyNever"

lemma new_msg_simps [simp]:
  "sub_msg (new_msg m) = m" "new_msg m = new_msg m' \<longleftrightarrow> m = m'"
  by (simp_all add: new_msg_def)

datatype attr_value = Text string | HexText binary | CoinText coin | TimeText timestamp

type_synonym attribute = "string \<times> attr_value"

datatype event = Event string "attribute list"

record 'm response =
  messages :: "'m sub_msg list"
  attributes :: "attribute list"
  events :: "event list"

definition default_response :: "'m response" where
  "default_response = \<lparr>messages = [], attributes = [], events = []\<rparr>"

definition show_bool :: "bool \<Rightarrow> string" where
  "show_bool b = (if b then ''true'' else ''false'')"

section \<open>IBC\<close>

datatype std_ack = AckSuccess binary | AckError string

record 'm ibc_receive_response = "'m response" +
  acknowledgement :: std_ack

datatype ibc_order = Unordered | Ordered

record ibc_channel =
  channel_id :: string
  channel_order :: ibc_order
  channel_version :: string

datatype ibc_channel_open_msg = OpenInit ibc_channel | OpenTry ibc_channel string

datatype ibc_channel_connect_msg = OpenAck ibc_channel string | OpenConfirm ibc_channel

datatype ibc_channel_close_msg = CloseInit ibc_channel | CloseConfirm ibc_channel

fun close_msg_channel :: "ibc_channel_close_msg \<Rightarrow> ibc_channel" where
  "close_msg_channel (CloseInit c) = c"
| "close_msg_channel (CloseConfirm c) = c"

record ibc_packet_receive_msg =
  packet_data :: binary
  dest_channel_id :: string
  packet_relayer :: addr

section \<open>Host services\<close>

text \<open>
  The fields of a protobuf message under construction (\<open>Anybuf::append_string\<close>,
  \<open>append_message\<close>); their encoding is \<open>anybuf_into_vec\<close>.
\<close>

datatype proto_field = ProtoString nat string | ProtoMessage nat "proto_field list"

record api =
  addr_validate :: "string \<Rightarrow> std_error + addr"
  addr_canonicalize :: "string \<Rightarrow> std_error + binary"
  addr_humanize :: "binary \<Rightarrow> std_error + addr"
  instantiate2_address :: "binary \<Rightarrow> binary \<Rightarrow> binary \<Rightarrow> string + binary"
  sha256 :: "binary \<Rightarrow> binary"
  anybuf_into_vec :: "proto_field list \<Rightarrow> binary"
  show_std_error :: "std_error \<Rightarrow> string"
  show_timestamp :: "timestamp \<Rightarrow> string"

datatype code_info_result = CodeExists | NoSuchCode u64 | OtherSystemError string

record querier =
  query_balance :: "addr \<Rightarrow> string \<Rightarrow> std_error + coin"
  query_wasm_code_info :: "u64 \<Rightarrow> std_error + binary"
  raw_query_code_info :: "u64 \<Rightarrow> code_info_result"

text \<open>\<open>as_bytes\<close> of a string.\<close>

definition as_bytes :: "string \<Rightarrow> binary" where
  "as_bytes s = map of_char s"

lemma length_as_bytes [simp]: "length (as_bytes s) = length s"
  by (simp add: as_bytes_def)

section \<open>Contract state\<close>

text \<open>
  Every contract's state extends this record: the \<open>cw2\<close> entry with the name and version of the
  code that wrote it.
\<close>

record contract_state =
  CONTRACT_INFO :: "(string \<times> string) option"

definition set_contract_version ::
  "string \<Rightarrow> string \<Rightarrow> 'a contract_state_scheme \<Rightarrow> 'a contract_state_scheme" where
  "set_contract_version name version st = st\<lparr>CONTRACT_INFO := Some (name, version)\<rparr>"

definition CARGO_PKG_VERSION :: string where
  "CARGO_PKG_VERSION = ''0.15.4''"

section \<open>Outgoing funds\<close>

text \<open>
  The amount of a denomination a list of coins holds, and the amount a message moves out of the
  contract that emits it (staking moves stay in the contract's ownership).
\<close>

definition coins_of :: "string \<Rightarrow> coin list \<Rightarrow> nat" where
  "coins_of d cs = sum_list (map (\<lambda>c. if denom c = d then unat (amount c) else 0) cs)"

fun msg_funds :: "string \<Rightarrow> 'm cosmos_msg \<Rightarrow> nat" where
  "msg_funds d (BankSend _ cs) = coins_of d cs"
| "msg_funds d (BankBurn cs) = coins_of d cs"
| "msg_funds d (WasmExecute _ _ cs) = coins_of d cs"
| "msg_funds d (WasmInstantiate2 _ _ _ _ cs _) = coins_of d cs"
| "msg_funds d (IbcTransfer _ _ c _ _) = coins_of d [c]"
| "msg_funds d _ = 0"

lemma coins_of_simps [simp]:
  "coins_of d [] = 0"
  "coins_of d (c # cs) = (if denom c = d then unat (amount c) else 0) + coins_of d cs"
  by (simp_all add: coins_of_def)

lemma coins_of_append [simp]: "coins_of d (xs @ ys) = coins_of d xs + coins_of d ys"
  by (simp add: coins_of_def)

section \<open>Allow lists\<close>

text \<open>
  Two contracts keep an allow list of addresses that is updated by a list of additions followed
  by a list of removals, each address validated on the way. The laws of the two loops, and what an
  update amounts to.
\<close>

locale allowlist =
  fixes listed :: "'l \<Rightarrow> addr set"
    and validated :: "string \<Rightarrow> addr option"
    and add_all :: "string list \<Rightarrow> 'l \<Rightarrow> 'e + 'l"
    and remove_all :: "string list \<Rightarrow> 'l \<Rightarrow> 'e + 'l"
  assumes listed_add: "add_all xs l = Inr l' \<Longrightarrow> listed l' = listed l \<union> {a. Some a \<in> validated ` set xs}"
    and listed_remove: "remove_all xs l = Inr l' \<Longrightarrow> listed l' = listed l - {a. Some a \<in> validated ` set xs}"
begin

lemma listed_add_then_remove:
  "add_all xs l = Inr l1 \<Longrightarrow> remove_all ys l1 = Inr l2 \<Longrightarrow>
     listed l2 = (listed l \<union> {a. Some a \<in> validated ` set xs}) - {a. Some a \<in> validated ` set ys}"
  by (simp add: listed_add listed_remove)

end

definition validated_addr :: "'a api_scheme \<Rightarrow> string \<Rightarrow> addr option" where
  "validated_addr api s = (case addr_validate api s of Inl _ \<Rightarrow> None | Inr a \<Rightarrow> Some a)"

lemma validated_addr_Inr: "addr_validate api s = Inr a \<Longrightarrow> validated_addr api s = Some a"
  by (simp add: validated_addr_def)

section \<open>A sample environment\<close>

text \<open>
  A host that accepts every address, knows every code and reports the same balance for every
  account, a block, and transactions in it; the concrete inputs of the development's examples.
\<close>

definition sample_api :: api where
  "sample_api = \<lparr>addr_validate = Inr, addr_canonicalize = (\<lambda>s. Inr (as_bytes s)),
     addr_humanize = (\<lambda>b. Inr (map (\<lambda>w. char_of (unat w)) b)), instantiate2_address = (\<lambda>_ _ salt. Inr salt),
     sha256 = (\<lambda>_. [0]), anybuf_into_vec = (\<lambda>_. []), show_std_error = (\<lambda>_. []),
     show_timestamp = (\<lambda>_. [])\<rparr>"

definition sample_querier :: querier where
  "sample_querier = \<lparr>query_balance = (\<lambda>_ d. Inr \<lparr>amount = 100000, denom = d\<rparr>),
     query_wasm_code_info = (\<lambda>_. Inr []), raw_query_code_info = (\<lambda>_. CodeExists)\<rparr>"

definition sample_env :: env where
  "sample_env = \<lparr>block_height = 7, block_time = 1700000000000000000, tx_index = Some 1, contract_address = ''self''\<rparr>"

definition sample_tx :: "addr \<Rightarrow> 'm \<Rightarrow> querier \<times> env \<times> message_info \<times> 'm" where
  "sample_tx s m = (sample_querier, sample_env, \<lparr>sender = s, funds = []\<rparr>, m)"

end
