(* ===== verification/Sink.thy ===== *)
theory Sink
  imports Cosmos
begin

text \<open>
  contracts/nois-sink: burns the tokens sent to it and keeps a numbered record (an ash) of every
  burn. The lemmas show that the ids are consecutive, that the record is append-only and adds up
  to what was burnt, and that the paginated queries enumerate it.
\<close>

section \<open>State and messages\<close>

datatype sink_error =
  Std std_error | WrongDenom | TooManyCoins | NoCoins | NonPayableMessage | NoFundsToBurn

record ash =
  burner :: "addr option"
  ash_amount :: coin
  ash_time :: timestamp

record sink_state = contract_state +
  ASHES :: "(u32, ash) kv"
  ASHES_LAST_ID :: "u32 option"

definition empty_sink_state :: sink_state where
  "empty_sink_state = \<lparr>CONTRACT_INFO = None, ASHES = [], ASHES_LAST_ID = None\<rparr>"

datatype sink_execute_msg = Burn | BurnBalance

datatype sink_query_msg =
    AshesAsc "u32 option" "u32 option"
  | AshesDesc "u32 option" "u32 option"

record queried_ash =
  qa_id :: u32
  qa_burner :: "addr option"
  qa_amount :: coin
  qa_time :: timestamp

definition queried_ash_make :: "ash \<Rightarrow> u32 \<Rightarrow> queried_ash" where
  "queried_ash_make a i =
     \<lparr>qa_id = i, qa_burner = burner a, qa_amount = ash_amount a, qa_time = ash_time a\<rparr>"

definition BURN_DENOM :: string where
  "BURN_DENOM = ''unois''"

section \<open>Entry points\<close>

definition instantiate_sink ::
  "env \<Rightarrow> message_info \<Rightarrow> sink_state \<Rightarrow> sink_error failure + sink_state \<times> unit response" where
  "instantiate_sink env info st =
     Inr (set_contract_version ''nois-sink'' CARGO_PKG_VERSION st, default_response)"

definition migrate_sink ::
  "env \<Rightarrow> sink_state \<Rightarrow> std_error failure + sink_state \<times> unit response" where
  "migrate_sink env st =
     Inr (set_contract_version ''nois-sink'' CARGO_PKG_VERSION st, default_response)"

definition execute_burn ::
  "message_info \<Rightarrow> env \<Rightarrow> sink_state \<Rightarrow> sink_error failure + sink_state \<times> unit response" where
  "execute_burn info env st =
     (if 1 < length (funds info) then Inl (Error TooManyCoins)
      else and_then (ok_or (Error NoCoins) (if funds info = [] then None else Some (last (funds info))))
        (\<lambda>coin.
         if denom coin \<noteq> BURN_DENOM then Inl (Error WrongDenom)
         else and_then (add_c (unwrap_or (ASHES_LAST_ID st) 0) 1) (\<lambda>new_id.
           let st1 = st\<lparr>ASHES_LAST_ID := Some new_id\<rparr>;
               time = block_time env;
               st2 = st1\<lparr>ASHES := kv_save new_id
                  \<lparr>burner = Some (sender info), ash_amount = coin, ash_time = time\<rparr> (ASHES st1)\<rparr>
           in Inr (st2,
                \<lparr>messages = [new_msg (BankBurn [coin])],
                 attributes = [(''burnt_amount'', CoinText coin), (''burner'', Text (sender info)),
                               (''time'', TimeText time)],
                 events = []\<rparr>))))"

definition execute_burn_balance ::
  "querier \<Rightarrow> message_info \<Rightarrow> env \<Rightarrow> sink_state \<Rightarrow> sink_error failure + sink_state \<times> unit response" where
  "execute_burn_balance q info env st =
     (if funds info \<noteq> [] then Inl (Error NonPayableMessage)
      else and_then (map_err (\<lambda>e. Error (Std e)) (query_balance q (contract_address env) BURN_DENOM))
        (\<lambda>contract_balance.
         if amount contract_balance = 0 then Inl (Error NoFundsToBurn)
         else and_then (add_c (unwrap_or (ASHES_LAST_ID st) 0) 1) (\<lambda>new_id.
           let st1 = st\<lparr>ASHES_LAST_ID := Some new_id\<rparr>;
               time = block_time env;
               st2 = st1\<lparr>ASHES := kv_save new_id
                  \<lparr>burner = None, ash_amount = contract_balance, ash_time = time\<rparr> (ASHES st1)\<rparr>
           in Inr (st2,
                \<lparr>messages = [new_msg (BankBurn [contract_balance])],
                 attributes = [(''burnt_amount'', CoinText contract_balance), (''time'', TimeText time)],
                 events = []\<rparr>))))"

fun execute_sink ::
  "querier \<Rightarrow> env \<Rightarrow> message_info \<Rightarrow> sink_execute_msg \<Rightarrow> sink_state
    \<Rightarrow> sink_error failure + sink_state \<times> unit response" where
  "execute_sink q env info Burn st = execute_burn info env st"
| "execute_sink q env info BurnBalance st = execute_burn_balance q info env st"

definition query_ashes ::
  "sink_state \<Rightarrow> u32 option \<Rightarrow> u32 option \<Rightarrow> order \<Rightarrow> queried_ash list" where
  "query_ashes st start_after limit order =
     (let limit = unat (unwrap_or limit 100);
          bounds = (case order of Ascending \<Rightarrow> (start_after, None) | Descending \<Rightarrow> (None, start_after))
      in map (\<lambda>(key, a). \<lparr>qa_id = key, qa_burner = burner a, qa_amount = ash_amount a, qa_time = ash_time a\<rparr>)
           (take limit (kv_range (fst bounds) (snd bounds) order (ASHES st))))"

fun query_sink :: "sink_query_msg \<Rightarrow> sink_state \<Rightarrow> queried_ash list" where
  "query_sink (AshesAsc start_after limit) st = query_ashes st start_after limit Ascending"
| "query_sink (AshesDesc start_after limit) st = query_ashes st start_after limit Descending"

text \<open>A transaction of the sink, for runs.\<close>

fun sink_tx ::
  "querier \<times> env \<times> message_info \<times> sink_execute_msg \<Rightarrow> sink_state
    \<Rightarrow> sink_error failure + sink_state \<times> unit response" where
  "sink_tx (q, env, info, msg) st = execute_sink q env info msg st"

section \<open>Consecutive ids\<close>

definition last_ash_id :: "sink_state \<Rightarrow> nat" where
  "last_ash_id st = unat (unwrap_or (ASHES_LAST_ID st) 0)"

text \<open>The ids in use are 1, 2, \<dots>, up to the last one, in this order.\<close>

definition sink_inv :: "sink_state \<Rightarrow> bool" where
  "sink_inv st \<longleftrightarrow> map (unat \<circ> fst) (ASHES st) = map Suc [0..<last_ash_id st]"

text \<open>Both burn operations, when they succeed, append one ash and emit one burn message.\<close>

lemma execute_burn_Inr:
  "execute_burn info env st = Inr (st', res) \<longleftrightarrow>
     (\<exists>c i. funds info = [c] \<and> denom c = BURN_DENOM \<and>
        add_c (unwrap_or (ASHES_LAST_ID st) 0) 1 = (Inr i :: sink_error failure + u32) \<and>
        st' = st\<lparr>ASHES_LAST_ID := Some i, ASHES := kv_save i
           \<lparr>burner = Some (sender info), ash_amount = c, ash_time = block_time env\<rparr> (ASHES st)\<rparr> \<and>
        res = \<lparr>messages = [new_msg (BankBurn [c])],
               attributes = [(''burnt_amount'', CoinText c), (''burner'', Text (sender info)),
                             (''time'', TimeText (block_time env))],
               events = []\<rparr>)"
  by (cases "funds info"; cases "tl (funds info)")
    (auto simp: execute_burn_def Let_def split: if_splits)

lemma execute_burn_balance_Inr:
  "execute_burn_balance q info env st = Inr (st', res) \<longleftrightarrow>
     (\<exists>c i. funds info = [] \<and> query_balance q (contract_address env) BURN_DENOM = Inr c \<and>
        amount c \<noteq> 0 \<and>
        add_c (unwrap_or (ASHES_LAST_ID st) 0) 1 = (Inr i :: sink_error failure + u32) \<and>
        st' = st\<lparr>ASHES_LAST_ID := Some i, ASHES := kv_save i
           \<lparr>burner = None, ash_amount = c, ash_time = block_time env\<rparr> (ASHES st)\<rparr> \<and>
        res = \<lparr>messages = [new_msg (BankBurn [c])],
               attributes = [(''burnt_amount'', CoinText c), (''time'', TimeText (block_time env))],
               events = []\<rparr>)"
  by (auto simp: execute_burn_balance_def Let_def split: if_splits)

lemma sink_tx_step:
  assumes "sink_tx t st = Inr (st', res)"
  obtains i a where "add_c (unwrap_or (ASHES_LAST_ID st) 0) 1 = (Inr i :: sink_error failure + u32)"
    and "st' = st\<lparr>ASHES_LAST_ID := Some i, ASHES := kv_save i a (ASHES st)\<rparr>"
    and "messages res = [new_msg (BankBurn [ash_amount a])]"
    and "ash_time a = block_time (fst (snd t))"
proof -
  obtain q env info msg where t: "t = (q, env, info, msg)"
    by (cases t) auto
  show ?thesis
  proof (cases msg)
    case Burn
    with assms obtain c i where
      "add_c (unwrap_or (ASHES_LAST_ID st) 0) 1 = (Inr i :: sink_error failure + u32)"
      "st' = st\<lparr>ASHES_LAST_ID := Some i, ASHES := kv_save i
         \<lparr>burner = Some (sender info), ash_amount = c, ash_time = block_time env\<rparr> (ASHES st)\<rparr>"
      "messages res = [new_msg (BankBurn [c])]"
      by (auto simp: t execute_burn_Inr)
    then show ?thesis
      using that [of i "\<lparr>burner = Some (sender info), ash_amount = c, ash_time = block_time env\<rparr>"]
      by (simp add: t)
  next
    case BurnBalance
    with assms obtain c i where
      "add_c (unwrap_or (ASHES_LAST_ID st) 0) 1 = (Inr i :: sink_error failure + u32)"
      "st' = st\<lparr>ASHES_LAST_ID := Some i, ASHES := kv_save i
         \<lparr>burner = None, ash_amount = c, ash_time = block_time env\<rparr> (ASHES st)\<rparr>"
      "messages res = [new_msg (BankBurn [c])]"
      by (auto simp: t execute_burn_balance_Inr)
    then show ?thesis
      using that [of i "\<lparr>burner = None, ash_amount = c, ash_time = block_time env\<rparr>"]
      by (simp add: t)
  qed
qed

lemma last_ash_id_step:
  assumes "add_c (unwrap_or (ASHES_LAST_ID st) 0) 1 = (Inr i :: 'e failure + u32)"
  shows "unat i = Suc (last_ash_id st)"
  using assms by (simp add: add_c_eq_Inr last_ash_id_def)

lemma sink_inv_fresh:
  assumes "sink_inv st" and "unat i = Suc (last_ash_id st)"
  shows "\<forall>e \<in> set (ASHES st). fst e < i"
proof
  fix e assume "e \<in> set (ASHES st)"
  then have "unat (fst e) \<in> set (map (unat \<circ> fst) (ASHES st))" by force
  then show "fst e < i"
    using assms unfolding sink_inv_def by (simp add: word_less_nat_alt)
qed

lemma sink_inv_append:
  assumes "sink_inv st" and "unat i = Suc (last_ash_id st)"
  shows "kv_save i a (ASHES st) = ASHES st @ [(i, a)]"
  by (rule kv_save_last [OF sink_inv_fresh [OF assms]])

lemma sink_tx_inv:
  assumes inv: "sink_inv st" and step: "sink_tx t st = Inr (st', res)"
  shows "sink_inv st'"
proof (rule sink_tx_step [OF step])
  fix i a
  assume new_id: "add_c (unwrap_or (ASHES_LAST_ID st) 0) 1 = (Inr i :: sink_error failure + u32)"
    and st': "st' = st\<lparr>ASHES_LAST_ID := Some i, ASHES := kv_save i a (ASHES st)\<rparr>"
  from new_id have i: "unat i = Suc (last_ash_id st)" by (rule last_ash_id_step)
  with inv show ?thesis
    by (simp add: st' sink_inv_append [OF inv i]) (simp add: sink_inv_def last_ash_id_def)
qed

interpretation sink: history_machine sink_tx sink_inv "\<lambda>st. kv_may_load (ASHES st)"
proof unfold_locales
  show "sink_inv st'" if "sink_inv st" "sink_tx t st = Inr (st', res)" for st t st' res
    using that by (rule sink_tx_inv)
  show "kv_may_load (ASHES st) \<subseteq>\<^sub>m kv_may_load (ASHES st')"
    if inv: "sink_inv st" and step: "sink_tx t st = Inr (st', res)" for st t st' res
  proof (rule sink_tx_step [OF step])
    fix i a
    assume i: "add_c (unwrap_or (ASHES_LAST_ID st) 0) 1 = (Inr i :: sink_error failure + u32)"
      and st': "st' = st\<lparr>ASHES_LAST_ID := Some i, ASHES := kv_save i a (ASHES st)\<rparr>"
    have "kv_may_load (ASHES st) i = None"
      using sink_inv_fresh [OF inv last_ash_id_step [OF i]] by (force simp: kv_load_None_iff)
    then show ?thesis by (auto simp: st' map_le_def)
  qed
qed

section \<open>The ledger\<close>

text \<open>What a transaction burns: the tokens in its burn messages.\<close>

definition burnt :: "querier \<times> env \<times> message_info \<times> sink_execute_msg \<Rightarrow> sink_state \<Rightarrow> nat" where
  "burnt t st = (case sink_tx t st of
     Inl _ \<Rightarrow> 0 | Inr (_, res) \<Rightarrow> sum_list (map (\<lambda>m. msg_funds BURN_DENOM (sub_msg m)) (messages res)))"

definition recorded :: "sink_state \<Rightarrow> nat" where
  "recorded st = coins_of BURN_DENOM (map (ash_amount \<circ> snd) (ASHES st))"

lemma recorded_commit: "sink_inv st \<Longrightarrow> recorded (commit sink_tx t st) = burnt t st + recorded st"
proof (cases rule: commit_cases [of sink_tx t st])
  case (succeeded st' res)
  assume inv: "sink_inv st"
  from succeeded(1) show ?thesis
  proof (rule sink_tx_step)
    fix i a
    assume new_id: "add_c (unwrap_or (ASHES_LAST_ID st) 0) 1 = (Inr i :: sink_error failure + u32)"
      and st': "st' = st\<lparr>ASHES_LAST_ID := Some i, ASHES := kv_save i a (ASHES st)\<rparr>"
      and res: "messages res = [new_msg (BankBurn [ash_amount a])]"
    have "ASHES st' = ASHES st @ [(i, a)]"
      by (simp add: st' sink_inv_append [OF inv last_ash_id_step [OF new_id]])
    with succeeded res show ?thesis by (simp add: recorded_def burnt_def)
  qed
qed (simp add: burnt_def)

lemma recorded_run: "sink_inv st \<Longrightarrow> recorded (run sink_tx ts st) = total_cost sink_tx burnt ts st + recorded st"
proof (induction ts arbitrary: st)
  case (Cons t ts)
  from Cons.IH [OF sink.commit_inv [OF Cons.prems]] recorded_commit [OF Cons.prems, of t] show ?case by simp
qed simp

lemma sink_inv_init: "sink_inv empty_sink_state"
  by (simp add: sink_inv_def empty_sink_state_def last_ash_id_def)

section \<open>Pages\<close>

text \<open>The whole ledger, as the queries present it.\<close>

definition ledger :: "sink_state \<Rightarrow> queried_ash list" where
  "ledger st = map (\<lambda>(key, a). \<lparr>qa_id = key, qa_burner = burner a, qa_amount = ash_amount a, qa_time = ash_time a\<rparr>) (ASHES st)"

lemma length_ledger [simp]: "length (ledger st) = length (ASHES st)"
  by (simp add: ledger_def)

lemma filter_index_after:
  "map (unat \<circ> fst) xs = map Suc [m..<m + length xs] \<Longrightarrow> filter (\<lambda>e. i < fst e) xs = drop (unat i - m) xs"
  for xs :: "(u32 \<times> 'a) list"
proof (induction xs arbitrary: m)
  case (Cons x xs)
  from Cons.prems have x: "unat (fst x) = Suc m" and xs: "map (unat \<circ> fst) xs = map Suc [Suc m..<Suc m + length xs]"
    by (simp_all add: upt_conv_Cons comp_def del: upt_Suc)
  from Cons.IH [OF xs] x show ?case
    by (cases "unat i \<le> m") (auto simp: word_less_nat_alt drop_Cons' Suc_diff_Suc)
qed simp

lemma filter_index_before:
  "map (unat \<circ> fst) xs = map Suc [m..<m + length xs] \<Longrightarrow> filter (\<lambda>e. fst e < i) xs = take (unat i - Suc m) xs"
  for xs :: "(u32 \<times> 'a) list"
proof (induction xs arbitrary: m)
  case (Cons x xs)
  from Cons.prems have x: "unat (fst x) = Suc m" and xs: "map (unat \<circ> fst) xs = map Suc [Suc m..<Suc m + length xs]"
    by (simp_all add: upt_conv_Cons comp_def del: upt_Suc)
  from Cons.IH [OF xs] x show ?case
    by (auto simp: word_less_nat_alt take_Cons')
qed simp

lemma sink_inv_ids: "sink_inv st \<Longrightarrow> map (unat \<circ> fst) (ASHES st) = map Suc [0..<0 + length (ASHES st)]"
  unfolding sink_inv_def by (metis add_0 length_map length_upt minus_nat.diff_0)

lemma query_ashes_asc:
  assumes "sink_inv st"
  shows "query_sink (AshesAsc start limit) st =
    take (unat (unwrap_or limit 100)) (drop (case start of None \<Rightarrow> 0 | Some i \<Rightarrow> unat i) (ledger st))"
proof -
  have "kv_range start None Ascending (ASHES st) = drop (case start of None \<Rightarrow> 0 | Some i \<Rightarrow> unat i) (ASHES st)"
    using filter_index_after [OF sink_inv_ids [OF assms]] by (cases start) (simp_all add: kv_range_def in_bounds_def)
  then show ?thesis by (simp add: query_ashes_def ledger_def take_map drop_map)
qed

lemma query_ashes_desc:
  assumes "sink_inv st"
  shows "query_sink (AshesDesc start limit) st =
    take (unat (unwrap_or limit 100))
      (rev (take (case start of None \<Rightarrow> length (ledger st) | Some i \<Rightarrow> unat i - 1) (ledger st)))"
proof -
  have "kv_range None start Descending (ASHES st)
      = rev (take (case start of None \<Rightarrow> length (ledger st) | Some i \<Rightarrow> unat i - 1) (ASHES st))"
    using filter_index_before [OF sink_inv_ids [OF assms]] by (cases start) (simp_all add: kv_range_def in_bounds_def)
  then show ?thesis by (simp add: query_ashes_def ledger_def take_map rev_map)
qed

lemma concat_pages: "length xs \<le> n * k \<Longrightarrow> concat (map (\<lambda>j. take k (drop (j * k) xs)) [0..<n]) = xs"
proof -
  have "concat (map (\<lambda>j. take k (drop (j * k) xs)) [0..<n]) = take (n * k) xs"
    by (induction n) (simp_all add: add.commute [of k] take_add)
  then show "length xs \<le> n * k \<Longrightarrow> ?thesis" by simp
qed

section \<open>Properties\<close>

definition sample_sink :: sink_state where
  "sample_sink = empty_sink_state\<lparr>ASHES_LAST_ID := Some 2,
     ASHES := [(1, \<lparr>burner = Some ''a'', ash_amount = \<lparr>amount = 5, denom = ''unois''\<rparr>, ash_time = 3\<rparr>),
               (2, \<lparr>burner = None, ash_amount = \<lparr>amount = 7, denom = ''unois''\<rparr>, ash_time = 4\<rparr>)]\<rparr>"

lemma sample_sink_inv: "sink_inv sample_sink"
  by (simp add: sink_inv_def sample_sink_def last_ash_id_def upt_rec)

text \<open>
  C35: The sink keeps a complete ledger: after every run from an instantiated contract the ashes are numbered 1, 2, 3 and so
  on without gaps, and their amounts add up to exactly what the burn messages of the run burnt.
\<close>

theorem ashes_account_for_every_burn:
  assumes "instantiate_sink env info empty_sink_state = Inr (st0, res0)" and "st = run sink_tx ts st0"
  shows "map (unat \<circ> fst) (ASHES st) = map Suc [0..<length (ASHES st)] \<and>
     coins_of BURN_DENOM (map (ash_amount \<circ> snd) (ASHES st)) = total_cost sink_tx burnt ts st0"
proof -
  have inv0: "sink_inv st0" and rec0: "recorded st0 = 0"
    using assms(1) sink_inv_init
    by (auto simp: instantiate_sink_def set_contract_version_def sink_inv_def last_ash_id_def recorded_def empty_sink_state_def)
  then have inv: "sink_inv st" unfolding assms(2) by (intro sink.run_inv)
  from inv have "length (ASHES st) = last_ash_id st" unfolding sink_inv_def by (metis length_map length_upt minus_nat.diff_0)
  with inv have "map (unat \<circ> fst) (ASHES st) = map Suc [0..<length (ASHES st)]" by (simp add: sink_inv_def)
  with recorded_run [OF inv0, of ts] rec0 show ?thesis by (simp add: assms(2) recorded_def)
qed

theorem ashes_account_for_every_burn_witness:
  "\<exists>st0 res0 st. instantiate_sink sample_env \<lparr>sender = ''a'', funds = []\<rparr> empty_sink_state = Inr (st0, res0) \<and>
     st = run sink_tx [(sample_querier, sample_env, \<lparr>sender = ''a'', funds = []\<rparr>, BurnBalance)] st0 \<and>
     coins_of BURN_DENOM (map (ash_amount \<circ> snd) (ASHES st))
       = total_cost sink_tx burnt [(sample_querier, sample_env, \<lparr>sender = ''a'', funds = []\<rparr>, BurnBalance)] st0"
proof -
  obtain st0 res0 where init: "instantiate_sink sample_env \<lparr>sender = ''a'', funds = []\<rparr> empty_sink_state = Inr (st0, res0)"
    by (simp add: instantiate_sink_def)
  from init ashes_account_for_every_burn [OF init refl] show ?thesis by blast
qed

text \<open>
  C36: The queries return exact pages of the ledger, with every field of the ashes. Ascending, a page
  is what follows id i in the ledger, or its beginning without a start, cut at the limit, which is 100
  by default. Descending, it is what precedes id i, or the whole ledger, backwards and cut in the same way.
  Asking for ascending pages of k ashes, each after the last id of the page before, lists the whole
  ledger once and in order.
\<close>

theorem ash_pages:
  assumes "sink_inv st"
  shows "query_sink (AshesAsc start limit) st =
       take (unat (unwrap_or limit 100)) (drop (case start of None \<Rightarrow> 0 | Some i \<Rightarrow> unat i) (ledger st)) \<and>
     query_sink (AshesDesc start limit) st =
       take (unat (unwrap_or limit 100))
         (rev (take (case start of None \<Rightarrow> length (ledger st) | Some i \<Rightarrow> unat i - 1) (ledger st))) \<and>
     (length (ledger st) \<le> n * unat k \<and> n * unat k < 2 ^ 32 \<longrightarrow>
       concat (map (\<lambda>j. query_sink (AshesAsc (if j = 0 then None else Some (of_nat (j * unat k))) (Some k)) st) [0..<n])
         = ledger st)"
proof (intro conjI impI)
  show "query_sink (AshesAsc start limit) st =
      take (unat (unwrap_or limit 100)) (drop (case start of None \<Rightarrow> 0 | Some i \<Rightarrow> unat i) (ledger st))"
    by (rule query_ashes_asc [OF assms])
  show "query_sink (AshesDesc start limit) st =
      take (unat (unwrap_or limit 100))
        (rev (take (case start of None \<Rightarrow> length (ledger st) | Some i \<Rightarrow> unat i - 1) (ledger st)))"
    by (rule query_ashes_desc [OF assms])
next
  assume n: "length (ledger st) \<le> n * unat k \<and> n * unat k < 2 ^ 32"
  have "query_sink (AshesAsc (if j = 0 then None else Some (of_nat (j * unat k))) (Some k)) st
      = take (unat k) (drop (j * unat k) (ledger st))" if "j < n" for j
  proof -
    have "j * unat k \<le> n * unat k" using that by simp
    with n have "j * unat k < 2 ^ 32" by linarith
    then have "unat (of_nat (j * unat k) :: u32) = j * unat k" by (simp add: unat_of_nat del: of_nat_mult)
    then show ?thesis by (simp add: query_ashes_asc [OF assms] del: of_nat_mult query_sink.simps)
  qed
  then have pages: "map (\<lambda>j. query_sink (AshesAsc (if j = 0 then None else Some (of_nat (j * unat k))) (Some k)) st) [0..<n]
      = map (\<lambda>j. take (unat k) (drop (j * unat k) (ledger st))) [0..<n]"
    by (simp del: query_sink.simps)
  show "concat (map (\<lambda>j. query_sink (AshesAsc (if j = 0 then None else Some (of_nat (j * unat k))) (Some k)) st) [0..<n])
      = ledger st"
    unfolding pages by (rule concat_pages) (use n in blast)
qed

theorem ash_pages_witness:
  "query_sink (AshesAsc (Some 1) None) sample_sink =
     [\<lparr>qa_id = 2, qa_burner = None, qa_amount = \<lparr>amount = 7, denom = ''unois''\<rparr>, qa_time = 4\<rparr>] \<and>
   query_sink (AshesDesc (Some 2) (Some 10)) sample_sink =
     [\<lparr>qa_id = 1, qa_burner = Some ''a'', qa_amount = \<lparr>amount = 5, denom = ''unois''\<rparr>, qa_time = 3\<rparr>] \<and>
   query_sink (AshesAsc None (Some 1)) sample_sink @ query_sink (AshesAsc (Some 1) (Some 1)) sample_sink = ledger sample_sink"
  using ash_pages [OF sample_sink_inv, of "Some 1" None 2 1] ash_pages [OF sample_sink_inv, of "Some 2" "Some 10" 2 1]
  by (simp add: sample_sink_def ledger_def upt_rec del: query_sink.simps)

end
