(* ===== verification/Payment.thy ===== *)
theory Payment
  imports Cosmos
begin

text \<open>
  contracts/nois-payment: holds the funds of one customer of the gateway and splits them, on the
  gateway's instruction, into a burn, a relayer reward and a share for the community pool.
\<close>

datatype payment_error = Std std_error | DontSendFunds | InvalidAddress | Unauthorized

record payment_config =
  sink :: addr
  gateway :: addr

record payment_state = contract_state +
  CONFIG :: "payment_config option"

definition empty_payment_state :: payment_state where
  "empty_payment_state = \<lparr>CONTRACT_INFO = None, CONFIG = None\<rparr>"

datatype payment_instantiate_msg = PaymentInstantiateMsg (im_sink: string)

datatype payment_execute_msg =
  Pay (pay_burn: coin) (pay_community_pool: coin) (pay_relayer: "string \<times> coin")

datatype nois_sink_execute_msg = NoisSinkBurn

datatype payment_query_msg = QueryConfig

definition instantiate_payment ::
  "api \<Rightarrow> env \<Rightarrow> message_info \<Rightarrow> payment_instantiate_msg \<Rightarrow> payment_state
    \<Rightarrow> payment_error failure + payment_state \<times> unit response" where
  "instantiate_payment api env info msg st =
     and_then (map_err (\<lambda>_. Error InvalidAddress) (addr_validate api (im_sink msg))) (\<lambda>nois_sink_addr.
     let st1 = st\<lparr>CONFIG := Some \<lparr>sink = nois_sink_addr, gateway = sender info\<rparr>\<rparr>;
         st2 = set_contract_version ''nois-payment'' CARGO_PKG_VERSION st1
     in Inr (st2,
          \<lparr>messages = [],
           attributes = [(''action'', Text ''instantiate''), (''nois_sink'', Text (im_sink msg)),
                         (''nois_gateway'', Text (sender info))],
           events = []\<rparr>))"

definition migrate_payment ::
  "env \<Rightarrow> payment_state \<Rightarrow> std_error failure + payment_state \<times> unit response" where
  "migrate_payment env st =
     Inr (set_contract_version ''nois-payment'' CARGO_PKG_VERSION st, default_response)"

definition encode_msg_fund_community_pool :: "api \<Rightarrow> coin \<Rightarrow> addr \<Rightarrow> binary" where
  "encode_msg_fund_community_pool api amt depositor =
     (let coin = [ProtoString 1 (denom amt), ProtoString 2 (show_word (amount amt))]
      in anybuf_into_vec api [ProtoMessage 1 coin, ProtoString 2 depositor])"

definition MSG_FUND_COMMUNITY_POOL :: string where
  "MSG_FUND_COMMUNITY_POOL = ''/cosmos.distribution.v1beta1.MsgFundCommunityPool''"

text \<open>\<open>CONFIG.load(\<dots>).unwrap()\<close>: a missing config is a panic, not an error.\<close>

definition execute_pay ::
  "api \<Rightarrow> message_info \<Rightarrow> env \<Rightarrow> coin \<Rightarrow> coin \<Rightarrow> string \<times> coin \<Rightarrow> payment_state
    \<Rightarrow> payment_error failure + payment_state \<times> nois_sink_execute_msg response" where
  "execute_pay api info env burn community_pool relayer st =
     and_then (ok_or (Panic ''called `Result::unwrap()` on an `Err` value'') (CONFIG st)) (\<lambda>config.
     if sender info \<noteq> gateway config then Inl (Error Unauthorized)
     else if funds info \<noteq> [] then Inl (Error DontSendFunds)
     else and_then (map_err (\<lambda>_. Error InvalidAddress) (addr_validate api (fst relayer))) (\<lambda>_.
       let burn_msgs =
             (if amount burn \<noteq> 0 then [new_msg (WasmExecute (sink config) NoisSinkBurn [burn])] else []);
           relayer_msgs =
             (if amount (snd relayer) \<noteq> 0 then [new_msg (BankSend (fst relayer) [snd relayer])] else []);
           pool_msgs =
             (if amount community_pool \<noteq> 0
              then [new_msg (Stargate MSG_FUND_COMMUNITY_POOL
                     (encode_msg_fund_community_pool api community_pool (contract_address env)))]
              else [])
       in Inr (st,
            \<lparr>messages = burn_msgs @ relayer_msgs @ pool_msgs,
             attributes = [(''burnt'', CoinText burn), (''relayer_reward'', CoinText (snd relayer)),
                           (''relayer_address'', Text (fst relayer)),
                           (''sent_to_community_pool'', CoinText community_pool)],
             events = []\<rparr>)))"

fun execute_payment ::
  "api \<Rightarrow> env \<Rightarrow> message_info \<Rightarrow> payment_execute_msg \<Rightarrow> payment_state
    \<Rightarrow> payment_error failure + payment_state \<times> nois_sink_execute_msg response" where
  "execute_payment api env info (Pay burn community_pool relayer) st =
     execute_pay api info env burn community_pool relayer st"

definition query_config_payment :: "payment_state \<Rightarrow> std_error + payment_config" where
  "query_config_payment st = ok_or (NotFound ''config'') (CONFIG st)"

fun query_payment :: "payment_query_msg \<Rightarrow> payment_state \<Rightarrow> std_error + payment_config" where
  "query_payment QueryConfig st = query_config_payment st"

section \<open>Authorisation and the messages of a payment\<close>

lemma execute_pay_Inr:
  "execute_pay api info env burn community_pool relayer st = Inr (st', res) \<longleftrightarrow>
     (\<exists>config a. CONFIG st = Some config \<and> sender info = gateway config \<and> funds info = [] \<and>
        addr_validate api (fst relayer) = Inr a \<and> st' = st \<and>
        res = \<lparr>messages =
           (if amount burn \<noteq> 0 then [new_msg (WasmExecute (sink config) NoisSinkBurn [burn])] else []) @
           (if amount (snd relayer) \<noteq> 0 then [new_msg (BankSend (fst relayer) [snd relayer])] else []) @
           (if amount community_pool \<noteq> 0
            then [new_msg (Stargate MSG_FUND_COMMUNITY_POOL
                   (encode_msg_fund_community_pool api community_pool (contract_address env)))]
            else []),
         attributes = [(''burnt'', CoinText burn), (''relayer_reward'', CoinText (snd relayer)),
                       (''relayer_address'', Text (fst relayer)),
                       (''sent_to_community_pool'', CoinText community_pool)],
         events = []\<rparr>)"
  by (auto simp: execute_pay_def Let_def split: if_splits)

section \<open>Properties\<close>

definition sample_payment :: payment_state where
  "sample_payment = \<lparr>CONTRACT_INFO = None, CONFIG = Some \<lparr>sink = ''sink'', gateway = ''gateway''\<rparr>\<rparr>"

text \<open>
  C34: The payment contract pays exactly what the gateway orders and only on the gateway's order: from
  any other sender, with funds attached, or for a relayer whose address is not valid, the message fails. In
  every other case it succeeds, keeps the state, and its messages are, in this order and each exactly once, the burn
  sent to the sink, the reward sent to the relayer and the deposit into the community pool, where a share of zero is
  left out. The funds attached to the messages are the burn and the reward.
\<close>

theorem payments_are_exactly_as_ordered:
  assumes "CONFIG st = Some config"
  shows "(sender info \<noteq> gateway config \<longrightarrow>
       execute_payment api env info (Pay burn pool relayer) st = Inl (Error Unauthorized)) \<and>
    (sender info = gateway config \<and> funds info \<noteq> [] \<longrightarrow>
       execute_payment api env info (Pay burn pool relayer) st = Inl (Error DontSendFunds)) \<and>
    (sender info = gateway config \<and> funds info = [] \<and> addr_validate api (fst relayer) = Inl e \<longrightarrow>
       execute_payment api env info (Pay burn pool relayer) st = Inl (Error InvalidAddress)) \<and>
    (sender info = gateway config \<and> funds info = [] \<and> addr_validate api (fst relayer) = Inr a \<longrightarrow>
       (\<exists>res. execute_payment api env info (Pay burn pool relayer) st = Inr (st, res) \<and>
          messages res = map (\<lambda>(share, m). new_msg m) (filter (\<lambda>(share, m). amount share \<noteq> 0)
            [(burn, WasmExecute (sink config) NoisSinkBurn [burn]),
             (snd relayer, BankSend (fst relayer) [snd relayer]),
             (pool, Stargate MSG_FUND_COMMUNITY_POOL (encode_msg_fund_community_pool api pool (contract_address env)))]) \<and>
          (\<forall>d. sum_list (map (\<lambda>m. msg_funds d (sub_msg m)) (messages res)) = coins_of d [burn, snd relayer])))"
proof (intro conjI impI)
  assume "sender info = gateway config \<and> funds info = [] \<and> addr_validate api (fst relayer) = Inr a"
  with assms show "\<exists>res. execute_payment api env info (Pay burn pool relayer) st = Inr (st, res) \<and>
      messages res = map (\<lambda>(share, m). new_msg m) (filter (\<lambda>(share, m). amount share \<noteq> 0)
        [(burn, WasmExecute (sink config) NoisSinkBurn [burn]),
         (snd relayer, BankSend (fst relayer) [snd relayer]),
         (pool, Stargate MSG_FUND_COMMUNITY_POOL (encode_msg_fund_community_pool api pool (contract_address env)))]) \<and>
      (\<forall>d. sum_list (map (\<lambda>m. msg_funds d (sub_msg m)) (messages res)) = coins_of d [burn, snd relayer])"
    by (simp add: execute_pay_Inr)
qed (use assms in \<open>auto simp: execute_pay_def\<close>)

theorem payments_are_exactly_as_ordered_witness:
  "execute_payment sample_api sample_env \<lparr>sender = ''thief'', funds = []\<rparr>
     (Pay \<lparr>amount = 4, denom = ''unois''\<rparr> \<lparr>amount = 0, denom = ''unois''\<rparr> (''rel'', \<lparr>amount = 2, denom = ''unois''\<rparr>))
     sample_payment = Inl (Error Unauthorized) \<and>
   (\<exists>res. execute_payment sample_api sample_env \<lparr>sender = ''gateway'', funds = []\<rparr>
       (Pay \<lparr>amount = 4, denom = ''unois''\<rparr> \<lparr>amount = 0, denom = ''unois''\<rparr> (''rel'', \<lparr>amount = 2, denom = ''unois''\<rparr>))
       sample_payment = Inr (sample_payment, res) \<and>
     messages res = [new_msg (WasmExecute ''sink'' NoisSinkBurn [\<lparr>amount = 4, denom = ''unois''\<rparr>]),
       new_msg (BankSend ''rel'' [\<lparr>amount = 2, denom = ''unois''\<rparr>])])"
proof -
  have config: "CONFIG sample_payment = Some \<lparr>sink = ''sink'', gateway = ''gateway''\<rparr>"
    by (simp add: sample_payment_def)
  have valid: "addr_validate sample_api ''rel'' = Inr ''rel''" by (simp add: sample_api_def)
  note pay = payments_are_exactly_as_ordered [OF config, where api = sample_api and env = sample_env
      and burn = "\<lparr>amount = 4, denom = ''unois''\<rparr>" and pool = "\<lparr>amount = 0, denom = ''unois''\<rparr>"
      and relayer = "(''rel'', \<lparr>amount = 2, denom = ''unois''\<rparr>)" and a = "''rel''"]
  show ?thesis
    using pay [where info = "\<lparr>sender = ''thief'', funds = []\<rparr>"] pay [where info = "\<lparr>sender = ''gateway'', funds = []\<rparr>"] valid
    by (auto simp del: execute_payment.simps)
qed

end
