(* ===== verification/DrandCommon.thy ===== *)
theory DrandCommon
  imports Cosmos
begin

text \<open>
  packages/drand-common: the drand network constants and the correspondence between rounds and
  their publish times. The locale \<open>round_schedule\<close> is what the gateway relies on when it
  commits a request to a round; \<open>time_of_round\<close> and \<open>round_after\<close> provide it.
\<close>

definition DRAND_CHAIN_HASH :: string where
  "DRAND_CHAIN_HASH = ''dbd506d6ef76e5f386f41c651dcb808c5bcbd75471cc4eafa3f4df7ad4e4c493''"

definition DRAND_GENESIS :: timestamp where
  "DRAND_GENESIS = 1677685200 * 1000000000"

definition DRAND_ROUND_LENGTH :: u64 where
  "DRAND_ROUND_LENGTH = 3000000000"

definition DRAND_MAINNET2_PUBKEY :: binary where
  "DRAND_MAINNET2_PUBKEY =
    [160, 184, 98, 167, 82, 127, 238, 58, 115, 27, 203, 89, 40, 10, 182, 171, 214, 45, 92, 11, 110,
     160, 61, 196, 221, 246, 97, 47, 223, 201, 208, 31, 1, 195, 21, 66, 84, 23, 113, 144, 52, 117,
     235, 30, 198, 97, 95, 141, 13, 240, 184, 182, 220, 227, 133, 129, 29, 109, 207, 140, 190, 251,
     135, 89, 229, 230, 22, 163, 223, 208, 84, 201, 40, 148, 7, 102, 217, 165, 185, 219, 145, 227,
     182, 151, 229, 215, 10, 151, 81, 129, 224, 7, 248, 127, 202, 94]"

text \<open>\<open>round - 1\<close> panics for round 0, which does not exist in drand.\<close>

definition time_of_round :: "u64 \<Rightarrow> 'e failure + timestamp" where
  "time_of_round round =
     and_then (sub_c round 1) (\<lambda>periods.
     and_then (mul_c periods DRAND_ROUND_LENGTH) (\<lambda>nanos.
     plus_nanos DRAND_GENESIS nanos))"

definition round_after :: "timestamp \<Rightarrow> u64" where
  "round_after base =
     (if base < DRAND_GENESIS then 1
      else let from_genesis = base - DRAND_GENESIS;
               periods_since_genesis = from_genesis div DRAND_ROUND_LENGTH;
               next_period_index = periods_since_genesis + 1
           in next_period_index + 1)"

definition is_incentivized_round :: "u64 \<Rightarrow> bool" where
  "is_incentivized_round round = (round \<noteq> 0 \<and> round mod 25 = 0)"

lemma time_of_round_no_Error [simp]: "time_of_round r \<noteq> Inl (Error e)"
  by (auto simp: time_of_round_def and_then_eq_Inl)

section \<open>Rounds and times as natural numbers\<close>

lemma unat_DRAND_GENESIS [simp]: "unat DRAND_GENESIS = 1677685200000000000"
  by (simp add: DRAND_GENESIS_def)

lemma unat_DRAND_ROUND_LENGTH [simp]: "unat DRAND_ROUND_LENGTH = 3000000000"
  by (simp add: DRAND_ROUND_LENGTH_def)

lemma time_of_round_eq_Inr:
  "(time_of_round round :: 'e failure + timestamp) = Inr t \<longleftrightarrow>
     1 \<le> unat round \<and> unat t = 1677685200000000000 + (unat round - 1) * 3000000000
     \<and> 1677685200000000000 + (unat round - 1) * 3000000000 < 2 ^ 64"
proof
  assume "(time_of_round round :: 'e failure + timestamp) = Inr t"
  then show "1 \<le> unat round \<and> unat t = 1677685200000000000 + (unat round - 1) * 3000000000
     \<and> 1677685200000000000 + (unat round - 1) * 3000000000 < 2 ^ 64"
    by (auto simp: time_of_round_def checked_arith plus_nanos_eq_Inr)
next
  define p :: u64 where "p = of_nat (unat round - 1)"
  define n :: u64 where "n = of_nat ((unat round - 1) * 3000000000)"
  assume rhs: "1 \<le> unat round \<and> unat t = 1677685200000000000 + (unat round - 1) * 3000000000
     \<and> 1677685200000000000 + (unat round - 1) * 3000000000 < 2 ^ 64"
  then have 1: "unat round - 1 < 2 ^ LENGTH(64)" and 2: "(unat round - 1) * 3000000000 < 2 ^ LENGTH(64)"
    by simp_all
  have "unat p = unat round - 1" and "unat n = (unat round - 1) * 3000000000"
    using unat_of_nat_small [OF 1] unat_of_nat_small [OF 2] by (simp_all only: p_def n_def)
  with rhs have "sub_c round 1 = (Inr p :: 'e failure + u64)"
    and "mul_c p DRAND_ROUND_LENGTH = (Inr n :: 'e failure + u64)"
    and "plus_nanos DRAND_GENESIS n = (Inr t :: 'e failure + u64)"
    by (simp_all add: checked_arith plus_nanos_eq_Inr)
  then show "(time_of_round round :: 'e failure + timestamp) = Inr t"
    by (simp add: time_of_round_def)
qed

lemma unat_round_after:
  "unat (round_after t) =
     (if unat t < 1677685200000000000 then 1 else (unat t - 1677685200000000000) div 3000000000 + 2)"
proof (cases "t < DRAND_GENESIS")
  case True
  then show ?thesis by (simp add: round_after_def word_less_nat_alt)
next
  case False
  let ?p = "(t - DRAND_GENESIS) div DRAND_ROUND_LENGTH"
  have p: "unat ?p = (unat t - 1677685200000000000) div 3000000000"
    using False by (simp add: unat_div unat_sub not_less)
  have "unat t < 2 ^ 64"
    using unat_less [of t] by simp
  then have small: "unat ?p < 2 ^ 62"
    unfolding p by simp
  have 1: "unat (?p + 1) = Suc (unat ?p)"
    by (rule unat_add_one) (use small in simp)
  have 2: "unat (?p + 1 + 1) = Suc (unat (?p + 1))"
    by (rule unat_add_one) (use small 1 in simp)
  have "round_after t = ?p + 1 + 1"
    using False unfolding round_after_def Let_def by (rule if_not_P)
  moreover have "\<not> unat t < 1677685200000000000"
    using False by (simp add: word_less_nat_alt)
  ultimately show ?thesis
    using 1 2 p by simp
qed

lemma is_incentivized_round_iff:
  "is_incentivized_round round \<longleftrightarrow> 0 < unat round \<and> 25 dvd unat round"
  by (auto simp: is_incentivized_round_def dvd_eq_mod_eq_0 unat_eq_0 [symmetric] unat_mod
      simp flip: unat_eq_zero)

section \<open>The round schedule\<close>

text \<open>
  The contract between a round schedule and its clients: a round is published after a point in
  time exactly if it is not below the round the schedule names for that point.
\<close>

locale round_schedule =
  fixes publish :: "'r::linorder \<Rightarrow> 't::linorder option"
    and next_round :: "'t \<Rightarrow> 'r"
  assumes published_after_iff: "publish r = Some q \<Longrightarrow> t < q \<longleftrightarrow> next_round t \<le> r"
begin

lemma next_round_is_later: "publish (next_round t) = Some q \<Longrightarrow> t < q"
  by (simp add: published_after_iff)

lemma earlier_rounds_are_out: "publish r = Some q \<Longrightarrow> r < next_round t \<Longrightarrow> q \<le> t"
  by (metis leD leI published_after_iff)

lemma publish_mono: "publish r = Some q \<Longrightarrow> publish r' = Some q' \<Longrightarrow> r \<le> r' \<Longrightarrow> q \<le> q'"
  by (metis leI less_irrefl order_trans published_after_iff)

end

definition publish_time :: "u64 \<Rightarrow> timestamp option" where
  "publish_time r = (case time_of_round r of Inl (_ :: unit failure) \<Rightarrow> None | Inr t \<Rightarrow> Some t)"

lemma publish_time_eq_Some: "publish_time r = Some t \<longleftrightarrow> time_of_round r = (Inr t :: unit failure + timestamp)"
  by (auto simp: publish_time_def split: sum.splits)

lemma round_after_le_iff:
  assumes "time_of_round r = Inr q"
  shows "t < q \<longleftrightarrow> round_after t \<le> r"
proof -
  from assms have r: "1 \<le> unat r"
    and q: "unat q = 1677685200000000000 + (unat r - 1) * 3000000000"
    by (simp_all add: time_of_round_eq_Inr)
  show ?thesis
  proof (cases "unat t < 1677685200000000000")
    case True
    with r q show ?thesis
      by (simp add: word_less_nat_alt word_le_nat_alt unat_round_after)
  next
    case False
    define d where "d = unat t - 1677685200000000000"
    have "t < q \<longleftrightarrow> d < (unat r - 1) * 3000000000"
      using False q by (auto simp: word_less_nat_alt d_def)
    also have "\<dots> \<longleftrightarrow> d div 3000000000 + 2 \<le> unat r"
      using r div_less_iff_less_mult [of 3000000000 d "unat r - 1"] by auto
    finally show ?thesis
      using False by (simp add: word_le_nat_alt unat_round_after d_def)
  qed
qed

interpretation drand: round_schedule publish_time round_after
  by unfold_locales (simp add: publish_time_eq_Some round_after_le_iff)

lemma publish_time_of_next_round:
  assumes "DRAND_GENESIS \<le> t" and "unat t + 3000000000 < 2 ^ 64"
  obtains q where "time_of_round (round_after t) = (Inr q :: 'e failure + timestamp)"
    and "unat t < unat q" and "unat q \<le> unat t + 3000000000"
proof -
  let ?d = "unat t - 1677685200000000000"
  have g: "1677685200000000000 \<le> unat t" using assms(1) by (simp add: word_le_nat_alt)
  define n where "n = 1677685200000000000 + (?d div 3000000000 + 1) * 3000000000"
  have d: "?d div 3000000000 * 3000000000 + ?d mod 3000000000 = ?d" "?d mod 3000000000 < 3000000000"
    by (rule div_mult_mod_eq) simp
  have eq: "n = 1677685200000000000 + ?d div 3000000000 * 3000000000 + 3000000000" by (simp add: n_def)
  have n: "unat t < n" "n \<le> unat t + 3000000000" using g d eq by linarith+
  have r: "unat (round_after t) = ?d div 3000000000 + 2" using g by (simp add: unat_round_after)
  define q :: timestamp where "q = of_nat n"
  have "n < 2 ^ LENGTH(64)" using n(2) assms(2) by simp
  then have q: "unat q = n" unfolding q_def by (rule unat_of_nat_small)
  have "time_of_round (round_after t) = (Inr q :: 'e failure + timestamp)"
    using r q n assms(2) by (simp add: time_of_round_eq_Inr n_def)
  with n q that show ?thesis by simp
qed

section \<open>Properties\<close>

text \<open>
  C13: The round a request for a time from the genesis of drand on is committed to is the next one after that time: it is published
  after it, at most three seconds later, and the rounds published after that time are exactly those from
  this round on.
\<close>

theorem committed_round_is_the_next_one:
  assumes "DRAND_GENESIS \<le> t" and "unat t + 3000000000 < 2 ^ 64"
  shows "\<exists>q. time_of_round (round_after t) = (Inr q :: 'e failure + timestamp) \<and> unat t < unat q \<and> unat q \<le> unat t + 3000000000 \<and>
     (\<forall>r q'. time_of_round r = (Inr q' :: 'e failure + timestamp) \<longrightarrow> (t < q' \<longleftrightarrow> round_after t \<le> r))"
  by (rule publish_time_of_next_round [OF assms, where 'e = 'e]) (use round_after_le_iff in blast)

theorem committed_round_is_the_next_one_witness:
  "\<exists>q. time_of_round (round_after 1700000000000000000) = (Inr q :: unit failure + timestamp) \<and>
     1700000000000000000 < unat q \<and> unat q \<le> 1700000003000000000"
  using committed_round_is_the_next_one [of 1700000000000000000, where 'e = unit]
  by (auto simp: word_le_nat_alt)

text \<open>
  C14: Rounds and publish times convert into each other: at the publish time of a round the next
  round is the following one, and one nanosecond earlier it is the round itself. Round 0, which does not exist, and
  rounds beyond the range of timestamps panic; there is no other failure.
\<close>

theorem round_time_roundtrip:
  "(case time_of_round r :: 'e failure + timestamp of
      Inr q \<Rightarrow> unat (round_after q) = Suc (unat r) \<and> round_after (q - 1) = r
    | Inl f \<Rightarrow> (\<exists>p. f = Panic p) \<and> (r = 0 \<or> 2 ^ 64 \<le> 1677685200000000000 + (unat r - 1) * 3000000000))"
proof (cases "time_of_round r :: 'e failure + timestamp")
  case (Inr q)
  then have q: "1 \<le> unat r" "unat q = 1677685200000000000 + (unat r - 1) * 3000000000"
    by (simp_all add: time_of_round_eq_Inr)
  have "1 \<le> q" using q(2) by (simp add: word_le_nat_alt)
  then have "unat (q - 1) = unat q - 1" by (simp add: unat_sub)
  then have "unat (q - 1) = 1677685200000000000 + (unat r - 1) * 3000000000 - 1" using q(2) by simp
  moreover have "unat (round_after (q - 1)) = unat r" if "unat r = Suc n" "unat (q - 1) = 1677685200000000000 + n * 3000000000 - 1" for n
    using that by (cases n) (simp_all add: unat_round_after)
  ultimately have "unat (round_after (q - 1)) = unat r" using q(1) by (cases "unat r") simp_all
  with Inr q show ?thesis by (simp add: unat_round_after word_unat_eq_iff)
next
  case (Inl f)
  then obtain p where "f = Panic p" by (cases f) auto
  moreover have "r = 0 \<or> 2 ^ 64 \<le> 1677685200000000000 + (unat r - 1) * 3000000000"
  proof (rule ccontr)
    assume neg: "\<not> (r = 0 \<or> 2 ^ 64 \<le> 1677685200000000000 + (unat r - 1) * 3000000000)"
    let ?n = "1677685200000000000 + (unat r - 1) * 3000000000"
    have "?n < 2 ^ LENGTH(64)" using neg by simp
    then have "unat (of_nat ?n :: timestamp) = ?n" by (rule unat_of_nat_small)
    moreover have "1 \<le> unat r" using neg by (simp add: Suc_le_eq unat_gt_0)
    ultimately have "time_of_round r = (Inr (of_nat ?n) :: 'e failure + timestamp)"
      using neg unfolding time_of_round_eq_Inr by simp
    with Inl show False by simp
  qed
  ultimately show ?thesis using Inl by simp
qed

end
