(* ===== verification/Drand.thy ===== *)
theory Drand
  imports DrandCommon
begin

text \<open>
  contracts/nois-drand: bots submit drand beacons; the first submissions of a round are verified
  against the network's public key, later ones compared with the stored randomness. Registered,
  allow-listed and fast bots are rewarded, and every accepted submission is forwarded to the
  gateway. The signature scheme (drand_verify) and the hash behind the bot groups are fields of
  the record \<open>drand_api\<close>.
\<close>

section \<open>State and messages\<close>

datatype drand_error =
    Std std_error
  | MonikerEmpty
  | Unauthorized
  | ContractAlreadySet
  | MonikerTooLong
  | InvalidPubkey
  | RoundTooLow u64 u64
  | InvalidSignature
  | SignatureDoesNotMatchState
  | SubmissionExists

record drand_config =
  manager :: addr
  gateway :: "addr option"
  min_round :: u64
  incentive_point_price :: u128
  incentive_denom :: string

record verified_beacon =
  verified :: timestamp
  randomness :: binary

record queried_beacon =
  qb_round :: u64
  qb_published :: timestamp
  qb_verified :: timestamp
  qb_randomness :: binary

record stored_submission =
  pos :: u16
  sub_time :: timestamp
  sub_height :: u64
  sub_tx_index :: "u32 option"

record queried_submission =
  qs_bot :: addr
  qs_time :: timestamp
  qs_height :: u64
  qs_tx_index :: "u32 option"

record bot =
  moniker :: string
  rounds_added :: u64
  reward_points :: u64

record queried_bot =
  qbot_moniker :: string
  qbot_address :: addr
  qbot_rounds_added :: u64
  qbot_reward_points :: u64

record drand_state = contract_state +
  CONFIG :: "drand_config option"
  BEACONS :: "(u64, verified_beacon) kv"
  BOTS :: "(addr, bot) kv"
  ALLOWLIST :: "(addr, unit) kv"
  SUBMISSIONS :: "(u64 \<times> addr, stored_submission) kv"
  SUBMISSIONS_COUNT :: "(u64, u16) kv"
  INCENTIVIZED_BY_GATEWAY :: "(u64, u8) kv"

definition INCENTIVIZED_BY_GATEWAY_MARKER :: u8 where
  "INCENTIVIZED_BY_GATEWAY_MARKER = 1"

definition empty_drand_state :: drand_state where
  "empty_drand_state = \<lparr>CONTRACT_INFO = None, CONFIG = None, BEACONS = [], BOTS = [], ALLOWLIST = [],
     SUBMISSIONS = [], SUBMISSIONS_COUNT = [], INCENTIVIZED_BY_GATEWAY = []\<rparr>"

datatype drand_instantiate_msg =
  DrandInstantiateMsg (im_manager: string) (im_min_round: u64) (im_incentive_point_price: u128)
    (im_incentive_denom: string)

datatype drand_execute_msg =
    AddRound u64 binary
  | RegisterBot string
  | SetIncentivized u64
  | UpdateAllowlistBots "string list" "string list"
  | SetConfig "string option" "string option" "u64 option" "u128 option" "string option"

datatype drand_query_msg =
    QueryConfig
  | QueryBeacon u64
  | QueryBeaconsAsc "u64 option" "u32 option"
  | QueryBeaconsDesc "u64 option" "u32 option"
  | QueryIsIncentivized string "u64 list"
  | QuerySubmissions u64
  | QueryBot string
  | QueryBots
  | QueryAllowlist
  | QueryIsAllowlisted string

datatype drand_query_response =
    ConfigResponse drand_config
  | BeaconResponse "queried_beacon option"
  | BeaconsResponse "queried_beacon list"
  | IsIncentivizedResponse "bool list"
  | SubmissionsResponse u64 "queried_submission list"
  | BotResponse "queried_bot option"
  | BotsResponse "queried_bot list"
  | AllowlistResponse "addr list"
  | IsAllowlistedResponse bool

datatype nois_gateway_execute_msg = AddVerifiedRound u64 binary bool

record drand_api = api +
  from_fixed_unchecked :: "binary \<Rightarrow> unit + binary"
  verify :: "binary \<Rightarrow> u64 \<Rightarrow> binary \<Rightarrow> binary \<Rightarrow> unit + bool"
  derive_randomness :: "binary \<Rightarrow> binary"

section \<open>Bots\<close>

definition MAX_MONIKER_LEN :: nat where
  "MAX_MONIKER_LEN = 20"

definition validate_moniker :: "string \<Rightarrow> drand_error failure + unit" where
  "validate_moniker m =
     (if m = [] then Inl (Error MonikerEmpty)
      else if MAX_MONIKER_LEN < length m then Inl (Error MonikerTooLong)
      else Inr ())"

datatype group = GroupA | GroupB

definition group :: "'a api_scheme \<Rightarrow> addr \<Rightarrow> group" where
  "group api addr =
     (let hash = sha256 api (as_bytes addr)
      in if hash ! 0 mod 2 = 0 then GroupA else GroupB)"

definition eligible_group :: "u64 \<Rightarrow> group" where
  "eligible_group round = (if round mod 2 = 0 then GroupA else GroupB)"

section \<open>Constants and construction of query results\<close>

definition NUMBER_OF_INCENTIVES_PER_ROUND :: u16 where
  "NUMBER_OF_INCENTIVES_PER_ROUND = 6"

definition NUMBER_OF_SUBMISSION_VERIFICATION_PER_ROUND :: u16 where
  "NUMBER_OF_SUBMISSION_VERIFICATION_PER_ROUND = 3"

definition INCENTIVE_POINTS_FOR_VERIFICATION :: u64 where
  "INCENTIVE_POINTS_FOR_VERIFICATION = 35"

definition INCENTIVE_POINTS_FOR_FAST_BOT :: u64 where
  "INCENTIVE_POINTS_FOR_FAST_BOT = 15"

definition queried_beacon_make :: "verified_beacon \<Rightarrow> u64 \<Rightarrow> 'e failure + queried_beacon" where
  "queried_beacon_make beacon round =
     and_then (time_of_round round) (\<lambda>published.
     Inr \<lparr>qb_round = round, qb_published = published, qb_verified = verified beacon,
          qb_randomness = randomness beacon\<rparr>)"

definition queried_submission_make :: "stored_submission \<Rightarrow> addr \<Rightarrow> queried_submission" where
  "queried_submission_make stored bot_address =
     \<lparr>qs_bot = bot_address, qs_time = sub_time stored, qs_height = sub_height stored,
      qs_tx_index = sub_tx_index stored\<rparr>"

definition queried_bot_make :: "bot \<Rightarrow> addr \<Rightarrow> queried_bot" where
  "queried_bot_make b address =
     \<lparr>qbot_moniker = moniker b, qbot_address = address, qbot_rounds_added = rounds_added b,
      qbot_reward_points = reward_points b\<rparr>"

definition load_config_drand :: "drand_state \<Rightarrow> drand_error failure + drand_config" where
  "load_config_drand st = ok_or (Error (Std (NotFound ''config''))) (CONFIG st)"

section \<open>Entry points\<close>

definition instantiate_drand ::
  "'a api_scheme \<Rightarrow> env \<Rightarrow> message_info \<Rightarrow> drand_instantiate_msg \<Rightarrow> drand_state
    \<Rightarrow> drand_error failure + drand_state \<times> nois_gateway_execute_msg response" where
  "instantiate_drand api env info msg st =
     and_then (map_err (\<lambda>e. Error (Std e)) (addr_validate api (im_manager msg))) (\<lambda>manager.
     let config = \<lparr>manager = manager, gateway = None, min_round = im_min_round msg,
                   incentive_point_price = im_incentive_point_price msg,
                   incentive_denom = im_incentive_denom msg\<rparr>;
         st1 = st\<lparr>CONFIG := Some config\<rparr>
     in Inr (set_contract_version ''nois-drand'' CARGO_PKG_VERSION st1, default_response))"

definition migrate_drand ::
  "env \<Rightarrow> drand_state \<Rightarrow> std_error failure + drand_state \<times> nois_gateway_execute_msg response" where
  "migrate_drand env st =
     Inr (set_contract_version ''nois-drand'' CARGO_PKG_VERSION st, default_response)"

definition execute_register_bot ::
  "env \<Rightarrow> message_info \<Rightarrow> string \<Rightarrow> drand_state
    \<Rightarrow> drand_error failure + drand_state \<times> nois_gateway_execute_msg response" where
  "execute_register_bot env info new_moniker st =
     and_then (validate_moniker new_moniker) (\<lambda>_.
     let bot = (case kv_may_load (BOTS st) (sender info) of
                  Some b \<Rightarrow> b\<lparr>moniker := new_moniker\<rparr>
                | None \<Rightarrow> \<lparr>moniker = new_moniker, rounds_added = 0, reward_points = 0\<rparr>)
     in Inr (st\<lparr>BOTS := kv_save (sender info) bot (BOTS st)\<rparr>, default_response))"

definition execute_set_incentivized ::
  "env \<Rightarrow> message_info \<Rightarrow> u64 \<Rightarrow> drand_state
    \<Rightarrow> drand_error failure + drand_state \<times> nois_gateway_execute_msg response" where
  "execute_set_incentivized env info round st =
     and_then (load_config_drand st) (\<lambda>config.
     if Some (sender info) \<noteq> gateway config then Inl (Error Unauthorized)
     else if round < min_round config then Inl (Error (RoundTooLow round (min_round config)))
     else Inr (st\<lparr>INCENTIVIZED_BY_GATEWAY :=
            kv_save round INCENTIVIZED_BY_GATEWAY_MARKER (INCENTIVIZED_BY_GATEWAY st)\<rparr>,
          default_response))"

text \<open>The two loops of \<open>execute_update_allowlist_bots\<close>.\<close>

fun allowlist_add_bots ::
  "'a api_scheme \<Rightarrow> string list \<Rightarrow> (addr, unit) kv \<Rightarrow> drand_error failure + (addr, unit) kv" where
  "allowlist_add_bots api [] l = Inr l"
| "allowlist_add_bots api (b # bots) l =
     and_then (map_err (\<lambda>e. Error (Std e)) (addr_validate api b)) (\<lambda>addr.
     allowlist_add_bots api bots (if \<not> kv_has l addr then kv_save addr () l else l))"

fun allowlist_remove_bots ::
  "'a api_scheme \<Rightarrow> string list \<Rightarrow> (addr, unit) kv \<Rightarrow> drand_error failure + (addr, unit) kv" where
  "allowlist_remove_bots api [] l = Inr l"
| "allowlist_remove_bots api (b # bots) l =
     and_then (map_err (\<lambda>e. Error (Std e)) (addr_validate api b)) (\<lambda>addr.
     allowlist_remove_bots api bots (if kv_has l addr then kv_remove addr l else l))"

definition execute_update_allowlist_bots ::
  "'a api_scheme \<Rightarrow> message_info \<Rightarrow> string list \<Rightarrow> string list \<Rightarrow> drand_state
    \<Rightarrow> drand_error failure + drand_state \<times> nois_gateway_execute_msg response" where
  "execute_update_allowlist_bots api info add remove st =
     and_then (load_config_drand st) (\<lambda>config.
     if sender info \<noteq> manager config then Inl (Error Unauthorized)
     else and_then (allowlist_add_bots api add (ALLOWLIST st)) (\<lambda>l1.
          and_then (allowlist_remove_bots api remove l1) (\<lambda>l2.
          Inr (st\<lparr>ALLOWLIST := l2\<rparr>, default_response))))"

definition is_incentivized ::
  "'a api_scheme \<Rightarrow> drand_state \<Rightarrow> addr \<Rightarrow> u64 \<Rightarrow> u64 \<Rightarrow> bool" where
  "is_incentivized api st sndr round lowest_round =
     (if round < lowest_round then False
      else if kv_has (INCENTIVIZED_BY_GATEWAY st) round \<or> is_incentivized_round round
      then group api sndr = eligible_group round
      else False)"

text \<open>
  The phases of \<open>execute_add_round\<close>: checking the signature (or comparing with the stored
  randomness) and counting the points; crediting the bot; determining the payout.
\<close>

definition submissions_count :: "drand_state \<Rightarrow> u64 \<Rightarrow> u16" where
  "submissions_count st round = unwrap_or (kv_may_load (SUBMISSIONS_COUNT st) round) 0"

definition check_submission ::
  "drand_api \<Rightarrow> u64 \<Rightarrow> binary \<Rightarrow> drand_state \<Rightarrow> drand_error failure + binary \<times> bool \<times> u64" where
  "check_submission api round signature st =
     (let count = submissions_count st round;
          rand = derive_randomness api signature
      in and_then
        (if count < NUMBER_OF_SUBMISSION_VERIFICATION_PER_ROUND
         then and_then (map_err (\<lambda>_. Error InvalidPubkey)
                (from_fixed_unchecked api DRAND_MAINNET2_PUBKEY)) (\<lambda>pk.
              if \<not> result_unwrap_or (verify api pk round [] signature) False
              then Inl (Error InvalidSignature)
              else Inr (True, INCENTIVE_POINTS_FOR_VERIFICATION))
         else and_then (ok_or (Error (Std (NotFound ''beacons''))) (kv_may_load (BEACONS st) round)) (\<lambda>b.
              if rand \<noteq> randomness b then Inl (Error SignatureDoesNotMatchState)
              else Inr (False, 0)))
        (\<lambda>(is_verifying_tx, points).
         Inr (rand, is_verifying_tx,
              if count < NUMBER_OF_INCENTIVES_PER_ROUND then points + INCENTIVE_POINTS_FOR_FAST_BOT
              else points)))"

definition credit_bot ::
  "addr \<Rightarrow> u64 \<Rightarrow> drand_state \<Rightarrow> drand_error failure + drand_state" where
  "credit_bot addr points st =
     (case kv_may_load (BOTS st) addr of
        None \<Rightarrow> Inr st
      | Some b \<Rightarrow>
          and_then (add_c (rounds_added b) 1) (\<lambda>ra.
          and_then (add_c (reward_points b) points) (\<lambda>rp.
          Inr (st\<lparr>BOTS := kv_save addr (b\<lparr>rounds_added := ra, reward_points := rp\<rparr>) (BOTS st)\<rparr>))))"

definition calculate_payout ::
  "querier \<Rightarrow> env \<Rightarrow> drand_config \<Rightarrow> bool \<Rightarrow> u64 \<Rightarrow> drand_error failure + coin" where
  "calculate_payout q env config is_eligible points =
     (if is_eligible
      then and_then (mul_c (ucast points) (incentive_point_price config)) (\<lambda>desired_amount.
           and_then (map_err (\<lambda>e. Error (Std e))
             (query_balance q (contract_address env) (incentive_denom config))) (\<lambda>contract_balance.
           if desired_amount \<le> amount contract_balance
           then Inr \<lparr>amount = desired_amount, denom = incentive_denom config\<rparr>
           else Inr \<lparr>amount = 0, denom = incentive_denom config\<rparr>))
      else Inr \<lparr>amount = 0, denom = incentive_denom config\<rparr>)"

definition execute_add_round ::
  "drand_api \<Rightarrow> querier \<Rightarrow> env \<Rightarrow> message_info \<Rightarrow> u64 \<Rightarrow> binary \<Rightarrow> drand_state
    \<Rightarrow> drand_error failure + drand_state \<times> nois_gateway_execute_msg response" where
  "execute_add_round api q env info round signature st =
     (if funds info \<noteq> [] then Inl (Error (Std (GenericErr ''Do not send funds'')))
      else and_then (load_config_drand st) (\<lambda>config.
      if round < min_round config then Inl (Error (RoundTooLow round (min_round config)))
      else and_then (check_submission api round signature st) (\<lambda>(rand, is_verifying_tx, points).
      if kv_has (SUBMISSIONS st) (round, sender info) then Inl (Error SubmissionExists)
      else and_then (add_c (submissions_count st round) 1) (\<lambda>new_count.
        let is_registered = (kv_may_load (BOTS st) (sender info) \<noteq> None);
            is_allowlisted = kv_has (ALLOWLIST st) (sender info);
            st1 = st\<lparr>SUBMISSIONS := kv_save (round, sender info)
                     \<lparr>pos = new_count, sub_time = block_time env, sub_height = block_height env,
                      sub_tx_index = tx_index env\<rparr> (SUBMISSIONS st)\<rparr>;
            st2 = st1\<lparr>SUBMISSIONS_COUNT := kv_save round new_count (SUBMISSIONS_COUNT st1)\<rparr>;
            gateway_msgs = (case gateway config of
                None \<Rightarrow> []
              | Some gw \<Rightarrow> [new_msg (WasmExecute gw (AddVerifiedRound round rand is_verifying_tx) [])]);
            is_eligible = (is_incentivized api st2 (sender info) round (min_round config)
                            \<and> is_registered \<and> is_allowlisted \<and> points \<noteq> 0);
            points' = (if is_eligible then points else 0)
        in and_then (credit_bot (sender info) points' st2) (\<lambda>st3.
           and_then (calculate_payout q env config is_eligible points') (\<lambda>payout.
           let payout_msgs = (if amount payout \<noteq> 0 then [new_msg (BankSend (sender info) [payout])] else []);
               st4 = (if \<not> kv_has (BEACONS st3) round
                      then st3\<lparr>BEACONS := kv_save round \<lparr>verified = block_time env, randomness = rand\<rparr> (BEACONS st3)\<rparr>
                      else st3)
           in Inr (st4,
                \<lparr>messages = gateway_msgs @ payout_msgs,
                 attributes = [(''round'', Text (show_word round)), (''randomness'', HexText rand),
                               (''bot'', Text (sender info)), (''reward_points'', Text (show_word points')),
                               (''reward_payout'', CoinText payout)],
                 events = []\<rparr>)))))))"

definition execute_set_config_drand ::
  "'a api_scheme \<Rightarrow> message_info \<Rightarrow> string option \<Rightarrow> string option \<Rightarrow> u64 option \<Rightarrow> u128 option
    \<Rightarrow> string option \<Rightarrow> drand_state
    \<Rightarrow> drand_error failure + drand_state \<times> nois_gateway_execute_msg response" where
  "execute_set_config_drand api info new_manager new_gateway new_min_round new_price new_denom st =
     and_then (load_config_drand st) (\<lambda>config.
     if sender info \<noteq> manager config then Inl (Error Unauthorized)
     else and_then (case new_gateway of
              Some g \<Rightarrow> and_then (map_err (\<lambda>e. Error (Std e)) (addr_validate api g)) (\<lambda>a. Inr (Some a))
            | None \<Rightarrow> Inr (gateway config)) (\<lambda>gw.
          and_then (case new_manager of
              Some ma \<Rightarrow> map_err (\<lambda>e. Error (Std e)) (addr_validate api ma)
            | None \<Rightarrow> Inr (manager config)) (\<lambda>ma.
          let new_config = \<lparr>manager = ma, gateway = gw,
                min_round = unwrap_or new_min_round (min_round config),
                incentive_point_price = unwrap_or new_price (incentive_point_price config),
                incentive_denom = unwrap_or new_denom (incentive_denom config)\<rparr>
          in Inr (st\<lparr>CONFIG := Some new_config\<rparr>, default_response))))"

fun execute_drand ::
  "drand_api \<Rightarrow> querier \<Rightarrow> env \<Rightarrow> message_info \<Rightarrow> drand_execute_msg \<Rightarrow> drand_state
    \<Rightarrow> drand_error failure + drand_state \<times> nois_gateway_execute_msg response" where
  "execute_drand api q env info (AddRound round signature) st =
     execute_add_round api q env info round signature st"
| "execute_drand api q env info (RegisterBot m) st = execute_register_bot env info m st"
| "execute_drand api q env info (SetIncentivized round) st = execute_set_incentivized env info round st"
| "execute_drand api q env info (UpdateAllowlistBots add remove) st =
     execute_update_allowlist_bots api info add remove st"
| "execute_drand api q env info (SetConfig ma gw mr price dnm) st =
     execute_set_config_drand api info ma gw mr price dnm st"

section \<open>Queries\<close>

definition query_config_drand :: "drand_state \<Rightarrow> std_error failure + drand_config" where
  "query_config_drand st = ok_or (Error (NotFound ''config'')) (CONFIG st)"

definition query_beacon :: "drand_state \<Rightarrow> u64 \<Rightarrow> std_error failure + queried_beacon option" where
  "query_beacon st round =
     (case kv_may_load (BEACONS st) round of
        None \<Rightarrow> Inr None
      | Some b \<Rightarrow> and_then (queried_beacon_make b round) (\<lambda>qb. Inr (Some qb)))"

definition query_beacons ::
  "drand_state \<Rightarrow> u64 option \<Rightarrow> u32 option \<Rightarrow> order \<Rightarrow> std_error failure + queried_beacon list" where
  "query_beacons st start_after limit order =
     (let limit = unat (unwrap_or limit 100);
          bounds = (case order of Ascending \<Rightarrow> (start_after, None) | Descending \<Rightarrow> (None, start_after))
      in collect_results (map (\<lambda>(round, beacon). queried_beacon_make beacon round)
           (take limit (kv_range (fst bounds) (snd bounds) order (BEACONS st)))))"

definition query_is_incentivized ::
  "'a api_scheme \<Rightarrow> drand_state \<Rightarrow> string \<Rightarrow> u64 list \<Rightarrow> std_error failure + bool list" where
  "query_is_incentivized api st sndr rounds =
     and_then (map_err Error (addr_validate api sndr)) (\<lambda>addr.
     and_then (query_config_drand st) (\<lambda>config.
     Inr (map (\<lambda>round. is_incentivized api st addr round (min_round config)) rounds)))"

definition query_submissions :: "drand_state \<Rightarrow> u64 \<Rightarrow> queried_submission list" where
  "query_submissions st round =
     (let submissions = kv_range None None Ascending (kv_prefix round (SUBMISSIONS st));
          sorted_submissions = sort_key (\<lambda>e. pos (snd e)) submissions
      in map (\<lambda>(addr, stored). queried_submission_make stored addr) sorted_submissions)"

definition query_bot ::
  "'a api_scheme \<Rightarrow> drand_state \<Rightarrow> string \<Rightarrow> std_error failure + queried_bot option" where
  "query_bot api st address =
     and_then (map_err Error (addr_validate api address)) (\<lambda>a.
     Inr (map_option (\<lambda>b. queried_bot_make b a) (kv_may_load (BOTS st) a)))"

definition query_bots :: "drand_state \<Rightarrow> queried_bot list" where
  "query_bots st =
     map (\<lambda>(address, b). queried_bot_make b address) (kv_range None None Ascending (BOTS st))"

definition query_allowlist_drand :: "drand_state \<Rightarrow> addr list" where
  "query_allowlist_drand st = map fst (kv_range None None Ascending (ALLOWLIST st))"

definition query_is_allowlisted_drand ::
  "'a api_scheme \<Rightarrow> drand_state \<Rightarrow> string \<Rightarrow> std_error failure + bool" where
  "query_is_allowlisted_drand api st b =
     and_then (map_err Error (addr_validate api b)) (\<lambda>bot_addr. Inr (kv_has (ALLOWLIST st) bot_addr))"

fun query_drand ::
  "'a api_scheme \<Rightarrow> drand_query_msg \<Rightarrow> drand_state \<Rightarrow> std_error failure + drand_query_response" where
  "query_drand api QueryConfig st = and_then (query_config_drand st) (\<lambda>c. Inr (ConfigResponse c))"
| "query_drand api (QueryBeacon round) st = and_then (query_beacon st round) (\<lambda>b. Inr (BeaconResponse b))"
| "query_drand api (QueryBeaconsAsc start_after limit) st =
     and_then (query_beacons st start_after limit Ascending) (\<lambda>bs. Inr (BeaconsResponse bs))"
| "query_drand api (QueryBeaconsDesc start_after limit) st =
     and_then (query_beacons st start_after limit Descending) (\<lambda>bs. Inr (BeaconsResponse bs))"
| "query_drand api (QueryIsIncentivized sndr rounds) st =
     and_then (query_is_incentivized api st sndr rounds) (\<lambda>bs. Inr (IsIncentivizedResponse bs))"
| "query_drand api (QuerySubmissions round) st = Inr (SubmissionsResponse round (query_submissions st round))"
| "query_drand api (QueryBot address) st = and_then (query_bot api st address) (\<lambda>b. Inr (BotResponse b))"
| "query_drand api QueryBots st = Inr (BotsResponse (query_bots st))"
| "query_drand api QueryAllowlist st = Inr (AllowlistResponse (query_allowlist_drand st))"
| "query_drand api (QueryIsAllowlisted b) st =
     and_then (query_is_allowlisted_drand api st b) (\<lambda>l. Inr (IsAllowlistedResponse l))"

text \<open>A transaction of the contract, for runs; the signature scheme and the hash are fixed.\<close>

fun drand_tx ::
  "drand_api \<Rightarrow> querier \<times> env \<times> message_info \<times> drand_execute_msg \<Rightarrow> drand_state
    \<Rightarrow> drand_error failure + drand_state \<times> nois_gateway_execute_msg response" where
  "drand_tx api (q, env, info, msg) st = execute_drand api q env info msg st"

section \<open>What a successful submission does\<close>

definition valid_signature :: "drand_api \<Rightarrow> u64 \<Rightarrow> binary \<Rightarrow> bool" where
  "valid_signature api round signature \<longleftrightarrow>
     (case from_fixed_unchecked api DRAND_MAINNET2_PUBKEY of
        Inl _ \<Rightarrow> False
      | Inr pk \<Rightarrow> verify api pk round [] signature = Inr True)"

definition submission_points :: "u16 \<Rightarrow> u64" where
  "submission_points n = (if n < 3 then 50 else if n < 6 then 15 else 0)"

lemmas incentive_constants =
  NUMBER_OF_SUBMISSION_VERIFICATION_PER_ROUND_def NUMBER_OF_INCENTIVES_PER_ROUND_def
  INCENTIVE_POINTS_FOR_VERIFICATION_def INCENTIVE_POINTS_FOR_FAST_BOT_def

lemma check_submission_Inr:
  "check_submission api round signature st = Inr (rand, vtx, points) \<longleftrightarrow>
     rand = derive_randomness api signature \<and> vtx = (submissions_count st round < 3) \<and>
     points = submission_points (submissions_count st round) \<and>
     (if vtx then valid_signature api round signature
      else \<exists>b. kv_may_load (BEACONS st) round = Some b \<and> randomness b = rand)"
proof (cases "submissions_count st round < 3")
  case True
  then have "submissions_count st round < 6"
    by (simp add: word_less_nat_alt)
  with True show ?thesis
    by (cases "from_fixed_unchecked api DRAND_MAINNET2_PUBKEY")
      (auto simp: check_submission_def Let_def valid_signature_def submission_points_def
        incentive_constants)
next
  case False
  then show ?thesis
    by (auto simp: check_submission_def Let_def submission_points_def incentive_constants
        split: if_splits intro!: exI)
qed

definition eligible :: "drand_api \<Rightarrow> drand_state \<Rightarrow> drand_config \<Rightarrow> addr \<Rightarrow> u64 \<Rightarrow> bool" where
  "eligible api st config a round \<longleftrightarrow>
     is_incentivized api st a round (min_round config) \<and> kv_has (BOTS st) a \<and> kv_has (ALLOWLIST st) a
     \<and> submissions_count st round < 6"

lemma submission_points_eq_0: "submission_points c = 0 \<longleftrightarrow> \<not> c < 6"
proof -
  have "c < 3 \<Longrightarrow> c < 6" by (simp add: word_less_nat_alt)
  then show ?thesis by (auto simp: submission_points_def)
qed

lemma is_incentivized_frame [simp]:
  "is_incentivized api (st\<lparr>SUBMISSIONS := s, SUBMISSIONS_COUNT := c\<rparr>) a r m = is_incentivized api st a r m"
  by (simp add: is_incentivized_def)

lemma credit_bot_frame:
  "credit_bot a p (st\<lparr>SUBMISSIONS := s, SUBMISSIONS_COUNT := c\<rparr>) = Inr st3 \<longleftrightarrow>
     (\<exists>bots. credit_bot a p st = Inr (st\<lparr>BOTS := bots\<rparr>) \<and>
        st3 = st\<lparr>SUBMISSIONS := s, SUBMISSIONS_COUNT := c, BOTS := bots\<rparr>)"
  (is "?l \<longleftrightarrow> ?r")
proof (cases "kv_may_load (BOTS st) a")
  case None
  have "st\<lparr>BOTS := bots\<rparr> = st \<longleftrightarrow> bots = BOTS st" for bots
    by (cases st) auto
  with None show ?thesis
    by (cases st) (auto simp: credit_bot_def)
next
  case (Some b)
  have "st\<lparr>BOTS := bots\<rparr> = st\<lparr>BOTS := bots'\<rparr> \<longleftrightarrow> bots = bots'" for bots bots'
    by (cases st) auto
  with Some show ?thesis
    by (auto simp: credit_bot_def)
qed

lemma execute_add_round_Inr:
  assumes "execute_add_round api q env info round signature st = Inr (st', res)"
  obtains config n bots payout rand vtx points where
    "funds info = []" "CONFIG st = Some config" "\<not> round < min_round config"
    "check_submission api round signature st = Inr (rand, vtx, submission_points (submissions_count st round))"
    "\<not> kv_has (SUBMISSIONS st) (round, sender info)"
    "unat n = Suc (unat (submissions_count st round))"
    "points = (if eligible api st config (sender info) round then submission_points (submissions_count st round) else 0)"
    "credit_bot (sender info) points st = Inr (st\<lparr>BOTS := bots\<rparr>)"
    "calculate_payout q env config (eligible api st config (sender info) round) points = Inr payout"
    "st' = st\<lparr>SUBMISSIONS := kv_save (round, sender info)
         \<lparr>pos = n, sub_time = block_time env, sub_height = block_height env, sub_tx_index = tx_index env\<rparr> (SUBMISSIONS st),
       SUBMISSIONS_COUNT := kv_save round n (SUBMISSIONS_COUNT st), BOTS := bots,
       BEACONS := (if kv_has (BEACONS st) round then BEACONS st
         else kv_save round \<lparr>verified = block_time env, randomness = rand\<rparr> (BEACONS st))\<rparr>"
    "messages res = (case gateway config of None \<Rightarrow> []
         | Some gw \<Rightarrow> [new_msg (WasmExecute gw (AddVerifiedRound round rand vtx) [])])
       @ (if amount payout \<noteq> 0 then [new_msg (BankSend (sender info) [payout])] else [])"
    "attributes res = [(''round'', Text (show_word round)), (''randomness'', HexText rand),
       (''bot'', Text (sender info)), (''reward_points'', Text (show_word points)),
       (''reward_payout'', CoinText payout)]"
proof -
  let ?p = "submission_points (submissions_count st round)"
  note step = assms [unfolded execute_add_round_def load_config_drand_def]
  from step have funds: "funds info = []"
    by (cases "funds info = []") simp_all
  from step funds obtain config where config: "CONFIG st = Some config"
    by (cases "CONFIG st") simp_all
  from step funds config have min: "\<not> round < min_round config"
    by (cases "round < min_round config") simp_all
  from step funds config min obtain rand vtx where
    check: "check_submission api round signature st = Inr (rand, vtx, ?p)"
    by (cases "check_submission api round signature st") (auto simp: check_submission_Inr)
  have fresh: "\<not> kv_has (SUBMISSIONS st) (round, sender info)"
    using step funds config min check
    by (cases "kv_has (SUBMISSIONS st) (round, sender info)") simp_all
  define e where "e = eligible api st config (sender info) round"
  define points where "points = (if e then ?p else 0)"
  have e: "(is_incentivized api st (sender info) round (min_round config) \<and>
       kv_may_load (BOTS st) (sender info) \<noteq> None \<and> kv_has (ALLOWLIST st) (sender info) \<and> ?p \<noteq> 0) = e"
    by (simp add: e_def eligible_def kv_has_def submission_points_eq_0)
  from step obtain n bots payout where
    n: "add_c (submissions_count st round) 1 = (Inr n :: drand_error failure + u16)"
    and rest: "credit_bot (sender info) points st = Inr (st\<lparr>BOTS := bots\<rparr>)"
    "calculate_payout q env config e points = Inr payout"
    "st' = st\<lparr>SUBMISSIONS := kv_save (round, sender info)
         \<lparr>pos = n, sub_time = block_time env, sub_height = block_height env, sub_tx_index = tx_index env\<rparr> (SUBMISSIONS st),
       SUBMISSIONS_COUNT := kv_save round n (SUBMISSIONS_COUNT st), BOTS := bots,
       BEACONS := (if kv_has (BEACONS st) round then BEACONS st
         else kv_save round \<lparr>verified = block_time env, randomness = rand\<rparr> (BEACONS st))\<rparr>"
    "messages res = (case gateway config of None \<Rightarrow> []
         | Some gw \<Rightarrow> [new_msg (WasmExecute gw (AddVerifiedRound round rand vtx) [])])
       @ (if amount payout \<noteq> 0 then [new_msg (BankSend (sender info) [payout])] else [])"
    "attributes res = [(''round'', Text (show_word round)), (''randomness'', HexText rand),
       (''bot'', Text (sender info)), (''reward_points'', Text (show_word points)),
       (''reward_payout'', CoinText payout)]"
    using funds config min check fresh
    apply (simp add: Let_def e points_def [symmetric] credit_bot_frame del: not_None_eq)
    apply (elim exE conjE)
    subgoal premises prems for n st3 bots payout
      by (rule prems(1) [OF prems(7,8,10)], cases st)
        (simp_all add: prems(9) flip: prems(11,12))
    done
  have "unat n = Suc (unat (submissions_count st round))"
    using n by (simp add: add_c_eq_Inr)
  from that [OF funds config min check fresh this points_def [unfolded e_def] rest [unfolded e_def]]
  show ?thesis .
qed

section \<open>The invariant of the submission book\<close>

definition submission_positions :: "drand_state \<Rightarrow> u64 \<Rightarrow> nat list" where
  "submission_positions st round = map (\<lambda>e. unat (pos (snd e))) (kv_prefix round (SUBMISSIONS st))"

definition positions_ok :: "drand_state \<Rightarrow> bool" where
  "positions_ok st \<longleftrightarrow> kv_ordered (SUBMISSIONS st) \<and>
     (\<forall>r. mset (submission_positions st r) = mset (map Suc [0..<unat (submissions_count st r)]))"

definition beacons_ok :: "drand_api \<Rightarrow> drand_state \<Rightarrow> bool" where
  "beacons_ok api st \<longleftrightarrow> kv_ordered (BEACONS st) \<and>
     (\<forall>r. kv_has (BEACONS st) r \<longleftrightarrow> 0 < unat (submissions_count st r)) \<and>
     (\<forall>r b. kv_may_load (BEACONS st) r = Some b \<longrightarrow>
        (\<exists>signature. valid_signature api r signature \<and> randomness b = derive_randomness api signature))"

definition drand_inv :: "drand_api \<Rightarrow> drand_state \<Rightarrow> bool" where
  "drand_inv api st \<longleftrightarrow> positions_ok st \<and> beacons_ok api st"

lemma drand_tx_cases:
  assumes "drand_tx api t st = Inr (st', res)"
  obtains (submit) q env info round signature where "t = (q, env, info, AddRound round signature)"
      and "execute_add_round api q env info round signature st = Inr (st', res)"
  | (other) "\<And>r s. snd (snd (snd t)) \<noteq> AddRound r s" "messages res = []"
      "BEACONS st' = BEACONS st" "SUBMISSIONS st' = SUBMISSIONS st"
      "SUBMISSIONS_COUNT st' = SUBMISSIONS_COUNT st"
proof -
  obtain q env info msg where t: "t = (q, env, info, msg)"
    by (cases t) auto
  show ?thesis
    using assms that
    by (cases msg)
      (auto simp: t execute_register_bot_def execute_set_incentivized_def default_response_def
        execute_update_allowlist_bots_def execute_set_config_drand_def Let_def split: if_splits)
qed

lemma submissions_count_frame:
  "SUBMISSIONS_COUNT st' = SUBMISSIONS_COUNT st \<Longrightarrow> submissions_count st' r = submissions_count st r"
  by (simp add: submissions_count_def)

lemma add_round_count:
  assumes "execute_add_round api q env info round signature st = Inr (st', res)"
  shows "unat (submissions_count st' r) =
     (if r = round then Suc (unat (submissions_count st r)) else unat (submissions_count st r))"
  by (rule execute_add_round_Inr [OF assms]) (simp add: submissions_count_def)

lemma add_round_positions_ok:
  assumes ok: "positions_ok st"
    and step: "execute_add_round api q env info round signature st = Inr (st', res)"
  shows "positions_ok st'"
proof (rule execute_add_round_Inr [OF step])
  fix config n bots payout rand vtx points
  assume fresh: "\<not> kv_has (SUBMISSIONS st) (round, sender info)"
    and n: "unat n = Suc (unat (submissions_count st round))"
    and st': "st' = st\<lparr>SUBMISSIONS := kv_save (round, sender info)
         \<lparr>pos = n, sub_time = block_time env, sub_height = block_height env, sub_tx_index = tx_index env\<rparr> (SUBMISSIONS st),
       SUBMISSIONS_COUNT := kv_save round n (SUBMISSIONS_COUNT st), BOTS := bots,
       BEACONS := (if kv_has (BEACONS st) round then BEACONS st
         else kv_save round \<lparr>verified = block_time env, randomness = rand\<rparr> (BEACONS st))\<rparr>"
  have "mset (submission_positions st' r) = mset (map Suc [0..<unat (submissions_count st' r)])" for r
  proof (cases "r = round")
    case True
    have "mset (submission_positions st' round) = add_mset (unat n) (mset (submission_positions st round))"
      using fresh by (simp add: st' submission_positions_def mset_kv_prefix_save)
    also have "\<dots> = mset (map Suc [0..<unat (submissions_count st' round)])"
      using ok n add_round_count [OF step, of round] by (simp add: positions_ok_def)
    finally show ?thesis using True by simp
  next
    case False
    then have "submission_positions st' r = submission_positions st r"
      by (simp add: st' submission_positions_def kv_prefix_save_other)
    then show ?thesis
      using ok False add_round_count [OF step, of r] by (simp add: positions_ok_def)
  qed
  moreover have "kv_ordered (SUBMISSIONS st')"
    using ok by (simp add: st' positions_ok_def)
  ultimately show ?thesis by (simp add: positions_ok_def)
qed

lemma unat_lt_numeral: "c < 3 \<longleftrightarrow> unat c < 3" "c < 6 \<longleftrightarrow> unat c < 6" for c :: u16
  by (simp_all add: word_less_nat_alt)

lemma add_round_beacons_ok:
  assumes ok: "beacons_ok api st"
    and step: "execute_add_round api q env info round signature st = Inr (st', res)"
  shows "beacons_ok api st'"
proof (rule execute_add_round_Inr [OF step])
  fix config n bots payout rand vtx points
  assume check: "check_submission api round signature st = Inr (rand, vtx, submission_points (submissions_count st round))"
    and st': "st' = st\<lparr>SUBMISSIONS := kv_save (round, sender info)
         \<lparr>pos = n, sub_time = block_time env, sub_height = block_height env, sub_tx_index = tx_index env\<rparr> (SUBMISSIONS st),
       SUBMISSIONS_COUNT := kv_save round n (SUBMISSIONS_COUNT st), BOTS := bots,
       BEACONS := (if kv_has (BEACONS st) round then BEACONS st
         else kv_save round \<lparr>verified = block_time env, randomness = rand\<rparr> (BEACONS st))\<rparr>"
  show ?thesis
  proof (cases "kv_has (BEACONS st) round")
    case True
    then show ?thesis
      using ok add_round_count [OF step] by (auto simp: beacons_ok_def st')
  next
    case False
    then have "submissions_count st round = 0"
      using ok by (auto simp: beacons_ok_def unat_eq_zero)
    then have "valid_signature api round signature" "rand = derive_randomness api signature"
      using check by (simp_all add: check_submission_Inr)
    with False show ?thesis
      using ok add_round_count [OF step] by (auto simp: beacons_ok_def st')
  qed
qed

lemma positions_ok_frame:
  "SUBMISSIONS st' = SUBMISSIONS st \<Longrightarrow> SUBMISSIONS_COUNT st' = SUBMISSIONS_COUNT st \<Longrightarrow>
     positions_ok st' = positions_ok st"
  by (simp add: positions_ok_def submission_positions_def submissions_count_def)

lemma beacons_ok_frame:
  "BEACONS st' = BEACONS st \<Longrightarrow> SUBMISSIONS_COUNT st' = SUBMISSIONS_COUNT st \<Longrightarrow>
     beacons_ok api st' = beacons_ok api st"
  by (simp add: beacons_ok_def submissions_count_def)

lemma drand_tx_inv:
  assumes "drand_inv api st" and "drand_tx api t st = Inr (st', res)"
  shows "drand_inv api st'"
  using assms(2)
proof (cases rule: drand_tx_cases)
  case submit
  with assms(1) show ?thesis
    by (auto simp: drand_inv_def intro: add_round_positions_ok add_round_beacons_ok)
next
  case other
  with assms(1) show ?thesis
    by (simp add: drand_inv_def cong: positions_ok_frame beacons_ok_frame)
qed

lemma drand_tx_beacons: 
  assumes "drand_tx api t st = Inr (st', res)"
  shows "kv_may_load (BEACONS st) \<subseteq>\<^sub>m kv_may_load (BEACONS st')"
  using assms
proof (cases rule: drand_tx_cases)
  case submit
  then show ?thesis
    by (auto elim!: execute_add_round_Inr simp: map_le_def kv_has_def)
qed (simp add: map_le_def)

lemma drand_tx_submissions: 
  assumes "drand_tx api t st = Inr (st', res)"
  shows "kv_may_load (SUBMISSIONS st) \<subseteq>\<^sub>m kv_may_load (SUBMISSIONS st')"
  using assms
proof (cases rule: drand_tx_cases)
  case submit
  then show ?thesis
    by (auto elim!: execute_add_round_Inr simp: map_le_def kv_has_def)
qed (simp add: map_le_def)

interpretation beacon_book: history_machine "drand_tx api" "drand_inv api" "\<lambda>st. kv_may_load (BEACONS st)"
  for api
  by unfold_locales (rule drand_tx_inv drand_tx_beacons, assumption+)+

interpretation submission_book: history_machine "drand_tx api" "drand_inv api" "\<lambda>st. kv_may_load (SUBMISSIONS st)"
  for api
  by unfold_locales (rule drand_tx_submissions)

text \<open>Instantiation establishes the invariant: the book is empty.\<close>

lemma drand_inv_init:
  assumes "instantiate_drand a env info msg empty_drand_state = Inr (st, res)"
  shows "drand_inv api st"
  using assms
  by (auto simp: instantiate_drand_def empty_drand_state_def set_contract_version_def drand_inv_def
      positions_ok_def beacons_ok_def submission_positions_def submissions_count_def)

section \<open>Rewards\<close>

text \<open>The reward points of all registered bots, and by how much a submission for a round raises them.\<close>

definition bot_points :: "drand_state \<Rightarrow> nat" where
  "bot_points st = (\<Sum>addr\<in>dom (kv_may_load (BOTS st)). unat (reward_points (the (kv_may_load (BOTS st) addr))))"

definition round_points ::
  "drand_api \<Rightarrow> u64 \<Rightarrow> querier \<times> env \<times> message_info \<times> drand_execute_msg \<Rightarrow> drand_state \<Rightarrow> nat" where
  "round_points api round t st =
     (case snd (snd (snd t)) of
        AddRound r _ \<Rightarrow> if r = round then bot_points (commit (drand_tx api) t st) - bot_points st else 0
      | _ \<Rightarrow> 0)"

definition points_cap :: "nat \<Rightarrow> nat" where
  "points_cap n = 50 * min n 3 + 15 * (min n 6 - 3)"

lemma points_cap_Suc: "unat (submission_points c) + points_cap (unat c) = points_cap (Suc (unat c))"
  by (auto simp: submission_points_def points_cap_def unat_lt_numeral min_def)

lemma credit_bot_points:
  assumes "credit_bot addr points st = Inr st'"
  shows "bot_points st' = bot_points st + (if kv_has (BOTS st) addr then unat points else 0)"
proof (cases "kv_may_load (BOTS st) addr")
  case None
  with assms show ?thesis by (simp add: credit_bot_def kv_has_def)
next
  case (Some b)
  let ?D = "dom (kv_may_load (BOTS st))" and ?p = "\<lambda>m x. unat (reward_points (the (kv_may_load m x)))"
  from assms Some obtain b' where st': "st' = st\<lparr>BOTS := kv_save addr b' (BOTS st)\<rparr>"
    and b': "unat (reward_points b') = unat (reward_points b) + unat points"
    by (auto simp: credit_bot_def add_c_eq_Inr)
  from Some have D: "?D = insert addr ?D" by auto
  have "bot_points st' = ?p (kv_save addr b' (BOTS st)) addr + (\<Sum>x\<in>?D - {addr}. ?p (kv_save addr b' (BOTS st)) x)"
    using Some by (simp add: bot_points_def st' kv_may_load_save insert_absorb domI sum.remove [of ?D addr])
  moreover have "bot_points st = ?p (BOTS st) addr + (\<Sum>x\<in>?D - {addr}. ?p (BOTS st) x)"
    using Some by (simp add: bot_points_def domI sum.remove [of ?D addr])
  moreover have "(\<Sum>x\<in>?D - {addr}. ?p (kv_save addr b' (BOTS st)) x) = (\<Sum>x\<in>?D - {addr}. ?p (BOTS st) x)"
    by (intro sum.cong) (simp_all add: kv_may_load_save)
  ultimately show ?thesis using Some b' by (simp add: kv_has_def)
qed

lemma bot_points_frame: "BOTS st' = BOTS st \<Longrightarrow> bot_points st' = bot_points st"
  by (simp add: bot_points_def)

lemma add_round_points:
  assumes "execute_add_round api q env info round signature st = Inr (st', res)"
  shows "bot_points st' \<le> bot_points st + unat (submission_points (submissions_count st round))"
proof (rule execute_add_round_Inr [OF assms])
  fix config n bots payout rand vtx points
  assume points: "points = (if eligible api st config (sender info) round then submission_points (submissions_count st round) else 0)"
    and credit: "credit_bot (sender info) points st = Inr (st\<lparr>BOTS := bots\<rparr>)"
    and st': "st' = st\<lparr>SUBMISSIONS := kv_save (round, sender info)
         \<lparr>pos = n, sub_time = block_time env, sub_height = block_height env, sub_tx_index = tx_index env\<rparr> (SUBMISSIONS st),
       SUBMISSIONS_COUNT := kv_save round n (SUBMISSIONS_COUNT st), BOTS := bots,
       BEACONS := (if kv_has (BEACONS st) round then BEACONS st
         else kv_save round \<lparr>verified = block_time env, randomness = rand\<rparr> (BEACONS st))\<rparr>"
  have "bot_points st' = bot_points (st\<lparr>BOTS := bots\<rparr>)" by (rule bot_points_frame) (simp add: st')
  with credit_bot_points [OF credit] points show ?thesis by simp
qed

lemma round_points_metered:
  "round_points api round t st + points_cap (unat (submissions_count st round))
     \<le> points_cap (unat (submissions_count (commit (drand_tx api) t st) round))"
proof (cases rule: commit_cases [of "drand_tx api" t st])
  case (failed e)
  then show ?thesis by (simp add: round_points_def split: drand_execute_msg.split)
next
  case (succeeded st' res)
  from succeeded(1) show ?thesis
  proof (cases rule: drand_tx_cases)
    case (submit q env info r signature)
    have "round_points api round t st = (if r = round then bot_points st' - bot_points st else 0)"
      using submit(1) succeeded(2) by (auto simp: round_points_def)
    then show ?thesis
      using add_round_points [OF submit(2)] add_round_count [OF submit(2), of round]
        points_cap_Suc [of "submissions_count st round"] succeeded(2)
      by (cases "r = round") simp_all
  next
    case other
    then have "round_points api round t st = 0"
      by (simp add: round_points_def split: drand_execute_msg.split)
    then show ?thesis
      using succeeded(2) submissions_count_frame [OF other(5), of round] by simp
  qed
qed

interpretation round_meter: metered_machine "drand_tx api" "drand_inv api" "round_points api round"
  "\<lambda>st. points_cap (unat (submissions_count st round))" for api round
  by unfold_locales (rule round_points_metered)

lemma calculate_payout_Inr:
  assumes "calculate_payout q env config e points = Inr payout"
  shows "denom payout = incentive_denom config"
    and "amount payout \<noteq> 0 \<Longrightarrow> e \<and> unat (amount payout) = unat points * unat (incentive_point_price config)
      \<and> (\<exists>c. query_balance q (contract_address env) (incentive_denom config) = Inr c \<and> amount payout \<le> amount c)"
  using assms
  by (auto simp: calculate_payout_def mul_c_eq_Inr split: if_splits)

section \<open>The list of submissions\<close>

lemma positions_ok_sorted:
  assumes "positions_ok st"
  shows "sorted (map (\<lambda>e. pos (snd e)) (sort_key (\<lambda>e. pos (snd e)) (kv_prefix r (SUBMISSIONS st))))"
    and "distinct (map (\<lambda>e. pos (snd e)) (kv_prefix r (SUBMISSIONS st)))"
    and "\<forall>e \<in> set (kv_prefix r (SUBMISSIONS st)). unat (pos (snd e)) \<le> unat (submissions_count st r)"
proof -
  have m: "mset (submission_positions st r) = mset (map Suc [0..<unat (submissions_count st r)])"
    using assms by (simp add: positions_ok_def)
  have "distinct (map Suc [0..<unat (submissions_count st r)])"
    by (simp add: distinct_map)
  then have "distinct (submission_positions st r)"
    using m by (metis mset_eq_imp_distinct_iff)
  then have "distinct (map unat (map (\<lambda>e. pos (snd e)) (kv_prefix r (SUBMISSIONS st))))"
    by (simp add: submission_positions_def comp_def)
  then show "distinct (map (\<lambda>e. pos (snd e)) (kv_prefix r (SUBMISSIONS st)))"
    by (rule distinct_map [THEN iffD1, THEN conjunct1])
  have "set (submission_positions st r) = set (map Suc [0..<unat (submissions_count st r)])"
    using m by (rule mset_eq_setD)
  moreover have "unat (pos (snd e)) \<in> set (submission_positions st r)"
    if "e \<in> set (kv_prefix r (SUBMISSIONS st))" for e
    using that by (force simp: submission_positions_def)
  ultimately show "\<forall>e \<in> set (kv_prefix r (SUBMISSIONS st)). unat (pos (snd e)) \<le> unat (submissions_count st r)"
    by fastforce
qed (rule sorted_sort_key)

lemma query_submissions_add_round:
  assumes ok: "positions_ok st"
    and step: "execute_add_round api q env info round signature st = Inr (st', res)"
  shows "query_submissions st' round = query_submissions st round @
      [\<lparr>qs_bot = sender info, qs_time = block_time env, qs_height = block_height env, qs_tx_index = tx_index env\<rparr>]"
proof (rule execute_add_round_Inr [OF step])
  fix config n bots payout rand vtx points
  assume fresh: "\<not> kv_has (SUBMISSIONS st) (round, sender info)"
    and n: "unat n = Suc (unat (submissions_count st round))"
    and st': "st' = st\<lparr>SUBMISSIONS := kv_save (round, sender info)
         \<lparr>pos = n, sub_time = block_time env, sub_height = block_height env, sub_tx_index = tx_index env\<rparr> (SUBMISSIONS st),
       SUBMISSIONS_COUNT := kv_save round n (SUBMISSIONS_COUNT st), BOTS := bots,
       BEACONS := (if kv_has (BEACONS st) round then BEACONS st
         else kv_save round \<lparr>verified = block_time env, randomness = rand\<rparr> (BEACONS st))\<rparr>"
  let ?f = "\<lambda>e :: addr \<times> stored_submission. pos (snd e)"
  let ?old = "kv_prefix round (SUBMISSIONS st)"
  let ?new = "(sender info, \<lparr>pos = n, sub_time = block_time env, sub_height = block_height env, sub_tx_index = tx_index env\<rparr>)"
  have below: "\<forall>e \<in> set ?old. ?f e < n"
    using positions_ok_sorted(3) [OF ok, of round] n by (auto simp: word_less_nat_alt)
  have "sort_key ?f (kv_prefix round (SUBMISSIONS st')) = sort_key ?f ?old @ [?new]"
  proof (rule sort_key_unique)
    show "mset (sort_key ?f ?old @ [?new]) = mset (kv_prefix round (SUBMISSIONS st'))"
      using fresh by (simp add: st' mset_kv_prefix_save)
    show "sorted (map ?f (sort_key ?f ?old @ [?new]))"
      using below positions_ok_sorted(1) [OF ok, of round] by (simp add: sorted_append less_imp_le)
    have "mset (map ?f (sort_key ?f ?old)) = mset (map ?f ?old)"
      by simp
    then have "distinct (map ?f (sort_key ?f ?old))"
      using positions_ok_sorted(2) [OF ok, of round] by (rule mset_eq_imp_distinct_iff [THEN iffD2])
    with below show "distinct (map ?f (sort_key ?f ?old @ [?new]))"
      by (auto simp del: mset_map)
  qed
  then show ?thesis
    by (simp add: query_submissions_def Let_def queried_submission_make_def)
qed

section \<open>The allow list\<close>

lemma dom_allowlist_add_bots:
  "allowlist_add_bots api bots l = Inr l' \<Longrightarrow>
     dom (kv_may_load l') = dom (kv_may_load l) \<union> {a. Some a \<in> validated_addr api ` set bots}"
proof (induction bots arbitrary: l)
  case (Cons b bots)
  then obtain a where a: "addr_validate api b = Inr a" by auto
  with Cons.prems have "dom (kv_may_load l') =
      dom (kv_may_load (if \<not> kv_has l a then kv_save a () l else l)) \<union> {a. Some a \<in> validated_addr api ` set bots}"
    by (intro Cons.IH) simp
  also have "dom (kv_may_load (if \<not> kv_has l a then kv_save a () l else l)) = insert a (dom (kv_may_load l))"
    by (auto simp: kv_has_def split: if_splits)
  finally show ?case using a by (auto simp: validated_addr_Inr)
qed auto

lemma dom_allowlist_remove_bots:
  "allowlist_remove_bots api bots l = Inr l' \<Longrightarrow>
     dom (kv_may_load l') = dom (kv_may_load l) - {a. Some a \<in> validated_addr api ` set bots}"
proof (induction bots arbitrary: l)
  case (Cons b bots)
  then obtain a where a: "addr_validate api b = Inr a" by auto
  with Cons.prems have "dom (kv_may_load l') =
      dom (kv_may_load (if kv_has l a then kv_remove a l else l)) - {a. Some a \<in> validated_addr api ` set bots}"
    by (intro Cons.IH) simp
  also have "dom (kv_may_load (if kv_has l a then kv_remove a l else l)) = dom (kv_may_load l) - {a}"
    by (auto simp: kv_has_def split: if_splits)
  finally show ?case using a by (auto simp: validated_addr_Inr)
qed auto

interpretation bot_allowlist: allowlist "\<lambda>l. dom (kv_may_load l)" "validated_addr api"
  "allowlist_add_bots api" "allowlist_remove_bots api" for api
  by unfold_locales (rule dom_allowlist_add_bots dom_allowlist_remove_bots, assumption)+

section \<open>A sample run\<close>

text \<open>
  A signature scheme in which the signature of a round is the round itself, and a run: the
  gateway is set, a bot allow-listed and registered, and the bot submits round 50.
\<close>

definition sample_drand_api :: drand_api where
  "sample_drand_api = \<lparr>addr_validate = Inr, addr_canonicalize = (\<lambda>s. Inr (as_bytes s)),
     addr_humanize = (\<lambda>b. Inr (map (\<lambda>w. char_of (unat w)) b)), instantiate2_address = (\<lambda>_ _ salt. Inr salt),
     sha256 = (\<lambda>_. [0]), anybuf_into_vec = (\<lambda>_. []), show_std_error = (\<lambda>_. []), show_timestamp = (\<lambda>_. []),
     from_fixed_unchecked = Inr, verify = (\<lambda>_ round _ signature. Inr (signature = [ucast round])),
     derive_randomness = (\<lambda>signature. signature)\<rparr>"

definition sample_drand_state :: "addr option \<Rightarrow> (addr, bot) kv \<Rightarrow> (addr, unit) kv \<Rightarrow> drand_state" where
  "sample_drand_state gw bots allowed = \<lparr>CONTRACT_INFO = Some (''nois-drand'', CARGO_PKG_VERSION),
     CONFIG = Some \<lparr>manager = ''mgr'', gateway = gw, min_round = 10, incentive_point_price = 20,
                     incentive_denom = ''unois''\<rparr>,
     BEACONS = [], BOTS = bots, ALLOWLIST = allowed, SUBMISSIONS = [], SUBMISSIONS_COUNT = [],
     INCENTIVIZED_BY_GATEWAY = []\<rparr>"

abbreviation sample_drand_init :: drand_state where
  "sample_drand_init \<equiv> sample_drand_state None [] []"

abbreviation sample_bot :: "u64 \<Rightarrow> u64 \<Rightarrow> bot" where
  "sample_bot n p \<equiv> \<lparr>moniker = ''Bot'', rounds_added = n, reward_points = p\<rparr>"

definition sample_drand_setup :: "(querier \<times> env \<times> message_info \<times> drand_execute_msg) list" where
  "sample_drand_setup =
     [sample_tx ''mgr'' (SetConfig None (Some ''gw'') None None None),
      sample_tx ''mgr'' (UpdateAllowlistBots [''bot''] []),
      sample_tx ''bot'' (RegisterBot ''Bot'')]"

abbreviation sample_drand_ready :: drand_state where
  "sample_drand_ready \<equiv> sample_drand_state (Some ''gw'') [(''bot'', sample_bot 0 0)] [(''bot'', ())]"

definition sample_drand_done :: drand_state where
  "sample_drand_done = sample_drand_ready\<lparr>
     BEACONS := [(50, \<lparr>verified = block_time sample_env, randomness = [50]\<rparr>)],
     BOTS := [(''bot'', sample_bot 1 50)],
     SUBMISSIONS := [((50, ''bot''), \<lparr>pos = 1, sub_time = block_time sample_env, sub_height = block_height sample_env,
        sub_tx_index = tx_index sample_env\<rparr>)],
     SUBMISSIONS_COUNT := [(50, 1)]\<rparr>"

definition sample_drand_response :: "nois_gateway_execute_msg response" where
  "sample_drand_response = \<lparr>messages = [new_msg (WasmExecute ''gw'' (AddVerifiedRound 50 [50] True) []),
       new_msg (BankSend ''bot'' [\<lparr>amount = 1000, denom = ''unois''\<rparr>])],
     attributes = [(''round'', Text (show_word (50 :: u64))), (''randomness'', HexText [50]), (''bot'', Text ''bot''),
       (''reward_points'', Text (show_word (50 :: u64))), (''reward_payout'', CoinText \<lparr>amount = 1000, denom = ''unois''\<rparr>)],
     events = []\<rparr>"

lemmas sample_drand_defs = sample_drand_state_def sample_drand_api_def sample_env_def sample_querier_def sample_tx_def
  load_config_drand_def kv_may_load_def kv_has_def

lemma sample_drand_instantiated:
  "instantiate_drand sample_drand_api sample_env \<lparr>sender = ''x'', funds = []\<rparr>
     (DrandInstantiateMsg ''mgr'' 10 20 ''unois'') empty_drand_state = Inr (sample_drand_init, default_response)"
  by (simp add: instantiate_drand_def sample_drand_defs empty_drand_state_def set_contract_version_def)

lemma sample_drand_setup_run: "run (drand_tx sample_drand_api) sample_drand_setup sample_drand_init = sample_drand_ready"
proof -
  have 1: "drand_tx sample_drand_api (sample_tx ''mgr'' (SetConfig None (Some ''gw'') None None None)) sample_drand_init
     = Inr (sample_drand_state (Some ''gw'') [] [], default_response)"
    by (simp add: sample_drand_defs execute_set_config_drand_def)
  have 2: "drand_tx sample_drand_api (sample_tx ''mgr'' (UpdateAllowlistBots [''bot''] [])) (sample_drand_state (Some ''gw'') [] [])
     = Inr (sample_drand_state (Some ''gw'') [] [(''bot'', ())], default_response)"
    by (simp add: sample_drand_defs execute_update_allowlist_bots_def)
  have 3: "drand_tx sample_drand_api (sample_tx ''bot'' (RegisterBot ''Bot'')) (sample_drand_state (Some ''gw'') [] [(''bot'', ())])
     = Inr (sample_drand_ready, default_response)"
    by (simp add: sample_drand_defs execute_register_bot_def validate_moniker_def MAX_MONIKER_LEN_def)
  show ?thesis
    by (simp add: sample_drand_setup_def commit_Inr [where h = "drand_tx sample_drand_api", OF 1] commit_Inr [where h = "drand_tx sample_drand_api", OF 2] commit_Inr [where h = "drand_tx sample_drand_api", OF 3])
qed

lemma sample_drand_sel:
  "CONFIG (sample_drand_state gw bots allowed) = Some \<lparr>manager = ''mgr'', gateway = gw, min_round = 10,
     incentive_point_price = 20, incentive_denom = ''unois''\<rparr>"
  "BEACONS (sample_drand_state gw bots allowed) = []" "BOTS (sample_drand_state gw bots allowed) = bots"
  "ALLOWLIST (sample_drand_state gw bots allowed) = allowed" "SUBMISSIONS (sample_drand_state gw bots allowed) = []"
  "submissions_count (sample_drand_state gw bots allowed) r = 0"
  "SUBMISSIONS_COUNT (sample_drand_state gw bots allowed) = []"
  by (simp_all add: sample_drand_state_def submissions_count_def)

lemma sample_drand_submission:
  "drand_tx sample_drand_api (sample_tx ''bot'' (AddRound 50 [50])) sample_drand_ready
     = Inr (sample_drand_done, sample_drand_response)"
proof -
  have check: "check_submission sample_drand_api 50 [50] sample_drand_ready = Inr ([50], True, 50)"
    by (simp add: check_submission_Inr sample_drand_sel submission_points_def valid_signature_def sample_drand_api_def)
  have inc: "is_incentivized sample_drand_api sample_drand_ready ''bot'' 50 10"
    by (simp add: is_incentivized_def is_incentivized_round_def sample_drand_defs group_def eligible_group_def)
  have balance: "query_balance sample_querier a d = Inr \<lparr>amount = 100000, denom = d\<rparr>" for a d
    by (simp add: sample_querier_def)
  show ?thesis
    by (simp add: sample_tx_def execute_add_round_def load_config_drand_def check inc balance sample_drand_sel
       credit_bot_def add_c_def calculate_payout_def mul_c_def kv_may_load_def kv_has_def Let_def
       sample_drand_done_def sample_drand_response_def
       del: result_inversion)
qed

lemma sample_drand_stored:
  "kv_may_load (BEACONS (run (drand_tx sample_drand_api)
      (sample_drand_setup @ [sample_tx ''bot'' (AddRound 50 [50])]) sample_drand_init)) 50
     = Some \<lparr>verified = block_time sample_env, randomness = [50]\<rparr>"
  by (simp add: sample_drand_setup_run commit_Inr [where h = "drand_tx sample_drand_api", OF sample_drand_submission])
    (simp add: sample_drand_done_def kv_may_load_def)

section \<open>Properties\<close>

lemma beacon_genuine:
  "beacons_ok api st \<Longrightarrow> kv_may_load (BEACONS st) round = Some b \<Longrightarrow>
     \<exists>signature. valid_signature api round signature \<and> randomness b = derive_randomness api signature"
  by (simp add: beacons_ok_def)

lemma add_round_books:
  assumes "execute_add_round api q env info round signature st = Inr (st', res)"
  shows "\<not> kv_has (SUBMISSIONS st) (round, sender info)"
    and "kv_has (SUBMISSIONS st') (round, sender info)"
  by (rule execute_add_round_Inr [OF assms], assumption, rule execute_add_round_Inr [OF assms], simp)

lemma add_round_inv:
  assumes "drand_inv api st" and "execute_add_round api q env info round signature st = Inr (st', res)"
  shows "drand_inv api st'"
  by (rule drand_tx_inv [OF assms(1), of "(q, env, info, AddRound round signature)"]) (simp add: assms(2))

lemma drand_run_inv:
  assumes "instantiate_drand a env info msg empty_drand_state = Inr (st0, res0)"
  shows "drand_inv api (run (drand_tx api) ts st0)"
  using drand_inv_init [OF assms] by (rule beacon_book.run_inv)

lemma query_submissions_length:
  assumes "drand_inv api st"
  shows "length (query_submissions st r) = unat (submissions_count st r)"
proof -
  have "mset (submission_positions st r) = mset (map Suc [0..<unat (submissions_count st r)])"
    using assms by (simp add: drand_inv_def positions_ok_def)
  then have "size (mset (submission_positions st r)) = size (mset (map Suc [0..<unat (submissions_count st r)]))"
    by (rule arg_cong)
  then show ?thesis
    by (simp add: submission_positions_def query_submissions_def)
qed

lemma checked_randomness_is_stored:
  assumes inv: "drand_inv api st"
    and unique: "\<And>s s'. valid_signature api r s \<Longrightarrow> valid_signature api r s' \<Longrightarrow>
      derive_randomness api s = derive_randomness api s'"
    and check: "check_submission api r signature st = Inr (rand, vtx, points)"
    and stored: "kv_may_load (BEACONS st) r = Some b"
  shows "randomness b = rand"
proof -
  obtain s where "valid_signature api r s" "randomness b = derive_randomness api s"
    using inv stored beacon_genuine [of api st r b] by (auto simp: drand_inv_def)
  then have "derive_randomness api signature = randomness b" if "valid_signature api r signature"
    using unique [of signature s] that by simp
  then show ?thesis
    using check stored by (auto simp: check_submission_Inr split: if_splits)
qed

text \<open>
  C3: Whatever is submitted, by whomever and in whatever order, a beacon the contract stores for a
  round carries randomness derived from a signature of that round that verifies under the drand
  public key.
\<close>

theorem stored_beacons_are_genuine:
  assumes "instantiate_drand a env info msg empty_drand_state = Inr (st0, res0)"
    and "kv_may_load (BEACONS (run (drand_tx api) ts st0)) round = Some b"
  shows "\<exists>signature. valid_signature api round signature \<and> randomness b = derive_randomness api signature"
  using drand_run_inv [OF assms(1), of api ts] assms(2)
  by (intro beacon_genuine) (simp_all add: drand_inv_def)

theorem stored_beacons_are_genuine_witness:
  "kv_may_load (BEACONS (run (drand_tx sample_drand_api)
      (sample_drand_setup @ [sample_tx ''bot'' (AddRound 50 [50])]) sample_drand_init)) 50
     = Some \<lparr>verified = block_time sample_env, randomness = [50]\<rparr> \<and>
   (\<exists>signature. valid_signature sample_drand_api 50 signature \<and>
      randomness \<lparr>verified = block_time sample_env, randomness = [50]\<rparr> = derive_randomness sample_drand_api signature)"
  using stored_beacons_are_genuine [OF sample_drand_instantiated sample_drand_stored] sample_drand_stored
  by blast

text \<open>
  C17: Once stored, a beacon is final: no later sequence of transactions changes its randomness or
  its verification time, or drops it.
\<close>

theorem stored_beacons_are_final:
  assumes "instantiate_drand a env info msg empty_drand_state = Inr (st0, res0)"
    and "kv_may_load (BEACONS (run (drand_tx api) ts st0)) round = Some b"
  shows "kv_may_load (BEACONS (run (drand_tx api) (ts @ us) st0)) round = Some b"
  using beacon_book.run_keeps [OF drand_run_inv [OF assms(1)] assms(2)] by simp

theorem stored_beacons_are_final_witness:
  "kv_may_load (BEACONS (run (drand_tx sample_drand_api)
      ((sample_drand_setup @ [sample_tx ''bot'' (AddRound 50 [50])]) @ [sample_tx ''rival'' (AddRound 50 [50])])
      sample_drand_init)) 50 = Some \<lparr>verified = block_time sample_env, randomness = [50]\<rparr>"
  by (rule stored_beacons_are_final [OF sample_drand_instantiated sample_drand_stored])

text \<open>
  C18: Every accepted submission for a round leaves a beacon of the round in the store, and among its
  messages there is exactly one call of another contract if a gateway is configured, and none
  otherwise. That call adds the round to the configured gateway with the stored randomness, also when
  the submission itself was not verified, and is marked as verifying for the first three submissions
  exactly. The signatures of the round are assumed to be unique (the property of BLS signatures
  that drand is built on, here: two valid signatures derive the same randomness).
\<close>

theorem submissions_forward_the_stored_randomness:
  assumes "instantiate_drand a env0 info0 msg empty_drand_state = Inr (st0, res0)"
    and "st = run (drand_tx api) ts st0"
    and unique: "\<And>s s'. valid_signature api round s \<Longrightarrow> valid_signature api round s' \<Longrightarrow>
      derive_randomness api s = derive_randomness api s'"
    and config: "CONFIG st = Some config"
    and step: "drand_tx api (q, env, info, AddRound round signature) st = Inr (st', res)"
  shows "\<exists>beacon. kv_may_load (BEACONS st') round = Some beacon \<and>
     [m \<leftarrow> map sub_msg (messages res). \<exists>addr forwarded coins. m = WasmExecute addr forwarded coins] =
       (case gateway config of
          None \<Rightarrow> []
        | Some gw \<Rightarrow> [WasmExecute gw (AddVerifiedRound round (randomness beacon)
            (length (query_submissions st round) < 3)) []])"
proof (rule execute_add_round_Inr [OF step [unfolded drand_tx.simps execute_drand.simps]])
  fix config' n bots payout rand vtx points
  assume config': "CONFIG st = Some config'"
    and check: "check_submission api round signature st = Inr (rand, vtx, submission_points (submissions_count st round))"
    and st': "st' = st\<lparr>SUBMISSIONS := kv_save (round, sender info)
         \<lparr>pos = n, sub_time = block_time env, sub_height = block_height env, sub_tx_index = tx_index env\<rparr> (SUBMISSIONS st),
       SUBMISSIONS_COUNT := kv_save round n (SUBMISSIONS_COUNT st), BOTS := bots,
       BEACONS := (if kv_has (BEACONS st) round then BEACONS st
         else kv_save round \<lparr>verified = block_time env, randomness = rand\<rparr> (BEACONS st))\<rparr>"
    and ms: "messages res = (case gateway config' of None \<Rightarrow> []
         | Some gw \<Rightarrow> [new_msg (WasmExecute gw (AddVerifiedRound round rand vtx) [])])
       @ (if amount payout \<noteq> 0 then [new_msg (BankSend (sender info) [payout])] else [])"
  have inv: "drand_inv api st"
    using drand_run_inv [OF assms(1)] assms(2) by simp
  obtain beacon where "kv_may_load (BEACONS st') round = Some beacon" "randomness beacon = rand"
  proof (cases "kv_may_load (BEACONS st) round")
    case None
    with that show ?thesis by (simp add: st' kv_has_def)
  next
    case (Some b)
    have "randomness b = rand"
      by (rule checked_randomness_is_stored [OF inv _ check Some]) (rule unique)
    with Some that show ?thesis by (simp add: st' kv_has_def)
  qed
  moreover have "vtx \<longleftrightarrow> length (query_submissions st round) < 3"
    using check by (simp add: check_submission_Inr unat_lt_numeral query_submissions_length [OF inv])
  ultimately show ?thesis
    using config config' by (auto simp: ms split: option.split)
qed

theorem submissions_forward_the_stored_randomness_witness:
  "map_option gateway (CONFIG sample_drand_ready) = Some (Some ''gw'') \<and>
   (\<exists>beacon. kv_may_load (BEACONS sample_drand_done) 50 = Some beacon \<and>
     [m \<leftarrow> map sub_msg (messages sample_drand_response). \<exists>addr forwarded coins. m = WasmExecute addr forwarded coins] =
       [WasmExecute ''gw'' (AddVerifiedRound 50 (randomness beacon) (length (query_submissions sample_drand_ready 50) < 3)) []])"
proof -
  have "s = [50]" if "valid_signature sample_drand_api 50 s" for s
    using that by (simp add: valid_signature_def sample_drand_api_def)
  then have unique: "derive_randomness sample_drand_api s = derive_randomness sample_drand_api s'"
    if "valid_signature sample_drand_api 50 s" "valid_signature sample_drand_api 50 s'" for s s'
    using that by metis
  obtain config where config: "CONFIG sample_drand_ready = Some config" "gateway config = Some ''gw''"
    by (simp add: sample_drand_state_def)
  from submissions_forward_the_stored_randomness [OF sample_drand_instantiated sample_drand_setup_run [symmetric] unique config(1)
      sample_drand_submission [unfolded sample_tx_def]] config
  show ?thesis by simp
qed

text \<open>
  C19: The submissions query lists the submissions of a round in the order in which they were
  accepted: an accepted submission is appended at the end of what the query returned before.
\<close>

theorem submissions_are_listed_in_order:
  assumes "instantiate_drand a env0 info0 msg empty_drand_state = Inr (st0, res0)"
    and "st = run (drand_tx api) ts st0"
    and "execute_add_round api q env info round signature st = Inr (st', res)"
  shows "query_submissions st' round = query_submissions st round @
      [\<lparr>qs_bot = sender info, qs_time = block_time env, qs_height = block_height env, qs_tx_index = tx_index env\<rparr>]"
  using drand_run_inv [OF assms(1), of api ts] assms(2)
  by (intro query_submissions_add_round [OF _ assms(3)]) (simp add: drand_inv_def)

theorem submissions_are_listed_in_order_witness:
  "query_submissions sample_drand_done 50 = query_submissions sample_drand_ready 50 @
     [\<lparr>qs_bot = ''bot'', qs_time = block_time sample_env, qs_height = block_height sample_env,
       qs_tx_index = tx_index sample_env\<rparr>]"
  using submissions_are_listed_in_order [OF sample_drand_instantiated sample_drand_setup_run [symmetric]
    sample_drand_submission [unfolded sample_tx_def drand_tx.simps execute_drand.simps]]
  by simp

text \<open>
  C20: A bot submits at most once per round: after an accepted submission, no later sequence of
  transactions leads to a state in which the same sender's submission for the round is accepted.
\<close>

theorem no_second_submission:
  assumes "instantiate_drand a env0 info0 msg empty_drand_state = Inr (st0, res0)"
    and "st = run (drand_tx api) ts st0"
    and first: "execute_add_round api q env info round signature st = Inr (st1, res)"
    and "sender info' = sender info"
  shows "\<exists>e. execute_add_round api q' env' info' round signature' (run (drand_tx api) us st1) = Inl e"
proof -
  have inv: "drand_inv api st1"
    using drand_run_inv [OF assms(1)] first unfolding assms(2) by (rule add_round_inv)
  obtain s where "kv_may_load (SUBMISSIONS st1) (round, sender info) = Some s"
    using add_round_books(2) [OF first] by (auto simp: kv_has_def)
  then have taken: "kv_has (SUBMISSIONS (run (drand_tx api) us st1)) (round, sender info')"
    using submission_book.run_keeps [OF inv] assms(4) by (simp add: kv_has_def)
  show ?thesis
  proof (cases "execute_add_round api q' env' info' round signature' (run (drand_tx api) us st1)")
    case (Inr p)
    then have "execute_add_round api q' env' info' round signature' (run (drand_tx api) us st1) = Inr (fst p, snd p)"
      by simp
    from add_round_books(1) [OF this] taken show ?thesis by contradiction
  qed simp
qed

theorem no_second_submission_witness:
  "\<exists>e. execute_add_round sample_drand_api sample_querier sample_env \<lparr>sender = ''bot'', funds = []\<rparr> 50 [50]
     (run (drand_tx sample_drand_api) [sample_tx ''bot'' (RegisterBot ''New'')] sample_drand_done) = Inl e"
  by (rule no_second_submission [OF sample_drand_instantiated sample_drand_setup_run [symmetric]
    sample_drand_submission [unfolded sample_tx_def drand_tx.simps execute_drand.simps]]) simp

text \<open>
  C15: Over any run of the contract, the submissions for one round raise the reward points stored
  for all bots together by at most 195: 50 for each of the first three submissions and 15 for
  each of the next three.
\<close>

theorem round_rewards_are_bounded:
  assumes "instantiate_drand a env info msg empty_drand_state = Inr (st0, res0)"
  shows "total_cost (drand_tx api) (round_points api round) ts st0 \<le> 195"
proof -
  have "points_cap n \<le> 195" for n
    by (auto simp: points_cap_def min_def)
  then show ?thesis
    using round_meter.run_metered [OF drand_inv_init [OF assms], of api round ts]
    by (meson add_leD1 order_trans)
qed

theorem round_rewards_are_bounded_witness:
  "total_cost (drand_tx sample_drand_api) (round_points sample_drand_api 50)
      [sample_tx ''bot'' (AddRound 50 [50])] sample_drand_ready = 50 \<and>
   total_cost (drand_tx sample_drand_api) (round_points sample_drand_api 50)
      (sample_drand_setup @ [sample_tx ''bot'' (AddRound 50 [50])]) sample_drand_init \<le> 195"
proof
  have "commit (drand_tx sample_drand_api) (sample_tx ''bot'' (AddRound 50 [50])) sample_drand_ready = sample_drand_done"
    using sample_drand_submission by (rule commit_Inr)
  moreover have "bot_points sample_drand_done = 50" "bot_points sample_drand_ready = 0"
    by (simp_all add: bot_points_def sample_drand_done_def sample_drand_state_def kv_may_load_def [abs_def])
  ultimately show "total_cost (drand_tx sample_drand_api) (round_points sample_drand_api 50)
      [sample_tx ''bot'' (AddRound 50 [50])] sample_drand_ready = 50"
    by (simp add: round_points_def sample_tx_def)
qed (rule round_rewards_are_bounded [OF sample_drand_instantiated])

text \<open>
  C16: Tokens leave the contract only as the reward of an accepted submission: one coin in the
  configured denomination, sent to the submitting bot, which is registered, allow-listed and in the
  round's group; the amount is the points (50 or 15) times the configured price and covered by the
  contract's balance.
\<close>

theorem payouts_are_earned:
  assumes "drand_tx api t st = Inr (st', res)" and "BankSend recipient coins \<in> sub_msg ` set (messages res)"
  shows "\<exists>q env info round signature config c balance.
     t = (q, env, info, AddRound round signature) \<and> recipient = sender info \<and> coins = [c] \<and>
     CONFIG st = Some config \<and> denom c = incentive_denom config \<and>
     is_incentivized api st recipient round (min_round config) \<and>
     kv_has (BOTS st) recipient \<and> kv_has (ALLOWLIST st) recipient \<and> submissions_count st round < 6 \<and>
     unat (amount c) = (if submissions_count st round < 3 then 50 else 15) * unat (incentive_point_price config) \<and>
     query_balance q (contract_address env) (denom c) = Inr balance \<and> amount c \<le> amount balance"
  using assms(1)
proof (cases rule: drand_tx_cases)
  case (submit q env info round signature)
  from submit(2) show ?thesis
  proof (rule execute_add_round_Inr)
    fix config n bots payout rand vtx points
    assume config: "CONFIG st = Some config"
      and points: "points = (if eligible api st config (sender info) round
         then submission_points (submissions_count st round) else 0)"
      and pay: "calculate_payout q env config (eligible api st config (sender info) round) points = Inr payout"
      and ms: "messages res = (case gateway config of None \<Rightarrow> []
         | Some gw \<Rightarrow> [new_msg (WasmExecute gw (AddVerifiedRound round rand vtx) [])])
       @ (if amount payout \<noteq> 0 then [new_msg (BankSend (sender info) [payout])] else [])"
    have sent: "amount payout \<noteq> 0" "recipient = sender info" "coins = [payout]"
      using assms(2) by (auto simp: ms split: option.splits if_splits)
    note payout = calculate_payout_Inr(1) [OF pay] calculate_payout_Inr(2) [OF pay sent(1)]
    then obtain balance where el: "eligible api st config (sender info) round"
      and price: "unat (amount payout) = unat points * unat (incentive_point_price config)"
      and balance: "query_balance q (contract_address env) (denom payout) = Inr balance"
        "amount payout \<le> amount balance"
      by auto
    have "unat points = (if submissions_count st round < 3 then 50 else 15)"
      using el by (simp add: points eligible_def submission_points_def)
    with el have "t = (q, env, info, AddRound round signature) \<and> recipient = sender info \<and> coins = [payout] \<and>
       CONFIG st = Some config \<and> denom payout = incentive_denom config \<and>
       is_incentivized api st recipient round (min_round config) \<and>
       kv_has (BOTS st) recipient \<and> kv_has (ALLOWLIST st) recipient \<and> submissions_count st round < 6 \<and>
       unat (amount payout) = (if submissions_count st round < 3 then 50 else 15) * unat (incentive_point_price config) \<and>
       query_balance q (contract_address env) (denom payout) = Inr balance \<and> amount payout \<le> amount balance"
      using payout(1) sent config submit(1) price balance by (simp only: eligible_def simp_thms)
    then show ?thesis by (intro exI)
  qed
next
  case other
  with assms(2) show ?thesis by simp
qed

theorem payouts_are_earned_witness:
  "\<exists>q env info round signature config c balance.
     sample_tx ''bot'' (AddRound 50 [50]) = (q, env, info, AddRound round signature) \<and>
     ''bot'' = sender info \<and> [\<lparr>amount = 1000, denom = ''unois''\<rparr>] = [c] \<and>
     CONFIG sample_drand_ready = Some config \<and> denom c = incentive_denom config \<and>
     is_incentivized sample_drand_api sample_drand_ready ''bot'' round (min_round config) \<and>
     kv_has (BOTS sample_drand_ready) ''bot'' \<and> kv_has (ALLOWLIST sample_drand_ready) ''bot'' \<and>
     submissions_count sample_drand_ready round < 6 \<and>
     unat (amount c) = (if submissions_count sample_drand_ready round < 3 then 50 else 15)
       * unat (incentive_point_price config) \<and>
     query_balance q (contract_address env) (denom c) = Inr balance \<and> amount c \<le> amount balance"
  by (rule payouts_are_earned [OF sample_drand_submission]) (simp add: sample_drand_response_def)

text \<open>
  Updating the allow list adds first and removes then, so that an address in both lists ends up
  removed; every other entry stays, and nothing but the allow list changes.
\<close>

theorem allowlist_after_update:
  assumes "execute_update_allowlist_bots api info add remove st = Inr (st', res)"
  shows "st'\<lparr>ALLOWLIST := ALLOWLIST st\<rparr> = st \<and>
    dom (kv_may_load (ALLOWLIST st')) =
      (dom (kv_may_load (ALLOWLIST st)) \<union> {a. Some a \<in> validated_addr api ` set add})
        - {a. Some a \<in> validated_addr api ` set remove}"
proof -
  from assms obtain l1 l2 where "allowlist_add_bots api add (ALLOWLIST st) = Inr l1"
    and "allowlist_remove_bots api remove l1 = Inr l2" and "st' = st\<lparr>ALLOWLIST := l2\<rparr>"
    by (auto simp: execute_update_allowlist_bots_def split: if_splits)
  with bot_allowlist.listed_add_then_remove [OF this(1,2)] show ?thesis by simp
qed

theorem allowlist_after_update_witness:
  "dom (kv_may_load (ALLOWLIST (sample_drand_state (Some ''gw'') [] [(''bot'', ())]))) =
     (dom (kv_may_load (ALLOWLIST (sample_drand_state (Some ''gw'') [] []))) \<union>
        {a. Some a \<in> validated_addr sample_drand_api ` set [''bot'']})
      - {a. Some a \<in> validated_addr sample_drand_api ` set []}"
proof -
  have "execute_update_allowlist_bots sample_drand_api \<lparr>sender = ''mgr'', funds = []\<rparr> [''bot''] []
      (sample_drand_state (Some ''gw'') [] [])
     = Inr (sample_drand_state (Some ''gw'') [] [(''bot'', ())], default_response)"
    by (simp add: sample_drand_defs execute_update_allowlist_bots_def)
  from allowlist_after_update [OF this] show ?thesis by simp
qed

text \<open>
  Only the manager changes the configuration or the allow list, and only the configured gateway
  marks rounds as incentivized: for every other sender these messages fail with
  \<open>Unauthorized\<close>, whatever their content.
\<close>

theorem drand_privileged_messages:
  assumes "CONFIG st = Some config"
  shows "(sender info \<noteq> manager config \<longrightarrow>
       execute_drand api q env info (SetConfig ma gw mr price dnm) st = Inl (Error drand_error.Unauthorized) \<and>
       execute_drand api q env info (UpdateAllowlistBots add remove) st = Inl (Error drand_error.Unauthorized)) \<and>
    (Some (sender info) \<noteq> gateway config \<longrightarrow>
       execute_drand api q env info (SetIncentivized round) st = Inl (Error drand_error.Unauthorized))"
  using assms
  by (simp add: execute_set_config_drand_def execute_update_allowlist_bots_def
      execute_set_incentivized_def load_config_drand_def)

theorem drand_privileged_messages_witness:
  "execute_drand sample_drand_api sample_querier sample_env \<lparr>sender = ''eve'', funds = []\<rparr>
     (SetConfig (Some ''eve'') None None None None) sample_drand_ready = Inl (Error drand_error.Unauthorized)"
  using drand_privileged_messages [OF sample_drand_sel(1) [of "Some ''gw''" "[(''bot'', sample_bot 0 0)]" "[(''bot'', ())]"],
    of "\<lparr>sender = ''eve'', funds = []\<rparr>" sample_drand_api sample_querier sample_env "Some ''eve''" None None None None]
  by simp

end
