(* ===== verification/Protocol.thy ===== *)
theory Protocol
  imports Cosmos
begin

text \<open>
  packages/nois-protocol: the packets that travel between nois-proxy and nois-gateway, the
  packet lifetimes and the checks both sides run when a channel is opened. The JSON codec of the
  packets is the record \<open>codec\<close>, an argument of the handlers that encode or decode.
\<close>

datatype in_packet =
    RequestBeacon (rb_after: timestamp) (rb_origin: binary)
  | PullBeaconPrice

datatype in_packet_ack =
    RequestProcessed string
  | RequestQueued string
  | PullBeaconPriceAck timestamp u128 string

datatype out_packet =
    DeliverBeacon (db_source_id: string) (db_published: timestamp) (db_randomness: binary)
      (db_origin: binary)
  | Welcome string
  | PushBeaconPrice timestamp u128 string

datatype out_packet_ack = DeliverBeaconAck | WelcomeAck | PushBeaconPriceAck

definition IBC_APP_VERSION :: string where
  "IBC_APP_VERSION = ''nois-v7''"

definition APP_ORDER :: ibc_order where
  "APP_ORDER = Unordered"

definition BAD_APP_ORDER :: ibc_order where
  "BAD_APP_ORDER = Ordered"

definition REQUEST_BEACON_PACKET_LIFETIME :: u64 where
  "REQUEST_BEACON_PACKET_LIFETIME = 100 * 24 * 3600"

definition DELIVER_BEACON_PACKET_LIFETIME :: u64 where
  "DELIVER_BEACON_PACKET_LIFETIME = 100 * 24 * 3600"

definition BEACON_PRICE_PACKET_LIFETIME :: u64 where
  "BEACON_PRICE_PACKET_LIFETIME = 100 * 24 * 3600"

definition WELCOME_PACKET_LIFETIME :: u64 where
  "WELCOME_PACKET_LIFETIME = 100 * 24 * 3600"

definition TRANSFER_PACKET_LIFETIME :: u64 where
  "TRANSFER_PACKET_LIFETIME = 24 * 3600"

datatype channel_error = InvalidChannelOrder | InvalidChannelVersion string

definition check_order :: "ibc_order \<Rightarrow> channel_error + unit" where
  "check_order ord = (if ord \<noteq> APP_ORDER then Inl InvalidChannelOrder else Inr ())"

definition check_version :: "string \<Rightarrow> channel_error + unit" where
  "check_version version =
     (if version \<noteq> IBC_APP_VERSION then Inl (InvalidChannelVersion IBC_APP_VERSION) else Inr ())"

fun show_channel_error :: "channel_error \<Rightarrow> string" where
  "show_channel_error InvalidChannelOrder = ''Only supports unordered channels''"
| "show_channel_error (InvalidChannelVersion v) = ''Counterparty version must be '' @ [CHR 0x27] @ v @ [CHR 0x27]"

text \<open>
  \<open>to_json_binary\<close> and \<open>from_json\<close> at the packet types. Encoding these types does not fail;
  decoding arbitrary bytes may.
\<close>

record codec =
  enc_in_packet :: "in_packet \<Rightarrow> binary"
  dec_in_packet :: "binary \<Rightarrow> std_error + in_packet"
  enc_in_packet_ack :: "in_packet_ack \<Rightarrow> binary"
  dec_in_packet_ack :: "binary \<Rightarrow> std_error + in_packet_ack"
  enc_out_packet :: "out_packet \<Rightarrow> binary"
  dec_out_packet :: "binary \<Rightarrow> std_error + out_packet"
  enc_out_packet_ack :: "out_packet_ack \<Rightarrow> binary"
  dec_out_packet_ack :: "binary \<Rightarrow> std_error + out_packet_ack"
  dec_std_ack :: "binary \<Rightarrow> std_error + std_ack"

text \<open>What the two sides rely on: decoding an encoded packet gives it back.\<close>

definition codec_roundtrip :: "('a \<Rightarrow> binary) \<Rightarrow> (binary \<Rightarrow> std_error + 'a) \<Rightarrow> bool" where
  "codec_roundtrip enc dec \<longleftrightarrow> (\<forall>x. dec (enc x) = Inr x)"

lemma codec_roundtripD [dest]: "codec_roundtrip enc dec \<Longrightarrow> dec (enc x) = Inr x"
  by (simp add: codec_roundtrip_def)

definition codec_ok :: "'a codec_scheme \<Rightarrow> bool" where
  "codec_ok codec \<longleftrightarrow>
     codec_roundtrip (enc_in_packet codec) (dec_in_packet codec) \<and>
     codec_roundtrip (enc_in_packet_ack codec) (dec_in_packet_ack codec) \<and>
     codec_roundtrip (enc_out_packet codec) (dec_out_packet codec) \<and>
     codec_roundtrip (enc_out_packet_ack codec) (dec_out_packet_ack codec)"

lemma codec_okD:
  assumes "codec_ok codec"
  shows "dec_in_packet codec (enc_in_packet codec p) = Inr p"
    and "dec_in_packet_ack codec (enc_in_packet_ack codec pa) = Inr pa"
    and "dec_out_packet codec (enc_out_packet codec q) = Inr q"
    and "dec_out_packet_ack codec (enc_out_packet_ack codec qa) = Inr qa"
  using assms by (auto simp: codec_ok_def)

lemma check_order_eq_Inr [simp]: "check_order ord = Inr u \<longleftrightarrow> ord = Unordered"
  by (auto simp: check_order_def APP_ORDER_def)

lemma check_version_eq_Inr [simp]: "check_version v = Inr u \<longleftrightarrow> v = IBC_APP_VERSION"
  by (auto simp: check_version_def)

lemma unat_lifetimes [simp]:
  "unat REQUEST_BEACON_PACKET_LIFETIME = 8640000"
  "unat DELIVER_BEACON_PACKET_LIFETIME = 8640000"
  "unat BEACON_PRICE_PACKET_LIFETIME = 8640000"
  "unat WELCOME_PACKET_LIFETIME = 8640000"
  "unat TRANSFER_PACKET_LIFETIME = 86400"
  by (simp_all add: REQUEST_BEACON_PACKET_LIFETIME_def DELIVER_BEACON_PACKET_LIFETIME_def
      BEACON_PRICE_PACKET_LIFETIME_def WELCOME_PACKET_LIFETIME_def TRANSFER_PACKET_LIFETIME_def)

section \<open>A sample codec\<close>

text \<open>
  A codec with the round trips the contracts rely on: a tag byte, then the fields, each prefixed
  by its length in unary. It stands in for JSON in the development's examples.
\<close>

definition enc_bytes :: "binary \<Rightarrow> binary" where
  "enc_bytes xs = replicate (length xs) 1 @ 0 # xs"

definition dec_bytes :: "binary \<Rightarrow> binary \<times> binary" where
  "dec_bytes b = (let n = length (takeWhile (\<lambda>x. x = 1) b)
     in (take n (drop (Suc n) b), drop (Suc (2 * n)) b))"

definition enc_num :: "'w::len word \<Rightarrow> binary" where
  "enc_num w = enc_bytes (replicate (unat w) 0)"

definition dec_num :: "binary \<Rightarrow> 'w::len word \<times> binary" where
  "dec_num b = (of_nat (length (fst (dec_bytes b))), snd (dec_bytes b))"

definition of_bytes :: "binary \<Rightarrow> string" where
  "of_bytes b = map (\<lambda>w. char_of (unat w)) b"

lemma of_bytes_as_bytes [simp]: "of_bytes (as_bytes s) = s"
proof -
  have "char_of (unat (of_char c :: u8)) = c" for c
  proof -
    have "unat (of_char c :: u8) = unat (of_nat (of_char c) :: u8)"
      by (simp only: of_nat_of_char)
    also have "\<dots> = of_char c mod 256"
      by (simp only: unat_of_nat) simp
    finally show ?thesis by simp
  qed
  then show ?thesis by (simp add: of_bytes_def as_bytes_def comp_def)
qed

lemma dec_enc_bytes [simp]: "dec_bytes (enc_bytes xs @ ys) = (xs, ys)" "dec_bytes (enc_bytes xs) = (xs, [])"
proof -
  have "takeWhile (\<lambda>x. x = 1) (replicate n 1 @ 0 # zs) = replicate n (1 :: u8)" for n zs
    by (induction n) simp_all
  then have *: "dec_bytes (enc_bytes xs @ ys) = (xs, ys)" for ys
    by (simp add: dec_bytes_def enc_bytes_def Let_def)
  show "dec_bytes (enc_bytes xs @ ys) = (xs, ys)" by (rule *)
  show "dec_bytes (enc_bytes xs) = (xs, [])" using * [of "[]"] by simp
qed

lemma dec_enc_num [simp]:
  "dec_num (enc_num w @ ys) = (w, ys)" "dec_num (enc_num w) = (w, [])"
  by (simp_all add: dec_num_def enc_num_def)

definition sample_codec :: codec where
  "sample_codec = \<lparr>
     enc_in_packet = (\<lambda>p. case p of
         RequestBeacon after orig \<Rightarrow> 1 # enc_num after @ enc_bytes orig
       | PullBeaconPrice \<Rightarrow> [2]),
     dec_in_packet = (\<lambda>b. case b of [] \<Rightarrow> Inl (OtherStdError []) | t # r \<Rightarrow>
       if t = 1 then (let (after, r1) = dec_num r in Inr (RequestBeacon after (fst (dec_bytes r1))))
       else Inr PullBeaconPrice),
     enc_in_packet_ack = (\<lambda>p. case p of
         RequestProcessed s \<Rightarrow> 1 # enc_bytes (as_bytes s)
       | RequestQueued s \<Rightarrow> 2 # enc_bytes (as_bytes s)
       | PullBeaconPriceAck t a d \<Rightarrow> 3 # enc_num t @ enc_num a @ enc_bytes (as_bytes d)),
     dec_in_packet_ack = (\<lambda>b. case b of [] \<Rightarrow> Inl (OtherStdError []) | t # r \<Rightarrow>
       if t = 1 then Inr (RequestProcessed (of_bytes (fst (dec_bytes r))))
       else if t = 2 then Inr (RequestQueued (of_bytes (fst (dec_bytes r))))
       else (let (ts, r1) = dec_num r; (a, r2) = dec_num r1
             in Inr (PullBeaconPriceAck ts a (of_bytes (fst (dec_bytes r2)))))),
     enc_out_packet = (\<lambda>p. case p of
         DeliverBeacon s t rand orig \<Rightarrow> 1 # enc_bytes (as_bytes s) @ enc_num t @ enc_bytes rand @ enc_bytes orig
       | Welcome a \<Rightarrow> 2 # enc_bytes (as_bytes a)
       | PushBeaconPrice t a d \<Rightarrow> 3 # enc_num t @ enc_num a @ enc_bytes (as_bytes d)),
     dec_out_packet = (\<lambda>b. case b of [] \<Rightarrow> Inl (OtherStdError []) | t # r \<Rightarrow>
       if t = 1 then (let (s, r1) = dec_bytes r; (ts, r2) = dec_num r1; (rand, r3) = dec_bytes r2
             in Inr (DeliverBeacon (of_bytes s) ts rand (fst (dec_bytes r3))))
       else if t = 2 then Inr (Welcome (of_bytes (fst (dec_bytes r))))
       else (let (ts, r1) = dec_num r; (a, r2) = dec_num r1
             in Inr (PushBeaconPrice ts a (of_bytes (fst (dec_bytes r2)))))),
     enc_out_packet_ack = (\<lambda>p. case p of DeliverBeaconAck \<Rightarrow> [1] | WelcomeAck \<Rightarrow> [2] | PushBeaconPriceAck \<Rightarrow> [3]),
     dec_out_packet_ack = (\<lambda>b. if b = [1] then Inr DeliverBeaconAck else if b = [2] then Inr WelcomeAck
       else Inr PushBeaconPriceAck),
     dec_std_ack = (\<lambda>b. case b of [] \<Rightarrow> Inl (OtherStdError []) | t # r \<Rightarrow>
       if t = 1 then Inr (AckSuccess r) else Inr (AckError (of_bytes r)))\<rparr>"

lemma sample_codec_ok: "codec_ok sample_codec"
proof -
  have "dec_in_packet sample_codec (enc_in_packet sample_codec p) = Inr p" for p
    by (cases p) (simp_all add: sample_codec_def)
  moreover have "dec_in_packet_ack sample_codec (enc_in_packet_ack sample_codec p) = Inr p" for p
    by (cases p) (simp_all add: sample_codec_def)
  moreover have "dec_out_packet sample_codec (enc_out_packet sample_codec p) = Inr p" for p
    by (cases p) (simp_all add: sample_codec_def)
  moreover have "dec_out_packet_ack sample_codec (enc_out_packet_ack sample_codec p) = Inr p" for p
    by (cases p) (simp_all add: sample_codec_def)
  ultimately show ?thesis by (simp add: codec_ok_def codec_roundtrip_def)
qed

end
