(* ===== verification/GatewayState.thy ===== *)
theory GatewayState
  imports DrandCommon Protocol Drand Payment
begin

text \<open>
  The storage of contracts/nois-gateway (src/state, src/drand_archive.rs, src/job_id.rs): the
  queue of unprocessed jobs per drand round, the statistics, the customers, the request log and
  the randomness archive. The lemmas show that the job table is a family of first-in first-out
  queues, one per round.
\<close>

section \<open>State\<close>

datatype gateway_error =
    Std std_error
  | Unauthorized
  | CodeIdDoesNotExist u64
  | OriginTooLong
  | UnauthorizedAddVerifiedRound
  | MustBeChainB
  | UnsupportedPacketType
  | ChannelError channel_error
  | ChannelAlreadyRegistered

record gateway_config =
  drand :: "addr option"
  trusted_sources :: "addr list option"
  manager :: addr
  price :: coin
  payment_code_id :: u64
  payment_initial_funds :: "coin option"
  sink :: addr

record job =
  source_id :: string
  channel :: string
  origin :: binary

record customer =
  payment :: addr
  requested_beacons :: u64

record request_log_entry =
  log_origin :: binary
  log_tx :: "u64 \<times> u32 option"
  log_source_id :: string
  log_queued :: bool

record gateway_state = contract_state +
  CONFIG :: "gateway_config option"
  JOBS :: "(u32 \<times> u16, job) kv"
  LAST_JOB_ID :: "(u32, u16) kv"
  PROCESSED_DRAND_JOBS_COUNT :: "(u64, u32) kv"
  CUSTOMERS :: "(string, customer) kv"
  REQUESTS_LOG :: "(string, request_log_entry list) kv"
  DRAND_ARCHIVE :: "(binary, binary) kv"

definition empty_gateway_state :: gateway_state where
  "empty_gateway_state = \<lparr>CONTRACT_INFO = None, CONFIG = None, JOBS = [], LAST_JOB_ID = [],
     PROCESSED_DRAND_JOBS_COUNT = [], CUSTOMERS = [], REQUESTS_LOG = [], DRAND_ARCHIVE = []\<rparr>"

section \<open>Jobs\<close>

definition u32_round :: "u64 \<Rightarrow> 'e failure + u32" where
  "u32_round round =
     (if unat round < 2 ^ 32 then Inr (ucast round)
      else Inl (Panic ''round must not exceed u32 range''))"

definition unprocessed_drand_jobs_enqueue ::
  "u64 \<Rightarrow> job \<Rightarrow> gateway_state \<Rightarrow> 'e failure + gateway_state" where
  "unprocessed_drand_jobs_enqueue round value st =
     and_then (u32_round round) (\<lambda>r.
     and_then (add_c (unwrap_or (kv_may_load (LAST_JOB_ID st) r) 0) 1) (\<lambda>new_id.
     let st1 = st\<lparr>JOBS := kv_save (r, new_id) value (JOBS st)\<rparr>
     in Inr (st1\<lparr>LAST_JOB_ID := kv_save r new_id (LAST_JOB_ID st1)\<rparr>)))"

definition unprocessed_drand_jobs_dequeue ::
  "u64 \<Rightarrow> gateway_state \<Rightarrow> 'e failure + job option \<times> gateway_state" where
  "unprocessed_drand_jobs_dequeue round st =
     and_then (u32_round round) (\<lambda>r.
     case kv_range None None Ascending (kv_prefix r (JOBS st)) of
       [] \<Rightarrow> Inr (None, st)
     | (i, job) # _ \<Rightarrow> Inr (Some job, st\<lparr>JOBS := kv_remove (r, i) (JOBS st)\<rparr>))"

definition unprocessed_drand_jobs_len :: "gateway_state \<Rightarrow> u64 \<Rightarrow> 'e failure + u32" where
  "unprocessed_drand_jobs_len st round =
     and_then (u32_round round) (\<lambda>r. Inr (of_nat (length (kv_prefix r (JOBS st)))))"

definition all_unprocessed_drand_jobs :: "gateway_state \<Rightarrow> order \<Rightarrow> nat \<Rightarrow> nat \<Rightarrow> job list" where
  "all_unprocessed_drand_jobs st order offset limit =
     map snd (take limit (drop offset (kv_range None None order (JOBS st))))"

section \<open>Statistics, request log, archive and job origins\<close>

definition get_processed_drand_jobs :: "gateway_state \<Rightarrow> u64 \<Rightarrow> u32" where
  "get_processed_drand_jobs st round = unwrap_or (kv_may_load (PROCESSED_DRAND_JOBS_COUNT st) round) 0"

definition increment_processed_drand_jobs :: "u64 \<Rightarrow> gateway_state \<Rightarrow> 'e failure + gateway_state" where
  "increment_processed_drand_jobs round st =
     and_then (add_c (get_processed_drand_jobs st round) 1) (\<lambda>n.
     Inr (st\<lparr>PROCESSED_DRAND_JOBS_COUNT := kv_save round n (PROCESSED_DRAND_JOBS_COUNT st)\<rparr>))"

text \<open>\<open>Deque::push_back\<close> and \<open>Deque::iter\<close> on the deque of a channel, which is stored under a prefix of its own.\<close>

definition requests_log_key :: "string \<Rightarrow> string" where
  "requests_log_key chan_id = ''rl_'' @ chan_id"

definition requests_log :: "gateway_state \<Rightarrow> string \<Rightarrow> request_log_entry list" where
  "requests_log st chan_id = unwrap_or (kv_may_load (REQUESTS_LOG st) (requests_log_key chan_id)) []"

definition requests_log_add :: "string \<Rightarrow> request_log_entry \<Rightarrow> gateway_state \<Rightarrow> gateway_state" where
  "requests_log_add chan_id entry st =
     st\<lparr>REQUESTS_LOG := kv_save (requests_log_key chan_id) (requests_log st chan_id @ [entry]) (REQUESTS_LOG st)\<rparr>"

definition requests_log_asc :: "gateway_state \<Rightarrow> string \<Rightarrow> nat \<Rightarrow> nat \<Rightarrow> request_log_entry list" where
  "requests_log_asc st chan_id offset limit = take limit (drop offset (requests_log st chan_id))"

definition requests_log_desc :: "gateway_state \<Rightarrow> string \<Rightarrow> nat \<Rightarrow> nat \<Rightarrow> request_log_entry list" where
  "requests_log_desc st chan_id offset limit = take limit (drop offset (rev (requests_log st chan_id)))"

definition drand_mainnet_randomness_key :: "u64 \<Rightarrow> binary" where
  "drand_mainnet_randomness_key round = [7, 100, 109] @ to_be_bytes round"

definition archive_lookup :: "gateway_state \<Rightarrow> u64 \<Rightarrow> binary option" where
  "archive_lookup st round = kv_may_load (DRAND_ARCHIVE st) (drand_mainnet_randomness_key round)"

definition archive_store :: "u64 \<Rightarrow> binary \<Rightarrow> gateway_state \<Rightarrow> gateway_state" where
  "archive_store round rand st = st\<lparr>DRAND_ARCHIVE := kv_save (drand_mainnet_randomness_key round) rand (DRAND_ARCHIVE st)\<rparr>"

definition MAX_ORIGIN_LEN :: nat where
  "MAX_ORIGIN_LEN = 512"

definition validate_origin :: "binary \<Rightarrow> gateway_error failure + unit" where
  "validate_origin orig = (if MAX_ORIGIN_LEN < length orig then Inl (Error OriginTooLong) else Inr ())"

lemma storage_keys_inject [simp]:
  "drand_mainnet_randomness_key r = drand_mainnet_randomness_key s \<longleftrightarrow> r = s"
  "requests_log_key c = requests_log_key d \<longleftrightarrow> c = d"
  by (simp_all add: drand_mainnet_randomness_key_def requests_log_key_def)

lemma jobs_no_Error [simp]:
  "u32_round r \<noteq> Inl (Error e)"
  "unprocessed_drand_jobs_enqueue r j st \<noteq> Inl (Error e)"
  "increment_processed_drand_jobs r st \<noteq> Inl (Error e)"
  by (auto simp: u32_round_def unprocessed_drand_jobs_enqueue_def increment_processed_drand_jobs_def
      and_then_eq_Inl Let_def)

section \<open>First-in first-out\<close>

text \<open>
  The interface of a family of queues: an abstraction to one list per key, and what the two
  operations do to it. A dequeue that returns always returns the oldest item.
\<close>

locale fifo_queues =
  fixes inv :: "'s \<Rightarrow> bool"
    and items :: "'s \<Rightarrow> 'k \<Rightarrow> 'v list"
    and enqueue :: "'k \<Rightarrow> 'v \<Rightarrow> 's \<Rightarrow> 'e + 's"
    and dequeue :: "'k \<Rightarrow> 's \<Rightarrow> 'e + 'v option \<times> 's"
  assumes enqueue_items: "inv s \<Longrightarrow> enqueue k v s = Inr s' \<Longrightarrow>
      inv s' \<and> items s' = (items s)(k := items s k @ [v])"
    and dequeue_items: "inv s \<Longrightarrow> dequeue k s = Inr (x, s') \<Longrightarrow>
      inv s' \<and> items s' = (items s)(k := tl (items s k)) \<and>
      x = (case items s k of [] \<Rightarrow> None | v # _ \<Rightarrow> Some v)"
begin

lemma dequeue_cases:
  assumes "inv s" and "dequeue k s = Inr (x, s')"
  obtains (none) "items s k = []" "x = None" "items s' = items s" "inv s'"
  | (some) v vs where "items s k = v # vs" "x = Some v" "items s' = (items s)(k := vs)" "inv s'"
  using dequeue_items [OF assms] by (cases "items s k") (auto simp: fun_upd_idem)

text \<open>An item passes exactly the items enqueued before it.\<close>

lemma enqueue_then_dequeue:
  assumes "inv s" and "enqueue k v s = Inr s1" and "dequeue k s1 = Inr (x, s2)"
  shows "x = Some (hd (items s k @ [v]))" and "items s2 k = tl (items s k @ [v])"
  using enqueue_items [OF assms(1,2)] dequeue_items [of s1, OF _ assms(3)]
  by (auto split: list.splits)

end

definition jobs_of :: "gateway_state \<Rightarrow> u64 \<Rightarrow> job list" where
  "jobs_of st round =
     (if unat round < 2 ^ 32 then map snd (kv_prefix (ucast round) (JOBS st)) else [])"

definition last_job_id :: "gateway_state \<Rightarrow> u32 \<Rightarrow> u16" where
  "last_job_id st r = unwrap_or (kv_may_load (LAST_JOB_ID st) r) 0"

definition jobs_inv :: "gateway_state \<Rightarrow> bool" where
  "jobs_inv st \<longleftrightarrow> kv_ordered (JOBS st) \<and>
     (\<forall>((r, i), j) \<in> set (JOBS st). i \<le> last_job_id st r)"

lemma u32_round_eq_Inr: "u32_round round = Inr r \<longleftrightarrow> unat round < 2 ^ 32 \<and> r = ucast round"
  by (auto simp: u32_round_def)

lemma unat_u32_of_u64: "unat round < 2 ^ 32 \<Longrightarrow> unat (ucast round :: u32) = unat round" for round :: u64
  by (simp add: unsigned_ucast_eq take_bit_nat_eq_self)

lemma u32_round_inj:
  "unat r < 2 ^ 32 \<Longrightarrow> unat s < 2 ^ 32 \<Longrightarrow> (ucast r :: u32) = ucast s \<longleftrightarrow> r = s" for r s :: u64
  by (metis unat_u32_of_u64 word_unat_eq_iff)

lemma jobs_inv_prefix_below:
  assumes "jobs_inv st" and "unat i = Suc (unat (last_job_id st r))"
  shows "\<forall>e \<in> set (kv_prefix r (JOBS st)). fst e < i"
proof
  fix e assume "e \<in> set (kv_prefix r (JOBS st))"
  then have "((r, fst e), snd e) \<in> set (JOBS st)"
    by (simp add: set_kv_prefix split: prod.splits)
  then have "fst e \<le> last_job_id st r"
    using assms(1) by (auto simp: jobs_inv_def)
  then show "fst e < i"
    using assms(2) by (simp add: word_le_nat_alt word_less_nat_alt)
qed

lemma enqueue_Inr:
  "(unprocessed_drand_jobs_enqueue round v st :: 'e failure + gateway_state) = Inr st' \<longleftrightarrow>
     (\<exists>i. unat round < 2 ^ 32 \<and> unat i = Suc (unat (last_job_id st (ucast round))) \<and>
        st' = st\<lparr>JOBS := kv_save (ucast round, i) v (JOBS st),
                LAST_JOB_ID := kv_save (ucast round) i (LAST_JOB_ID st)\<rparr>)"
proof -
  have "add_c (last_job_id st r) 1 = (Inr i :: 'e failure + u16) \<longleftrightarrow> unat i = Suc (unat (last_job_id st r))" for r i
    using unat_less [of i] by (auto simp: add_c_eq_Inr)
  then show ?thesis
    by (auto simp: unprocessed_drand_jobs_enqueue_def u32_round_eq_Inr last_job_id_def Let_def)
qed

lemma enqueue_jobs:
  assumes inv: "jobs_inv st" and enq: "unprocessed_drand_jobs_enqueue round v st = Inr st'"
  shows "jobs_inv st' \<and> jobs_of st' = (jobs_of st)(round := jobs_of st round @ [v])"
proof -
  let ?r = "ucast round :: u32"
  from enq obtain i where small: "unat round < 2 ^ 32" and i: "unat i = Suc (unat (last_job_id st ?r))"
    and st': "st' = st\<lparr>JOBS := kv_save (?r, i) v (JOBS st), LAST_JOB_ID := kv_save ?r i (LAST_JOB_ID st)\<rparr>"
    by (auto simp: enqueue_Inr)
  have ord: "kv_ordered (JOBS st)" using inv by (simp add: jobs_inv_def)
  have last: "last_job_id st' r = (if r = ?r then i else last_job_id st r)" for r
    by (simp add: st' last_job_id_def)
  have "j \<le> last_job_id st' r" if "((r, j), w) \<in> set (JOBS st')" for r j w
  proof -
    from that have "((r, j), w) = ((?r, i), v) \<or> ((r, j), w) \<in> set (JOBS st)"
      by (auto simp: st' set_kv_save [OF ord])
    moreover have "last_job_id st r \<le> last_job_id st' r"
      using i by (simp add: last word_le_nat_alt)
    ultimately show ?thesis
      using inv by (auto simp: jobs_inv_def last)
  qed
  then have "jobs_inv st'"
    using ord by (auto simp: jobs_inv_def st')
  moreover have "kv_prefix ?r (JOBS st') = kv_prefix ?r (JOBS st) @ [(i, v)]"
    unfolding st' using kv_prefix_save_last [OF ord jobs_inv_prefix_below [OF inv i]] by simp
  moreover have "kv_prefix r (JOBS st') = kv_prefix r (JOBS st)" if "r \<noteq> ?r" for r
    using that by (simp add: st' kv_prefix_save_other)
  ultimately show ?thesis
    using small by (auto simp: jobs_of_def fun_eq_iff u32_round_inj)
qed

lemma dequeue_Inr:
  "(unprocessed_drand_jobs_dequeue round st :: 'e failure + job option \<times> gateway_state) = Inr (x, st') \<longleftrightarrow>
     unat round < 2 ^ 32 \<and>
     (case kv_prefix (ucast round) (JOBS st) of
        [] \<Rightarrow> x = None \<and> st' = st
      | (i, j) # _ \<Rightarrow> x = Some j \<and> st' = st\<lparr>JOBS := kv_remove (ucast round, i) (JOBS st)\<rparr>)"
  by (auto simp: unprocessed_drand_jobs_dequeue_def u32_round_eq_Inr split: list.splits)

lemma jobs_inv_remove: "jobs_inv st \<Longrightarrow> jobs_inv (st\<lparr>JOBS := kv_remove k (JOBS st)\<rparr>)"
  by (auto simp: jobs_inv_def last_job_id_def kv_remove_def kv_ordered_filter)

lemma dequeue_jobs:
  assumes inv: "jobs_inv st" and deq: "unprocessed_drand_jobs_dequeue round st = Inr (x, st')"
  shows "jobs_inv st' \<and> jobs_of st' = (jobs_of st)(round := tl (jobs_of st round)) \<and>
    x = (case jobs_of st round of [] \<Rightarrow> None | v # _ \<Rightarrow> Some v)"
proof -
  let ?r = "ucast round :: u32"
  from deq have small: "unat round < 2 ^ 32" by (simp add: dequeue_Inr)
  show ?thesis
  proof (cases "kv_prefix ?r (JOBS st)")
    case Nil
    with deq have "x = None" "st' = st" by (simp_all add: dequeue_Inr)
    with Nil inv small show ?thesis by (auto simp: jobs_of_def fun_eq_iff)
  next
    case (Cons e rest)
    obtain i j where e: "e = (i, j)" by (cases e)
    with Cons deq have x: "x = Some j" and st': "st' = st\<lparr>JOBS := kv_remove (?r, i) (JOBS st)\<rparr>"
      by (simp_all add: dequeue_Inr)
    have "kv_ordered (JOBS st)" using inv by (simp add: jobs_inv_def)
    then have "kv_prefix ?r (JOBS st') = rest"
      using kv_prefix_remove_first [OF _ Cons [unfolded e]] by (simp add: st')
    moreover have "kv_prefix r (JOBS st') = kv_prefix r (JOBS st)" if "r \<noteq> ?r" for r
      using that by (simp add: st' kv_prefix_remove_other)
    ultimately have "jobs_of st' = (jobs_of st)(round := tl (jobs_of st round))"
      using small Cons by (auto simp: jobs_of_def fun_eq_iff u32_round_inj)
    with x inv small Cons e show ?thesis
      by (simp add: st' jobs_inv_remove jobs_of_def)
  qed
qed

interpretation job_queues: fifo_queues jobs_inv jobs_of unprocessed_drand_jobs_enqueue unprocessed_drand_jobs_dequeue
  by unfold_locales (rule enqueue_jobs dequeue_jobs; assumption)+

lemma dequeue_total:
  assumes "unat round < 2 ^ 32"
  obtains x st' where "unprocessed_drand_jobs_dequeue round st = Inr (x, st')"
proof (cases "kv_prefix (ucast round) (JOBS st)")
  case Nil
  with assms that [of None st] show ?thesis by (simp add: dequeue_Inr)
next
  case (Cons e rest)
  with assms that [of "Some (snd e)" "st\<lparr>JOBS := kv_remove (ucast round, fst e) (JOBS st)\<rparr>"]
  show ?thesis by (cases e) (simp add: dequeue_Inr)
qed

end
