(* ===== verification/Router.thy ===== *)
theory Router
  imports GatewayState
begin

text \<open>
  contracts/nois-gateway/src/request_router.rs: a request is committed to the drand round that is
  published next after the requested time; it is answered at once if the randomness of that round
  is archived and queued otherwise. New randomness is archived and answers the queued jobs of its
  round, a bounded number per submission.
\<close>

definition MAX_JOBS_PER_SUBMISSION_WITH_VERIFICATION :: u32 where
  "MAX_JOBS_PER_SUBMISSION_WITH_VERIFICATION = 1"

definition MAX_JOBS_PER_SUBMISSION_WITHOUT_VERIFICATION :: u32 where
  "MAX_JOBS_PER_SUBMISSION_WITHOUT_VERIFICATION = 10"

text \<open>The messages the gateway sends to other contracts, by addressee.\<close>

datatype gateway_out_msg =
    ToDrand drand_execute_msg
  | ToPayment payment_execute_msg
  | InstantiatePayment payment_instantiate_msg

record routing_receipt =
  rr_queued :: bool
  rr_source_id :: string
  rr_acknowledgement :: std_ack
  rr_msgs :: "gateway_out_msg cosmos_msg list"

record new_drand_result =
  nd_msgs :: "gateway_out_msg cosmos_msg list"
  nd_jobs_processed :: u32

definition create_deliver_beacon_ibc_message ::
  "codec \<Rightarrow> timestamp \<Rightarrow> job \<Rightarrow> timestamp \<Rightarrow> binary \<Rightarrow> 'e failure + gateway_out_msg cosmos_msg" where
  "create_deliver_beacon_ibc_message codec blocktime job published rand =
     (let packet = DeliverBeacon (source_id job) published rand (origin job)
      in and_then (plus_seconds blocktime DELIVER_BEACON_PACKET_LIFETIME) (\<lambda>timeout.
         Inr (IbcSendPacket (channel job) (enc_out_packet codec packet) timeout)))"

definition drand_source_id :: "u64 \<Rightarrow> string" where
  "drand_source_id round = ''drand:'' @ DRAND_CHAIN_HASH @ '':'' @ show_word round"

definition commit_to_drand_round :: "timestamp \<Rightarrow> u64 \<times> string" where
  "commit_to_drand_round after =
     (let round = round_after after
      in (round, drand_source_id round))"

definition load_config_gateway :: "gateway_state \<Rightarrow> std_error failure + gateway_config" where
  "load_config_gateway st = ok_or (Error (NotFound ''config'')) (CONFIG st)"

definition handle_drand_request ::
  "codec \<Rightarrow> env \<Rightarrow> string \<Rightarrow> timestamp \<Rightarrow> binary
    \<Rightarrow> (gateway_state, std_error failure, routing_receipt) action" where
  "handle_drand_request codec env chan after orig st =
     (let (round, source_id) = commit_to_drand_round after;
          job = \<lparr>source_id = source_id, channel = chan, origin = orig\<rparr>
      in bind_a
        (case archive_lookup st round of
           Some rand \<Rightarrow>
             bind_a (write_a (increment_processed_drand_jobs round)) (\<lambda>_.
             bind_a (read_a (\<lambda>_. time_of_round round)) (\<lambda>published.
             bind_a (read_a (\<lambda>_. create_deliver_beacon_ibc_message codec (block_time env) job published rand)) (\<lambda>msg.
             return_a (False, [msg]))))
         | None \<Rightarrow>
             bind_a (write_a (unprocessed_drand_jobs_enqueue round job)) (\<lambda>_.
             bind_a (read_a load_config_gateway) (\<lambda>config.
             return_a (True,
               (case drand config of
                  Some drand_addr \<Rightarrow> [WasmExecute drand_addr (ToDrand (SetIncentivized round)) []]
                | None \<Rightarrow> [])))))
        (\<lambda>(queued, msgs).
         return_a
           \<lparr>rr_queued = queued, rr_source_id = source_id,
            rr_acknowledgement =
              (if queued then AckSuccess (enc_in_packet_ack codec (RequestQueued source_id))
               else AckSuccess (enc_in_packet_ack codec (RequestProcessed source_id))),
            rr_msgs = msgs\<rparr>)) st"

definition route ::
  "codec \<Rightarrow> env \<Rightarrow> string \<Rightarrow> timestamp \<Rightarrow> binary
    \<Rightarrow> (gateway_state, std_error failure, routing_receipt) action" where
  "route codec env chan after orig = handle_drand_request codec env chan after orig"

text \<open>
  The loop of \<open>new_drand\<close>: it ends when the queue of the round is empty or the limit is reached.
\<close>

function new_drand_loop ::
  "codec \<Rightarrow> env \<Rightarrow> u64 \<Rightarrow> binary \<Rightarrow> u32 \<Rightarrow> gateway_out_msg cosmos_msg list \<Rightarrow> u32 \<Rightarrow> gateway_state
    \<Rightarrow> std_error failure + gateway_state \<times> new_drand_result" where
  "new_drand_loop codec env round rand max_jobs msgs jobs_processed st =
     and_then (unprocessed_drand_jobs_dequeue round st) (\<lambda>(found, st1).
     case found of
       None \<Rightarrow> Inr (st1, \<lparr>nd_msgs = msgs, nd_jobs_processed = jobs_processed\<rparr>)
     | Some job \<Rightarrow>
         and_then (increment_processed_drand_jobs round st1) (\<lambda>st2.
         and_then (time_of_round round) (\<lambda>published.
         and_then (create_deliver_beacon_ibc_message codec (block_time env) job published rand) (\<lambda>msg.
         and_then (add_c jobs_processed 1) (\<lambda>n.
         if max_jobs \<le> n then Inr (st2, \<lparr>nd_msgs = msgs @ [msg], nd_jobs_processed = n\<rparr>)
         else new_drand_loop codec env round rand max_jobs (msgs @ [msg]) n st2)))))"
  by pat_completeness auto

termination
  by (relation "measure (\<lambda>(_, _, _, _, max_jobs, _, n, _). unat max_jobs - unat n)")
    (auto simp: add_c_eq_Inr not_le word_less_nat_alt)

declare new_drand_loop.simps [simp del]

definition new_drand ::
  "codec \<Rightarrow> env \<Rightarrow> u64 \<Rightarrow> binary \<Rightarrow> bool \<Rightarrow> gateway_state
    \<Rightarrow> std_error failure + gateway_state \<times> new_drand_result" where
  "new_drand codec env round rand is_verifying_tx st =
     (let st1 = archive_store round rand st;
          max_jobs_per_submission =
            (if is_verifying_tx then MAX_JOBS_PER_SUBMISSION_WITH_VERIFICATION
             else MAX_JOBS_PER_SUBMISSION_WITHOUT_VERIFICATION)
      in new_drand_loop codec env round rand max_jobs_per_submission [] 0 st1)"

section \<open>Commitments\<close>

lemma drand_source_id_inject [simp]: "drand_source_id r = drand_source_id s \<longleftrightarrow> r = s"
  by (simp add: drand_source_id_def)

section \<open>Processing the queue of a round\<close>

definition deliver_job ::
  "codec \<Rightarrow> env \<Rightarrow> u64 \<Rightarrow> binary \<Rightarrow> job \<Rightarrow> std_error failure + gateway_out_msg cosmos_msg" where
  "deliver_job codec env round rand job =
     and_then (time_of_round round) (\<lambda>published.
     create_deliver_beacon_ibc_message codec (block_time env) job published rand)"

lemma deliver_job_Inr:
  "deliver_job codec env round rand job = Inr m \<longleftrightarrow>
     (\<exists>published timeout. time_of_round round = (Inr published :: std_error failure + timestamp) \<and>
        plus_seconds (block_time env) DELIVER_BEACON_PACKET_LIFETIME = (Inr timeout :: std_error failure + timestamp) \<and>
        m = IbcSendPacket (channel job)
              (enc_out_packet codec (DeliverBeacon (source_id job) published rand (origin job))) timeout)"
  by (auto simp: deliver_job_def create_deliver_beacon_ibc_message_def Let_def)

lemma increment_Inr:
  "(increment_processed_drand_jobs round st :: 'e failure + gateway_state) = Inr st' \<longleftrightarrow>
     (\<exists>n. unat n = Suc (unat (get_processed_drand_jobs st round)) \<and>
        st' = st\<lparr>PROCESSED_DRAND_JOBS_COUNT := kv_save round n (PROCESSED_DRAND_JOBS_COUNT st)\<rparr>)"
proof -
  have "add_c c 1 = (Inr n :: 'e failure + u32) \<longleftrightarrow> unat n = Suc (unat c)" for c n :: u32
    using unat_less [of n] by (auto simp: add_c_eq_Inr)
  then show ?thesis by (auto simp: increment_processed_drand_jobs_def)
qed

lemma jobs_frame [simp]:
  "jobs_inv (st\<lparr>PROCESSED_DRAND_JOBS_COUNT := c\<rparr>) = jobs_inv st"
  "jobs_of (st\<lparr>PROCESSED_DRAND_JOBS_COUNT := c\<rparr>) = jobs_of st"
  "jobs_inv (st\<lparr>DRAND_ARCHIVE := a\<rparr>) = jobs_inv st"
  "jobs_of (st\<lparr>DRAND_ARCHIVE := a\<rparr>) = jobs_of st"
  "jobs_inv (st\<lparr>REQUESTS_LOG := l\<rparr>) = jobs_inv st"
  "jobs_of (st\<lparr>REQUESTS_LOG := l\<rparr>) = jobs_of st"
  "jobs_inv (st\<lparr>CUSTOMERS := cs\<rparr>) = jobs_inv st"
  "jobs_of (st\<lparr>CUSTOMERS := cs\<rparr>) = jobs_of st"
  "jobs_inv (st\<lparr>CONFIG := co\<rparr>) = jobs_inv st"
  "jobs_of (st\<lparr>CONFIG := co\<rparr>) = jobs_of st"
  by (simp_all add: jobs_inv_def jobs_of_def last_job_id_def fun_eq_iff)

lemma dequeue_frame:
  "(unprocessed_drand_jobs_dequeue round st :: 'e failure + job option \<times> gateway_state) = Inr (x, st') \<Longrightarrow>
     \<exists>jobs. st' = st\<lparr>JOBS := jobs\<rparr>"
  by (auto simp: dequeue_Inr split: list.splits intro: exI [of _ "JOBS st"])

text \<open>
  The effect of processing the first \<open>k\<close> jobs of a round: their deliveries, in order; the
  remaining queue; the count of processed jobs. Everything else is as before.
\<close>

definition only_jobs_changed :: "gateway_state \<Rightarrow> gateway_state \<Rightarrow> bool" where
  "only_jobs_changed st st' \<longleftrightarrow> CONTRACT_INFO st' = CONTRACT_INFO st \<and> CONFIG st' = CONFIG st \<and>
     LAST_JOB_ID st' = LAST_JOB_ID st \<and> CUSTOMERS st' = CUSTOMERS st \<and> REQUESTS_LOG st' = REQUESTS_LOG st \<and>
     DRAND_ARCHIVE st' = DRAND_ARCHIVE st"

definition drained ::
  "codec \<Rightarrow> env \<Rightarrow> u64 \<Rightarrow> binary \<Rightarrow> nat \<Rightarrow> gateway_state \<Rightarrow> gateway_out_msg cosmos_msg list \<Rightarrow> gateway_state \<Rightarrow> bool" where
  "drained codec env round rand k st ds st' \<longleftrightarrow>
     map Inr ds = map (deliver_job codec env round rand) (take k (jobs_of st round)) \<and>
     only_jobs_changed st st' \<and> jobs_inv st' \<and> jobs_of st' = (jobs_of st)(round := drop k (jobs_of st round)) \<and>
     unat (get_processed_drand_jobs st' round) = unat (get_processed_drand_jobs st round) + k \<and>
     (\<forall>r. r \<noteq> round \<longrightarrow> get_processed_drand_jobs st' r = get_processed_drand_jobs st r)"

lemma drained_0: "jobs_inv st \<Longrightarrow> drained codec env round rand 0 st [] st"
  by (simp add: drained_def only_jobs_changed_def)

text \<open>One turn of the loop that finds a job.\<close>

lemma loop_turn:
  assumes inv: "jobs_inv st"
    and deq: "(unprocessed_drand_jobs_dequeue round st :: 'e failure + job option \<times> gateway_state) = Inr (Some job, st1)"
    and incr: "(increment_processed_drand_jobs round st1 :: 'e failure + gateway_state) = Inr st2"
    and msg: "deliver_job codec env round rand job = Inr msg"
  shows "drained codec env round rand 1 st [msg] st2" and "jobs_of st round \<noteq> []"
proof -
  from incr obtain n where n: "unat n = Suc (unat (get_processed_drand_jobs st1 round))"
    and st2: "st2 = st1\<lparr>PROCESSED_DRAND_JOBS_COUNT := kv_save round n (PROCESSED_DRAND_JOBS_COUNT st1)\<rparr>"
    by (auto simp: increment_Inr)
  obtain jobs where st1: "st1 = st\<lparr>JOBS := jobs\<rparr>"
    using dequeue_frame [OF deq] by blast
  from job_queues.dequeue_cases [OF inv deq] obtain q where
    q: "jobs_of st round = job # q" "jobs_of st1 = (jobs_of st)(round := q)" "jobs_inv st1"
    by auto
  have "only_jobs_changed st st2"
    by (simp add: st2 st1 only_jobs_changed_def)
  moreover have "get_processed_drand_jobs st1 = get_processed_drand_jobs st"
    by (simp add: st1 get_processed_drand_jobs_def fun_eq_iff)
  ultimately show "drained codec env round rand 1 st [msg] st2" and "jobs_of st round \<noteq> []"
    using q msg n by (simp_all add: drained_def st2) (simp add: get_processed_drand_jobs_def st1)
qed

lemma drained_trans:
  assumes "drained codec env round rand j st ds st1" and "drained codec env round rand k st1 es st2"
  shows "drained codec env round rand (j + k) st (ds @ es) st2"
  using assms by (simp add: drained_def only_jobs_changed_def take_add drop_drop add.commute)

text \<open>The ways a loop iteration returns: no job, a last one, or one with more to come.\<close>

lemma new_drand_loop_cases:
  assumes "new_drand_loop codec env round rand max_jobs msgs n st = Inr (st', res)"
  obtains (empty) "unprocessed_drand_jobs_dequeue round st = (Inr (None, st') :: std_error failure + job option \<times> gateway_state)"
      and "res = \<lparr>nd_msgs = msgs, nd_jobs_processed = n\<rparr>"
  | (turn) job st1 st2 msg n' where
      "unprocessed_drand_jobs_dequeue round st = (Inr (Some job, st1) :: std_error failure + job option \<times> gateway_state)"
      and "increment_processed_drand_jobs round st1 = (Inr st2 :: std_error failure + gateway_state)"
      and "deliver_job codec env round rand job = Inr msg" and "unat n' = Suc (unat n)"
      and "if max_jobs \<le> n' then st' = st2 \<and> res = \<lparr>nd_msgs = msgs @ [msg], nd_jobs_processed = n'\<rparr>
         else new_drand_loop codec env round rand max_jobs (msgs @ [msg]) n' st2 = Inr (st', res)"
proof -
  from assms obtain x st1 where
    deq: "unprocessed_drand_jobs_dequeue round st = (Inr (x, st1) :: std_error failure + job option \<times> gateway_state)"
    by (subst (asm) new_drand_loop.simps) auto
  show ?thesis
  proof (cases x)
    case None
    with assms deq have "st' = st1" "res = \<lparr>nd_msgs = msgs, nd_jobs_processed = n\<rparr>"
      by (subst (asm) new_drand_loop.simps, simp)+
    with deq None show ?thesis by (intro empty) simp_all
  next
    case (Some job)
    with assms deq obtain st2 msg n' where
      "increment_processed_drand_jobs round st1 = (Inr st2 :: std_error failure + gateway_state)"
      "deliver_job codec env round rand job = Inr msg"
      "add_c n 1 = (Inr n' :: std_error failure + u32)"
      "(if max_jobs \<le> n' then Inr (st2, \<lparr>nd_msgs = msgs @ [msg], nd_jobs_processed = n'\<rparr>)
         else new_drand_loop codec env round rand max_jobs (msgs @ [msg]) n' st2) = Inr (st', res)"
      by (subst (asm) new_drand_loop.simps) (auto simp: deliver_job_def)
    with deq Some show ?thesis by (intro turn) (auto simp: add_c_eq_Inr split: if_splits)
  qed
qed

lemma new_drand_loop_Inr:
  assumes "jobs_inv st" and "unat n < unat max_jobs"
    and "new_drand_loop codec env round rand max_jobs msgs n st = Inr (st', res)"
  shows "\<exists>ds. drained codec env round rand (min (unat max_jobs - unat n) (length (jobs_of st round))) st ds st' \<and>
      nd_msgs res = msgs @ ds \<and> unat (nd_jobs_processed res) = unat n + length ds"
  using assms
proof (induction "unat max_jobs - unat n" arbitrary: n msgs st rule: less_induct)
  case less
  from less.prems(3) show ?case
  proof (cases rule: new_drand_loop_cases)
    case empty
    then have "jobs_of st round = []" "st' = st"
      using job_queues.dequeue_cases [OF less.prems(1) empty(1)]
      by (auto simp: dequeue_Inr split: list.splits)
    with empty less.prems(1) show ?thesis by (simp add: drained_0)
  next
    case (turn job st1 st2 msg n')
    note one = loop_turn [OF less.prems(1) turn(1-3)]
    then have q: "length (jobs_of st round) = Suc (length (jobs_of st2 round))"
      by (simp add: drained_def Suc_le_eq)
    show ?thesis
    proof (cases "max_jobs \<le> n'")
      case True
      then have "unat max_jobs - unat n = 1"
        using turn(4) less.prems(2) by (simp add: word_le_nat_alt)
      with True turn(4,5) one(1) q show ?thesis by auto
    next
      case False
      then have lt: "unat n' < unat max_jobs" by (simp add: word_le_nat_alt)
      then have less': "unat max_jobs - unat n' < unat max_jobs - unat n"
        and k: "unat max_jobs - unat n = 1 + (unat max_jobs - unat n')"
        using turn(4) by simp_all
      have "jobs_inv st2" using one(1) by (simp add: drained_def)
      from less.hyps [OF less' this lt, of "msgs @ [msg]"] turn(5) False obtain ds where
        ds: "drained codec env round rand (min (unat max_jobs - unat n') (length (jobs_of st2 round))) st2 ds st'"
          "nd_msgs res = (msgs @ [msg]) @ ds" "unat (nd_jobs_processed res) = unat n' + length ds"
        by auto
      from drained_trans [OF one(1) ds(1)] ds(2,3) turn(4) show ?thesis
        by (intro exI [of _ "msg # ds"]) (simp add: k q)
    qed
  qed
qed

lemma increment_total:
  assumes "Suc (unat (get_processed_drand_jobs st round)) < 2 ^ 32"
  obtains st' where "(increment_processed_drand_jobs round st :: 'e failure + gateway_state) = Inr st'"
proof -
  have "unat (of_nat (Suc (unat (get_processed_drand_jobs st round))) :: u32) = Suc (unat (get_processed_drand_jobs st round))"
    by (rule unat_of_nat_small) (use assms in simp)
  with that show ?thesis unfolding increment_Inr by blast
qed

lemma new_drand_loop_total:
  assumes "jobs_inv st" and "unat n < unat max_jobs" and round: "unat round < 2 ^ 32"
    and deliver: "\<And>job. \<exists>m. deliver_job codec env round rand job = Inr m"
    and "unat (get_processed_drand_jobs st round) + (unat max_jobs - unat n) < 2 ^ 32"
  shows "\<exists>st' res. new_drand_loop codec env round rand max_jobs msgs n st = Inr (st', res)"
  using assms(1,2,5)
proof (induction "unat max_jobs - unat n" arbitrary: n msgs st rule: less_induct)
  case less
  obtain x st1 where deq: "unprocessed_drand_jobs_dequeue round st
      = (Inr (x, st1) :: std_error failure + job option \<times> gateway_state)"
    using dequeue_total [OF round] .
  show ?case
  proof (cases x)
    case None
    with deq show ?thesis by (subst new_drand_loop.simps) (simp del: and_then_eq_Inr)
  next
    case (Some job)
    obtain msg where msg: "deliver_job codec env round rand job = Inr msg"
      using deliver by blast
    then obtain published where time: "time_of_round round = (Inr published :: std_error failure + timestamp)"
      and create: "create_deliver_beacon_ibc_message codec (block_time env) job published rand
        = (Inr msg :: std_error failure + gateway_out_msg cosmos_msg)"
      by (auto simp: deliver_job_def)
    have "get_processed_drand_jobs st1 = get_processed_drand_jobs st"
      using dequeue_frame [OF deq] by (auto simp: get_processed_drand_jobs_def fun_eq_iff)
    then have "Suc (unat (get_processed_drand_jobs st1 round)) < 2 ^ 32"
      using less.prems(2,3) by simp
    then obtain st2 where incr: "increment_processed_drand_jobs round st1 = (Inr st2 :: std_error failure + gateway_state)"
      by (rule increment_total)
    have "unat n + 1 < 2 ^ LENGTH(32)"
      using less.prems(2) unat_less [of max_jobs] by simp
    then obtain n' where n': "add_c n 1 = (Inr n' :: std_error failure + u32)" "unat n' = Suc (unat n)"
      using unat_add_lem [of n 1] by (simp add: add_c_def)
    from loop_turn [OF less.prems(1) deq [unfolded Some] incr msg]
    have st2: "jobs_inv st2" "unat (get_processed_drand_jobs st2 round) = Suc (unat (get_processed_drand_jobs st round))"
      by (simp_all add: drained_def)
    have "\<exists>st' res. new_drand_loop codec env round rand max_jobs (msgs @ [msg]) n' st2 = Inr (st', res)"
      if "\<not> max_jobs \<le> n'"
      using that n'(2) less.prems(3) st2 by (intro less.hyps) (auto simp: word_le_nat_alt)
    with deq Some incr time create n'(1) show ?thesis
      by (subst new_drand_loop.simps) (simp del: and_then_eq_Inr)
  qed
qed

lemma unat_max_jobs:
  "unat (if v then MAX_JOBS_PER_SUBMISSION_WITH_VERIFICATION else MAX_JOBS_PER_SUBMISSION_WITHOUT_VERIFICATION)
     = (if v then 1 else 10)"
  by (simp add: MAX_JOBS_PER_SUBMISSION_WITH_VERIFICATION_def MAX_JOBS_PER_SUBMISSION_WITHOUT_VERIFICATION_def)

lemma new_drand_Inr:
  assumes inv: "jobs_inv st" and run: "new_drand codec env round rand vtx st = Inr (st', res)"
  shows "drained codec env round rand (min (if vtx then 1 else 10) (length (jobs_of st round)))
           (archive_store round rand st) (nd_msgs res) st'"
    and "unat (nd_jobs_processed res) = min (if vtx then 1 else 10) (length (jobs_of st round))"
proof -
  let ?max = "if vtx then MAX_JOBS_PER_SUBMISSION_WITH_VERIFICATION else MAX_JOBS_PER_SUBMISSION_WITHOUT_VERIFICATION"
  have "jobs_inv (archive_store round rand st)"
    using inv by (simp add: archive_store_def)
  moreover have "unat (0 :: u32) < unat ?max"
    by (simp add: unat_max_jobs)
  ultimately obtain ds where
    ds: "drained codec env round rand (min (unat ?max - unat (0 :: u32)) (length (jobs_of (archive_store round rand st) round)))
       (archive_store round rand st) ds st'"
      "nd_msgs res = [] @ ds" "unat (nd_jobs_processed res) = unat (0 :: u32) + length ds"
    using new_drand_loop_Inr [OF _ _ run [unfolded new_drand_def Let_def]] by blast
  have jobs: "jobs_of (archive_store round rand st) = jobs_of st"
    by (simp add: archive_store_def)
  show 1: "drained codec env round rand (min (if vtx then 1 else 10) (length (jobs_of st round)))
           (archive_store round rand st) (nd_msgs res) st'"
    using ds(1,2) unfolding unat_max_jobs jobs by simp
  have "length ds = length (take (min (if vtx then 1 else 10) (length (jobs_of st round))) (jobs_of st round))"
    using 1 ds(2) unfolding drained_def jobs by (metis append_Nil length_map)
  with ds(3) show "unat (nd_jobs_processed res) = min (if vtx then 1 else 10) (length (jobs_of st round))"
    by simp
qed

lemma new_drand_total:
  assumes "jobs_inv st" and "unat round < 2 ^ 32"
    and "time_of_round round = (Inr published :: std_error failure + timestamp)"
    and "plus_seconds (block_time env) DELIVER_BEACON_PACKET_LIFETIME = (Inr timeout :: std_error failure + timestamp)"
    and "unat (get_processed_drand_jobs st round) + 10 < 2 ^ 32"
  shows "\<exists>st' res. new_drand codec env round rand vtx st = Inr (st', res)"
  unfolding new_drand_def Let_def
proof (rule new_drand_loop_total)
  show "jobs_inv (archive_store round rand st)"
    using assms(1) by (simp add: archive_store_def)
  show "\<exists>m. deliver_job codec env round rand job = Inr m" for job
    using assms(3,4) by (simp add: deliver_job_Inr)
  have "get_processed_drand_jobs (archive_store round rand st) round = get_processed_drand_jobs st round"
    by (simp add: archive_store_def get_processed_drand_jobs_def)
  then show "unat (get_processed_drand_jobs (archive_store round rand st) round) +
      (unat (if vtx then MAX_JOBS_PER_SUBMISSION_WITH_VERIFICATION else MAX_JOBS_PER_SUBMISSION_WITHOUT_VERIFICATION)
       - unat (0 :: u32)) < 2 ^ 32"
    using assms(5) unfolding unat_max_jobs by simp
qed (use assms(2) in \<open>simp_all add: unat_max_jobs del: unat_0\<close>)

section \<open>Routing a request\<close>

lemma handle_drand_request_archived:
  assumes "archive_lookup st (round_after after) = Some rand"
  shows "handle_drand_request codec env chan after orig st = (st', Inr r) \<longleftrightarrow>
     (\<exists>msg. increment_processed_drand_jobs (round_after after) st = (Inr st' :: std_error failure + gateway_state) \<and>
        deliver_job codec env (round_after after) rand
          \<lparr>source_id = drand_source_id (round_after after), channel = chan, origin = orig\<rparr> = Inr msg \<and>
        r = \<lparr>rr_queued = False, rr_source_id = drand_source_id (round_after after),
             rr_acknowledgement = AckSuccess (enc_in_packet_ack codec
               (RequestProcessed (drand_source_id (round_after after)))),
             rr_msgs = [msg]\<rparr>)"
  using assms by (auto simp: handle_drand_request_def commit_to_drand_round_def deliver_job_def Let_def)

lemma handle_drand_request_queued:
  assumes "archive_lookup st (round_after after) = None"
  shows "handle_drand_request codec env chan after orig st = (st', Inr r) \<longleftrightarrow>
     (\<exists>config. unprocessed_drand_jobs_enqueue (round_after after)
          \<lparr>source_id = drand_source_id (round_after after), channel = chan, origin = orig\<rparr> st
          = (Inr st' :: std_error failure + gateway_state) \<and>
        CONFIG st' = Some config \<and>
        r = \<lparr>rr_queued = True, rr_source_id = drand_source_id (round_after after),
             rr_acknowledgement = AckSuccess (enc_in_packet_ack codec
               (RequestQueued (drand_source_id (round_after after)))),
             rr_msgs = (case drand config of None \<Rightarrow> []
               | Some a \<Rightarrow> [WasmExecute a (ToDrand (SetIncentivized (round_after after))) []])\<rparr>)"
  using assms
  by (auto simp: handle_drand_request_def commit_to_drand_round_def Let_def load_config_gateway_def)

lemma create_no_Error [simp]: "create_deliver_beacon_ibc_message codec t job p rand \<noteq> Inl (Error e)"
  by (auto simp: create_deliver_beacon_ibc_message_def and_then_eq_Inl Let_def)

lemma route_no_Error:
  assumes "CONFIG st \<noteq> None"
  shows "route codec env chan after orig st \<noteq> (st1, Inl (Error e))"
proof -
  have "CONFIG st2 = CONFIG st" if "unprocessed_drand_jobs_enqueue r j st = (Inr st2 :: std_error failure + gateway_state)" for r j st2
    using that by (auto simp: enqueue_Inr)
  then show ?thesis
    using assms
    by (auto simp: route_def handle_drand_request_def commit_to_drand_round_def Let_def action_errors
        load_config_gateway_def ok_or_eq_Inl split: option.splits)
qed

end
