(* ===== verification/Gateway.thy ===== *)
theory Gateway
  imports Router
begin

text \<open>
  contracts/nois-gateway/src/contract.rs: the entry points of the gateway. It registers a customer
  with a payment contract when a channel connects, accepts beacon requests over IBC and charges
  them, takes randomness from its trusted sources and is configured by its manager.
\<close>

section \<open>Messages and queries\<close>

datatype gateway_instantiate_msg =
  GatewayInstantiateMsg (gim_price: coin) (gim_manager: string) (gim_payment_code_id: u64)
    (gim_payment_initial_funds: "coin option") (gim_sink: string)

datatype gateway_execute_msg =
    AddVerifiedRound u64 binary bool
  | SetConfig "string option" "coin option" "string option" "coin option" "string list option"

datatype gateway_query_msg =
    QueryConfig
  | QueryDrandJobStats u64
  | QueryCustomer string
  | QueryCustomers "string option" "u32 option"
  | QueryJobsAsc "u32 option" "u32 option"
  | QueryJobsDesc "u32 option" "u32 option"
  | QueryRequestsLogAsc string "u32 option" "u32 option"
  | QueryRequestsLogDesc string "u32 option" "u32 option"

record drand_job_stats =
  js_round :: u64
  js_unprocessed :: u32
  js_processed :: u32

record queried_customer =
  qc_channel_id :: string
  qc_payment :: addr
  qc_requested_beacons :: u64

definition queried_customer_new :: "string \<Rightarrow> customer \<Rightarrow> queried_customer" where
  "queried_customer_new chan_id c =
     \<lparr>qc_channel_id = chan_id, qc_payment = payment c, qc_requested_beacons = requested_beacons c\<rparr>"

datatype gateway_query_response =
    ConfigResponse gateway_config
  | DrandJobStatsResponse drand_job_stats
  | CustomerResponse "queried_customer option"
  | CustomersResponse "queried_customer list"
  | JobsResponse "job list"
  | RequestsLogResponse "request_log_entry list"

text \<open>The \<open>Display\<close> of the contract's errors.\<close>

fun show_gateway_error :: "'a api_scheme \<Rightarrow> gateway_error \<Rightarrow> string" where
  "show_gateway_error api (Std e) = show_std_error api e"
| "show_gateway_error api Unauthorized = ''Unauthorized''"
| "show_gateway_error api (CodeIdDoesNotExist i) = ''Code ID does not exist: '' @ show_word i"
| "show_gateway_error api OriginTooLong = ''Origin data exceeds length limit.''"
| "show_gateway_error api UnauthorizedAddVerifiedRound = ''Sender is unauthorized to add verified round.''"
| "show_gateway_error api MustBeChainB =
     ''The nois-gateway contract must be on chain B of the connection. Try swapping A and B in the channel creation.''"
| "show_gateway_error api UnsupportedPacketType = ''Unsupported packet type.''"
| "show_gateway_error api (ChannelError e) = show_channel_error e"
| "show_gateway_error api ChannelAlreadyRegistered = ''Cannot register over an existing channel''"

text \<open>The conversion \<open>From<StdError>\<close> that \<open>?\<close> applies; a panic stays a panic.\<close>

definition std_failure :: "std_error failure \<Rightarrow> gateway_error failure" where
  "std_failure f = (case f of Error e \<Rightarrow> Error (Std e) | Panic p \<Rightarrow> Panic p)"

section \<open>Instantiation, migration and configuration\<close>

definition ensure_code_id_exists :: "querier \<Rightarrow> u64 \<Rightarrow> gateway_error failure + unit" where
  "ensure_code_id_exists q code_id =
     (case raw_query_code_info q code_id of
        CodeExists \<Rightarrow> Inr ()
      | NoSuchCode c \<Rightarrow> Inl (Error (CodeIdDoesNotExist c))
      | OtherSystemError system_err \<Rightarrow>
          Inl (Error (Std (GenericErr (''Querier system error: '' @ system_err)))))"

definition instantiate_gateway ::
  "'a api_scheme \<Rightarrow> querier \<Rightarrow> env \<Rightarrow> message_info \<Rightarrow> gateway_instantiate_msg \<Rightarrow> gateway_state
    \<Rightarrow> gateway_error failure + gateway_state \<times> gateway_out_msg response" where
  "instantiate_gateway api q env info msg st =
     and_then (map_err (\<lambda>e. Error (Std e)) (addr_validate api (gim_manager msg))) (\<lambda>ma.
     and_then (map_err (\<lambda>e. Error (Std e)) (addr_validate api (gim_sink msg))) (\<lambda>si.
     and_then (ensure_code_id_exists q (gim_payment_code_id msg)) (\<lambda>_.
     let config = \<lparr>drand = None, trusted_sources = None, manager = ma, price = gim_price msg,
                   payment_code_id = gim_payment_code_id msg,
                   payment_initial_funds = gim_payment_initial_funds msg, sink = si\<rparr>;
         st1 = st\<lparr>CONFIG := Some config\<rparr>
     in Inr (set_contract_version ''nois-gateway'' CARGO_PKG_VERSION st1, default_response))))"

definition migrate_gateway ::
  "env \<Rightarrow> gateway_state \<Rightarrow> std_error failure + gateway_state \<times> gateway_out_msg response" where
  "migrate_gateway env st =
     and_then (load_config_gateway st) (\<lambda>config.
     let config1 =
           (if unwrap_or (trusted_sources config) [] = []
            then (case drand config of
                    Some d \<Rightarrow> config\<lparr>trusted_sources := Some [d]\<rparr>
                  | None \<Rightarrow> config)
            else config);
         st1 = st\<lparr>CONFIG := Some config1\<rparr>
     in Inr (set_contract_version ''nois-gateway'' CARGO_PKG_VERSION st1,
             default_response\<lparr>attributes := [(''action'', Text ''migrate'')]\<rparr>))"

definition execute_set_config_gateway ::
  "'a api_scheme \<Rightarrow> message_info \<Rightarrow> env \<Rightarrow> string option \<Rightarrow> coin option \<Rightarrow> string option
    \<Rightarrow> string list option \<Rightarrow> coin option \<Rightarrow> gateway_state
    \<Rightarrow> gateway_error failure + gateway_state \<times> gateway_out_msg response" where
  "execute_set_config_gateway api info env new_manager new_price drand_opt new_sources new_funds st =
     and_then (map_err std_failure
       (load_config_gateway st)) (\<lambda>config.
     if sender info \<noteq> manager config then Inl (Error Unauthorized)
     else and_then (case new_manager of
              Some ma \<Rightarrow> map_err (\<lambda>e. Error (Std e)) (addr_validate api ma)
            | None \<Rightarrow> Inr (manager config)) (\<lambda>ma.
          and_then (case drand_opt of
              Some dr \<Rightarrow> and_then (map_err (\<lambda>e. Error (Std e)) (addr_validate api dr)) (\<lambda>a. Inr (Some a))
            | None \<Rightarrow> Inr (drand config)) (\<lambda>dr.
          and_then (case new_sources of
              Some ts \<Rightarrow> collect_results (map (\<lambda>t. map_err (\<lambda>e. Error (Std e)) (addr_validate api t)) ts)
            | None \<Rightarrow> Inr (unwrap_or (trusted_sources config) [])) (\<lambda>ts.
          let new_config = \<lparr>drand = dr, trusted_sources = Some ts, manager = ma,
                price = unwrap_or new_price (price config),
                payment_code_id = payment_code_id config,
                payment_initial_funds = (case new_funds of Some pif \<Rightarrow> Some pif | None \<Rightarrow> payment_initial_funds config),
                sink = sink config\<rparr>
          in Inr (st\<lparr>CONFIG := Some new_config\<rparr>, default_response)))))"

section \<open>Randomness from the trusted sources\<close>

definition execute_add_verified_round ::
  "codec \<Rightarrow> env \<Rightarrow> message_info \<Rightarrow> u64 \<Rightarrow> binary \<Rightarrow> bool \<Rightarrow> gateway_state
    \<Rightarrow> gateway_error failure + gateway_state \<times> gateway_out_msg response" where
  "execute_add_verified_round codec env info round rand is_verifying_tx st =
     and_then (map_err std_failure
       (load_config_gateway st)) (\<lambda>config.
     if sender info \<notin> set (unwrap_or (trusted_sources config) []) then Inl (Error UnauthorizedAddVerifiedRound)
     else and_then (map_err std_failure
            (new_drand codec env round rand is_verifying_tx st)) (\<lambda>(st1, res).
          Inr (st1, \<lparr>messages = map new_msg (nd_msgs res),
                     attributes = [(''jobs_processed'', Text (show_word (nd_jobs_processed res)))],
                     events = []\<rparr>)))"

fun execute_gateway ::
  "'a api_scheme \<Rightarrow> codec \<Rightarrow> env \<Rightarrow> message_info \<Rightarrow> gateway_execute_msg \<Rightarrow> gateway_state
    \<Rightarrow> gateway_error failure + gateway_state \<times> gateway_out_msg response" where
  "execute_gateway api codec env info (AddVerifiedRound round rand is_verifying_tx) st =
     execute_add_verified_round codec env info round rand is_verifying_tx st"
| "execute_gateway api codec env info (SetConfig ma pr drand_addr pif ts) st =
     execute_set_config_gateway api info env ma pr drand_addr ts pif st"

section \<open>Queries\<close>

definition query_config_gateway :: "gateway_state \<Rightarrow> std_error failure + gateway_config" where
  "query_config_gateway st = load_config_gateway st"

definition query_drand_job_stats :: "gateway_state \<Rightarrow> u64 \<Rightarrow> std_error failure + drand_job_stats" where
  "query_drand_job_stats st round =
     and_then (unprocessed_drand_jobs_len st round) (\<lambda>unprocessed.
     Inr \<lparr>js_round = round, js_unprocessed = unprocessed, js_processed = get_processed_drand_jobs st round\<rparr>)"

definition query_customer :: "gateway_state \<Rightarrow> string \<Rightarrow> queried_customer option" where
  "query_customer st chan_id = map_option (queried_customer_new chan_id) (kv_may_load (CUSTOMERS st) chan_id)"

definition query_customers ::
  "gateway_state \<Rightarrow> string option \<Rightarrow> u32 option \<Rightarrow> queried_customer list" where
  "query_customers st start_after limit =
     map (\<lambda>(chan_id, c). queried_customer_new chan_id c)
       (take (unat (unwrap_or limit 50)) (kv_range start_after None Ascending (CUSTOMERS st)))"

definition query_jobs :: "gateway_state \<Rightarrow> order \<Rightarrow> u32 option \<Rightarrow> u32 option \<Rightarrow> job list" where
  "query_jobs st order offset limit =
     all_unprocessed_drand_jobs st order (unat (unwrap_or offset 0)) (unat (unwrap_or limit 50))"

definition query_requests_asc ::
  "gateway_state \<Rightarrow> string \<Rightarrow> u32 option \<Rightarrow> u32 option \<Rightarrow> request_log_entry list" where
  "query_requests_asc st chan_id offset limit =
     requests_log_asc st chan_id (unat (unwrap_or offset 0)) (unat (unwrap_or limit 50))"

definition query_requests_desc ::
  "gateway_state \<Rightarrow> string \<Rightarrow> u32 option \<Rightarrow> u32 option \<Rightarrow> request_log_entry list" where
  "query_requests_desc st chan_id offset limit =
     requests_log_desc st chan_id (unat (unwrap_or offset 0)) (unat (unwrap_or limit 50))"

fun query_gateway ::
  "gateway_query_msg \<Rightarrow> gateway_state \<Rightarrow> std_error failure + gateway_query_response" where
  "query_gateway QueryConfig st = and_then (query_config_gateway st) (\<lambda>c. Inr (ConfigResponse c))"
| "query_gateway (QueryDrandJobStats round) st =
     and_then (query_drand_job_stats st round) (\<lambda>s. Inr (DrandJobStatsResponse s))"
| "query_gateway (QueryCustomer chan_id) st = Inr (CustomerResponse (query_customer st chan_id))"
| "query_gateway (QueryCustomers start_after limit) st =
     Inr (CustomersResponse (query_customers st start_after limit))"
| "query_gateway (QueryJobsAsc offset limit) st = Inr (JobsResponse (query_jobs st Ascending offset limit))"
| "query_gateway (QueryJobsDesc offset limit) st = Inr (JobsResponse (query_jobs st Descending offset limit))"
| "query_gateway (QueryRequestsLogAsc chan_id offset limit) st =
     Inr (RequestsLogResponse (query_requests_asc st chan_id offset limit))"
| "query_gateway (QueryRequestsLogDesc chan_id offset limit) st =
     Inr (RequestsLogResponse (query_requests_desc st chan_id offset limit))"

section \<open>IBC entry points\<close>

fun ibc_channel_open_gateway :: "ibc_channel_open_msg \<Rightarrow> gateway_error failure + string option" where
  "ibc_channel_open_gateway (OpenInit c) = Inl (Error MustBeChainB)"
| "ibc_channel_open_gateway (OpenTry c counterparty_version) =
     and_then (map_err (\<lambda>e. Error (ChannelError e)) (check_order (channel_order c))) (\<lambda>_.
     and_then (map_err (\<lambda>e. Error (ChannelError e)) (check_version counterparty_version)) (\<lambda>_.
     Inr (Some IBC_APP_VERSION)))"

definition hash_channel :: "'a api_scheme \<Rightarrow> string \<Rightarrow> binary" where
  "hash_channel api chan_id = sha256 api (as_bytes chan_id)"

fun ibc_channel_connect_gateway ::
  "'a api_scheme \<Rightarrow> codec \<Rightarrow> querier \<Rightarrow> env \<Rightarrow> ibc_channel_connect_msg \<Rightarrow> gateway_state
    \<Rightarrow> gateway_error failure + gateway_state \<times> gateway_out_msg response" where
  "ibc_channel_connect_gateway api codec q env (OpenAck c v) st = Inl (Error MustBeChainB)"
| "ibc_channel_connect_gateway api codec q env (OpenConfirm c) st =
     (let chan_id = channel_id c
      in and_then (map_err std_failure
           (load_config_gateway st)) (\<lambda>config.
         and_then (map_err (\<lambda>e. Error (Std e)) (addr_canonicalize api (contract_address env))) (\<lambda>creator.
         and_then (map_err (\<lambda>e. Error (Std e)) (query_wasm_code_info q (payment_code_id config))) (\<lambda>checksum.
         let salt = hash_channel api chan_id
         in and_then (map_err (\<lambda>e. Error (Std (GenericErr (''Cound not generate address: '' @ e))))
              (instantiate2_address api checksum creator salt)) (\<lambda>canonical.
            and_then (map_err (\<lambda>e. Error (Std e)) (addr_humanize api canonical)) (\<lambda>address.
            let customer = \<lparr>payment = address, requested_beacons = 0\<rparr>;
                st1 = st\<lparr>CUSTOMERS := kv_save chan_id customer (CUSTOMERS st)\<rparr>;
                init_funds = (case payment_initial_funds config of Some pif \<Rightarrow> [pif] | None \<Rightarrow> []);
                instantiate_payment = WasmInstantiate2 (Some (contract_address env)) (payment_code_id config)
                  (''For '' @ chan_id) (InstantiatePayment (PaymentInstantiateMsg (sink config))) init_funds salt
            in and_then (plus_seconds (block_time env) WELCOME_PACKET_LIFETIME) (\<lambda>welcome_timeout.
               and_then (plus_seconds (block_time env) BEACON_PRICE_PACKET_LIFETIME) (\<lambda>price_timeout.
               let welcome = IbcSendPacket chan_id (enc_out_packet codec (Welcome address)) welcome_timeout;
                   beacon_price = IbcSendPacket chan_id
                     (enc_out_packet codec (PushBeaconPrice (block_time env) (amount (price config)) (denom (price config))))
                     price_timeout
               in Inr (st1,
                    \<lparr>messages = [new_msg instantiate_payment, new_msg welcome, new_msg beacon_price],
                     attributes = [(''action'', Text ''ibc_connect''), (''channel_id'', Text chan_id)],
                     events = [Event ''ibc'' [(''channel'', Text ''connect'')]]\<rparr>)))))))))"

definition ibc_channel_close_gateway ::
  "ibc_channel_close_msg \<Rightarrow> gateway_state \<Rightarrow> std_error failure + gateway_state \<times> gateway_out_msg response" where
  "ibc_channel_close_gateway msg st =
     Inr (st, default_response\<lparr>attributes :=
       [(''action'', Text ''ibc_close''), (''channel_id'', Text (channel_id (close_msg_channel msg)))]\<rparr>)"

text \<open>The three shares of the price: 40% burnt, 20% for the relayer, the rest for the community pool.\<close>

definition price_shares :: "u128 \<Rightarrow> 'e failure + u128 \<times> u128 \<times> u128" where
  "price_shares amt =
     and_then (mul_floor amt (40, 100)) (\<lambda>amount_burn.
     and_then (mul_floor amt (20, 100)) (\<lambda>amount_relayer.
     and_then (sub_c amt amount_burn) (\<lambda>amt1.
     and_then (sub_c amt1 amount_relayer) (\<lambda>amount_rest.
     Inr (amount_burn, amount_relayer, amount_rest)))))"

text \<open>
  The last part of \<open>receive_request_beacon\<close>: the request is counted for the customer and its
  payment contract is told to pay the current price.
\<close>

definition charge_customer ::
  "string \<Rightarrow> addr \<Rightarrow> (gateway_state, gateway_error failure, gateway_out_msg cosmos_msg) action" where
  "charge_customer chan_id rel =
     bind_a (read_a (\<lambda>st. ok_or (Error (Std (NotFound ''customers''))) (kv_may_load (CUSTOMERS st) chan_id))) (\<lambda>customer.
     bind_a (read_a (\<lambda>_. add_c (requested_beacons customer) 1)) (\<lambda>n.
     bind_a (write_a (\<lambda>st. Inr (st\<lparr>CUSTOMERS :=
       kv_save chan_id (customer\<lparr>requested_beacons := n\<rparr>) (CUSTOMERS st)\<rparr>))) (\<lambda>_.
     bind_a (read_a (\<lambda>st. map_err std_failure (load_config_gateway st))) (\<lambda>config.
     bind_a (read_a (\<lambda>_. price_shares (amount (price config)))) (\<lambda>(amount_burn, amount_relayer, amount_rest).
     let d = denom (price config)
     in return_a (WasmExecute (payment customer)
          (ToPayment (Pay \<lparr>amount = amount_burn, denom = d\<rparr> \<lparr>amount = amount_rest, denom = d\<rparr>
            (rel, \<lparr>amount = amount_relayer, denom = d\<rparr>))) []))))))"

definition receive_request_beacon ::
  "codec \<Rightarrow> env \<Rightarrow> string \<Rightarrow> addr \<Rightarrow> timestamp \<Rightarrow> binary
    \<Rightarrow> (gateway_state, gateway_error failure, gateway_out_msg ibc_receive_response) action" where
  "receive_request_beacon codec env chan_id rel after orig =
     bind_a (read_a (\<lambda>_. validate_origin orig)) (\<lambda>_.
     bind_a (map_err_a std_failure (route codec env chan_id after orig)) (\<lambda>receipt.
     bind_a (write_a (\<lambda>st. Inr (requests_log_add chan_id
       \<lparr>log_origin = orig, log_tx = (block_height env, tx_index env),
        log_source_id = rr_source_id receipt, log_queued = rr_queued receipt\<rparr> st))) (\<lambda>_.
     bind_a (charge_customer chan_id rel) (\<lambda>msg.
     return_a \<lparr>messages = map new_msg (rr_msgs receipt @ [msg]),
       attributes = [(''action'', Text ''receive_request_beacon'')], events = [],
       acknowledgement = rr_acknowledgement receipt\<rparr>))))"

definition receive_pull_beacon_price ::
  "codec \<Rightarrow> env \<Rightarrow> (gateway_state, gateway_error failure, gateway_out_msg ibc_receive_response) action" where
  "receive_pull_beacon_price codec env =
     bind_a (read_a (\<lambda>st. map_err std_failure (load_config_gateway st))) (\<lambda>config.
     return_a \<lparr>messages = [], attributes = [(''action'', Text ''receive_pull_beacon_price'')], events = [],
       acknowledgement = AckSuccess (enc_in_packet_ack codec
         (PullBeaconPriceAck (block_time env) (amount (price config)) (denom (price config))))\<rparr>)"

text \<open>
  Errors of the handlers become error acknowledgements, so that the call itself succeeds and the
  writes made before the error are kept; the result type has no error of its own (\<open>Never\<close>).
\<close>

definition receive_packet_gateway ::
  "codec \<Rightarrow> env \<Rightarrow> ibc_packet_receive_msg
    \<Rightarrow> (gateway_state, gateway_error failure, gateway_out_msg ibc_receive_response) action" where
  "receive_packet_gateway codec env msg =
     bind_a (read_a (\<lambda>_. map_err (\<lambda>e. Error (Std e)) (dec_in_packet codec (packet_data msg)))) (\<lambda>op.
     case op of
       RequestBeacon after orig \<Rightarrow>
         receive_request_beacon codec env (dest_channel_id msg) (packet_relayer msg) after orig
     | PullBeaconPrice \<Rightarrow> receive_pull_beacon_price codec env)"

definition ibc_packet_receive_gateway ::
  "'a api_scheme \<Rightarrow> codec \<Rightarrow> env \<Rightarrow> ibc_packet_receive_msg \<Rightarrow> gateway_state
    \<Rightarrow> 'e failure + gateway_state \<times> gateway_out_msg ibc_receive_response" where
  "ibc_packet_receive_gateway api codec env msg st =
     (case receive_packet_gateway codec env msg st of
        (st1, Inr res) \<Rightarrow> Inr (st1, res)
      | (st1, Inl (Error e)) \<Rightarrow>
          Inr (st1, \<lparr>messages = [], attributes = [],
                     events = [Event ''ibc'' [(''packet'', Text ''receive'')]],
                     acknowledgement = AckError (''Error processing packet: '' @ show_gateway_error api e)\<rparr>)
      | (st1, Inl (Panic p)) \<Rightarrow> Inl (Panic p))"

definition ibc_packet_ack_gateway ::
  "codec \<Rightarrow> binary \<Rightarrow> gateway_state \<Rightarrow> gateway_error failure + gateway_state \<times> gateway_out_msg response" where
  "ibc_packet_ack_gateway codec ack_data st =
     and_then (map_err (\<lambda>e. Error (Std e)) (dec_std_ack codec ack_data)) (\<lambda>ack.
     and_then (case ack of
         AckSuccess data \<Rightarrow> and_then (map_err (\<lambda>e. Error (Std e)) (dec_out_packet_ack codec data)) (\<lambda>_. Inr (False, []))
       | AckError err \<Rightarrow> Inr (True, [(''error'', Text err)])) (\<lambda>(is_error, attrs).
     Inr (st, default_response\<lparr>attributes :=
       [(''action'', Text ''ack'')] @ attrs @ [(''is_error'', Text (show_bool is_error))]\<rparr>)))"

definition ibc_packet_timeout_gateway ::
  "gateway_state \<Rightarrow> std_error failure + gateway_state \<times> gateway_out_msg response" where
  "ibc_packet_timeout_gateway st =
     Inr (st, default_response\<lparr>attributes := [(''action'', Text ''ibc_packet_timeout'')]\<rparr>)"

section \<open>The price of a request\<close>

lemma mul_floor_percent:
  assumes "p \<le> 100"
  shows "\<exists>r. (mul_floor x (of_nat p, 100) :: 'e failure + u128) = Inr r \<and> unat r = unat x * p div 100"
proof -
  have "unat (of_nat p :: u128) = p"
    by (rule unat_of_nat_small) (use assms in simp)
  moreover have "unat x * p div 100 \<le> unat x"
    using assms by (metis div_le_mono mult_le_mono2 nonzero_mult_div_cancel_right zero_neq_numeral)
  then have "unat x * p div 100 < 2 ^ 128"
    using unat_less [of x] by simp
  moreover from this have "unat (of_nat (unat x * p div 100) :: u128) = unat x * p div 100"
    by (intro unat_of_nat_small) simp
  ultimately show ?thesis by (simp add: mul_floor_def Let_def)
qed

lemma price_shares_Inr:
  obtains b r c where "(price_shares amt :: 'e failure + u128 \<times> u128 \<times> u128) = Inr (b, r, c)"
    and "unat b = unat amt * 40 div 100" and "unat r = unat amt * 20 div 100"
    and "unat b + unat r + unat c = unat amt"
proof -
  obtain b r where b: "(mul_floor amt (40, 100) :: 'e failure + u128) = Inr b" "unat b = unat amt * 40 div 100"
    and r: "(mul_floor amt (20, 100) :: 'e failure + u128) = Inr r" "unat r = unat amt * 20 div 100"
    using mul_floor_percent [of 40 amt] mul_floor_percent [of 20 amt] by auto
  have le: "unat b + unat r \<le> unat amt"
    unfolding b(2) r(2) by linarith
  then have "sub_c amt b = (Inr (amt - b) :: 'e failure + u128)" "unat (amt - b) = unat amt - unat b"
    by (simp_all add: sub_c_def unat_sub word_le_nat_alt)
  moreover from this le have "sub_c (amt - b) r = (Inr (amt - b - r) :: 'e failure + u128)"
    "unat (amt - b - r) = unat amt - unat b - unat r"
    by (simp_all add: sub_c_def unat_sub word_le_nat_alt)
  ultimately show ?thesis
    using that [of b r "amt - b - r"] b r le by (simp add: price_shares_def)
qed

section \<open>The gateway as a machine\<close>

datatype gateway_call =
    CallExecute message_info gateway_execute_msg
  | CallMigrate
  | CallChannelConnect ibc_channel_connect_msg
  | CallChannelClose ibc_channel_close_msg
  | CallPacketReceive ibc_packet_receive_msg
  | CallPacketAck binary
  | CallPacketTimeout

fun gateway_tx ::
  "'a api_scheme \<Rightarrow> codec \<Rightarrow> querier \<times> env \<times> gateway_call \<Rightarrow> gateway_state
    \<Rightarrow> gateway_error failure + gateway_state \<times> gateway_out_msg response" where
  "gateway_tx api codec (q, env, CallExecute info msg) st = execute_gateway api codec env info msg st"
| "gateway_tx api codec (q, env, CallMigrate) st = map_err std_failure (migrate_gateway env st)"
| "gateway_tx api codec (q, env, CallChannelConnect msg) st = ibc_channel_connect_gateway api codec q env msg st"
| "gateway_tx api codec (q, env, CallChannelClose msg) st = map_err std_failure (ibc_channel_close_gateway msg st)"
| "gateway_tx api codec (q, env, CallPacketReceive msg) st =
     and_then (ibc_packet_receive_gateway api codec env msg st) (\<lambda>(st1, res). Inr (st1, response.truncate res))"
| "gateway_tx api codec (q, env, CallPacketAck data) st = ibc_packet_ack_gateway codec data st"
| "gateway_tx api codec (q, env, CallPacketTimeout) st = map_err std_failure (ibc_packet_timeout_gateway st)"

text \<open>The accepted requests that were committed to a round, over all channels.\<close>

definition logged :: "gateway_state \<Rightarrow> u64 \<Rightarrow> nat" where
  "logged st round =
     sum_list (map (\<lambda>e. length (filter (\<lambda>x. log_source_id x = drand_source_id round) (snd e))) (REQUESTS_LOG st))"

definition gateway_inv :: "gateway_state \<Rightarrow> bool" where
  "gateway_inv st \<longleftrightarrow> jobs_inv st \<and> kv_ordered (REQUESTS_LOG st) \<and> CONFIG st \<noteq> None \<and>
     (\<forall>round. \<forall>j \<in> set (jobs_of st round). source_id j = drand_source_id round) \<and>
     (\<forall>round. logged st round = length (jobs_of st round) + unat (get_processed_drand_jobs st round))"

lemma logged_add:
  assumes "kv_ordered (REQUESTS_LOG st)"
  shows "logged (requests_log_add chan_id entry st) round =
     logged st round + (if log_source_id entry = drand_source_id round then 1 else 0)"
proof -
  let ?f = "\<lambda>xs. length (filter (\<lambda>x. log_source_id x = drand_source_id round) xs)"
  from sum_kv_save [OF assms, of ?f "requests_log_key chan_id" "requests_log st chan_id @ [entry]"]
  show ?thesis
    by (simp add: logged_def requests_log_add_def requests_log_def split: option.splits)
qed

lemma gateway_frame [simp]:
  "logged (st\<lparr>CUSTOMERS := cs\<rparr>) = logged st"
  "logged (st\<lparr>CONFIG := co\<rparr>) = logged st"
  "logged (st\<lparr>DRAND_ARCHIVE := a\<rparr>) = logged st"
  "get_processed_drand_jobs (st\<lparr>CUSTOMERS := cs\<rparr>) = get_processed_drand_jobs st"
  "get_processed_drand_jobs (st\<lparr>CONFIG := co\<rparr>) = get_processed_drand_jobs st"
  "get_processed_drand_jobs (st\<lparr>DRAND_ARCHIVE := a\<rparr>) = get_processed_drand_jobs st"
  "get_processed_drand_jobs (st\<lparr>REQUESTS_LOG := l\<rparr>) = get_processed_drand_jobs st"
  by (simp_all add: logged_def get_processed_drand_jobs_def fun_eq_iff)

text \<open>
  What routing does to the queues: the request is either counted as processed or appended to the
  queue of its round.
\<close>

lemma route_effect:
  assumes inv: "jobs_inv st" and route: "route codec env chan after orig st = (st1, Inr receipt)"
  shows "jobs_inv st1 \<and> CONFIG st1 = CONFIG st \<and> CUSTOMERS st1 = CUSTOMERS st \<and>
     REQUESTS_LOG st1 = REQUESTS_LOG st \<and> DRAND_ARCHIVE st1 = DRAND_ARCHIVE st \<and>
     rr_source_id receipt = drand_source_id (round_after after) \<and>
     rr_queued receipt = (archive_lookup st (round_after after) = None) \<and>
     jobs_of st1 = (if rr_queued receipt then (jobs_of st)(round_after after := jobs_of st (round_after after) @
          [\<lparr>source_id = drand_source_id (round_after after), channel = chan, origin = orig\<rparr>]) else jobs_of st) \<and>
     (\<forall>r. unat (get_processed_drand_jobs st1 r) = unat (get_processed_drand_jobs st r) +
        (if r = round_after after \<and> \<not> rr_queued receipt then 1 else 0))"
proof (cases "archive_lookup st (round_after after)")
  case None
  from route None obtain config where
    enq: "unprocessed_drand_jobs_enqueue (round_after after)
          \<lparr>source_id = drand_source_id (round_after after), channel = chan, origin = orig\<rparr> st
          = (Inr st1 :: std_error failure + gateway_state)"
    and "rr_queued receipt" "rr_source_id receipt = drand_source_id (round_after after)"
    by (auto simp: route_def handle_drand_request_queued)
  moreover have "CONFIG st1 = CONFIG st \<and> CUSTOMERS st1 = CUSTOMERS st \<and> REQUESTS_LOG st1 = REQUESTS_LOG st \<and>
      DRAND_ARCHIVE st1 = DRAND_ARCHIVE st \<and> get_processed_drand_jobs st1 = get_processed_drand_jobs st"
    using enq by (auto simp: enqueue_Inr get_processed_drand_jobs_def fun_eq_iff)
  ultimately show ?thesis
    using job_queues.enqueue_items [OF inv enq] None by simp
next
  case (Some rand)
  from route Some have "increment_processed_drand_jobs (round_after after) st = (Inr st1 :: std_error failure + gateway_state)"
    and "\<not> rr_queued receipt" "rr_source_id receipt = drand_source_id (round_after after)"
    by (auto simp: route_def handle_drand_request_archived)
  then show ?thesis
    using Some inv by (auto simp: increment_Inr get_processed_drand_jobs_def)
qed

section \<open>Receiving a request\<close>

definition pay_msg :: "gateway_config \<Rightarrow> customer \<Rightarrow> addr \<Rightarrow> u128 \<times> u128 \<times> u128 \<Rightarrow> gateway_out_msg cosmos_msg" where
  "pay_msg config c rel = (\<lambda>(b, r, rest).
     WasmExecute (payment c) (ToPayment (Pay \<lparr>amount = b, denom = denom (price config)\<rparr>
       \<lparr>amount = rest, denom = denom (price config)\<rparr> (rel, \<lparr>amount = r, denom = denom (price config)\<rparr>))) [])"

lemma charge_customer_cases:
  assumes "charge_customer chan_id rel st = (st', r)" and "CONFIG st = Some config" and "\<And>p. r \<noteq> Inl (Panic p)"
  obtains (unknown) "kv_may_load (CUSTOMERS st) chan_id = None" "st' = st"
      "r = Inl (Error (Std (NotFound ''customers'')))"
  | (charged) c n shares where "kv_may_load (CUSTOMERS st) chan_id = Some c"
      "unat n = Suc (unat (requested_beacons c))"
      "st' = st\<lparr>CUSTOMERS := kv_save chan_id (c\<lparr>requested_beacons := n\<rparr>) (CUSTOMERS st)\<rparr>"
      "price_shares (amount (price config)) = (Inr shares :: gateway_error failure + u128 \<times> u128 \<times> u128)"
      "r = Inr (pay_msg config c rel shares)"
proof (cases "kv_may_load (CUSTOMERS st) chan_id")
  case None
  with assms(1) have "st' = st" "r = Inl (Error (Std (NotFound ''customers'')))"
    by (simp_all add: charge_customer_def bind_a_def read_a_def)
  with None show ?thesis by (rule unknown)
next
  case (Some c)
  obtain b rl rest where shares: "price_shares (amount (price config)) =
      (Inr (b, rl, rest) :: gateway_error failure + u128 \<times> u128 \<times> u128)"
    using price_shares_Inr by blast
  show ?thesis
  proof (cases "add_c (requested_beacons c) 1 :: gateway_error failure + u64")
    case (Inl f)
    then obtain p where "f = Panic p" by (cases f) auto
    with Inl Some assms(1) have "r = Inl (Panic p)"
      by (simp add: charge_customer_def bind_a_def read_a_def)
    with assms(3) show ?thesis by contradiction
  next
    case (Inr n)
    then have "unat n = Suc (unat (requested_beacons c))" by (simp add: add_c_eq_Inr)
    moreover have "st' = st\<lparr>CUSTOMERS := kv_save chan_id (c\<lparr>requested_beacons := n\<rparr>) (CUSTOMERS st)\<rparr>"
      and "r = Inr (pay_msg config c rel (b, rl, rest))"
      using assms(1,2) Some shares Inr
      by (simp_all add: charge_customer_def bind_a_def read_a_def write_a_def return_a_def load_config_gateway_def
          Let_def pay_msg_def)
    ultimately show ?thesis by (rule charged [OF Some _ _ shares])
  qed
qed

lemma receive_request_beacon_cases:
  assumes config: "CONFIG st = Some config" and inv: "jobs_inv st"
    and recv: "receive_request_beacon codec env chan_id rel after orig st = (st', r)"
    and no_panic: "\<And>p. r \<noteq> Inl (Panic p)"
  obtains (rejected) "st' = st" "r = Inl (Error OriginTooLong)" "MAX_ORIGIN_LEN < length orig"
  | (routed) st1 receipt r1 where "length orig \<le> MAX_ORIGIN_LEN"
      "route codec env chan_id after orig st = (st1, Inr receipt)"
      "charge_customer chan_id rel (requests_log_add chan_id \<lparr>log_origin = orig,
          log_tx = (block_height env, tx_index env), log_source_id = drand_source_id (round_after after),
          log_queued = rr_queued receipt\<rparr> st1) = (st', r1)"
      "r = and_then r1 (\<lambda>msg. Inr \<lparr>messages = map new_msg (rr_msgs receipt @ [msg]),
            attributes = [(''action'', Text ''receive_request_beacon'')], events = [],
            acknowledgement = rr_acknowledgement receipt\<rparr>)"
proof (cases "MAX_ORIGIN_LEN < length orig")
  case True
  with recv have "st' = st" "r = Inl (Error OriginTooLong)"
    by (simp_all add: receive_request_beacon_def bind_a_def read_a_def validate_origin_def)
  from this True show ?thesis by (rule rejected)
next
  case False
  obtain st1 rr where route: "route codec env chan_id after orig st = (st1, rr)"
    by fastforce
  show ?thesis
  proof (cases rr)
    case (Inl f)
    with route config route_no_Error [of st] obtain p where "f = Panic p"
      by (cases f) auto
    with recv route Inl False have "r = Inl (Panic p)"
      by (simp add: receive_request_beacon_def bind_a_def read_a_def validate_origin_def map_err_a_def std_failure_def)
    with no_panic show ?thesis by contradiction
  next
    case (Inr receipt)
    with route have route: "route codec env chan_id after orig st = (st1, Inr receipt)" by simp
    note source = route_effect [OF inv route]
    obtain st2 r1 where charge: "charge_customer chan_id rel (requests_log_add chan_id \<lparr>log_origin = orig,
          log_tx = (block_height env, tx_index env), log_source_id = drand_source_id (round_after after),
          log_queued = rr_queued receipt\<rparr> st1) = (st2, r1)"
      by fastforce
    with recv route source False have "st' = st2" "r = and_then r1 (\<lambda>msg. Inr \<lparr>messages = map new_msg (rr_msgs receipt @ [msg]),
            attributes = [(''action'', Text ''receive_request_beacon'')], events = [],
            acknowledgement = rr_acknowledgement receipt\<rparr>)"
      by (cases r1; simp add: receive_request_beacon_def bind_a_def read_a_def validate_origin_def map_err_a_def
          write_a_def return_a_def)+
    with charge show ?thesis using False by (intro routed [OF _ route]) simp_all
  qed
qed

text \<open>An accepted request keeps the books: it is logged, and queued or processed.\<close>

lemma receive_request_beacon_inv:
  assumes inv: "gateway_inv st"
    and recv: "receive_request_beacon codec env chan_id rel after orig st = (st', r)"
    and no_panic: "\<And>p. r \<noteq> Inl (Panic p)"
  shows "gateway_inv st'"
proof -
  from inv obtain config where config: "CONFIG st = Some config" and jobs: "jobs_inv st"
    by (auto simp: gateway_inv_def)
  from config jobs recv no_panic show ?thesis
  proof (cases rule: receive_request_beacon_cases)
    case rejected
    with inv show ?thesis by simp
  next
    case (routed st1 receipt r1)
    let ?entry = "\<lparr>log_origin = orig, log_tx = (block_height env, tx_index env),
      log_source_id = drand_source_id (round_after after), log_queued = rr_queued receipt\<rparr>"
    note eff = route_effect [OF jobs routed(2)]
    have no_panic1: "r1 \<noteq> Inl (Panic p)" for p
      using routed(4) no_panic by (cases r1) auto
    obtain cs where st': "st' = (requests_log_add chan_id ?entry st1)\<lparr>CUSTOMERS := cs\<rparr>"
    proof (cases rule: charge_customer_cases [OF routed(3) _ no_panic1, of config])
      case 1
      show ?case using eff config by (simp add: requests_log_add_def)
    next
      case 2
      then have "st' = (requests_log_add chan_id ?entry st1)\<lparr>CUSTOMERS := CUSTOMERS (requests_log_add chan_id ?entry st1)\<rparr>"
        by simp
      then show ?thesis by (rule that)
    next
      case (3 c n shares)
      then show ?thesis by (intro that)
    qed
    have "kv_ordered (REQUESTS_LOG st1)" using inv eff by (simp add: gateway_inv_def)
    then have log: "kv_ordered (REQUESTS_LOG st')" "\<And>r. logged st' r = logged st1 r + (if r = round_after after then 1 else 0)"
      using logged_add [of st1 chan_id ?entry] by (simp_all add: st' requests_log_add_def)
    moreover have "logged st1 = logged st" using eff by (simp add: logged_def fun_eq_iff)
    moreover have "jobs_inv st'" "jobs_of st' = jobs_of st1" "CONFIG st' = CONFIG st1"
      "get_processed_drand_jobs st' = get_processed_drand_jobs st1"
      using eff by (simp_all add: st' requests_log_add_def)
    ultimately show ?thesis
      using inv eff by (auto simp: gateway_inv_def)
  qed
qed

lemma std_failure_simps [simp]: "std_failure (Error e) = Error (Std e)" "std_failure (Panic p) = Panic p"
  by (simp_all add: std_failure_def)

lemma add_verified_round_Inr:
  "execute_add_verified_round codec env info round rand vtx st = Inr (st', res) \<longleftrightarrow>
     (\<exists>config nd. CONFIG st = Some config \<and> sender info \<in> set (unwrap_or (trusted_sources config) []) \<and>
        new_drand codec env round rand vtx st = Inr (st', nd) \<and>
        res = \<lparr>messages = map new_msg (nd_msgs nd),
               attributes = [(''jobs_processed'', Text (show_word (nd_jobs_processed nd)))], events = []\<rparr>)"
  by (auto simp: execute_add_verified_round_def load_config_gateway_def split: if_splits)

lemma add_verified_round_inv:
  assumes inv: "gateway_inv st" and step: "execute_add_verified_round codec env info round rand vtx st = Inr (st', res)"
  shows "gateway_inv st'"
proof -
  from step obtain nd where "new_drand codec env round rand vtx st = Inr (st', nd)"
    by (auto simp: add_verified_round_Inr)
  with inv have d: "drained codec env round rand (min (if vtx then 1 else 10) (length (jobs_of st round)))
      (archive_store round rand st) (nd_msgs nd) st'"
    by (intro new_drand_Inr) (simp_all add: gateway_inv_def)
  have "logged st' = logged st"
    using d by (simp add: drained_def only_jobs_changed_def archive_store_def logged_def fun_eq_iff)
  moreover have "jobs_of st' = (jobs_of st)(round := drop (min (if vtx then 1 else 10) (length (jobs_of st round))) (jobs_of st round))"
    and "unat (get_processed_drand_jobs st' r) = unat (get_processed_drand_jobs st r) +
      (if r = round then min (if vtx then 1 else 10) (length (jobs_of st round)) else 0)" for r
    using d by (auto simp: drained_def archive_store_def)
  ultimately show ?thesis
    using inv d
    by (auto simp: gateway_inv_def drained_def only_jobs_changed_def archive_store_def dest: in_set_dropD)
qed

lemma version_frame [simp]:
  "jobs_inv (set_contract_version n v st) = jobs_inv st" "jobs_of (set_contract_version n v st) = jobs_of st"
  "logged (set_contract_version n v st) = logged st"
  "get_processed_drand_jobs (set_contract_version n v st) = get_processed_drand_jobs st"
  "CONFIG (set_contract_version n v st) = CONFIG st" "REQUESTS_LOG (set_contract_version n v st) = REQUESTS_LOG st"
  by (simp_all add: set_contract_version_def jobs_inv_def jobs_of_def logged_def get_processed_drand_jobs_def
      last_job_id_def fun_eq_iff)

lemma gateway_inv_frame [simp]:
  "gateway_inv (st\<lparr>CUSTOMERS := cs\<rparr>) = gateway_inv st"
  "gateway_inv (set_contract_version n v st) = gateway_inv st"
  by (simp_all add: gateway_inv_def)

lemma gateway_inv_config: "gateway_inv st \<Longrightarrow> gateway_inv (st\<lparr>CONFIG := Some co\<rparr>)"
  by (simp only: gateway_inv_def) simp

lemma ibc_packet_receive_gateway_Inr:
  assumes "ibc_packet_receive_gateway api codec env msg st = Inr (st', res)"
  obtains r where "receive_packet_gateway codec env msg st = (st', r)" and "\<And>p. r \<noteq> Inl (Panic p)"
  using assms
  by (cases "receive_packet_gateway codec env msg st")
    (auto simp: ibc_packet_receive_gateway_def split: sum.splits failure.splits)

lemma receive_packet_gateway_inv:
  assumes inv: "gateway_inv st" and "receive_packet_gateway codec env msg st = (st', r)" and "\<And>p. r \<noteq> Inl (Panic p)"
  shows "gateway_inv st'"
proof (cases "dec_in_packet codec (packet_data msg)")
  case (Inl e)
  with assms show ?thesis
    by (simp add: receive_packet_gateway_def bind_a_def read_a_def)
next
  case (Inr op)
  show ?thesis
  proof (cases op)
    case (RequestBeacon after orig)
    with Inr assms(2) have "receive_request_beacon codec env (dest_channel_id msg) (packet_relayer msg) after orig st = (st', r)"
      by (simp add: receive_packet_gateway_def bind_a_def [of "read_a _"] read_a_def)
    from receive_request_beacon_inv [OF inv this assms(3)] show ?thesis .
  next
    case PullBeaconPrice
    with Inr assms show ?thesis
      by (auto simp: receive_packet_gateway_def receive_pull_beacon_price_def bind_a_def read_a_def return_a_def
          split: sum.splits)
  qed
qed

lemma ibc_channel_connect_gateway_Inr:
  assumes "ibc_channel_connect_gateway api codec q env msg st = Inr (st', res)"
  obtains cs where "st' = st\<lparr>CUSTOMERS := cs\<rparr>"
  using assms by (cases msg) (auto simp: Let_def)

lemma execute_set_config_gateway_Inr:
  assumes "execute_set_config_gateway api info env ma pr dr ts pif st = Inr (st', res)"
  obtains co where "st' = st\<lparr>CONFIG := Some co\<rparr>"
  using assms by (auto simp: execute_set_config_gateway_def Let_def split: if_splits)

lemma gateway_tx_inv:
  assumes inv: "gateway_inv st" and step: "gateway_tx api codec t st = Inr (st', res)"
  shows "gateway_inv st'"
proof -
  obtain q env call where t: "t = (q, env, call)" by (cases t)
  show ?thesis
  proof (cases call)
    case (CallExecute info msg)
    show ?thesis
    proof (cases msg)
      case (AddVerifiedRound round rand vtx)
      with step CallExecute show ?thesis
        by (intro add_verified_round_inv [OF inv]) (simp add: t)
    next
      case (SetConfig ma pr dr pif ts)
      with step CallExecute obtain co where "st' = st\<lparr>CONFIG := Some co\<rparr>"
        using execute_set_config_gateway_Inr [of api info env ma pr dr ts pif st st' res] by (auto simp: t)
      with inv show ?thesis by (simp add: gateway_inv_config)
    qed
  next
    case (CallPacketReceive msg)
    with step obtain res' where "ibc_packet_receive_gateway api codec env msg st
        = (Inr (st', res') :: gateway_error failure + gateway_state \<times> gateway_out_msg ibc_receive_response)"
      by (auto simp: t)
    then show ?thesis
      by (rule ibc_packet_receive_gateway_Inr) (rule receive_packet_gateway_inv [OF inv])
  next
    case (CallChannelConnect msg)
    with step have "ibc_channel_connect_gateway api codec q env msg st = Inr (st', res)"
      by (simp add: t)
    then obtain cs where "st' = st\<lparr>CUSTOMERS := cs\<rparr>" by (rule ibc_channel_connect_gateway_Inr)
    with inv show ?thesis by simp
  qed (use inv step in \<open>auto simp: t migrate_gateway_def Let_def gateway_inv_config ibc_channel_close_gateway_def
      ibc_packet_ack_gateway_def ibc_packet_timeout_gateway_def\<close>)
qed

interpretation gateway_books: invariant_machine "gateway_tx api codec" gateway_inv for api codec
  by unfold_locales (rule gateway_tx_inv)

lemma gateway_inv_init:
  assumes "instantiate_gateway api q env info msg empty_gateway_state = Inr (st, res)"
  shows "gateway_inv st"
  using assms
  by (auto simp: instantiate_gateway_def empty_gateway_state_def set_contract_version_def gateway_inv_def
      jobs_inv_def jobs_of_def logged_def get_processed_drand_jobs_def)

lemma gateway_run_inv:
  assumes "instantiate_gateway api q env info msg empty_gateway_state = Inr (st0, res0)"
  shows "gateway_inv (run (gateway_tx api codec) ts st0)"
  using gateway_inv_init [OF assms] by (rule gateway_books.run_inv)

section \<open>Answering jobs\<close>

lemma deliveries:
  assumes "time_of_round round = (Inr published :: std_error failure + timestamp)"
    and "plus_seconds (block_time env) DELIVER_BEACON_PACKET_LIFETIME = (Inr timeout :: std_error failure + timestamp)"
    and "map Inr ds = map (deliver_job codec env round rand) js"
  shows "ds = map (\<lambda>j. IbcSendPacket (channel j)
     (enc_out_packet codec (DeliverBeacon (source_id j) published rand (origin j))) timeout) js"
proof -
  have "deliver_job codec env round rand j = Inr (IbcSendPacket (channel j)
     (enc_out_packet codec (DeliverBeacon (source_id j) published rand (origin j))) timeout)" for j
    using assms(1,2) by (simp add: deliver_job_Inr)
  with assms(3) have "map (Inr :: _ \<Rightarrow> std_error failure + _) ds = map Inr (map (\<lambda>j. IbcSendPacket (channel j)
     (enc_out_packet codec (DeliverBeacon (source_id j) published rand (origin j))) timeout) js)"
    by simp
  then show ?thesis by (simp only: inj_map_eq_map [OF inj_Inr])
qed

text \<open>The number of jobs a submission answers.\<close>

definition batch :: "bool \<Rightarrow> job list \<Rightarrow> nat" where
  "batch is_verifying_tx jobs = min (if is_verifying_tx then 1 else 10) (length jobs)"

lemma add_verified_round_total:
  assumes inv: "gateway_inv st" and config: "CONFIG st = Some config"
    and trusted: "sender info \<in> set (unwrap_or (trusted_sources config) [])"
    and round: "unat round < 2 ^ 32" and time: "time_of_round round = (Inr published :: std_error failure + timestamp)"
    and timeout: "plus_seconds (block_time env) DELIVER_BEACON_PACKET_LIFETIME = (Inr timeout :: std_error failure + timestamp)"
    and counter: "unat (get_processed_drand_jobs st round) + 10 < 2 ^ 32"
  obtains st' where "execute_add_verified_round codec env info round rand vtx st = Inr (st',
      \<lparr>messages = map (\<lambda>j. new_msg (IbcSendPacket (channel j)
           (enc_out_packet codec (DeliverBeacon (drand_source_id round) published rand (origin j))) timeout))
         (take (batch vtx (jobs_of st round)) (jobs_of st round)),
       attributes = [(''jobs_processed'', Text (show_nat (batch vtx (jobs_of st round))))], events = []\<rparr>)"
    and "jobs_of st' = (jobs_of st)(round := drop (batch vtx (jobs_of st round)) (jobs_of st round))"
    and "archive_lookup st' = (archive_lookup st)(round := Some rand)"
    and "CONFIG st' = CONFIG st" and "CUSTOMERS st' = CUSTOMERS st" and "REQUESTS_LOG st' = REQUESTS_LOG st"
    and "unat (get_processed_drand_jobs st' round) = unat (get_processed_drand_jobs st round) + batch vtx (jobs_of st round)"
proof -
  have jobs: "jobs_inv st" using inv by (simp add: gateway_inv_def)
  from new_drand_total [OF jobs round time timeout counter] obtain st' nd where
    nd: "new_drand codec env round rand vtx st = Inr (st', nd)" by blast
  let ?k = "batch vtx (jobs_of st round)"
  have d: "drained codec env round rand ?k (archive_store round rand st) (nd_msgs nd) st'"
    and count: "unat (nd_jobs_processed nd) = ?k"
    using new_drand_Inr [OF jobs nd] by (simp_all add: batch_def)
  have jobs_eq: "jobs_of (archive_store round rand st) = jobs_of st"
    "get_processed_drand_jobs (archive_store round rand st) = get_processed_drand_jobs st"
    by (simp_all add: archive_store_def)
  have "source_id j = drand_source_id round" if "j \<in> set (take ?k (jobs_of st round))" for j
    using inv in_set_takeD [OF that] by (simp add: gateway_inv_def)
  moreover have "nd_msgs nd = map (\<lambda>j. IbcSendPacket (channel j)
     (enc_out_packet codec (DeliverBeacon (source_id j) published rand (origin j))) timeout) (take ?k (jobs_of st round))"
    using d by (intro deliveries [OF time timeout]) (simp add: drained_def jobs_eq)
  ultimately have msgs: "map new_msg (nd_msgs nd) = map (\<lambda>j. new_msg (IbcSendPacket (channel j)
     (enc_out_packet codec (DeliverBeacon (drand_source_id round) published rand (origin j))) timeout))
     (take ?k (jobs_of st round))"
    by simp
  have "execute_add_verified_round codec env info round rand vtx st = Inr (st',
      \<lparr>messages = map new_msg (nd_msgs nd), attributes = [(''jobs_processed'', Text (show_nat ?k))], events = []\<rparr>)"
    using config trusted nd count by (simp add: add_verified_round_Inr show_word_def)
  with msgs d show ?thesis
    by (intro that [of st']) (auto simp: drained_def jobs_eq only_jobs_changed_def archive_store_def archive_lookup_def fun_eq_iff)
qed

text \<open>
  Submissions of a round by trusted sources, as many as there are jobs, answer all of them: their
  packets are the answers to the jobs in the order of the queue.
\<close>

lemma repeated_submissions_drain:
  assumes "gateway_inv st" and "CONFIG st = Some config"
    and "sender info \<in> set (unwrap_or (trusted_sources config) [])"
    and "unat round < 2 ^ 32" and "time_of_round round = (Inr published :: std_error failure + timestamp)"
    and "plus_seconds (block_time env) DELIVER_BEACON_PACKET_LIFETIME = (Inr timeout :: std_error failure + timestamp)"
    and "unat (get_processed_drand_jobs st round) + length (jobs_of st round) + 10 < 2 ^ 32"
    and "length (jobs_of st round) \<le> n"
    and "t = (q, env, CallExecute info (AddVerifiedRound round rand vtx))"
  shows "jobs_of (run (gateway_tx api codec) (replicate n t) st) round = [] \<and>
    concat (map messages (responses (gateway_tx api codec) (replicate n t) st)) =
      map (\<lambda>j. new_msg (IbcSendPacket (channel j)
        (enc_out_packet codec (DeliverBeacon (drand_source_id round) published rand (origin j))) timeout)) (jobs_of st round)"
  using assms(1,2,7,8)
proof (induction n arbitrary: st)
  case 0
  then show ?case by simp
next
  case (Suc n)
  let ?answer = "\<lambda>j. new_msg (IbcSendPacket (channel j)
      (enc_out_packet codec (DeliverBeacon (drand_source_id round) published rand (origin j))) timeout)"
  have counter: "unat (get_processed_drand_jobs st round) + 10 < 2 ^ 32" using Suc.prems(3) by simp
  show ?case
  proof (rule add_verified_round_total [OF Suc.prems(1,2) assms(3-6) counter, of codec rand vtx])
    fix st'
    let ?k = "batch vtx (jobs_of st round)"
    assume ok: "execute_add_verified_round codec env info round rand vtx st = Inr (st',
        \<lparr>messages = map ?answer (take ?k (jobs_of st round)),
         attributes = [(''jobs_processed'', Text (show_nat ?k))], events = []\<rparr>)"
      and jobs: "jobs_of st' = (jobs_of st)(round := drop ?k (jobs_of st round))"
      and co: "CONFIG st' = CONFIG st"
      and count: "unat (get_processed_drand_jobs st' round) = unat (get_processed_drand_jobs st round) + ?k"
    have "commit (gateway_tx api codec) t st = st'"
      using ok by (simp add: commit_def assms(9))
    moreover have "responses (gateway_tx api codec) (replicate (Suc n) t) st =
        \<lparr>messages = map ?answer (take ?k (jobs_of st round)),
         attributes = [(''jobs_processed'', Text (show_nat ?k))], events = []\<rparr>
        # responses (gateway_tx api codec) (replicate n t) st'"
      unfolding replicate_Suc by (rule responses_Inr) (use ok in \<open>simp add: assms(9)\<close>)
    moreover have "jobs_of (run (gateway_tx api codec) (replicate n t) st') round = [] \<and>
        concat (map messages (responses (gateway_tx api codec) (replicate n t) st')) = map ?answer (jobs_of st' round)"
    proof (rule Suc.IH)
      show "gateway_inv st'" using Suc.prems(1) ok by (rule add_verified_round_inv)
      show "CONFIG st' = Some config" using co Suc.prems(2) by simp
      show "unat (get_processed_drand_jobs st' round) + length (jobs_of st' round) + 10 < 2 ^ 32"
        using count jobs Suc.prems(3) by (simp add: batch_def)
      show "length (jobs_of st' round) \<le> n"
        using jobs Suc.prems(4) by (auto simp: batch_def)
    qed
    moreover have "map ?answer (take ?k (jobs_of st round)) @ map ?answer (jobs_of st' round) = map ?answer (jobs_of st round)"
      by (simp only: map_append [symmetric]) (simp add: jobs)
    ultimately show ?thesis by simp
  qed
qed

section \<open>Statistics\<close>

lemma jobs_of_length: "jobs_inv st \<Longrightarrow> length (jobs_of st round) \<le> 2 ^ 16"
proof -
  assume inv: "jobs_inv st"
  then have "distinct (map fst (kv_prefix (ucast round :: u32) (JOBS st)))"
    by (intro kv_ordered_distinct kv_ordered_prefix) (simp add: jobs_inv_def)
  then have "length (kv_prefix (ucast round :: u32) (JOBS st)) = card (fst ` set (kv_prefix (ucast round :: u32) (JOBS st)))"
    using distinct_card by fastforce
  also have "\<dots> \<le> card (UNIV :: u16 set)" by (intro card_mono) simp_all
  also have "card (UNIV :: u16 set) = 2 ^ 16" by (simp add: card_word)
  finally show ?thesis by (simp add: jobs_of_def)
qed

lemma query_drand_job_stats_Inr:
  assumes "jobs_inv st" and "query_drand_job_stats st round = Inr s"
  shows "unat (js_unprocessed s) = length (jobs_of st round)"
    and "js_processed s = get_processed_drand_jobs st round"
proof -
  from assms(2) have small: "unat round < 2 ^ 32"
    and s: "js_unprocessed s = of_nat (length (kv_prefix (ucast round :: u32) (JOBS st)))"
      "js_processed s = get_processed_drand_jobs st round"
    by (auto simp: query_drand_job_stats_def unprocessed_drand_jobs_len_def u32_round_eq_Inr)
  have "length (kv_prefix (ucast round :: u32) (JOBS st)) = length (jobs_of st round)"
    using small by (simp add: jobs_of_def)
  then show "unat (js_unprocessed s) = length (jobs_of st round)"
    using jobs_of_length [OF assms(1), of round] s(1) by (simp add: unat_of_nat_small)
  show "js_processed s = get_processed_drand_jobs st round" by (rule s(2))
qed

section \<open>Requests that are accepted\<close>

text \<open>
  The request of a registered customer, received without a panic: it is routed, logged and
  charged, and the response carries the router's messages followed by the order to pay.
\<close>

lemma received_request:
  assumes inv: "gateway_inv st" and config: "CONFIG st = Some config"
    and customer: "kv_may_load (CUSTOMERS st) (dest_channel_id msg) = Some c"
    and decoded: "dec_in_packet codec (packet_data msg) = Inr (RequestBeacon after orig)"
    and len: "length orig \<le> MAX_ORIGIN_LEN"
    and recv: "ibc_packet_receive_gateway api codec env msg st
      = (Inr (st', res) :: 'e failure + gateway_state \<times> gateway_out_msg ibc_receive_response)"
  obtains st1 receipt n shares where
    "route codec env (dest_channel_id msg) after orig st = (st1, Inr receipt)"
    "unat n = Suc (unat (requested_beacons c))"
    "st' = (requests_log_add (dest_channel_id msg) \<lparr>log_origin = orig, log_tx = (block_height env, tx_index env),
        log_source_id = drand_source_id (round_after after), log_queued = rr_queued receipt\<rparr> st1)
      \<lparr>CUSTOMERS := kv_save (dest_channel_id msg) (c\<lparr>requested_beacons := n\<rparr>) (CUSTOMERS st)\<rparr>"
    "price_shares (amount (price config)) = (Inr shares :: gateway_error failure + u128 \<times> u128 \<times> u128)"
    "messages res = map new_msg (rr_msgs receipt @ [pay_msg config c (packet_relayer msg) shares])"
    "acknowledgement res = rr_acknowledgement receipt"
proof -
  have jobs: "jobs_inv st" using inv by (simp add: gateway_inv_def)
  obtain x where "receive_packet_gateway codec env msg st = (st', x)" and no_panic: "\<And>p. x \<noteq> Inl (Panic p)"
    and x: "\<And>y. x = Inr y \<Longrightarrow> res = y"
    using recv by (cases "receive_packet_gateway codec env msg st")
      (auto simp: ibc_packet_receive_gateway_def split: sum.splits failure.splits)
  then have "receive_request_beacon codec env (dest_channel_id msg) (packet_relayer msg) after orig st = (st', x)"
    using decoded by (simp add: receive_packet_gateway_def bind_a_def [of "read_a _"] read_a_def)
  from config jobs this no_panic show ?thesis
  proof (cases rule: receive_request_beacon_cases)
    case rejected
    with len show ?thesis by simp
  next
    case (routed st1 receipt r1)
    note eff = route_effect [OF jobs routed(2)]
    have config1: "CONFIG (requests_log_add (dest_channel_id msg) \<lparr>log_origin = orig,
        log_tx = (block_height env, tx_index env), log_source_id = drand_source_id (round_after after),
        log_queued = rr_queued receipt\<rparr> st1) = Some config"
      using eff config by (simp add: requests_log_add_def)
    have "r1 \<noteq> Inl (Panic p)" for p using routed(4) no_panic by (cases r1) auto
    with routed(3) config1 show ?thesis
    proof (cases rule: charge_customer_cases)
      case unknown
      with eff customer show ?thesis by (simp add: requests_log_add_def)
    next
      case (charged c1 n shares)
      have c1: "c1 = c" using charged(1) eff customer by (simp add: requests_log_add_def)
      have st': "st' = (requests_log_add (dest_channel_id msg) \<lparr>log_origin = orig, log_tx = (block_height env, tx_index env),
          log_source_id = drand_source_id (round_after after), log_queued = rr_queued receipt\<rparr> st1)
        \<lparr>CUSTOMERS := kv_save (dest_channel_id msg) (c\<lparr>requested_beacons := n\<rparr>) (CUSTOMERS st)\<rparr>"
        using charged(3) eff by (simp add: c1 requests_log_add_def)
      have n: "unat n = Suc (unat (requested_beacons c))" using charged(2) by (simp add: c1)
      have res: "messages res = map new_msg (rr_msgs receipt @ [pay_msg config c (packet_relayer msg) shares])"
        "acknowledgement res = rr_acknowledgement receipt"
        using charged(5) routed(4) x by (auto simp: c1)
      from that [OF routed(2) n st' charged(4) res] show ?thesis .
    qed
  qed
qed

lemma charge_customer_frame:
  assumes "charge_customer chan_id rel st = (st', r)"
  shows "CONFIG st' = CONFIG st \<and> DRAND_ARCHIVE st' = DRAND_ARCHIVE st"
  using assms
  by (auto simp: charge_customer_def bind_a_def read_a_def write_a_def return_a_def Let_def
      split: sum.splits prod.splits)

lemma receive_packet_frame:
  assumes inv: "gateway_inv st" and recv: "receive_packet_gateway codec env msg st = (st', r)"
    and no_panic: "\<And>p. r \<noteq> Inl (Panic p)"
  shows "CONFIG st' = CONFIG st \<and> DRAND_ARCHIVE st' = DRAND_ARCHIVE st"
proof (cases "\<exists>after orig. dec_in_packet codec (packet_data msg) = Inr (RequestBeacon after orig)")
  case True
  then obtain after orig where
    request: "receive_request_beacon codec env (dest_channel_id msg) (packet_relayer msg) after orig st = (st', r)"
    using recv by (auto simp: receive_packet_gateway_def bind_a_def [of "read_a _"] read_a_def)
  from inv obtain config where config: "CONFIG st = Some config" and jobs: "jobs_inv st"
    by (auto simp: gateway_inv_def)
  from config jobs request no_panic show ?thesis
  proof (cases rule: receive_request_beacon_cases)
    case rejected
    then show ?thesis by simp
  next
    case (routed st1 receipt r1)
    from charge_customer_frame [OF routed(3)] route_effect [OF jobs routed(2)] show ?thesis
      by (simp add: requests_log_add_def)
  qed
next
  case False
  then show ?thesis using recv
    by (auto simp: receive_packet_gateway_def receive_pull_beacon_price_def bind_a_def read_a_def return_a_def
        split: sum.splits in_packet.splits)
qed

lemma add_verified_round_frame:
  assumes inv: "gateway_inv st" and step: "execute_add_verified_round codec env info round rand vtx st = Inr (st', res)"
  shows "CONFIG st' = CONFIG st" and "archive_lookup st' = (archive_lookup st)(round \<mapsto> rand)"
    and "\<exists>config. CONFIG st = Some config \<and> sender info \<in> set (unwrap_or (trusted_sources config) [])"
proof -
  from step obtain nd where nd: "new_drand codec env round rand vtx st = Inr (st', nd)"
    and trusted: "\<exists>config. CONFIG st = Some config \<and> sender info \<in> set (unwrap_or (trusted_sources config) [])"
    by (auto simp: add_verified_round_Inr)
  from inv have d: "drained codec env round rand (min (if vtx then 1 else 10) (length (jobs_of st round)))
      (archive_store round rand st) (nd_msgs nd) st'"
    by (intro new_drand_Inr [OF _ nd]) (simp add: gateway_inv_def)
  then show "CONFIG st' = CONFIG st" "archive_lookup st' = (archive_lookup st)(round \<mapsto> rand)"
    by (auto simp: drained_def only_jobs_changed_def archive_store_def archive_lookup_def fun_eq_iff)
  show "\<exists>config. CONFIG st = Some config \<and> sender info \<in> set (unwrap_or (trusted_sources config) [])" by (rule trusted)
qed

text \<open>The order to the payment contract that an accepted request ends with.\<close>

fun orders_payment :: "gateway_out_msg cosmos_msg \<Rightarrow> bool" where
  "orders_payment (WasmExecute _ (ToPayment _) _) = True"
| "orders_payment _ = False"

lemma route_msgs:
  assumes "route codec env chan after orig st = (st1, Inr receipt)" and "m \<in> set (rr_msgs receipt)"
  shows "\<not> orders_payment m \<and> msg_funds d m = 0"
proof (cases "archive_lookup st (round_after after)")
  case None
  with assms show ?thesis
    by (auto simp: route_def handle_drand_request_queued coins_of_def split: option.splits)
next
  case (Some rand)
  with assms show ?thesis
    by (auto simp: route_def handle_drand_request_archived deliver_job_def create_deliver_beacon_ibc_message_def Let_def)
qed

lemma accepted_request_order:
  assumes inv: "gateway_inv st" and config: "CONFIG st = Some config"
    and customer: "kv_may_load (CUSTOMERS st) (dest_channel_id msg) = Some c"
    and decoded: "dec_in_packet codec (packet_data msg) = Inr (RequestBeacon after orig)"
    and len: "length orig \<le> MAX_ORIGIN_LEN"
    and recv: "ibc_packet_receive_gateway api codec env msg st
      = (Inr (st', res) :: 'e failure + gateway_state \<times> gateway_out_msg ibc_receive_response)"
  obtains ms b r rest n where
    "messages res = ms @ [new_msg (WasmExecute (payment c) (ToPayment
        (Pay \<lparr>amount = b, denom = denom (price config)\<rparr> \<lparr>amount = rest, denom = denom (price config)\<rparr>
          (packet_relayer msg, \<lparr>amount = r, denom = denom (price config)\<rparr>))) [])]"
    "\<forall>m \<in> set ms. \<not> orders_payment (sub_msg m) \<and> (\<forall>d. msg_funds d (sub_msg m) = 0)"
    "unat b = unat (amount (price config)) * 40 div 100" "unat r = unat (amount (price config)) * 20 div 100"
    "unat b + unat r + unat rest = unat (amount (price config))"
    "kv_may_load (CUSTOMERS st') = (kv_may_load (CUSTOMERS st))(dest_channel_id msg \<mapsto> c\<lparr>requested_beacons := n\<rparr>)"
    "unat n = Suc (unat (requested_beacons c))"
proof (rule received_request [OF assms])
  fix st1 receipt n shares
  assume route: "route codec env (dest_channel_id msg) after orig st = (st1, Inr receipt)"
    and n: "unat n = Suc (unat (requested_beacons c))"
    and st': "st' = (requests_log_add (dest_channel_id msg) \<lparr>log_origin = orig, log_tx = (block_height env, tx_index env),
        log_source_id = drand_source_id (round_after after), log_queued = rr_queued receipt\<rparr> st1)
      \<lparr>CUSTOMERS := kv_save (dest_channel_id msg) (c\<lparr>requested_beacons := n\<rparr>) (CUSTOMERS st)\<rparr>"
    and shares: "price_shares (amount (price config)) = (Inr shares :: gateway_error failure + u128 \<times> u128 \<times> u128)"
    and msgs: "messages res = map new_msg (rr_msgs receipt @ [pay_msg config c (packet_relayer msg) shares])"
  obtain b r rest where p: "price_shares (amount (price config)) = (Inr (b, r, rest) :: gateway_error failure + u128 \<times> u128 \<times> u128)"
    and amounts: "unat b = unat (amount (price config)) * 40 div 100"
    "unat r = unat (amount (price config)) * 20 div 100" "unat b + unat r + unat rest = unat (amount (price config))"
    by (rule price_shares_Inr)
  from p shares have "shares = (b, r, rest)" by simp
  with msgs amounts n st' route_msgs [OF route] show ?thesis
    by (intro that [of "map new_msg (rr_msgs receipt)" b rest r n]) (auto simp: pay_msg_def kv_may_load_save)
qed

section \<open>A sample run\<close>

text \<open>
  A gateway with one open channel, a request for randomness after the sample block's time, which
  is committed to round 7438268, and the state with the queued job.
\<close>

definition sample_gateway_config :: gateway_config where
  "sample_gateway_config = \<lparr>drand = Some ''drand'', trusted_sources = Some [''drand''], manager = ''mgr'',
     price = \<lparr>amount = 1000, denom = ''unois''\<rparr>, payment_code_id = 5, payment_initial_funds = None, sink = ''sink''\<rparr>"

definition sample_gateway_open :: gateway_state where
  "sample_gateway_open = \<lparr>CONTRACT_INFO = Some (''nois-gateway'', CARGO_PKG_VERSION),
     CONFIG = Some sample_gateway_config, JOBS = [], LAST_JOB_ID = [], PROCESSED_DRAND_JOBS_COUNT = [],
     CUSTOMERS = [(''channel-1'', \<lparr>payment = ''pay'', requested_beacons = 0\<rparr>)], REQUESTS_LOG = [], DRAND_ARCHIVE = []\<rparr>"

definition sample_job_of :: "binary \<Rightarrow> job" where
  "sample_job_of orig = \<lparr>source_id = drand_source_id 7438268, channel = ''channel-1'', origin = orig\<rparr>"

definition sample_queued :: "binary \<Rightarrow> gateway_state" where
  "sample_queued orig = sample_gateway_open\<lparr>JOBS := [((7438268, 1), sample_job_of orig)], LAST_JOB_ID := [(7438268, 1)],
     CUSTOMERS := [(''channel-1'', \<lparr>payment = ''pay'', requested_beacons = 1\<rparr>)],
     REQUESTS_LOG := [(requests_log_key ''channel-1'', [\<lparr>log_origin = orig, log_tx = (7, Some 1),
        log_source_id = drand_source_id 7438268, log_queued = True\<rparr>])]\<rparr>"

abbreviation sample_job :: job where
  "sample_job \<equiv> sample_job_of [1, 2, 3]"

abbreviation sample_gateway_queued :: gateway_state where
  "sample_gateway_queued \<equiv> sample_queued [1, 2, 3]"

definition sample_gateway_response :: "gateway_out_msg ibc_receive_response" where
  "sample_gateway_response =
     \<lparr>messages = [new_msg (WasmExecute ''drand'' (ToDrand (SetIncentivized 7438268)) []),
        new_msg (WasmExecute ''pay'' (ToPayment (Pay \<lparr>amount = 400, denom = ''unois''\<rparr>
          \<lparr>amount = 400, denom = ''unois''\<rparr> (''rel'', \<lparr>amount = 200, denom = ''unois''\<rparr>))) [])],
      attributes = [(''action'', Text ''receive_request_beacon'')], events = [],
      acknowledgement = AckSuccess (enc_in_packet_ack sample_codec (RequestQueued (drand_source_id 7438268)))\<rparr>"

definition sample_request :: "string \<Rightarrow> ibc_packet_receive_msg" where
  "sample_request chan = \<lparr>packet_data = enc_in_packet sample_codec (RequestBeacon 1700000000000000000 [1, 2, 3]),
     dest_channel_id = chan, packet_relayer = ''rel''\<rparr>"

lemma sample_round: "round_after 1700000000000000000 = 7438268"
  by (simp add: round_after_def DRAND_GENESIS_def DRAND_ROUND_LENGTH_def)

lemma sample_time: "time_of_round 7438268 = (Inr 1700000001000000000 :: 'e failure + timestamp)"
  by (simp add: time_of_round_eq_Inr)

lemma sample_timeout:
  "plus_seconds (block_time sample_env) DELIVER_BEACON_PACKET_LIFETIME = (Inr 1708640000000000000 :: 'e failure + timestamp)"
  by (simp add: plus_seconds_eq_Inr sample_env_def)

lemma sample_gateway_open_inv: "gateway_inv sample_gateway_open"
  by (simp add: gateway_inv_def sample_gateway_open_def jobs_inv_def jobs_of_def logged_def get_processed_drand_jobs_def)

lemma sample_request_decoded:
  "dec_in_packet sample_codec (packet_data (sample_request chan)) = Inr (RequestBeacon 1700000000000000000 [1, 2, 3])"
  by (simp add: sample_request_def codec_okD [OF sample_codec_ok])

lemma sample_route:
  "route sample_codec sample_env chan 1700000000000000000 orig sample_gateway_open =
      (sample_gateway_open\<lparr>JOBS := [((7438268, 1), (sample_job_of orig)\<lparr>channel := chan\<rparr>)], LAST_JOB_ID := [(7438268, 1)]\<rparr>,
       Inr \<lparr>rr_queued = True, rr_source_id = drand_source_id 7438268,
         rr_acknowledgement = AckSuccess (enc_in_packet_ack sample_codec (RequestQueued (drand_source_id 7438268))),
         rr_msgs = [WasmExecute ''drand'' (ToDrand (SetIncentivized 7438268)) []]\<rparr>)"
proof -
  have "unprocessed_drand_jobs_enqueue 7438268 j sample_gateway_open = (Inr (sample_gateway_open
      \<lparr>JOBS := [((7438268, 1), j)], LAST_JOB_ID := [(7438268, 1)]\<rparr>) :: std_error failure + gateway_state)" for j
    by (simp add: unprocessed_drand_jobs_enqueue_def u32_round_def sample_gateway_open_def add_c_def del: result_inversion)
  moreover have "archive_lookup sample_gateway_open 7438268 = None" "CONFIG sample_gateway_open = Some sample_gateway_config"
    by (simp_all add: archive_lookup_def sample_gateway_open_def)
  ultimately show ?thesis
    by (simp add: route_def handle_drand_request_queued sample_round sample_job_of_def sample_gateway_config_def)
qed

lemma sample_request_received:
  assumes "length orig \<le> MAX_ORIGIN_LEN"
  shows "receive_request_beacon sample_codec sample_env ''channel-1'' ''rel'' 1700000000000000000 orig sample_gateway_open
     = (sample_queued orig, Inr sample_gateway_response)"
proof -
  have shares: "price_shares 1000 = (Inr (400, 200, 400) :: gateway_error failure + u128 \<times> u128 \<times> u128)"
    by (simp add: price_shares_def mul_floor_def sub_c_def del: result_inversion)
  show ?thesis
    using assms
    by (simp add: receive_request_beacon_def bind_a_def read_a_def write_a_def return_a_def map_err_a_def
        validate_origin_def sample_route requests_log_add_def requests_log_def
        charge_customer_def load_config_gateway_def del: result_inversion)
      (simp add: sample_gateway_open_def sample_queued_def sample_gateway_response_def
        sample_gateway_config_def kv_may_load_def sample_env_def add_c_def shares Let_def return_a_def sample_job_of_def del: result_inversion)
qed

lemma sample_queued_inv: "length orig \<le> MAX_ORIGIN_LEN \<Longrightarrow> gateway_inv (sample_queued orig)"
  using receive_request_beacon_inv [OF sample_gateway_open_inv sample_request_received] by simp

lemma sample_gateway_queued_inv: "gateway_inv sample_gateway_queued"
  by (simp add: sample_queued_inv MAX_ORIGIN_LEN_def)

lemma sample_gateway_queued_jobs:
  "jobs_of (sample_queued orig) 7438268 = [sample_job_of orig]" "CONFIG (sample_queued orig) = Some sample_gateway_config"
  "get_processed_drand_jobs (sample_queued orig) r = 0"
  by (simp_all add: jobs_of_def sample_queued_def sample_gateway_open_def kv_prefix_def
      get_processed_drand_jobs_def)

lemma sample_packet_received:
  assumes "length orig \<le> MAX_ORIGIN_LEN"
  shows "ibc_packet_receive_gateway api sample_codec sample_env
       \<lparr>packet_data = enc_in_packet sample_codec (RequestBeacon 1700000000000000000 orig),
        dest_channel_id = ''channel-1'', packet_relayer = ''rel''\<rparr> sample_gateway_open
     = (Inr (sample_queued orig, sample_gateway_response)
        :: 'e failure + gateway_state \<times> gateway_out_msg ibc_receive_response)"
  using sample_request_received [OF assms]
  by (simp add: ibc_packet_receive_gateway_def receive_packet_gateway_def bind_a_def [of "read_a _"] read_a_def
      codec_okD [OF sample_codec_ok])

lemma sample_ibc_received:
  "ibc_packet_receive_gateway api sample_codec sample_env (sample_request ''channel-1'') sample_gateway_open
     = (Inr (sample_gateway_queued, sample_gateway_response)
        :: 'e failure + gateway_state \<times> gateway_out_msg ibc_receive_response)"
  unfolding sample_request_def by (rule sample_packet_received) (simp add: MAX_ORIGIN_LEN_def)

text \<open>The sample gateway is reached from the instantiation: the manager configures it and a channel is opened.\<close>

definition sample_gateway_api :: api where
  "sample_gateway_api = sample_api\<lparr>sha256 := (\<lambda>_. as_bytes ''pay'')\<rparr>"

definition sample_gateway_setup :: "(querier \<times> env \<times> gateway_call) list" where
  "sample_gateway_setup =
     [(sample_querier, sample_env, CallExecute \<lparr>sender = ''mgr'', funds = []\<rparr>
         (SetConfig None None (Some ''drand'') None (Some [''drand'']))),
      (sample_querier, sample_env, CallChannelConnect (OpenConfirm \<lparr>channel_id = ''channel-1'', channel_order = Unordered,
         channel_version = IBC_APP_VERSION\<rparr>))]"

definition sample_gateway_init :: gateway_state where
  "sample_gateway_init = sample_gateway_open\<lparr>CUSTOMERS := [],
     CONFIG := Some (sample_gateway_config\<lparr>drand := None, trusted_sources := None\<rparr>)\<rparr>"

lemma sample_gateway_instantiated:
  "instantiate_gateway sample_gateway_api sample_querier sample_env \<lparr>sender = ''creator'', funds = []\<rparr>
      (GatewayInstantiateMsg \<lparr>amount = 1000, denom = ''unois''\<rparr> ''mgr'' 5 None ''sink'') empty_gateway_state
    = Inr (sample_gateway_init, default_response)"
  by (simp add: instantiate_gateway_def ensure_code_id_exists_def sample_gateway_api_def sample_api_def sample_querier_def Let_def
      empty_gateway_state_def set_contract_version_def sample_gateway_init_def sample_gateway_open_def sample_gateway_config_def
        del: result_inversion)

lemma sample_gateway_setup_run:
  "run (gateway_tx sample_gateway_api sample_codec) sample_gateway_setup sample_gateway_init = sample_gateway_open"
proof -
  have "map (\<lambda>w. char_of (unat w)) (as_bytes ''pay'') = ''pay''" by (rule of_bytes_as_bytes [unfolded of_bytes_def])
  moreover have "plus_seconds (block_time sample_env) WELCOME_PACKET_LIFETIME = (Inr 1708640000000000000 :: gateway_error failure + timestamp)"
    "plus_seconds (block_time sample_env) BEACON_PRICE_PACKET_LIFETIME = (Inr 1708640000000000000 :: gateway_error failure + timestamp)"
    by (simp_all add: plus_seconds_eq_Inr sample_env_def)
  ultimately show ?thesis
    by (simp add: sample_gateway_setup_def commit_def execute_set_config_gateway_def load_config_gateway_def Let_def
      hash_channel_def sample_gateway_api_def sample_api_def sample_querier_def
      sample_gateway_init_def sample_gateway_open_def sample_gateway_config_def del: result_inversion)
qed

lemma sample_gateway_request_run:
  "run (gateway_tx sample_gateway_api sample_codec) (sample_gateway_setup @
     [(sample_querier, sample_env, CallPacketReceive (sample_request ''channel-1''))]) sample_gateway_init = sample_gateway_queued"
  by (simp add: sample_gateway_setup_run commit_def sample_ibc_received [where 'e = gateway_error] del: result_inversion)

lemma sample_customer:
  "kv_may_load (CUSTOMERS sample_gateway_open) (dest_channel_id (sample_request ''channel-1''))
     = Some \<lparr>payment = ''pay'', requested_beacons = 0\<rparr>"
  "kv_may_load (CUSTOMERS sample_gateway_open) (dest_channel_id (sample_request ''channel-2'')) = None"
  "CONFIG sample_gateway_open = Some sample_gateway_config"
  by (simp_all add: sample_gateway_open_def sample_request_def kv_may_load_def)

lemma sample_job_simps: "channel sample_job = ''channel-1''" "origin sample_job = [1, 2, 3]"
  by (simp_all add: sample_job_of_def)

section \<open>Properties\<close>

text \<open>
  C7: The job table implements a family of first-in first-out queues, one per drand round: seen as
  lists, enqueueing appends to the round's list and nothing else changes, and dequeueing takes the
  round's oldest job, if there is one, and nothing else changes. Both keep the table's invariant.
\<close>

theorem job_table_refines_fifo_queues:
  assumes "jobs_inv st"
  shows "(\<forall>st'. unprocessed_drand_jobs_enqueue round job st = (Inr st' :: 'e failure + gateway_state) \<longrightarrow>
       jobs_inv st' \<and> jobs_of st' = (jobs_of st)(round := jobs_of st round @ [job])) \<and>
    (\<forall>x st'. unprocessed_drand_jobs_dequeue round st = (Inr (x, st') :: 'e failure + job option \<times> gateway_state) \<longrightarrow>
       jobs_inv st' \<and> jobs_of st' = (jobs_of st)(round := tl (jobs_of st round)) \<and>
       x = (case jobs_of st round of [] \<Rightarrow> None | j # _ \<Rightarrow> Some j))"
  using job_queues.enqueue_items [OF assms] job_queues.dequeue_items [OF assms] by blast

theorem job_table_refines_fifo_queues_witness:
  "\<exists>st'. unprocessed_drand_jobs_dequeue 7438268 sample_gateway_queued
       = (Inr (Some sample_job, st') :: std_error failure + job option \<times> gateway_state) \<and> jobs_of st' 7438268 = []"
proof -
  have inv: "jobs_inv sample_gateway_queued"
    using sample_gateway_queued_inv by (simp add: gateway_inv_def)
  obtain x st' where deq: "unprocessed_drand_jobs_dequeue 7438268 sample_gateway_queued
      = (Inr (x, st') :: std_error failure + job option \<times> gateway_state)"
    by (rule dequeue_total [of 7438268 sample_gateway_queued]) simp_all
  with job_table_refines_fifo_queues [OF inv, of 7438268 sample_job, where 'e = std_error] sample_gateway_queued_jobs(1)
  show ?thesis by auto
qed

text \<open>
  C6: No request is lost and none is answered twice: after any run of the gateway, the requests
  logged for a round are exactly as many as the statistics query reports as processed plus
  unprocessed jobs of that round.
\<close>

theorem gateway_books_balance:
  assumes "instantiate_gateway api q env info msg empty_gateway_state = Inr (st0, res0)"
    and "st = run (gateway_tx api codec) ts st0"
    and "query_drand_job_stats st round = Inr s"
  shows "logged st round = unat (js_unprocessed s) + unat (js_processed s)"
proof -
  have inv: "gateway_inv st" using gateway_run_inv [OF assms(1)] assms(2) by simp
  then have "jobs_inv st" by (simp add: gateway_inv_def)
  from query_drand_job_stats_Inr [OF this assms(3)] inv show ?thesis
    by (simp add: gateway_inv_def)
qed

theorem gateway_books_balance_witness:
  "\<exists>s. query_drand_job_stats (run (gateway_tx sample_gateway_api sample_codec) (sample_gateway_setup @
       [(sample_querier, sample_env, CallPacketReceive (sample_request ''channel-1''))]) sample_gateway_init) 7438268 = Inr s \<and>
     js_unprocessed s = 1 \<and> js_processed s = 0 \<and> logged sample_gateway_queued 7438268 = 1"
proof -
  have s: "query_drand_job_stats sample_gateway_queued 7438268 = Inr \<lparr>js_round = 7438268, js_unprocessed = 1, js_processed = 0\<rparr>"
    by (simp add: query_drand_job_stats_def unprocessed_drand_jobs_len_def u32_round_def sample_queued_def sample_gateway_open_def
        get_processed_drand_jobs_def kv_prefix_def del: result_inversion)
  from gateway_books_balance [OF sample_gateway_instantiated sample_gateway_request_run [symmetric] s] s
  show ?thesis unfolding sample_gateway_request_run by simp
qed

text \<open>
  C4: A submission by a trusted source never fails for want of jobs or because of them: it answers
  the oldest jobs of its round, in the order in which they were requested, one for a
  verifying submission and up to ten otherwise; each answer goes to the channel of its job and
  carries the job's origin, the round's publish time and the submitted randomness. The remaining
  jobs stay queued, the other rounds' jobs are untouched, and the randomness is archived.
\<close>

theorem submission_answers_the_oldest_jobs:
  assumes "gateway_inv st" and "CONFIG st = Some config"
    and "sender info \<in> set (unwrap_or (trusted_sources config) [])"
    and "unat round < 2 ^ 32" and "time_of_round round = (Inr published :: std_error failure + timestamp)"
    and "plus_seconds (block_time env) DELIVER_BEACON_PACKET_LIFETIME = (Inr timeout :: std_error failure + timestamp)"
    and "unat (get_processed_drand_jobs st round) + 10 < 2 ^ 32"
    and "k = min (if is_verifying_tx then 1 else 10) (length (jobs_of st round))"
  shows "\<exists>st'. execute_gateway api codec env info (AddVerifiedRound round rand is_verifying_tx) st = Inr (st',
      \<lparr>messages = map (\<lambda>j. new_msg (IbcSendPacket (channel j)
           (enc_out_packet codec (DeliverBeacon (drand_source_id round) published rand (origin j))) timeout))
         (take k (jobs_of st round)),
       attributes = [(''jobs_processed'', Text (show_nat k))], events = []\<rparr>) \<and>
     jobs_of st' = (jobs_of st)(round := drop k (jobs_of st round)) \<and>
     archive_lookup st' = (archive_lookup st)(round := Some rand) \<and>
     CONFIG st' = CONFIG st \<and> CUSTOMERS st' = CUSTOMERS st \<and> REQUESTS_LOG st' = REQUESTS_LOG st"
  by (rule add_verified_round_total [OF assms(1-7), of codec rand is_verifying_tx])
    (auto simp: assms(8) batch_def)

theorem submission_answers_the_oldest_jobs_witness:
  "\<exists>st'. execute_gateway sample_api sample_codec sample_env \<lparr>sender = ''drand'', funds = []\<rparr>
      (AddVerifiedRound 7438268 [9] True) sample_gateway_queued = Inr (st',
      \<lparr>messages = [new_msg (IbcSendPacket ''channel-1'' (enc_out_packet sample_codec
           (DeliverBeacon (drand_source_id 7438268) 1700000001000000000 [9] [1, 2, 3])) 1708640000000000000)],
       attributes = [(''jobs_processed'', Text ''1'')], events = []\<rparr>) \<and>
     jobs_of st' 7438268 = []"
proof -
  have "(of_char (digit_char (Suc 0)) :: nat) = of_char (CHR ''1'')" by simp
  then have "digit_char (Suc 0) = CHR ''1''" by (simp only: of_char_eq_iff)
  then have one: "show_nat (Suc 0) = ''1''" by (subst show_nat.simps) simp
  show ?thesis
    using submission_answers_the_oldest_jobs [OF sample_gateway_queued_inv sample_gateway_queued_jobs(2) _ _
        sample_time sample_timeout _ refl, where info = "\<lparr>sender = ''drand'', funds = []\<rparr>" and is_verifying_tx = True
        and api = sample_api and codec = sample_codec and rand = "[9]"]
    by (auto simp: sample_gateway_config_def sample_gateway_queued_jobs one sample_job_simps)
qed

text \<open>
  C9: Every queued job is answered eventually: as many submissions of the round by trusted sources
  as there are jobs empty the queue of the round, also if each of them is a verifying one. The messages of
  these submissions are exactly one packet for each job that was in the queue, in the order of the queue,
  which delivers the submitted randomness on the channel of the job and with its origin.
\<close>

theorem queued_jobs_are_answered_eventually:
  assumes "gateway_inv st" and "CONFIG st = Some config"
    and "sender info \<in> set (unwrap_or (trusted_sources config) [])"
    and "unat round < 2 ^ 32" and "time_of_round round = (Inr published :: std_error failure + timestamp)"
    and "plus_seconds (block_time env) DELIVER_BEACON_PACKET_LIFETIME = (Inr timeout :: std_error failure + timestamp)"
    and "unat (get_processed_drand_jobs st round) + length (jobs_of st round) + 10 < 2 ^ 32"
    and "length (jobs_of st round) \<le> n"
    and "t = (q, env, CallExecute info (AddVerifiedRound round rand is_verifying_tx))"
  shows "jobs_of (run (gateway_tx api codec) (replicate n t) st) round = [] \<and>
    concat (map messages (responses (gateway_tx api codec) (replicate n t) st)) =
      map (\<lambda>j. new_msg (IbcSendPacket (channel j)
        (enc_out_packet codec (DeliverBeacon (drand_source_id round) published rand (origin j))) timeout)) (jobs_of st round)"
  using assms by (rule repeated_submissions_drain)

theorem queued_jobs_are_answered_eventually_witness:
  "jobs_of (run (gateway_tx sample_api sample_codec) (replicate 1 (sample_querier, sample_env,
     CallExecute \<lparr>sender = ''drand'', funds = []\<rparr> (AddVerifiedRound 7438268 [9] True))) sample_gateway_queued) 7438268 = [] \<and>
   concat (map messages (responses (gateway_tx sample_api sample_codec) (replicate 1 (sample_querier, sample_env,
     CallExecute \<lparr>sender = ''drand'', funds = []\<rparr> (AddVerifiedRound 7438268 [9] True))) sample_gateway_queued)) =
     [new_msg (IbcSendPacket ''channel-1'' (enc_out_packet sample_codec (DeliverBeacon (drand_source_id 7438268)
        1700000001000000000 [9] [1, 2, 3])) 1708640000000000000)]"
proof -
  have "sender \<lparr>sender = ''drand'', funds = []\<rparr> \<in> set (unwrap_or (trusted_sources sample_gateway_config) [])"
    "unat (7438268 :: u64) < 2 ^ 32"
    "unat (get_processed_drand_jobs sample_gateway_queued 7438268) + length (jobs_of sample_gateway_queued 7438268) + 10 < 2 ^ 32"
    "length (jobs_of sample_gateway_queued 7438268) \<le> 1"
    by (simp_all add: sample_gateway_config_def sample_gateway_queued_jobs)
  from queued_jobs_are_answered_eventually [OF sample_gateway_queued_inv sample_gateway_queued_jobs(2) this(1,2) sample_time
      sample_timeout this(3,4) refl, of sample_api sample_codec sample_querier "[9]" True]
  show ?thesis by (simp add: sample_gateway_queued_jobs sample_job_simps del: replicate_Suc gateway_tx.simps)
qed



text \<open>
  C12: Every accepted request is paid for, exactly once: the last message of the response orders the payment
  contract of the customer to burn 40% of the current price, to pay 20% to the relayer of the packet,
  both rounded down, and to give the rest to the community pool; the three shares add up to the price
  exactly. No other message of the response orders a payment or carries funds. The customer's number of requests
  grows by one and no other customer changes.
\<close>

theorem accepted_request_is_charged_the_price:
  assumes "gateway_inv st" and "CONFIG st = Some config"
    and "kv_may_load (CUSTOMERS st) (dest_channel_id msg) = Some c"
    and "dec_in_packet codec (packet_data msg) = Inr (RequestBeacon after orig)" and "length orig \<le> MAX_ORIGIN_LEN"
    and "ibc_packet_receive_gateway api codec env msg st
      = (Inr (st', res) :: 'e failure + gateway_state \<times> gateway_out_msg ibc_receive_response)"
    and "d = denom (price config)"
  shows "(\<exists>ms b r rest. messages res = ms @ [new_msg (WasmExecute (payment c) (ToPayment
        (Pay \<lparr>amount = b, denom = d\<rparr> \<lparr>amount = rest, denom = d\<rparr> (packet_relayer msg, \<lparr>amount = r, denom = d\<rparr>))) [])] \<and>
      (\<forall>m \<in> set ms. \<not> orders_payment (sub_msg m) \<and> (\<forall>d. msg_funds d (sub_msg m) = 0)) \<and>
      unat b = unat (amount (price config)) * 40 div 100 \<and> unat r = unat (amount (price config)) * 20 div 100 \<and>
      unat b + unat r + unat rest = unat (amount (price config))) \<and>
    (\<exists>n. kv_may_load (CUSTOMERS st') = (kv_may_load (CUSTOMERS st))(dest_channel_id msg \<mapsto> c\<lparr>requested_beacons := n\<rparr>) \<and>
      unat n = Suc (unat (requested_beacons c)))"
  by (rule accepted_request_order [OF assms(1-6)]) (unfold assms(7), blast)

theorem accepted_request_is_charged_the_price_witness:
  "\<exists>ms b r rest. messages sample_gateway_response = ms @ [new_msg (WasmExecute ''pay'' (ToPayment
      (Pay \<lparr>amount = b, denom = ''unois''\<rparr> \<lparr>amount = rest, denom = ''unois''\<rparr> (''rel'', \<lparr>amount = r, denom = ''unois''\<rparr>))) [])] \<and>
    filter (orders_payment \<circ> sub_msg) ms = [] \<and>
    unat b = 400 \<and> unat r = 200 \<and> unat b + unat r + unat rest = 1000"
proof -
  have "length [1, 2, 3 :: 8 word] \<le> MAX_ORIGIN_LEN" by (simp add: MAX_ORIGIN_LEN_def)
  from accepted_request_is_charged_the_price [OF sample_gateway_open_inv sample_customer(3,1) sample_request_decoded this
      sample_ibc_received [of sample_api] refl]
  obtain ms b r rest where "messages sample_gateway_response = ms @ [new_msg (WasmExecute ''pay'' (ToPayment
      (Pay \<lparr>amount = b, denom = ''unois''\<rparr> \<lparr>amount = rest, denom = ''unois''\<rparr> (''rel'', \<lparr>amount = r, denom = ''unois''\<rparr>))) [])]"
    "filter (orders_payment \<circ> sub_msg) ms = []" "unat b = 400" "unat r = 200" "unat b + unat r + unat rest = 1000"
    by (auto simp: sample_gateway_config_def sample_request_def filter_empty_conv)
  then show ?thesis by blast
qed

text \<open>
  C30: Receiving a packet never returns an error, which would make the relayer retry: a packet that
  cannot be decoded, and a request whose origin is too long, are answered with an error
  acknowledgement; they send no message and leave the state as it was.
\<close>

theorem bad_packets_are_acknowledged_as_errors:
  "ibc_packet_receive_gateway api codec env msg st
     \<noteq> (Inl (Error e) :: 'e failure + gateway_state \<times> gateway_out_msg ibc_receive_response) \<and>
   ((\<exists>f. dec_in_packet codec (packet_data msg) = Inl f) \<or>
    (\<exists>after orig. dec_in_packet codec (packet_data msg) = Inr (RequestBeacon after orig) \<and> MAX_ORIGIN_LEN < length orig) \<longrightarrow>
    (\<exists>res text. ibc_packet_receive_gateway api codec env msg st
       = (Inr (st, res) :: 'e failure + gateway_state \<times> gateway_out_msg ibc_receive_response) \<and>
       acknowledgement res = AckError text \<and> messages res = []))"
proof -
  have 1: "ibc_packet_receive_gateway api codec env msg st
     \<noteq> (Inl (Error e) :: 'e failure + gateway_state \<times> gateway_out_msg ibc_receive_response)"
    by (auto simp: ibc_packet_receive_gateway_def split: prod.splits sum.splits failure.splits)
  have 2: "receive_packet_gateway codec env msg st = (st, Inl (Error (Std f)))"
    if "dec_in_packet codec (packet_data msg) = Inl f" for f
    using that by (simp add: receive_packet_gateway_def bind_a_def read_a_def)
  have 3: "receive_packet_gateway codec env msg st = (st, Inl (Error OriginTooLong))"
    if "dec_in_packet codec (packet_data msg) = Inr (RequestBeacon after orig)" "MAX_ORIGIN_LEN < length orig" for after orig
    using that
    by (simp add: receive_packet_gateway_def receive_request_beacon_def validate_origin_def bind_a_def read_a_def)
  show ?thesis using 1 2 3 by (auto simp: ibc_packet_receive_gateway_def)
qed

theorem bad_packets_are_acknowledged_as_errors_witness:
  "\<exists>res text. ibc_packet_receive_gateway sample_api sample_codec sample_env
       \<lparr>packet_data = [], dest_channel_id = ''channel-1'', packet_relayer = ''rel''\<rparr> sample_gateway_open
     = (Inr (sample_gateway_open, res) :: unit failure + gateway_state \<times> gateway_out_msg ibc_receive_response) \<and>
     acknowledgement res = AckError text \<and> messages res = []"
  using bad_packets_are_acknowledged_as_errors [of sample_api sample_codec sample_env
      "\<lparr>packet_data = [], dest_channel_id = ''channel-1'', packet_relayer = ''rel''\<rparr>" sample_gateway_open "()"]
  by (simp add: sample_codec_def)

text \<open>
  C31: A request on a channel without a customer entry is answered with an error acknowledgement and
  sends no message, yet its job stays queued: the error is found after the job was stored, and an
  acknowledged error keeps the writes. The job will be answered without having been paid for.
\<close>

theorem unregistered_request_is_refused_but_queued:
  assumes "gateway_inv st" and "kv_may_load (CUSTOMERS st) (dest_channel_id msg) = None"
    and "dec_in_packet codec (packet_data msg) = Inr (RequestBeacon after orig)" and "length orig \<le> MAX_ORIGIN_LEN"
    and "ibc_packet_receive_gateway api codec env msg st
      = (Inr (st', res) :: 'e failure + gateway_state \<times> gateway_out_msg ibc_receive_response)"
    and "r = round_after after" and "archive_lookup st r = None"
  shows "(\<exists>text. acknowledgement res = AckError text) \<and> messages res = [] \<and>
    jobs_of st' = (jobs_of st)(r := jobs_of st r @
      [\<lparr>source_id = drand_source_id r, channel = dest_channel_id msg, origin = orig\<rparr>])"
proof -
  from assms(1) obtain config where config: "CONFIG st = Some config" and jobs: "jobs_inv st"
    by (auto simp: gateway_inv_def)
  obtain x where "receive_packet_gateway codec env msg st = (st', x)" and no_panic: "\<And>p. x \<noteq> Inl (Panic p)"
    and x: "\<And>e. x = Inl (Error e) \<Longrightarrow> res = \<lparr>messages = [], attributes = [],
      events = [Event ''ibc'' [(''packet'', Text ''receive'')]],
      acknowledgement = AckError (''Error processing packet: '' @ show_gateway_error api e)\<rparr>"
    using assms(5) by (cases "receive_packet_gateway codec env msg st")
      (auto simp: ibc_packet_receive_gateway_def split: sum.splits failure.splits)
  then have "receive_request_beacon codec env (dest_channel_id msg) (packet_relayer msg) after orig st = (st', x)"
    using assms(3) by (simp add: receive_packet_gateway_def bind_a_def [of "read_a _"] read_a_def)
  from config jobs this no_panic show ?thesis
  proof (cases rule: receive_request_beacon_cases)
    case rejected
    with assms(4) show ?thesis by simp
  next
    case (routed st1 receipt r1)
    note eff = route_effect [OF jobs routed(2)]
    have "kv_may_load (CUSTOMERS (requests_log_add (dest_channel_id msg) \<lparr>log_origin = orig,
          log_tx = (block_height env, tx_index env), log_source_id = drand_source_id (round_after after),
          log_queued = rr_queued receipt\<rparr> st1)) (dest_channel_id msg) = None"
      using eff assms(2) by (simp add: requests_log_add_def)
    with routed(3) have r1: "r1 = Inl (Error (Std (NotFound ''customers'')))"
      and st': "st' = requests_log_add (dest_channel_id msg) \<lparr>log_origin = orig,
          log_tx = (block_height env, tx_index env), log_source_id = drand_source_id (round_after after),
          log_queued = rr_queued receipt\<rparr> st1"
      by (simp_all add: charge_customer_def bind_a_def read_a_def)
    have "jobs_of st' = jobs_of st1" by (simp add: st' requests_log_add_def)
    then show ?thesis using eff assms(6,7) x [of "Std (NotFound ''customers'')"] routed(4) by (simp add: r1)
  qed
qed

lemma sample_refused:
  "\<exists>st' res. ibc_packet_receive_gateway sample_api sample_codec sample_env (sample_request ''channel-2'') sample_gateway_open
     = (Inr (st', res) :: unit failure + gateway_state \<times> gateway_out_msg ibc_receive_response)"
proof -
  have "\<exists>st'. receive_request_beacon sample_codec sample_env ''channel-2'' ''rel'' 1700000000000000000 [1, 2, 3] sample_gateway_open
     = (st', Inl (Error (Std (NotFound ''customers''))))"
    by (simp add: receive_request_beacon_def bind_a_def read_a_def write_a_def map_err_a_def
        validate_origin_def MAX_ORIGIN_LEN_def sample_route requests_log_add_def requests_log_def charge_customer_def
        del: result_inversion)
      (simp add: sample_gateway_open_def kv_may_load_def)
  then show ?thesis
    by (auto simp add: ibc_packet_receive_gateway_def receive_packet_gateway_def bind_a_def [of "read_a _"] read_a_def
      sample_request_decoded) (simp add: sample_request_def)
qed

theorem unregistered_request_is_refused_but_queued_witness:
  "\<exists>st' res text. ibc_packet_receive_gateway sample_api sample_codec sample_env (sample_request ''channel-2'') sample_gateway_open
     = (Inr (st', res) :: unit failure + gateway_state \<times> gateway_out_msg ibc_receive_response) \<and>
     acknowledgement res = AckError text \<and> length (jobs_of st' 7438268) = 1"
proof -
  from sample_refused obtain st' res where
    recv: "ibc_packet_receive_gateway sample_api sample_codec sample_env (sample_request ''channel-2'') sample_gateway_open
     = (Inr (st', res) :: unit failure + gateway_state \<times> gateway_out_msg ibc_receive_response)"
    by blast
  have "jobs_of sample_gateway_open 7438268 = []"
    by (simp add: jobs_of_def sample_gateway_open_def)
  with unregistered_request_is_refused_but_queued [OF sample_gateway_open_inv sample_customer(2) sample_request_decoded _
      recv sample_round [symmetric]] recv
  show ?thesis by (auto simp: MAX_ORIGIN_LEN_def archive_lookup_def sample_gateway_open_def)
qed

text \<open>
  C32: When the handshake of a channel completes, one address ties the three parties together: the
  address predicted for the payment contract (code, creator and the hash of the channel as salt)
  is recorded as the customer's payment address, is the one the instantiation message will create
  (same code and salt), and is announced to the proxy in the welcome packet on the new channel. The
  price of a beacon is sent along. The other channels' customers are kept.
\<close>

theorem connected_channel_gets_a_payment_contract:
  assumes "ibc_channel_connect_gateway api codec q env msg st = Inr (st', res)"
  shows "\<exists>c config checksum creator canonical address timeout1 timeout2.
    msg = OpenConfirm c \<and> CONFIG st = Some config \<and> query_wasm_code_info q (payment_code_id config) = Inr checksum \<and>
    addr_canonicalize api (contract_address env) = Inr creator \<and>
    instantiate2_address api checksum creator (hash_channel api (channel_id c)) = Inr canonical \<and>
    addr_humanize api canonical = Inr address \<and>
    kv_may_load (CUSTOMERS st') = (kv_may_load (CUSTOMERS st))(channel_id c \<mapsto> \<lparr>payment = address, requested_beacons = 0\<rparr>) \<and>
    map sub_msg (messages res) =
      [WasmInstantiate2 (Some (contract_address env)) (payment_code_id config) (''For '' @ channel_id c)
         (InstantiatePayment (PaymentInstantiateMsg (sink config)))
         (case payment_initial_funds config of Some pif \<Rightarrow> [pif] | None \<Rightarrow> []) (hash_channel api (channel_id c)),
       IbcSendPacket (channel_id c) (enc_out_packet codec (Welcome address)) timeout1,
       IbcSendPacket (channel_id c) (enc_out_packet codec (PushBeaconPrice (block_time env)
         (amount (price config)) (denom (price config)))) timeout2]"
proof (cases msg)
  case (OpenConfirm c)
  with assms show ?thesis
    by (auto simp: Let_def load_config_gateway_def fun_eq_iff) 
qed (use assms in simp)

theorem connected_channel_gets_a_payment_contract_witness:
  "\<exists>st' res address. ibc_channel_connect_gateway sample_api sample_codec sample_querier sample_env
      (OpenConfirm \<lparr>channel_id = ''channel-2'', channel_order = Unordered, channel_version = IBC_APP_VERSION\<rparr>) sample_gateway_open
      = Inr (st', res) \<and> kv_may_load (CUSTOMERS st') ''channel-2'' = Some \<lparr>payment = address, requested_beacons = 0\<rparr>"
proof -
  let ?msg = "OpenConfirm \<lparr>channel_id = ''channel-2'', channel_order = Unordered, channel_version = IBC_APP_VERSION\<rparr>"
  have "plus_seconds (block_time sample_env) WELCOME_PACKET_LIFETIME = (Inr 1708640000000000000 :: gateway_error failure + timestamp)"
    "plus_seconds (block_time sample_env) BEACON_PRICE_PACKET_LIFETIME = (Inr 1708640000000000000 :: gateway_error failure + timestamp)"
    by (simp_all add: plus_seconds_eq_Inr sample_env_def)
  then obtain st' res where conn: "ibc_channel_connect_gateway sample_api sample_codec sample_querier sample_env ?msg
      sample_gateway_open = Inr (st', res)"
    by (simp add: load_config_gateway_def sample_customer(3) sample_api_def sample_querier_def Let_def del: result_inversion)
  from conn connected_channel_gets_a_payment_contract [OF conn] show ?thesis by auto
qed

text \<open>
  C33: Who may change what: in every successful call, the configuration changes only in a call of
  the manager or in a migration that finds no trusted source, and the archive of randomness changes only
  in a submission by a trusted source, which stores exactly the submitted randomness for its
  round.
\<close>

theorem gateway_privileged_changes:
  assumes "gateway_inv st" and "gateway_tx api codec (q, env, call) st = Inr (st', res)"
  shows "(CONFIG st' \<noteq> CONFIG st \<longrightarrow>
       (\<exists>info ma pr dr pif ts config. call = CallExecute info (SetConfig ma pr dr pif ts) \<and>
          CONFIG st = Some config \<and> sender info = manager config) \<or>
       (\<exists>config. call = CallMigrate \<and> CONFIG st = Some config \<and> unwrap_or (trusted_sources config) [] = [])) \<and>
    (archive_lookup st' \<noteq> archive_lookup st \<longrightarrow>
       (\<exists>info round rand vtx config. call = CallExecute info (AddVerifiedRound round rand vtx) \<and> CONFIG st = Some config \<and>
          sender info \<in> set (unwrap_or (trusted_sources config) []) \<and>
          archive_lookup st' = (archive_lookup st)(round \<mapsto> rand)))"
proof (cases call)
  case (CallExecute info msg)
  show ?thesis
  proof (cases msg)
    case (AddVerifiedRound round rand vtx)
    with assms(2) CallExecute have "execute_add_verified_round codec env info round rand vtx st = Inr (st', res)" by simp
    from add_verified_round_frame [OF assms(1) this] AddVerifiedRound CallExecute show ?thesis by auto
  next
    case (SetConfig ma pr dr pif ts)
    with assms(2) CallExecute have "\<exists>config co. CONFIG st = Some config \<and> sender info = manager config \<and> st' = st\<lparr>CONFIG := co\<rparr>"
      by (auto simp: execute_set_config_gateway_def load_config_gateway_def Let_def split: if_splits)
    with SetConfig CallExecute show ?thesis by (auto simp: archive_lookup_def)
  qed
next
  case (CallPacketReceive msg)
  with assms(2) obtain res' where "ibc_packet_receive_gateway api codec env msg st
      = (Inr (st', res') :: gateway_error failure + gateway_state \<times> gateway_out_msg ibc_receive_response)"
    by auto
  then show ?thesis
    by (rule ibc_packet_receive_gateway_Inr)
      (use receive_packet_frame [OF assms(1)] in \<open>auto simp: archive_lookup_def fun_eq_iff\<close>)
next
  case (CallChannelConnect msg)
  with assms(2) have "ibc_channel_connect_gateway api codec q env msg st = Inr (st', res)" by simp
  then obtain cs where "st' = st\<lparr>CUSTOMERS := cs\<rparr>" by (rule ibc_channel_connect_gateway_Inr)
  then show ?thesis by (simp add: archive_lookup_def fun_eq_iff)
next
  case CallMigrate
  with assms(2) show ?thesis
    by (auto simp: migrate_gateway_def load_config_gateway_def Let_def set_contract_version_def archive_lookup_def fun_eq_iff
        split: if_splits)
qed (use assms(2) in \<open>auto simp: ibc_channel_close_gateway_def ibc_packet_ack_gateway_def ibc_packet_timeout_gateway_def\<close>)

theorem gateway_privileged_changes_witness:
  "\<exists>st' res config. gateway_tx sample_api sample_codec (sample_querier, sample_env,
       CallExecute \<lparr>sender = ''mgr'', funds = []\<rparr> (SetConfig (Some ''mgr2'') None None None None)) sample_gateway_open = Inr (st', res) \<and>
     CONFIG st' \<noteq> CONFIG sample_gateway_open \<and> CONFIG sample_gateway_open = Some config \<and> ''mgr'' = manager config"
proof -
  let ?call = "CallExecute \<lparr>sender = ''mgr'', funds = []\<rparr> (SetConfig (Some ''mgr2'') None None None None)"
  obtain st' res where step: "gateway_tx sample_api sample_codec (sample_querier, sample_env, ?call) sample_gateway_open
      = Inr (st', res)" and "CONFIG st' \<noteq> CONFIG sample_gateway_open"
    by (simp add: execute_set_config_gateway_def load_config_gateway_def sample_gateway_open_def sample_gateway_config_def
        sample_api_def Let_def del: result_inversion)
  with gateway_privileged_changes [OF sample_gateway_open_inv step] show ?thesis by auto
qed

text \<open>
  C40: The loop over the jobs of a round ends and returns: whatever the limit, it takes as many turns
  as there are jobs, or as the limit allows if there are more, processes and answers one job per
  turn and leaves the others queued.
\<close>

theorem job_loop_ends:
  assumes "jobs_inv st" and "0 < max_jobs" and "unat round < 2 ^ 32"
    and "time_of_round round = (Inr published :: std_error failure + timestamp)"
    and "plus_seconds (block_time env) DELIVER_BEACON_PACKET_LIFETIME = (Inr timeout :: std_error failure + timestamp)"
    and "unat (get_processed_drand_jobs st round) + unat max_jobs < 2 ^ 32"
    and "k = min (unat max_jobs) (length (jobs_of st round))"
  shows "\<exists>st' res. new_drand_loop codec env round rand max_jobs [] 0 st = Inr (st', res) \<and>
     unat (nd_jobs_processed res) = k \<and> length (nd_msgs res) = k \<and> jobs_of st' round = drop k (jobs_of st round)"
proof -
  have "\<exists>m. deliver_job codec env round rand job = Inr m" for job
    using assms(4,5) by (simp add: deliver_job_Inr)
  then obtain st' res where ok: "new_drand_loop codec env round rand max_jobs [] 0 st = Inr (st', res)"
    using new_drand_loop_total [of st 0 max_jobs round codec env rand "[]"] assms(1-3,6) by (auto simp: word_less_nat_alt)
  have "unat (0 :: u32) < unat max_jobs" using assms(2) by (simp add: word_less_nat_alt)
  from new_drand_loop_Inr [OF assms(1) this ok] obtain ds where d: "drained codec env round rand k st ds st'"
    and res: "nd_msgs res = ds" "unat (nd_jobs_processed res) = length ds"
    by (auto simp: assms(7))
  from d have "map Inr ds = map (deliver_job codec env round rand) (take k (jobs_of st round))"
    and "jobs_of st' round = drop k (jobs_of st round)" by (simp_all add: drained_def)
  moreover from this(1) have "length ds = k"
    by (metis length_map length_take min.idem min.left_commute min.commute assms(7))
  ultimately show ?thesis using ok res by auto
qed

theorem job_loop_ends_witness:
  "\<exists>st' res. new_drand_loop sample_codec sample_env 7438268 [9] 3 [] 0 sample_gateway_queued = Inr (st', res) \<and>
     unat (nd_jobs_processed res) = 1 \<and> length (nd_msgs res) = 1 \<and> jobs_of st' 7438268 = []"
proof -
  have inv: "jobs_inv sample_gateway_queued" using sample_gateway_queued_inv by (simp add: gateway_inv_def)
  show ?thesis
    using job_loop_ends [OF inv _ _ sample_time sample_timeout _ refl, of 3 sample_codec "[9]"]
    by (simp add: sample_gateway_queued_jobs)
qed

end
