(* ===== verification/NoisLib.thy ===== *)
theory NoisLib
  imports Cosmos
begin

text \<open>
  The interface of the \<open>nois\<close> crate, a dependency of the proxy, the demo and the monitoring
  contract that is not part of the repository: the messages between a proxy and the dapps it
  serves, and, as fields of a record that the handlers take as an argument, the limit and the functions of the
  crate that the contracts use.
\<close>

record nois_callback =
  job_id :: string
  published :: timestamp
  randomness :: binary

datatype receiver_execute_msg = ReceiverNoisReceive nois_callback

datatype nois_proxy_execute_msg =
    ProxyGetNextRandomness string
  | ProxyGetRandomnessAfter timestamp string

text \<open>
  \<open>sub_randomness(seed)\<close> gives a provider; its n-th call of \<open>provide\<close> returns
  \<open>sub_randomness seed n\<close>. A \<open>Decimal\<close> is given by its atomics, units of \<open>10^-18\<close>.
\<close>

record nois_lib =
  MAX_JOB_ID_LEN :: nat
  roll_dice :: "binary \<Rightarrow> u8"
  sub_randomness :: "binary \<Rightarrow> nat \<Rightarrow> binary"
  random_decimal :: "binary \<Rightarrow> u128"

text \<open>\<open>HexBinary::to_array::<32>\<close>: fails unless there are 32 bytes.\<close>

definition to_array_32 :: "binary \<Rightarrow> std_error + binary" where
  "to_array_32 b = (if length b = 32 then Inr b else Inl (OtherStdError ''InvalidDataSize''))"

lemma to_array_32_eq_Inr [simp]: "to_array_32 b = Inr a \<longleftrightarrow> length b = 32 \<and> a = b"
  by (auto simp: to_array_32_def)

text \<open>A sample instance, for the examples.\<close>

definition sample_nois_lib :: nois_lib where
  "sample_nois_lib = \<lparr>MAX_JOB_ID_LEN = 64, roll_dice = (\<lambda>_. 3), sub_randomness = (\<lambda>seed _. seed),
     random_decimal = (\<lambda>_. 0)\<rparr>"

end
