(* ===== verification/Proxy.thy ===== *)
theory Proxy
  imports DrandCommon Protocol NoisLib
begin

text \<open>
  contracts/nois-proxy: the contract dapps on a consumer chain talk to. It takes the payment for a
  request, sends the request to the gateway over its IBC channel, forwards the randomness that
  comes back to the dapp that asked for it, and keeps the price of a beacon up to date.
\<close>

section \<open>State\<close>

datatype proxy_error =
    Std std_error
  | Unauthorized
  | JobIdTooLong
  | AfterTooLow timestamp timestamp
  | AfterTooHigh timestamp timestamp
  | NoPaymentOption
  | InsufficientPayment
  | SenderNotAllowed
  | UnknownReplyId u64
  | MustBeChainA
  | UnsupportedPacketType
  | UnsetChannel
  | ChannelAlreadySet
  | ChannelMustNotBeClosed
  | ChannelError channel_error

fun show_proxy_error :: "'a api_scheme \<Rightarrow> proxy_error \<Rightarrow> string" where
  "show_proxy_error api (Std e) = show_std_error api e"
| "show_proxy_error api Unauthorized = ''Unauthorized''"
| "show_proxy_error api JobIdTooLong = ''Job ID exceeds length limit.''"
| "show_proxy_error api (AfterTooLow mi after) =
     ''The after value is too low (min_after: '' @ show_timestamp api mi @ '', after: '' @ show_timestamp api after @ '').''"
| "show_proxy_error api (AfterTooHigh ma after) =
     ''The after value is too high (max_after: '' @ show_timestamp api ma @ '', after: '' @ show_timestamp api after @ '').''"
| "show_proxy_error api NoPaymentOption = ''No payment option is configured in this proxy.''"
| "show_proxy_error api InsufficientPayment = ''Insufficient payment.''"
| "show_proxy_error api SenderNotAllowed = ''Sender address is not allowed to perform this action''"
| "show_proxy_error api (UnknownReplyId i) = ''Unknown reply ID '' @ show_word i"
| "show_proxy_error api MustBeChainA =
     ''The nois-proxy contract must be on chain A of the connection. Try swapping A and B in the channel creation.''"
| "show_proxy_error api UnsupportedPacketType = ''Unsupported packet type.''"
| "show_proxy_error api UnsetChannel = ''Channel is not stored. Channel not yet established or closed.''"
| "show_proxy_error api ChannelAlreadySet =
     ''Channel was already created. Channel is immutable and cannot be overriden''"
| "show_proxy_error api ChannelMustNotBeClosed = ''Channel must not be closed.''"
| "show_proxy_error api (ChannelError e) = show_channel_error e"

record ibc_denom =
  ics20_channel :: string
  unois_denom :: string

datatype operational_mode = Funded | IbcPay ibc_denom

record proxy_config =
  prices :: "coin list"
  manager :: "addr option"
  test_mode :: bool
  callback_gas_limit :: u64
  payment :: "string option"
  nois_beacon_price :: u128
  nois_beacon_price_updated :: timestamp
  mode :: operational_mode
  allowlist_enabled :: "bool option"
  min_after :: "timestamp option"
  max_after :: "timestamp option"

record proxy_state = contract_state +
  CONFIG :: "proxy_config option"
  ALLOWLIST :: "(addr, u8) kv"
  GATEWAY_CHANNEL :: "string option"
  TEST_MODE_NEXT_AFTER :: "timestamp option"

definition empty_proxy_state :: proxy_state where
  "empty_proxy_state = \<lparr>CONTRACT_INFO = None, CONFIG = None, ALLOWLIST = [], GATEWAY_CHANNEL = None,
     TEST_MODE_NEXT_AFTER = None\<rparr>"

definition ALLOWLIST_MARKER :: u8 where
  "ALLOWLIST_MARKER = 1"

definition TEST_MODE_NEXT_AFTER_INIT :: timestamp where
  "TEST_MODE_NEXT_AFTER_INIT = 1677687597000000000 - 1"

definition TEST_MODE_NEXT_AFTER_INCREMENT_SECONDS :: u64 where
  "TEST_MODE_NEXT_AFTER_INCREMENT_SECONDS = 30"

definition REPLAY_ID_CALLBACK :: u64 where
  "REPLAY_ID_CALLBACK = 456"

definition TEN_YEARS_S :: u64 where
  "TEN_YEARS_S = 10 * 3600 * 24 * 365"

definition MIN_AFTER_FALLBACK :: timestamp where
  "MIN_AFTER_FALLBACK = 1680015600 * 1000000000"

definition MAX_AFTER_FALLBACK :: timestamp where
  "MAX_AFTER_FALLBACK = MIN_AFTER_FALLBACK + TEN_YEARS_S * 1000000000"

section \<open>Messages\<close>

datatype proxy_instantiate_msg =
  ProxyInstantiateMsg (pim_prices: "coin list") (pim_manager: "string option") (pim_test_mode: "bool option")
    (pim_callback_gas_limit: u64) (pim_mode: operational_mode) (pim_allowlist_enabled: "bool option")
    (pim_allowlist: "string list option")

datatype proxy_execute_msg =
    GetNextRandomness string
  | GetRandomnessAfter timestamp string
  | SetConfig "string option" "coin list option" "string option" "u128 option" "u64 option"
      "operational_mode option" "bool option" "timestamp option" "timestamp option"
  | Withdraw string "u128 option" string
  | UpdateAllowlist "string list" "string list"

fun from_nois_proxy_execute_msg :: "nois_proxy_execute_msg \<Rightarrow> proxy_execute_msg" where
  "from_nois_proxy_execute_msg (ProxyGetNextRandomness job) = GetNextRandomness job"
| "from_nois_proxy_execute_msg (ProxyGetRandomnessAfter after job) = GetRandomnessAfter after job"

datatype proxy_sudo_msg =
    SudoWithdraw string "u128 option" string
  | SudoWithdrawToCommunityPool string "u128 option"
  | SudoSetConfig "string option" "coin list option" "string option" "u128 option" "u64 option"
      "operational_mode option" "bool option" "timestamp option" "timestamp option"

datatype proxy_query_msg =
    QueryConfig
  | QueryPrices
  | QueryPrice string
  | QueryGatewayChannel
  | QueryAllowlist
  | QueryIsAllowlisted string

datatype proxy_query_response =
    ConfigResponse proxy_config
  | PricesResponse "coin list"
  | PriceResponse "u128 option"
  | GatewayChannelResponse "string option"
  | AllowlistResponse "addr list"
  | IsAllowlistedResponse bool

text \<open>
  The origin of a request, which travels with it as opaque bytes; its JSON codec is an argument of
  the handlers, and decoding an encoded origin gives it back.
\<close>

record request_beacon_origin =
  rbo_sender :: string
  rbo_job_id :: string

record origin_codec =
  enc_origin :: "request_beacon_origin \<Rightarrow> binary"
  dec_origin :: "binary \<Rightarrow> std_error + request_beacon_origin"

definition origin_codec_ok :: "origin_codec \<Rightarrow> bool" where
  "origin_codec_ok oc \<longleftrightarrow> codec_roundtrip (enc_origin oc) (dec_origin oc)"

datatype sub_msg_result = SubMsgOk | SubMsgErr string

section \<open>Validation and times\<close>

definition validate_job_id :: "nois_lib \<Rightarrow> string \<Rightarrow> proxy_error failure + unit" where
  "validate_job_id lib job = (if MAX_JOB_ID_LEN lib < length job then Inl (Error JobIdTooLong) else Inr ())"

text \<open>\<open>BTreeMap::from_iter\<close>: of two prices in the same denomination, the later one counts.\<close>

definition price_map :: "coin list \<Rightarrow> (string, u128) kv" where
  "price_map ps = foldl (\<lambda>m c. kv_save (denom c) (amount c) m) [] ps"

fun pays_one_of :: "(string, u128) kv \<Rightarrow> coin list \<Rightarrow> proxy_error failure + unit" where
  "pays_one_of ps [] = Inl (Error InsufficientPayment)"
| "pays_one_of ps (fund # rest) =
     (case kv_may_load ps (denom fund) of
        Some pr \<Rightarrow> if pr \<le> amount fund then Inr () else pays_one_of ps rest
      | None \<Rightarrow> pays_one_of ps rest)"

definition validate_payment :: "coin list \<Rightarrow> coin list \<Rightarrow> proxy_error failure + unit" where
  "validate_payment ps paid =
     (if ps = [] then Inl (Error NoPaymentOption) else pays_one_of (price_map ps) paid)"

definition SAFETY_MARGIN :: u64 where
  "SAFETY_MARGIN = 5000000000"

datatype after_mode = TestMode | BlockTime timestamp

fun calculate_after :: "after_mode \<Rightarrow> proxy_state \<Rightarrow> 'e failure + timestamp \<times> proxy_state" where
  "calculate_after TestMode st =
     (let after = unwrap_or (TEST_MODE_NEXT_AFTER st) TEST_MODE_NEXT_AFTER_INIT
      in and_then (plus_seconds after TEST_MODE_NEXT_AFTER_INCREMENT_SECONDS) (\<lambda>next_after.
         Inr (after, st\<lparr>TEST_MODE_NEXT_AFTER := Some next_after\<rparr>)))"
| "calculate_after (BlockTime bt) st = and_then (plus_nanos bt SAFETY_MARGIN) (\<lambda>after. Inr (after, st))"

section \<open>Instantiation, migration and configuration\<close>

definition load_config_proxy :: "proxy_state \<Rightarrow> std_error failure + proxy_config" where
  "load_config_proxy st = ok_or (Error (NotFound ''config'')) (CONFIG st)"

definition std_failure_proxy :: "std_error failure \<Rightarrow> proxy_error failure" where
  "std_failure_proxy f = (case f of Error e \<Rightarrow> Error (Std e) | Panic p \<Rightarrow> Panic p)"

text \<open>The loops that save and remove validated addresses.\<close>

fun allowlist_save_all :: "'a api_scheme \<Rightarrow> string list \<Rightarrow> (addr, u8) kv \<Rightarrow> std_error failure + (addr, u8) kv" where
  "allowlist_save_all api [] l = Inr l"
| "allowlist_save_all api (a # as) l =
     and_then (map_err Error (addr_validate api a)) (\<lambda>address.
     allowlist_save_all api as (kv_save address ALLOWLIST_MARKER l))"

fun allowlist_remove_all :: "'a api_scheme \<Rightarrow> string list \<Rightarrow> (addr, u8) kv \<Rightarrow> std_error failure + (addr, u8) kv" where
  "allowlist_remove_all api [] l = Inr l"
| "allowlist_remove_all api (a # as) l =
     and_then (map_err Error (addr_validate api a)) (\<lambda>address.
     allowlist_remove_all api as (kv_remove address l))"

definition instantiate_proxy ::
  "'a api_scheme \<Rightarrow> env \<Rightarrow> message_info \<Rightarrow> proxy_instantiate_msg \<Rightarrow> proxy_state
    \<Rightarrow> std_error failure + proxy_state \<times> receiver_execute_msg response" where
  "instantiate_proxy api env info msg st =
     and_then (case pim_manager msg of
         Some ma \<Rightarrow> and_then (map_err Error (addr_validate api ma)) (\<lambda>a. Inr (Some a))
       | None \<Rightarrow> Inr None) (\<lambda>ma.
     let tm = unwrap_or (pim_test_mode msg) False;
         enabled = unwrap_or (pim_allowlist_enabled msg) False;
         listed = unwrap_or (pim_allowlist msg) []
     in and_then (plus_seconds (block_time env) TEN_YEARS_S) (\<lambda>in_ten_years.
        let config = \<lparr>prices = pim_prices msg, manager = ma, test_mode = tm,
              callback_gas_limit = pim_callback_gas_limit msg, payment = None,
              nois_beacon_price = 0, nois_beacon_price_updated = 0, mode = pim_mode msg,
              allowlist_enabled = Some enabled, min_after = Some (block_time env),
              max_after = Some in_ten_years\<rparr>;
            st1 = st\<lparr>CONFIG := Some config\<rparr>
        in and_then (allowlist_save_all api listed (ALLOWLIST st1)) (\<lambda>l.
           Inr (set_contract_version ''nois-proxy'' CARGO_PKG_VERSION (st1\<lparr>ALLOWLIST := l\<rparr>),
                default_response\<lparr>attributes := [(''action'', Text ''instantiate''),
                  (''test_mode'', Text (show_bool tm))]\<rparr>))))"

definition migrate_proxy ::
  "env \<Rightarrow> proxy_state \<Rightarrow> std_error failure + proxy_state \<times> receiver_execute_msg response" where
  "migrate_proxy env st =
     and_then (load_config_proxy st) (\<lambda>config.
     let config1 = (if min_after config = None then config\<lparr>min_after := Some (block_time env)\<rparr> else config)
     in and_then (if max_after config1 = None
          then and_then (plus_seconds (block_time env) TEN_YEARS_S) (\<lambda>t. Inr (config1\<lparr>max_after := Some t\<rparr>))
          else Inr config1) (\<lambda>config2.
        let config3 = (if allowlist_enabled config2 = None then config2\<lparr>allowlist_enabled := Some False\<rparr> else config2)
        in Inr (set_contract_version ''nois-proxy'' CARGO_PKG_VERSION (st\<lparr>CONFIG := Some config3\<rparr>),
                default_response\<lparr>attributes := [(''action'', Text ''migrate'')]\<rparr>)))"

definition set_config_unchecked ::
  "'a api_scheme \<Rightarrow> env \<Rightarrow> string \<Rightarrow> string option \<Rightarrow> coin list option \<Rightarrow> string option \<Rightarrow> u128 option
    \<Rightarrow> u64 option \<Rightarrow> operational_mode option \<Rightarrow> bool option \<Rightarrow> timestamp option \<Rightarrow> timestamp option \<Rightarrow> proxy_state
    \<Rightarrow> proxy_error failure + proxy_state \<times> receiver_execute_msg response" where
  "set_config_unchecked api env action new_manager new_prices new_payment new_price new_gas_limit new_mode
     new_enabled new_min new_max st =
     and_then (map_err std_failure_proxy (load_config_proxy st)) (\<lambda>config.
     and_then (case new_manager of
         Some ma \<Rightarrow> and_then (map_err (\<lambda>e. Error (Std e)) (addr_validate api ma)) (\<lambda>a. Inr (Some a))
       | None \<Rightarrow> Inr (manager config)) (\<lambda>ma.
     let (bp, bp_updated) = (case new_price of
             Some bp \<Rightarrow> (bp, block_time env)
           | None \<Rightarrow> (nois_beacon_price config, nois_beacon_price_updated config));
         current_enabled = unwrap_or (allowlist_enabled config) False;
         new_config = \<lparr>prices = unwrap_or new_prices (prices config), manager = ma, test_mode = test_mode config,
           callback_gas_limit = unwrap_or new_gas_limit (callback_gas_limit config),
           payment = (case new_payment of Some pa \<Rightarrow> Some pa | None \<Rightarrow> payment config),
           nois_beacon_price = bp, nois_beacon_price_updated = bp_updated,
           mode = unwrap_or new_mode (mode config),
           allowlist_enabled = Some (unwrap_or new_enabled current_enabled),
           min_after = (case new_min of Some t \<Rightarrow> Some t | None \<Rightarrow> min_after config),
           max_after = (case new_max of Some t \<Rightarrow> Some t | None \<Rightarrow> max_after config)\<rparr>
     in Inr (st\<lparr>CONFIG := Some new_config\<rparr>, default_response\<lparr>attributes := [(''action'', Text action)]\<rparr>)))"

text \<open>The guard that the manager-only messages start with: without a manager nobody passes it.\<close>

definition ensure_manager :: "message_info \<Rightarrow> proxy_state \<Rightarrow> proxy_error failure + unit" where
  "ensure_manager info st =
     and_then (map_err std_failure_proxy (load_config_proxy st)) (\<lambda>config.
     and_then (ok_or (Error Unauthorized) (manager config)) (\<lambda>required_sender.
     if sender info \<noteq> required_sender then Inl (Error Unauthorized) else Inr ()))"

definition execute_set_config_proxy ::
  "'a api_scheme \<Rightarrow> message_info \<Rightarrow> env \<Rightarrow> string option \<Rightarrow> coin list option \<Rightarrow> string option \<Rightarrow> u128 option
    \<Rightarrow> u64 option \<Rightarrow> operational_mode option \<Rightarrow> bool option \<Rightarrow> timestamp option \<Rightarrow> timestamp option \<Rightarrow> proxy_state
    \<Rightarrow> proxy_error failure + proxy_state \<times> receiver_execute_msg response" where
  "execute_set_config_proxy api info env new_manager new_prices new_payment new_price new_gas_limit new_mode
     new_enabled new_min new_max st =
     and_then (ensure_manager info st) (\<lambda>_.
     set_config_unchecked api env ''execute_set_config'' new_manager new_prices new_payment new_price new_gas_limit
       new_mode new_enabled new_min new_max st)"

section \<open>Withdrawals and the allow list\<close>

definition withdraw_unchecked ::
  "'a api_scheme \<Rightarrow> querier \<Rightarrow> env \<Rightarrow> string \<Rightarrow> string \<Rightarrow> u128 option \<Rightarrow> string \<Rightarrow> proxy_state
    \<Rightarrow> proxy_error failure + proxy_state \<times> receiver_execute_msg response" where
  "withdraw_unchecked api q env action d amt address st =
     and_then (map_err (\<lambda>e. Error (Std e)) (addr_validate api address)) (\<lambda>to_address.
     and_then (case amt of
         Some a \<Rightarrow> Inr \<lparr>amount = a, denom = d\<rparr>
       | None \<Rightarrow> map_err (\<lambda>e. Error (Std e)) (query_balance q (contract_address env) d)) (\<lambda>coin.
     Inr (st, \<lparr>messages = [new_msg (BankSend to_address [coin])],
               attributes = [(''action'', Text action), (''amount'', CoinText coin)], events = []\<rparr>)))"

definition encode_msg_fund_community_pool_proxy :: "'a api_scheme \<Rightarrow> coin \<Rightarrow> addr \<Rightarrow> binary" where
  "encode_msg_fund_community_pool_proxy api amt depositor =
     (let coin = [ProtoString 1 (denom amt), ProtoString 2 (show_word (amount amt))]
      in anybuf_into_vec api [ProtoMessage 1 coin, ProtoString 2 depositor])"

definition withdraw_to_community_pool_unchecked ::
  "'a api_scheme \<Rightarrow> querier \<Rightarrow> env \<Rightarrow> string \<Rightarrow> string \<Rightarrow> u128 option \<Rightarrow> proxy_state
    \<Rightarrow> proxy_error failure + proxy_state \<times> receiver_execute_msg response" where
  "withdraw_to_community_pool_unchecked api q env action d amt st =
     and_then (case amt of
         Some a \<Rightarrow> Inr \<lparr>amount = a, denom = d\<rparr>
       | None \<Rightarrow> map_err (\<lambda>e. Error (Std e)) (query_balance q (contract_address env) d)) (\<lambda>coin.
     Inr (st, \<lparr>messages = [new_msg (Stargate ''/cosmos.distribution.v1beta1.MsgFundCommunityPool''
                  (encode_msg_fund_community_pool_proxy api coin (contract_address env)))],
               attributes = [(''action'', Text action), (''amount'', CoinText coin)], events = []\<rparr>))"

definition execute_withdraw ::
  "'a api_scheme \<Rightarrow> querier \<Rightarrow> env \<Rightarrow> message_info \<Rightarrow> string \<Rightarrow> u128 option \<Rightarrow> string \<Rightarrow> proxy_state
    \<Rightarrow> proxy_error failure + proxy_state \<times> receiver_execute_msg response" where
  "execute_withdraw api q env info d amt address st =
     and_then (ensure_manager info st) (\<lambda>_.
     withdraw_unchecked api q env ''execute_withdraw'' d amt address st)"

definition update_allowlist_unchecked ::
  "'a api_scheme \<Rightarrow> string list \<Rightarrow> string list \<Rightarrow> proxy_state \<Rightarrow> proxy_error failure + proxy_state" where
  "update_allowlist_unchecked api add_addresses remove_addresses st =
     map_err std_failure_proxy
       (and_then (allowlist_save_all api add_addresses (ALLOWLIST st)) (\<lambda>l1.
        and_then (allowlist_remove_all api remove_addresses l1) (\<lambda>l2.
        Inr (st\<lparr>ALLOWLIST := l2\<rparr>))))"

definition execute_update_allowlist ::
  "'a api_scheme \<Rightarrow> message_info \<Rightarrow> string list \<Rightarrow> string list \<Rightarrow> proxy_state
    \<Rightarrow> proxy_error failure + proxy_state \<times> receiver_execute_msg response" where
  "execute_update_allowlist api info add_addresses remove_addresses st =
     and_then (ensure_manager info st) (\<lambda>_.
     and_then (update_allowlist_unchecked api add_addresses remove_addresses st) (\<lambda>st1.
     Inr (st1, default_response\<lparr>attributes := [(''action'', Text ''execute_update_allowlist'')]\<rparr>)))"

fun sudo_proxy ::
  "'a api_scheme \<Rightarrow> querier \<Rightarrow> env \<Rightarrow> proxy_sudo_msg \<Rightarrow> proxy_state
    \<Rightarrow> proxy_error failure + proxy_state \<times> receiver_execute_msg response" where
  "sudo_proxy api q env (SudoWithdraw d amt address) st = withdraw_unchecked api q env ''sudo_withdraw'' d amt address st"
| "sudo_proxy api q env (SudoWithdrawToCommunityPool d amt) st =
     withdraw_to_community_pool_unchecked api q env ''sudo_withdraw_to_community_pool'' d amt st"
| "sudo_proxy api q env (SudoSetConfig ma pr pa bp gl mo en mi mx) st =
     set_config_unchecked api env ''sudo_set_config'' ma pr pa bp gl mo en mi mx st"

section \<open>Requests of dapps\<close>

definition get_gateway_channel :: "proxy_state \<Rightarrow> proxy_error failure + string" where
  "get_gateway_channel st = ok_or (Error UnsetChannel) (GATEWAY_CHANNEL st)"

text \<open>The payment message that precedes the request packet, if there is something to pay.\<close>

definition payment_msgs :: "env \<Rightarrow> proxy_config \<Rightarrow> 'e failure + receiver_execute_msg cosmos_msg list" where
  "payment_msgs env config =
     (case mode config of
        IbcPay unois \<Rightarrow>
          (case payment config of
             Some payment_contract \<Rightarrow>
               if nois_beacon_price config \<noteq> 0
               then and_then (plus_seconds (block_time env) TRANSFER_PACKET_LIFETIME) (\<lambda>timeout.
                    Inr [IbcTransfer (ics20_channel unois) payment_contract
                      \<lparr>amount = nois_beacon_price config, denom = unois_denom unois\<rparr> timeout None])
               else Inr []
           | None \<Rightarrow> Inr [])
      | Funded \<Rightarrow> Inr [])"

definition execute_get_randomness_impl ::
  "codec \<Rightarrow> origin_codec \<Rightarrow> nois_lib \<Rightarrow> env \<Rightarrow> message_info \<Rightarrow> string \<Rightarrow> proxy_config \<Rightarrow> timestamp \<Rightarrow> string
    \<Rightarrow> proxy_state \<Rightarrow> proxy_error failure + proxy_state \<times> receiver_execute_msg response" where
  "execute_get_randomness_impl codec oc lib env info action config after job st =
     and_then (validate_job_id lib job) (\<lambda>_.
     and_then (validate_payment (prices config) (funds info)) (\<lambda>_.
     if unwrap_or (allowlist_enabled config) False \<and> \<not> kv_has (ALLOWLIST st) (sender info)
     then Inl (Error SenderNotAllowed)
     else let mi = unwrap_or (min_after config) MIN_AFTER_FALLBACK
     in if after < mi then Inl (Error (AfterTooLow mi after))
     else let ma = unwrap_or (max_after config) MAX_AFTER_FALLBACK
     in if ma < after then Inl (Error (AfterTooHigh ma after))
     else let packet = RequestBeacon after (enc_origin oc \<lparr>rbo_sender = sender info, rbo_job_id = job\<rparr>)
     in and_then (get_gateway_channel st) (\<lambda>chan_id.
        and_then (payment_msgs env config) (\<lambda>msgs.
        and_then (plus_seconds (block_time env) REQUEST_BEACON_PACKET_LIFETIME) (\<lambda>timeout.
        Inr (st, \<lparr>messages = map new_msg (msgs @ [IbcSendPacket chan_id (enc_in_packet codec packet) timeout]),
                  attributes = [(''action'', Text action)], events = []\<rparr>))))))"

definition execute_get_next_randomness ::
  "codec \<Rightarrow> origin_codec \<Rightarrow> nois_lib \<Rightarrow> env \<Rightarrow> message_info \<Rightarrow> string
    \<Rightarrow> proxy_state \<Rightarrow> proxy_error failure + proxy_state \<times> receiver_execute_msg response" where
  "execute_get_next_randomness codec oc lib env info job st =
     and_then (map_err std_failure_proxy (load_config_proxy st)) (\<lambda>config.
     let md = (if test_mode config then TestMode else BlockTime (block_time env))
     in and_then (calculate_after md st) (\<lambda>(after, st1).
        execute_get_randomness_impl codec oc lib env info ''execute_get_next_randomness'' config after job st1))"

definition execute_get_randomness_after ::
  "codec \<Rightarrow> origin_codec \<Rightarrow> nois_lib \<Rightarrow> env \<Rightarrow> message_info \<Rightarrow> timestamp \<Rightarrow> string
    \<Rightarrow> proxy_state \<Rightarrow> proxy_error failure + proxy_state \<times> receiver_execute_msg response" where
  "execute_get_randomness_after codec oc lib env info after job st =
     and_then (map_err std_failure_proxy (load_config_proxy st)) (\<lambda>config.
     execute_get_randomness_impl codec oc lib env info ''execute_get_randomness_after'' config after job st)"

fun execute_proxy ::
  "'a api_scheme \<Rightarrow> codec \<Rightarrow> origin_codec \<Rightarrow> nois_lib \<Rightarrow> querier \<Rightarrow> env \<Rightarrow> message_info \<Rightarrow> proxy_execute_msg
    \<Rightarrow> proxy_state \<Rightarrow> proxy_error failure + proxy_state \<times> receiver_execute_msg response" where
  "execute_proxy api codec oc lib q env info (GetNextRandomness job) st =
     execute_get_next_randomness codec oc lib env info job st"
| "execute_proxy api codec oc lib q env info (SetConfig ma pr pa bp gl mo en mi mx) st =
     execute_set_config_proxy api info env ma pr pa bp gl mo en mi mx st"
| "execute_proxy api codec oc lib q env info (GetRandomnessAfter after job) st =
     execute_get_randomness_after codec oc lib env info after job st"
| "execute_proxy api codec oc lib q env info (Withdraw d amt address) st =
     execute_withdraw api q env info d amt address st"
| "execute_proxy api codec oc lib q env info (UpdateAllowlist add remove) st =
     execute_update_allowlist api info add remove st"

definition reply_proxy :: "u64 \<Rightarrow> sub_msg_result \<Rightarrow> proxy_state
    \<Rightarrow> proxy_error failure + proxy_state \<times> receiver_execute_msg response" where
  "reply_proxy reply_id result st =
     (if reply_id = REPLAY_ID_CALLBACK
      then let attrs = (case result of
                 SubMsgOk \<Rightarrow> [(''success'', Text ''true'')]
               | SubMsgErr err_msg \<Rightarrow> [(''success'', Text ''false''), (''error_msg'', Text err_msg)])
           in Inr (st, default_response\<lparr>events := [Event ''nois-callback'' attrs]\<rparr>)
      else Inl (Error (UnknownReplyId reply_id)))"

section \<open>Queries\<close>

definition query_config_proxy :: "proxy_state \<Rightarrow> std_error failure + proxy_config" where
  "query_config_proxy st = load_config_proxy st"

definition query_prices :: "proxy_state \<Rightarrow> std_error failure + coin list" where
  "query_prices st = and_then (load_config_proxy st) (\<lambda>config. Inr (prices config))"

definition query_price :: "proxy_state \<Rightarrow> string \<Rightarrow> std_error failure + u128 option" where
  "query_price st d =
     and_then (load_config_proxy st) (\<lambda>config.
     Inr (map_option amount (List.find (\<lambda>pr. denom pr = d) (prices config))))"

definition query_gateway_channel :: "proxy_state \<Rightarrow> string option" where
  "query_gateway_channel st = GATEWAY_CHANNEL st"

definition query_allowlist_proxy :: "proxy_state \<Rightarrow> addr list" where
  "query_allowlist_proxy st = map fst (kv_range None None Ascending (ALLOWLIST st))"

definition query_is_allowlisted_proxy ::
  "'a api_scheme \<Rightarrow> proxy_state \<Rightarrow> string \<Rightarrow> std_error failure + bool" where
  "query_is_allowlisted_proxy api st a =
     and_then (map_err Error (addr_validate api a)) (\<lambda>address. Inr (kv_has (ALLOWLIST st) address))"

fun query_proxy ::
  "'a api_scheme \<Rightarrow> proxy_query_msg \<Rightarrow> proxy_state \<Rightarrow> std_error failure + proxy_query_response" where
  "query_proxy api QueryConfig st = and_then (query_config_proxy st) (\<lambda>c. Inr (ConfigResponse c))"
| "query_proxy api QueryPrices st = and_then (query_prices st) (\<lambda>ps. Inr (PricesResponse ps))"
| "query_proxy api (QueryPrice d) st = and_then (query_price st d) (\<lambda>p. Inr (PriceResponse p))"
| "query_proxy api QueryGatewayChannel st = Inr (GatewayChannelResponse (query_gateway_channel st))"
| "query_proxy api QueryAllowlist st = Inr (AllowlistResponse (query_allowlist_proxy st))"
| "query_proxy api (QueryIsAllowlisted a) st =
     and_then (query_is_allowlisted_proxy api st a) (\<lambda>l. Inr (IsAllowlistedResponse l))"

section \<open>IBC entry points\<close>

fun ibc_channel_open_proxy :: "ibc_channel_open_msg \<Rightarrow> proxy_error failure + string option" where
  "ibc_channel_open_proxy (OpenTry c v) = Inl (Error MustBeChainA)"
| "ibc_channel_open_proxy (OpenInit c) =
     and_then (map_err (\<lambda>e. Error (ChannelError e)) (check_order (channel_order c))) (\<lambda>_.
     and_then (map_err (\<lambda>e. Error (ChannelError e)) (check_version (channel_version c))) (\<lambda>_.
     Inr None))"

fun ibc_channel_connect_proxy ::
  "ibc_channel_connect_msg \<Rightarrow> proxy_state \<Rightarrow> proxy_error failure + proxy_state \<times> receiver_execute_msg response" where
  "ibc_channel_connect_proxy (OpenConfirm c) st = Inl (Error MustBeChainA)"
| "ibc_channel_connect_proxy (OpenAck c v) st =
     (let chan_id = channel_id c
      in if GATEWAY_CHANNEL st \<noteq> None then Inl (Error ChannelAlreadySet)
         else Inr (st\<lparr>GATEWAY_CHANNEL := Some chan_id\<rparr>,
                   default_response\<lparr>attributes := [(''action'', Text ''ibc_channel_connect''),
                     (''channel_id'', Text chan_id)]\<rparr>))"

fun ibc_channel_close_proxy ::
  "ibc_channel_close_msg \<Rightarrow> proxy_state \<Rightarrow> proxy_error failure + proxy_state \<times> receiver_execute_msg response" where
  "ibc_channel_close_proxy (CloseInit c) st = Inl (Error ChannelMustNotBeClosed)"
| "ibc_channel_close_proxy (CloseConfirm c) st =
     Inr (st\<lparr>GATEWAY_CHANNEL := None\<rparr>,
          default_response\<lparr>attributes := [(''action'', Text ''ibc_channel_close''),
            (''channel_id'', Text (channel_id c))]\<rparr>)"

definition update_nois_beacon_price ::
  "timestamp \<Rightarrow> u128 \<Rightarrow> string \<Rightarrow> proxy_state \<Rightarrow> proxy_error failure + proxy_state" where
  "update_nois_beacon_price ts new_price d st =
     (if d \<noteq> ''unois'' then Inr st
      else and_then (map_err std_failure_proxy (load_config_proxy st)) (\<lambda>config.
        if ts < nois_beacon_price_updated config then Inr st
        else Inr (st\<lparr>CONFIG := Some (config\<lparr>nois_beacon_price := new_price, nois_beacon_price_updated := ts\<rparr>)\<rparr>)))"

definition receive_deliver_beacon ::
  "codec \<Rightarrow> origin_codec \<Rightarrow> timestamp \<Rightarrow> binary \<Rightarrow> binary \<Rightarrow> proxy_state
    \<Rightarrow> proxy_error failure + proxy_state \<times> receiver_execute_msg ibc_receive_response" where
  "receive_deliver_beacon codec oc pub rand orig st =
     and_then (map_err std_failure_proxy (load_config_proxy st)) (\<lambda>config.
     and_then (map_err (\<lambda>e. Error (Std e)) (dec_origin oc orig)) (\<lambda>o1.
     let msg = SubMsg REPLAY_ID_CALLBACK
           (WasmExecute (rbo_sender o1)
             (ReceiverNoisReceive \<lparr>job_id = rbo_job_id o1, published = pub, randomness = rand\<rparr>) [])
           (Some (callback_gas_limit config)) ReplyOnError
     in Inr (st, \<lparr>messages = [msg],
          attributes = [(''action'', Text ''receive_deliver_beacon''), (''job_id'', Text (rbo_job_id o1))], events = [],
          acknowledgement = AckSuccess (enc_out_packet_ack codec DeliverBeaconAck)\<rparr>)))"

definition receive_welcome ::
  "codec \<Rightarrow> string \<Rightarrow> proxy_state
    \<Rightarrow> proxy_error failure + proxy_state \<times> receiver_execute_msg ibc_receive_response" where
  "receive_welcome codec pa st =
     and_then (map_err std_failure_proxy (load_config_proxy st)) (\<lambda>config.
     Inr (st\<lparr>CONFIG := Some (config\<lparr>payment := Some pa\<rparr>)\<rparr>,
       \<lparr>messages = [], attributes = [(''action'', Text ''receive_welcome'')], events = [],
        acknowledgement = AckSuccess (enc_out_packet_ack codec WelcomeAck)\<rparr>))"

definition receive_push_beacon_price ::
  "codec \<Rightarrow> timestamp \<Rightarrow> u128 \<Rightarrow> string \<Rightarrow> proxy_state
    \<Rightarrow> proxy_error failure + proxy_state \<times> receiver_execute_msg ibc_receive_response" where
  "receive_push_beacon_price codec ts amt d st =
     and_then (update_nois_beacon_price ts amt d st) (\<lambda>st1.
     Inr (st1, \<lparr>messages = [], attributes = [(''action'', Text ''receive_push_beacon_price'')], events = [],
        acknowledgement = AckSuccess (enc_out_packet_ack codec PushBeaconPriceAck)\<rparr>))"

text \<open>
  The body of the closure in \<open>ibc_packet_receive\<close>. None of its branches fails after a write, so
  a failure leaves the state as it was.
\<close>

definition receive_packet_proxy ::
  "codec \<Rightarrow> origin_codec \<Rightarrow> ibc_packet_receive_msg \<Rightarrow> proxy_state
    \<Rightarrow> proxy_error failure + proxy_state \<times> receiver_execute_msg ibc_receive_response" where
  "receive_packet_proxy codec oc msg st =
     and_then (map_err (\<lambda>e. Error (Std e)) (dec_out_packet codec (packet_data msg))) (\<lambda>op.
     case op of
       DeliverBeacon _ pub rand orig \<Rightarrow> receive_deliver_beacon codec oc pub rand orig st
     | Welcome pa \<Rightarrow> receive_welcome codec pa st
     | PushBeaconPrice ts amt d \<Rightarrow> receive_push_beacon_price codec ts amt d st)"

definition ibc_packet_receive_proxy ::
  "'a api_scheme \<Rightarrow> codec \<Rightarrow> origin_codec \<Rightarrow> ibc_packet_receive_msg \<Rightarrow> proxy_state
    \<Rightarrow> 'e failure + proxy_state \<times> receiver_execute_msg ibc_receive_response" where
  "ibc_packet_receive_proxy api codec oc msg st =
     (case receive_packet_proxy codec oc msg st of
        Inr (st1, res) \<Rightarrow> Inr (st1, res)
      | Inl (Error e) \<Rightarrow>
          Inr (st, \<lparr>messages = [], attributes = [], events = [Event ''ibc'' [(''packet'', Text ''receive'')]],
                    acknowledgement = AckError (''Error processing packet: '' @ show_proxy_error api e)\<rparr>)
      | Inl (Panic p) \<Rightarrow> Inl (Panic p))"

definition ibc_packet_ack_proxy ::
  "codec \<Rightarrow> binary \<Rightarrow> proxy_state \<Rightarrow> proxy_error failure + proxy_state \<times> receiver_execute_msg response" where
  "ibc_packet_ack_proxy codec ack_data st =
     and_then (map_err (\<lambda>e. Error (Std e)) (dec_std_ack codec ack_data)) (\<lambda>ack.
     and_then (case ack of
         AckSuccess data \<Rightarrow>
           and_then (map_err (\<lambda>e. Error (Std e)) (dec_in_packet_ack codec data)) (\<lambda>response.
           and_then (case response of
               RequestProcessed _ \<Rightarrow> Inr (st, ''request_processed'')
             | RequestQueued _ \<Rightarrow> Inr (st, ''request_queued'')
             | PullBeaconPriceAck ts amt d \<Rightarrow>
                 and_then (update_nois_beacon_price ts amt d st) (\<lambda>st1. Inr (st1, ''beacon_price'')))
             (\<lambda>(st1, ack_type). Inr (st1, False, [(''ack_type'', Text ack_type)])))
       | AckError err \<Rightarrow> Inr (st, True, [(''error'', Text err)])) (\<lambda>(st1, is_error, attrs).
     Inr (st1, default_response\<lparr>attributes :=
       [(''action'', Text ''ibc_packet_ack'')] @ attrs @ [(''is_error'', Text (show_bool is_error))]\<rparr>)))"

definition ibc_packet_timeout_proxy ::
  "proxy_state \<Rightarrow> std_error failure + proxy_state \<times> receiver_execute_msg response" where
  "ibc_packet_timeout_proxy st =
     Inr (st, default_response\<lparr>attributes := [(''action'', Text ''ibc_packet_timeout'')]\<rparr>)"

section \<open>The proxy as a machine\<close>

datatype proxy_call =
    CallExecute message_info proxy_execute_msg
  | CallSudo proxy_sudo_msg
  | CallMigrate
  | CallReply u64 sub_msg_result
  | CallChannelConnect ibc_channel_connect_msg
  | CallChannelClose ibc_channel_close_msg
  | CallPacketReceive ibc_packet_receive_msg
  | CallPacketAck binary
  | CallPacketTimeout

fun proxy_tx ::
  "'a api_scheme \<Rightarrow> codec \<Rightarrow> origin_codec \<Rightarrow> nois_lib \<Rightarrow> querier \<times> env \<times> proxy_call \<Rightarrow> proxy_state
    \<Rightarrow> proxy_error failure + proxy_state \<times> receiver_execute_msg response" where
  "proxy_tx api codec oc lib (q, env, CallExecute info msg) st = execute_proxy api codec oc lib q env info msg st"
| "proxy_tx api codec oc lib (q, env, CallSudo msg) st = sudo_proxy api q env msg st"
| "proxy_tx api codec oc lib (q, env, CallMigrate) st = map_err std_failure_proxy (migrate_proxy env st)"
| "proxy_tx api codec oc lib (q, env, CallReply i r) st = reply_proxy i r st"
| "proxy_tx api codec oc lib (q, env, CallChannelConnect msg) st = ibc_channel_connect_proxy msg st"
| "proxy_tx api codec oc lib (q, env, CallChannelClose msg) st = ibc_channel_close_proxy msg st"
| "proxy_tx api codec oc lib (q, env, CallPacketReceive msg) st =
     and_then (ibc_packet_receive_proxy api codec oc msg st) (\<lambda>(st1, res). Inr (st1, response.truncate res))"
| "proxy_tx api codec oc lib (q, env, CallPacketAck data) st = ibc_packet_ack_proxy codec data st"
| "proxy_tx api codec oc lib (q, env, CallPacketTimeout) st = map_err std_failure_proxy (ibc_packet_timeout_proxy st)"

section \<open>Payments\<close>

lemma price_map_lookup: "kv_may_load (price_map ps) d = map_option amount (List.find (\<lambda>c. denom c = d) (rev ps))"
  by (induction ps rule: rev_induct) (auto simp: price_map_def)

lemma pays_one_of_eq:
  "pays_one_of m paid = (if \<exists>f p. f \<in> set paid \<and> kv_may_load m (denom f) = Some p \<and> p \<le> amount f
     then Inr () else Inl (Error InsufficientPayment))"
  by (induction paid) (auto split: option.splits)

lemma find_rev_distinct: "distinct (map f xs) \<Longrightarrow> List.find (\<lambda>x. f x = y) (rev xs) = List.find (\<lambda>x. f x = y) xs"
proof (induction xs)
  case Nil
  show ?case by simp
next
  case (Cons x xs)
  have "List.find (\<lambda>x. f x = y) (xs @ zs) = (case List.find (\<lambda>x. f x = y) xs of None \<Rightarrow> List.find (\<lambda>x. f x = y) zs | Some z \<Rightarrow> Some z)"
    for xs zs by (induction xs) auto
  moreover have "f x = y \<Longrightarrow> List.find (\<lambda>x. f x = y) xs = None"
    using Cons.prems by (auto simp: find_None_iff image_iff)
  ultimately show ?case using Cons by (auto split: option.splits)
qed

lemma validate_payment_Inr:
  "validate_payment ps paid = Inr u \<longleftrightarrow>
     (\<exists>f p. f \<in> set paid \<and> List.find (\<lambda>c. denom c = denom f) (rev ps) = Some p \<and> amount p \<le> amount f)"
  by (cases "ps = []") (auto simp: validate_payment_def pays_one_of_eq price_map_lookup)

section \<open>Requests\<close>

lemma load_config_proxy_Inr [simp]: "load_config_proxy st = Inr c \<longleftrightarrow> CONFIG st = Some c"
  by (simp add: load_config_proxy_def)

lemma ensure_manager_Inr: "ensure_manager info st = Inr u \<longleftrightarrow>
     (\<exists>config. CONFIG st = Some config \<and> manager config = Some (sender info))"
  by (auto simp: ensure_manager_def)

definition allowed_after :: "proxy_config \<Rightarrow> timestamp \<Rightarrow> bool" where
  "allowed_after config after \<longleftrightarrow>
     unwrap_or (min_after config) MIN_AFTER_FALLBACK \<le> after \<and> after \<le> unwrap_or (max_after config) MAX_AFTER_FALLBACK"

lemma get_randomness_impl_Inr:
  "execute_get_randomness_impl codec oc lib env info action config after job st = Inr (st', res) \<longleftrightarrow>
     (\<exists>chan msgs timeout. length job \<le> MAX_JOB_ID_LEN lib \<and> validate_payment (prices config) (funds info) = Inr () \<and>
        (unwrap_or (allowlist_enabled config) False \<longrightarrow> kv_has (ALLOWLIST st) (sender info)) \<and>
        allowed_after config after \<and> GATEWAY_CHANNEL st = Some chan \<and>
        payment_msgs env config = (Inr msgs :: proxy_error failure + receiver_execute_msg cosmos_msg list) \<and>
        plus_seconds (block_time env) REQUEST_BEACON_PACKET_LIFETIME = (Inr timeout :: proxy_error failure + timestamp) \<and>
        st' = st \<and>
        res = \<lparr>messages = map new_msg (msgs @ [IbcSendPacket chan (enc_in_packet codec
                 (RequestBeacon after (enc_origin oc \<lparr>rbo_sender = sender info, rbo_job_id = job\<rparr>))) timeout]),
               attributes = [(''action'', Text action)], events = []\<rparr>)"
  by (auto simp: execute_get_randomness_impl_def validate_job_id_def allowed_after_def get_gateway_channel_def Let_def
      split: if_splits)

lemma payment_msgs_eq_Inr:
  "payment_msgs env config = (Inr msgs :: proxy_error failure + receiver_execute_msg cosmos_msg list) \<longleftrightarrow>
     (case (mode config, payment config) of
        (IbcPay unois, Some pa) \<Rightarrow>
          if nois_beacon_price config = 0 then msgs = []
          else (\<exists>expiry. plus_seconds (block_time env) TRANSFER_PACKET_LIFETIME = (Inr expiry :: proxy_error failure + timestamp) \<and>
            msgs = [IbcTransfer (ics20_channel unois) pa
              \<lparr>amount = nois_beacon_price config, denom = unois_denom unois\<rparr> expiry None])
      | _ \<Rightarrow> msgs = [])"
  by (auto simp: payment_msgs_def split: operational_mode.splits option.splits)

lemma calculate_after_frame:
  "calculate_after md st = Inr (after, st') \<Longrightarrow> \<exists>t. st' = st\<lparr>TEST_MODE_NEXT_AFTER := t\<rparr>"
  by (cases md) (auto simp: Let_def intro: exI [of _ "TEST_MODE_NEXT_AFTER st"])

lemma execute_get_next_randomness_Inr:
  assumes "execute_get_next_randomness codec oc lib env info job st = Inr (st', res)"
  obtains config after t where "CONFIG st = Some config"
    and "calculate_after (if test_mode config then TestMode else BlockTime (block_time env)) st
      = (Inr (after, st\<lparr>TEST_MODE_NEXT_AFTER := t\<rparr>) :: proxy_error failure + timestamp \<times> proxy_state)"
    and "execute_get_randomness_impl codec oc lib env info ''execute_get_next_randomness'' config after job
      (st\<lparr>TEST_MODE_NEXT_AFTER := t\<rparr>) = Inr (st', res)"
proof -
  from assms obtain config after st1 where "CONFIG st = Some config"
    and "calculate_after (if test_mode config then TestMode else BlockTime (block_time env)) st
      = (Inr (after, st1) :: proxy_error failure + timestamp \<times> proxy_state)"
    and "execute_get_randomness_impl codec oc lib env info ''execute_get_next_randomness'' config after job st1 = Inr (st', res)"
    by (auto simp: execute_get_next_randomness_def Let_def)
  moreover from this(2) obtain t where "st1 = st\<lparr>TEST_MODE_NEXT_AFTER := t\<rparr>"
    using calculate_after_frame by blast
  ultimately show ?thesis using that by blast
qed

section \<open>The allow list\<close>

lemma dom_allowlist_save_all:
  "allowlist_save_all api as l = Inr l' \<Longrightarrow>
     dom (kv_may_load l') = dom (kv_may_load l) \<union> {a. Some a \<in> validated_addr api ` set as}"
proof (induction as arbitrary: l)
  case (Cons s as)
  then obtain a where a: "addr_validate api s = Inr a" by auto
  with Cons.prems have "dom (kv_may_load l') = dom (kv_may_load (kv_save a ALLOWLIST_MARKER l)) \<union> {a. Some a \<in> validated_addr api ` set as}"
    by (intro Cons.IH) simp
  with a show ?case by (auto simp: validated_addr_Inr kv.dom_save)
qed auto

lemma dom_allowlist_remove_all:
  "allowlist_remove_all api as l = Inr l' \<Longrightarrow>
     dom (kv_may_load l') = dom (kv_may_load l) - {a. Some a \<in> validated_addr api ` set as}"
proof (induction as arbitrary: l)
  case (Cons s as)
  then obtain a where a: "addr_validate api s = Inr a" by auto
  with Cons.prems have "dom (kv_may_load l') = dom (kv_may_load (kv_remove a l)) - {a. Some a \<in> validated_addr api ` set as}"
    by (intro Cons.IH) simp
  with a show ?case by (auto simp: validated_addr_Inr kv.dom_remove)
qed auto

interpretation dapp_allowlist: allowlist "\<lambda>l. dom (kv_may_load l)" "validated_addr api"
  "allowlist_save_all api" "allowlist_remove_all api" for api
  by unfold_locales (rule dom_allowlist_save_all dom_allowlist_remove_all, assumption)+

section \<open>Packets\<close>

text \<open>What the other side of the channel can change: the payment address and the price of a beacon.\<close>

definition price_and_payment_changed :: "proxy_state \<Rightarrow> proxy_state \<Rightarrow> bool" where
  "price_and_payment_changed st st' \<longleftrightarrow>
     (\<exists>pa bp t. st' = st\<lparr>CONFIG := map_option (\<lambda>c. c\<lparr>payment := pa, nois_beacon_price := bp,
        nois_beacon_price_updated := t\<rparr>) (CONFIG st)\<rparr>)"

lemma unchanged_price_and_payment [simp]: "price_and_payment_changed st st"
proof (cases "CONFIG st")
  case None
  then have "st = st\<lparr>CONFIG := map_option (\<lambda>c. c\<lparr>payment := pa, nois_beacon_price := bp,
        nois_beacon_price_updated := t\<rparr>) (CONFIG st)\<rparr>" for pa bp t by simp
  then show ?thesis unfolding price_and_payment_changed_def by blast
next
  case (Some c)
  then have "st = st\<lparr>CONFIG := map_option (\<lambda>c'. c'\<lparr>payment := payment c, nois_beacon_price := nois_beacon_price c,
        nois_beacon_price_updated := nois_beacon_price_updated c\<rparr>) (CONFIG st)\<rparr>" by simp
  then show ?thesis unfolding price_and_payment_changed_def by blast
qed

lemma changed_price: "CONFIG st = Some c \<Longrightarrow>
    price_and_payment_changed st (st\<lparr>CONFIG := Some (c\<lparr>nois_beacon_price := bp, nois_beacon_price_updated := t\<rparr>)\<rparr>)"
  unfolding price_and_payment_changed_def
  by (intro exI [of _ "payment c"] exI [of _ bp] exI [of _ t]) simp

lemma changed_payment: "CONFIG st = Some c \<Longrightarrow>
    price_and_payment_changed st (st\<lparr>CONFIG := Some (c\<lparr>payment := pa\<rparr>)\<rparr>)"
  unfolding price_and_payment_changed_def
  by (intro exI [of _ pa] exI [of _ "nois_beacon_price c"] exI [of _ "nois_beacon_price_updated c"]) simp

lemma update_price_changed:
  "update_nois_beacon_price ts p d st = Inr st' \<Longrightarrow> price_and_payment_changed st st'"
  by (auto simp: update_nois_beacon_price_def changed_price split: if_splits)

lemma std_failure_proxy_simps [simp]:
  "std_failure_proxy (Error e) = Error (Std e)" "std_failure_proxy (Panic p) = Panic p"
  by (simp_all add: std_failure_proxy_def)

lemma load_config_proxy_Inl [simp]: "load_config_proxy st \<noteq> Inl (Panic p)"
  by (auto simp: load_config_proxy_def ok_or_eq_Inl)

lemma update_price_no_panic [simp]: "update_nois_beacon_price ts bp d st \<noteq> Inl (Panic p)"
  by (cases "CONFIG st") (auto simp: update_nois_beacon_price_def load_config_proxy_def)

lemma receive_packet_changed:
  assumes "receive_packet_proxy codec oc msg st = Inr (st', res)"
  shows "price_and_payment_changed st st'"
proof -
  from assms obtain op where "dec_out_packet codec (packet_data msg) = Inr op" by (auto simp: receive_packet_proxy_def)
  with assms show ?thesis
    by (cases op) (auto simp: receive_packet_proxy_def receive_deliver_beacon_def receive_welcome_def
        receive_push_beacon_price_def Let_def intro: changed_payment update_price_changed)
qed

lemma receive_packet_no_panic: "receive_packet_proxy codec oc msg st \<noteq> Inl (Panic p)"
  by (cases "CONFIG st")
    (auto simp: receive_packet_proxy_def receive_deliver_beacon_def receive_welcome_def receive_push_beacon_price_def Let_def
      and_then_eq_Inl map_err_eq_Inl load_config_proxy_def split: out_packet.splits)

lemma ibc_packet_receive_proxy_changed:
  assumes "ibc_packet_receive_proxy api codec oc msg st = Inr (st', res)"
  shows "price_and_payment_changed st st'"
  using assms by (auto simp: ibc_packet_receive_proxy_def receive_packet_changed split: sum.splits failure.splits)

lemma ibc_packet_ack_proxy_changed:
  assumes "ibc_packet_ack_proxy codec data st = Inr (st', res)"
  shows "price_and_payment_changed st st'"
proof -
  from assms obtain ack where ack: "dec_std_ack codec data = Inr ack" by (auto simp: ibc_packet_ack_proxy_def)
  show ?thesis
  proof (cases ack)
    case (AckSuccess d)
    with assms ack obtain r where "dec_in_packet_ack codec d = Inr r" by (auto simp: ibc_packet_ack_proxy_def)
    with assms ack AckSuccess show ?thesis
      by (cases r) (auto simp: ibc_packet_ack_proxy_def intro: update_price_changed)
  qed (use assms ack in \<open>simp add: ibc_packet_ack_proxy_def\<close>)
qed

section \<open>Steps of the proxy\<close>

lemma set_config_unchecked_Inr:
  assumes "set_config_unchecked api env action ma pr pa bp gl mo en mi mx st = Inr (st', res)"
  obtains config config' where "CONFIG st = Some config" and "st' = st\<lparr>CONFIG := Some config'\<rparr>"
    and "allowlist_enabled config' = Some (unwrap_or en (unwrap_or (allowlist_enabled config) False))"
    and "min_after config' = (case mi of Some t \<Rightarrow> Some t | None \<Rightarrow> min_after config)"
    and "max_after config' = (case mx of Some t \<Rightarrow> Some t | None \<Rightarrow> max_after config)"
    and "test_mode config' = test_mode config" and "messages res = []"
  using assms by (cases bp) (auto simp: set_config_unchecked_def Let_def default_response_def)






section \<open>Prices learnt from the other chain\<close>

text \<open>
  A call that brings a piece of price information: a packet that pushes it, or the acknowledgement
  of a packet that asked for it.
\<close>

fun carries_price :: "codec \<Rightarrow> proxy_call \<Rightarrow> timestamp \<times> u128 \<times> string \<Rightarrow> bool" where
  "carries_price codec (CallPacketReceive msg) (t, p, d) \<longleftrightarrow>
     dec_out_packet codec (packet_data msg) = Inr (PushBeaconPrice t p d)"
| "carries_price codec (CallPacketAck data) (t, p, d) \<longleftrightarrow>
     (\<exists>b. dec_std_ack codec data = Inr (AckSuccess b) \<and> dec_in_packet_ack codec b = Inr (PullBeaconPriceAck t p d))"
| "carries_price codec _ _ \<longleftrightarrow> False"

definition with_price :: "timestamp \<Rightarrow> u128 \<Rightarrow> proxy_config \<Rightarrow> proxy_config" where
  "with_price t p c = c\<lparr>nois_beacon_price := p, nois_beacon_price_updated := t\<rparr>"

lemma with_price_simps [simp]:
  "nois_beacon_price_updated (with_price t p c) = t" "with_price t p (with_price t' p' c) = with_price t p c"
  by (simp_all add: with_price_def)

lemma commit_price:
  assumes "carries_price codec call (t, p, d)" and "CONFIG st = Some c"
  shows "commit (proxy_tx api codec oc lib) (q, env, call) st =
     (if d = ''unois'' \<and> nois_beacon_price_updated c \<le> t then st\<lparr>CONFIG := Some (with_price t p c)\<rparr> else st)"
  using assms
  by (cases call)
    (auto simp: commit_def with_price_def ibc_packet_receive_proxy_def receive_packet_proxy_def receive_push_beacon_price_def
      ibc_packet_ack_proxy_def update_nois_beacon_price_def load_config_proxy_def not_less simp del: result_inversion)

lemma run_prices:
  assumes "list_all2 (\<lambda>tx u. carries_price codec (snd (snd tx)) u) txs us" and "CONFIG st = Some c"
  shows "((\<forall>t p. (t, p, ''unois'') \<in> set us \<longrightarrow> t < nois_beacon_price_updated c) \<longrightarrow>
       run (proxy_tx api codec oc lib) txs st = st) \<and>
     ((t, p, ''unois'') \<in> set us \<and> nois_beacon_price_updated c \<le> t \<and>
       (\<forall>t' p'. (t', p', ''unois'') \<in> set us \<longrightarrow> t' < t \<or> t' = t \<and> p' = p) \<longrightarrow>
       run (proxy_tx api codec oc lib) txs st = st\<lparr>CONFIG := Some (with_price t p c)\<rparr>)"
  using assms
proof (induction txs us arbitrary: st c rule: list_all2_induct)
  case (Cons tx txs u us)
  obtain q env call where tx: "tx = (q, env, call)" by (cases tx)
  obtain t1 p1 d where u: "u = (t1, p1, d)" by (cases u)
  let ?run = "run (proxy_tx api codec oc lib)"
  from Cons.hyps(1) have price: "carries_price codec call (t1, p1, d)" by (simp add: tx u)
  have head: "?run (tx # txs) st = ?run txs
      (if d = ''unois'' \<and> nois_beacon_price_updated c \<le> t1 then st\<lparr>CONFIG := Some (with_price t1 p1 c)\<rparr> else st)"
    unfolding tx run.simps by (subst commit_price [OF price Cons.prems]) simp
  show ?case
  proof (cases "d = ''unois'' \<and> nois_beacon_price_updated c \<le> t1")
    case True
    note IH = Cons.IH [of "st\<lparr>CONFIG := Some (with_price t1 p1 c)\<rparr>" "with_price t1 p1 c"]
    show ?thesis
    proof (intro conjI impI)
      assume "\<forall>t p. (t, p, ''unois'') \<in> set (u # us) \<longrightarrow> t < nois_beacon_price_updated c"
      with True show "?run (tx # txs) st = st" by (fastforce simp: u)
    next
      assume latest: "(t, p, ''unois'') \<in> set (u # us) \<and> nois_beacon_price_updated c \<le> t \<and>
        (\<forall>t' p'. (t', p', ''unois'') \<in> set (u # us) \<longrightarrow> t' < t \<or> t' = t \<and> p' = p)"
      show "?run (tx # txs) st = st\<lparr>CONFIG := Some (with_price t p c)\<rparr>"
      proof (cases "(t, p, ''unois'') \<in> set us")
        case True': True
        from latest True have "t1 < t \<or> t1 = t" by (auto simp: u)
        then have "t1 \<le> t" by auto
        with IH [THEN conjunct2] latest True' True show ?thesis unfolding head by simp
      next
        case False
        with latest True have "t1 = t" "p1 = p" by (auto simp: u)
        moreover from latest False have "\<forall>t' p'. (t', p', ''unois'') \<in> set us \<longrightarrow> t' < t" by auto
        ultimately show ?thesis using IH [THEN conjunct1] True unfolding head by simp
      qed
    qed
  next
    case False
    with Cons.IH [OF Cons.prems] show ?thesis unfolding head by (auto simp: u)
  qed
qed simp

section \<open>Test mode\<close>






section \<open>Authority\<close>

text \<open>
  The messages that only the manager may send, the calls with the authority to change the
  contract, and the messages that take funds out of it.
\<close>

fun manager_only :: "proxy_execute_msg \<Rightarrow> bool" where
  "manager_only (GetNextRandomness _) = False"
| "manager_only (GetRandomnessAfter _ _) = False"
| "manager_only _ = True"

fun privileged :: "proxy_config \<Rightarrow> proxy_call \<Rightarrow> bool" where
  "privileged config (CallExecute info msg) \<longleftrightarrow> manager_only msg \<and> manager config = Some (sender info)"
| "privileged config (CallSudo _) \<longleftrightarrow> True"
| "privileged config CallMigrate \<longleftrightarrow> True"
| "privileged config _ \<longleftrightarrow> False"

fun moves_funds :: "'m cosmos_msg \<Rightarrow> bool" where
  "moves_funds (IbcSendPacket _ _ _) = False"
| "moves_funds (WasmExecute _ _ cs) \<longleftrightarrow> cs \<noteq> []"
| "moves_funds _ = True"

lemma manager_only_refused:
  assumes "CONFIG st = Some config" and "manager config \<noteq> Some (sender info)" and "manager_only msg"
  shows "execute_proxy api codec oc lib q env info msg st = Inl (Error Unauthorized)"
proof -
  have "ensure_manager info st = Inl (Error Unauthorized)"
    using assms(1,2) by (cases "manager config") (auto simp: ensure_manager_def load_config_proxy_def)
  with assms(3) show ?thesis
    by (cases msg) (auto simp: execute_set_config_proxy_def execute_withdraw_def execute_update_allowlist_def)
qed

lemma request_frame:
  assumes "execute_proxy api codec oc lib q env info msg st = Inr (st', res)" and "\<not> manager_only msg" and "CONFIG st = Some config"
  shows "CONFIG st' = CONFIG st \<and> ALLOWLIST st' = ALLOWLIST st \<and>
    (\<exists>msgs chan data timeout. payment_msgs env config = (Inr msgs :: proxy_error failure + receiver_execute_msg cosmos_msg list) \<and>
      messages res = map new_msg (msgs @ [IbcSendPacket chan data timeout]))"
proof (cases msg)
  case (GetNextRandomness job)
  then have "execute_get_next_randomness codec oc lib env info job st = Inr (st', res)" using assms(1) by simp
  then show ?thesis by (rule execute_get_next_randomness_Inr) (use assms(3) in \<open>auto simp: get_randomness_impl_Inr\<close>)
qed (use assms in \<open>auto simp: execute_get_randomness_after_def get_randomness_impl_Inr\<close>)

lemma request_payment:
  assumes "execute_proxy api codec oc lib q env info msg st = Inr (st', res)" and "\<not> manager_only msg" and "CONFIG st = Some config"
  shows "(\<forall>m \<in> set (messages res). \<not> moves_funds (sub_msg m)) \<or>
     (\<exists>unois pa timeout. mode config = IbcPay unois \<and> payment config = Some pa \<and>
       filter moves_funds (map sub_msg (messages res)) = [IbcTransfer (ics20_channel unois) pa
         \<lparr>amount = nois_beacon_price config, denom = unois_denom unois\<rparr> timeout None])"
proof -
  from request_frame [OF assms] obtain msgs chan data timeout where
    "payment_msgs env config = (Inr msgs :: proxy_error failure + receiver_execute_msg cosmos_msg list)"
    and "messages res = map new_msg (msgs @ [IbcSendPacket chan data timeout])" by blast
  then show ?thesis
    by (auto simp: payment_msgs_eq_Inr split: operational_mode.splits option.splits if_splits)
qed

lemma unprivileged_execute:
  assumes "\<not> privileged config (CallExecute info msg)" and "CONFIG st = Some config"
    and "execute_proxy api codec oc lib q env info msg st = Inr (st', res)"
  shows "\<not> manager_only msg"
  using assms manager_only_refused [of st config info msg api codec oc lib q env] by auto

lemma unprivileged_changes:
  assumes "\<not> privileged config call" and "CONFIG st = Some config"
    and "proxy_tx api codec oc lib (q, env, call) st = Inr (st', res)"
  shows "ALLOWLIST st' = ALLOWLIST st \<and>
    (\<exists>pa bp t. CONFIG st' = Some (config\<lparr>payment := pa, nois_beacon_price := bp, nois_beacon_price_updated := t\<rparr>)) \<and>
    (CONFIG st' = CONFIG st \<or> (\<exists>msg. call = CallPacketReceive msg) \<or> (\<exists>data. call = CallPacketAck data))"
proof -
  have changed: "price_and_payment_changed st st' \<Longrightarrow> ALLOWLIST st' = ALLOWLIST st \<and>
      (\<exists>pa bp t. CONFIG st' = Some (config\<lparr>payment := pa, nois_beacon_price := bp, nois_beacon_price_updated := t\<rparr>))" for st'
    using assms(2) unfolding price_and_payment_changed_def by force
  have same: ?thesis if "CONFIG st' = CONFIG st" "ALLOWLIST st' = ALLOWLIST st"
    using changed [OF unchanged_price_and_payment] that by simp
  show ?thesis
  proof (cases call)
    case (CallExecute info msg)
    with assms(3) have step: "execute_proxy api codec oc lib q env info msg st = Inr (st', res)" by simp
    from unprivileged_execute [OF _ assms(2) step] assms(1) CallExecute have "\<not> manager_only msg" by simp
    with request_frame [OF step _ assms(2)] show ?thesis by (intro same) simp_all
  next
    case (CallPacketReceive msg)
    with assms(3) obtain res' where "ibc_packet_receive_proxy api codec oc msg st
        = (Inr (st', res') :: proxy_error failure + proxy_state \<times> receiver_execute_msg ibc_receive_response)"
      by auto
    from changed [OF ibc_packet_receive_proxy_changed [OF this]] CallPacketReceive show ?thesis by blast
  next
    case (CallPacketAck data)
    with assms(3) have "ibc_packet_ack_proxy codec data st = Inr (st', res)" by simp
    from changed [OF ibc_packet_ack_proxy_changed [OF this]] CallPacketAck show ?thesis by blast
  next
    case (CallChannelConnect msg)
    with assms(3) show ?thesis by (intro same) (cases msg, auto simp: Let_def split: if_splits)+
  next
    case (CallChannelClose msg)
    with assms(3) show ?thesis by (intro same) (cases msg, auto)+
  next
    case (CallReply i r)
    with assms(3) show ?thesis by (intro same) (auto simp: reply_proxy_def Let_def split: if_splits)
  next
    case CallPacketTimeout
    with assms(3) show ?thesis by (intro same) (auto simp: ibc_packet_timeout_proxy_def)
  qed (use assms(1) in simp_all)
qed

lemma receive_packet_funds:
  assumes "receive_packet_proxy codec oc msg st = Inr (st', res)" and "m \<in> set (messages res)"
  shows "\<not> moves_funds (sub_msg m)"
proof -
  from assms(1) obtain op where "dec_out_packet codec (packet_data msg) = Inr op" by (auto simp: receive_packet_proxy_def)
  with assms show ?thesis
    by (cases op) (auto simp: receive_packet_proxy_def receive_deliver_beacon_def receive_welcome_def
        receive_push_beacon_price_def Let_def)
qed

lemma ibc_packet_receive_proxy_funds:
  assumes "ibc_packet_receive_proxy api codec oc msg st = Inr (st', res)" and "m \<in> set (messages res)"
  shows "\<not> moves_funds (sub_msg m)"
  using assms receive_packet_funds [of codec oc msg st]
  by (auto simp: ibc_packet_receive_proxy_def split: sum.splits failure.splits)

lemma unprivileged_funds:
  assumes "\<not> privileged config call" and "CONFIG st = Some config"
    and "proxy_tx api codec oc lib (q, env, call) st = Inr (st', res)"
  shows "(\<exists>info msg. call = CallExecute info msg \<and> \<not> manager_only msg) \<or> (\<forall>m \<in> set (messages res). \<not> moves_funds (sub_msg m))"
proof (cases call)
  case (CallExecute info msg)
  with assms(3) have "execute_proxy api codec oc lib q env info msg st = Inr (st', res)" by simp
  from unprivileged_execute [OF _ assms(2) this] assms(1) CallExecute show ?thesis by simp
next
  case (CallPacketReceive msg)
  with assms(3) obtain res' where "ibc_packet_receive_proxy api codec oc msg st
      = (Inr (st', res') :: proxy_error failure + proxy_state \<times> receiver_execute_msg ibc_receive_response)"
    and "messages res = messages res'"
    by (auto simp: response.truncate_def)
  with ibc_packet_receive_proxy_funds show ?thesis by metis
next
  case (CallPacketAck data)
  with assms(3) have "ibc_packet_ack_proxy codec data st = Inr (st', res)" by simp
  then have "messages res = []" by (auto simp: ibc_packet_ack_proxy_def default_response_def)
  then show ?thesis by simp
next
  case (CallChannelConnect msg)
  with assms show ?thesis by (cases msg) (auto simp: Let_def default_response_def split: if_splits)
next
  case (CallChannelClose msg)
  with assms show ?thesis by (cases msg) (auto simp: default_response_def)
qed (use assms in \<open>auto simp: reply_proxy_def ibc_packet_timeout_proxy_def default_response_def Let_def split: if_splits\<close>)

section \<open>Complete configurations\<close>

text \<open>The fields that older versions of the contract left out are always set.\<close>

definition proxy_inv :: "proxy_state \<Rightarrow> bool" where
  "proxy_inv st \<longleftrightarrow> (case CONFIG st of None \<Rightarrow> False | Some config \<Rightarrow>
     allowlist_enabled config \<noteq> None \<and> min_after config \<noteq> None \<and> max_after config \<noteq> None)"

lemma proxy_inv_frame [simp]:
  "proxy_inv (st\<lparr>ALLOWLIST := l\<rparr>) = proxy_inv st" "proxy_inv (st\<lparr>GATEWAY_CHANNEL := c\<rparr>) = proxy_inv st"
  "proxy_inv (st\<lparr>TEST_MODE_NEXT_AFTER := t\<rparr>) = proxy_inv st" "proxy_inv (set_contract_version n v st) = proxy_inv st"
  by (simp_all add: proxy_inv_def set_contract_version_def)

lemma changed_proxy_inv: "proxy_inv st \<Longrightarrow> price_and_payment_changed st st' \<Longrightarrow> proxy_inv st'"
  by (auto simp: proxy_inv_def price_and_payment_changed_def split: option.splits)

lemma set_config_proxy_inv:
  assumes "proxy_inv st" and "set_config_unchecked api env action ma pr pa bp gl mo en mi mx st = Inr (st', res)"
  shows "proxy_inv st'"
  using assms(2) by (rule set_config_unchecked_Inr) (use assms(1) in \<open>auto simp: proxy_inv_def split: option.splits\<close>)

lemma execute_proxy_inv:
  assumes inv: "proxy_inv st" and step: "execute_proxy api codec oc lib q env info msg st = Inr (st', res)"
  shows "proxy_inv st'"
proof (cases msg)
  case (GetNextRandomness job)
  then have "execute_get_next_randomness codec oc lib env info job st = Inr (st', res)" using step by simp
  then show ?thesis by (rule execute_get_next_randomness_Inr) (use inv in \<open>auto simp: get_randomness_impl_Inr\<close>)
qed (use step inv in \<open>auto simp: execute_get_randomness_after_def get_randomness_impl_Inr execute_set_config_proxy_def
      execute_withdraw_def withdraw_unchecked_def execute_update_allowlist_def update_allowlist_unchecked_def
      intro: set_config_proxy_inv\<close>)

lemma migrate_proxy_inv:
  assumes "migrate_proxy env st = Inr (st', res)"
  shows "proxy_inv st'"
proof -
  define defaults :: "proxy_config \<Rightarrow> proxy_config" where "defaults c = (if min_after c = None then c\<lparr>min_after := Some (block_time env)\<rparr> else c)" for c
  from assms obtain config c2 where
    "(if max_after (defaults config) = None
      then and_then (plus_seconds (block_time env) TEN_YEARS_S) (\<lambda>t. Inr ((defaults config)\<lparr>max_after := Some t\<rparr>))
      else Inr (defaults config)) = (Inr c2 :: std_error failure + proxy_config)"
    and st': "st' = set_contract_version ''nois-proxy'' CARGO_PKG_VERSION (st\<lparr>CONFIG :=
      Some (if allowlist_enabled c2 = None then c2\<lparr>allowlist_enabled := Some False\<rparr> else c2)\<rparr>)"
    unfolding migrate_proxy_def Let_def defaults_def by auto
  then have "min_after c2 \<noteq> None" "max_after c2 \<noteq> None"
    by (auto simp: defaults_def split: if_split_asm)
  then show ?thesis by (auto simp: st' proxy_inv_def set_contract_version_def)
qed

lemma proxy_tx_inv:
  assumes inv: "proxy_inv st" and step: "proxy_tx api codec oc lib t st = Inr (st', res)"
  shows "proxy_inv st'"
proof -
  obtain q env call where t: "t = (q, env, call)" by (cases t)
  show ?thesis
  proof (cases call)
    case (CallExecute info msg)
    with step show ?thesis by (intro execute_proxy_inv [OF inv]) (simp add: t)
  next
    case (CallSudo msg)
    with step inv show ?thesis
      by (cases msg) (auto simp: t withdraw_unchecked_def withdraw_to_community_pool_unchecked_def intro: set_config_proxy_inv)
  next
    case CallMigrate
    with step show ?thesis by (intro migrate_proxy_inv) (simp add: t)
  next
    case (CallPacketReceive msg)
    with step obtain res' where "ibc_packet_receive_proxy api codec oc msg st
        = (Inr (st', res') :: proxy_error failure + proxy_state \<times> receiver_execute_msg ibc_receive_response)"
      by (auto simp: t)
    from changed_proxy_inv [OF inv ibc_packet_receive_proxy_changed [OF this]] show ?thesis .
  next
    case (CallPacketAck data)
    with step have "ibc_packet_ack_proxy codec data st = Inr (st', res)" by (simp add: t)
    from changed_proxy_inv [OF inv ibc_packet_ack_proxy_changed [OF this]] show ?thesis .
  next
    case (CallChannelConnect msg)
    with step inv show ?thesis by (cases msg) (auto simp: t Let_def split: if_splits)
  next
    case (CallChannelClose msg)
    with step inv show ?thesis by (cases msg) (auto simp: t)
  qed (use step inv in \<open>auto simp: t reply_proxy_def ibc_packet_timeout_proxy_def Let_def split: if_splits\<close>)
qed

interpretation proxy_configs: invariant_machine "proxy_tx api codec oc lib" proxy_inv for api codec oc lib
  by unfold_locales (rule proxy_tx_inv)

lemma proxy_inv_init:
  assumes "instantiate_proxy api env info msg st = Inr (st', res)"
  shows "proxy_inv st'"
  using assms by (auto simp: instantiate_proxy_def Let_def) (simp add: proxy_inv_def)

section \<open>Delivery of a beacon\<close>

lemma beacon_received:
  assumes "codec_ok codec" and "origin_codec_ok oc" and "CONFIG st = Some config"
    and "packet_data msg = enc_out_packet codec (DeliverBeacon sid pub rand
       (enc_origin oc \<lparr>rbo_sender = dapp, rbo_job_id = job\<rparr>))"
  obtains res where "ibc_packet_receive_proxy api codec oc msg st
      = (Inr (st, res) :: 'e failure + proxy_state \<times> receiver_execute_msg ibc_receive_response)"
    and "messages res = [SubMsg REPLAY_ID_CALLBACK (WasmExecute dapp
       (ReceiverNoisReceive \<lparr>job_id = job, published = pub, randomness = rand\<rparr>) [])
       (Some (callback_gas_limit config)) ReplyOnError]"
    and "acknowledgement res = AckSuccess (enc_out_packet_ack codec DeliverBeaconAck)"
proof -
  have "dec_origin oc (enc_origin oc \<lparr>rbo_sender = dapp, rbo_job_id = job\<rparr>) = Inr \<lparr>rbo_sender = dapp, rbo_job_id = job\<rparr>"
    using assms(2) by (auto simp: origin_codec_ok_def)
  then show ?thesis
    using assms(1,3,4) that
    by (simp add: ibc_packet_receive_proxy_def receive_packet_proxy_def codec_okD receive_deliver_beacon_def load_config_proxy_def
        default_response_def Let_def del: result_inversion)
qed

section \<open>A sample proxy\<close>

definition sample_proxy_config :: proxy_config where
  "sample_proxy_config = \<lparr>prices = [\<lparr>amount = 500, denom = ''ujuno''\<rparr>], manager = Some ''mgr'', test_mode = False,
     callback_gas_limit = 500000, payment = Some ''pay'', nois_beacon_price = 1000, nois_beacon_price_updated = 5,
     mode = IbcPay \<lparr>ics20_channel = ''channel-9'', unois_denom = ''ibc/unois''\<rparr>, allowlist_enabled = Some True,
     min_after = Some 1600000000000000000, max_after = Some 2000000000000000000\<rparr>"

definition sample_proxy :: proxy_state where
  "sample_proxy = \<lparr>CONTRACT_INFO = Some (''nois-proxy'', CARGO_PKG_VERSION), CONFIG = Some sample_proxy_config,
     ALLOWLIST = [(''dapp'', 1)], GATEWAY_CHANNEL = Some ''channel-0'', TEST_MODE_NEXT_AFTER = None\<rparr>"

definition sample_origin_codec :: origin_codec where
  "sample_origin_codec = \<lparr>enc_origin = (\<lambda>o1. enc_bytes (as_bytes (rbo_sender o1)) @ as_bytes (rbo_job_id o1)),
     dec_origin = (\<lambda>b. let (s, j) = dec_bytes b in Inr \<lparr>rbo_sender = of_bytes s, rbo_job_id = of_bytes j\<rparr>)\<rparr>"

lemma sample_origin_codec_ok: "origin_codec_ok sample_origin_codec"
  by (simp add: origin_codec_ok_def codec_roundtrip_def sample_origin_codec_def)

definition sample_info :: message_info where
  "sample_info = \<lparr>sender = ''dapp'', funds = [\<lparr>amount = 600, denom = ''ujuno''\<rparr>]\<rparr>"

lemma sample_request_sent:
  "execute_get_randomness_impl sample_codec sample_origin_codec sample_nois_lib sample_env sample_info action
     sample_proxy_config 1700000000000000000 ''job'' sample_proxy = Inr (sample_proxy,
     \<lparr>messages = map new_msg [IbcTransfer ''channel-9'' ''pay'' \<lparr>amount = 1000, denom = ''ibc/unois''\<rparr> 1700086400000000000 None,
        IbcSendPacket ''channel-0'' (enc_in_packet sample_codec (RequestBeacon 1700000000000000000
          (enc_origin sample_origin_codec \<lparr>rbo_sender = ''dapp'', rbo_job_id = ''job''\<rparr>))) 1708640000000000000],
      attributes = [(''action'', Text action)], events = []\<rparr>)"
proof -
  have 1: "plus_seconds 1700000000000000000 TRANSFER_PACKET_LIFETIME = (Inr 1700086400000000000 :: proxy_error failure + timestamp)"
    "plus_seconds 1700000000000000000 REQUEST_BEACON_PACKET_LIFETIME = (Inr 1708640000000000000 :: proxy_error failure + timestamp)"
    by (simp_all add: plus_seconds_eq_Inr)
  have 2: "payment_msgs sample_env sample_proxy_config = (Inr [IbcTransfer ''channel-9'' ''pay''
      \<lparr>amount = 1000, denom = ''ibc/unois''\<rparr> 1700086400000000000 None] :: proxy_error failure + receiver_execute_msg cosmos_msg list)"
    using 1 by (simp add: payment_msgs_def sample_proxy_config_def sample_env_def)
  have 3: "validate_payment (prices sample_proxy_config) (funds sample_info) = Inr ()"
    by (simp add: validate_payment_Inr sample_proxy_config_def sample_info_def)
  show ?thesis using 1(2) 2 3
    by (simp add: get_randomness_impl_Inr allowed_after_def)
      (simp add: sample_nois_lib_def sample_proxy_config_def sample_proxy_def sample_info_def sample_env_def kv_has_def kv_may_load_def)
qed

lemma sample_request_later:
  "\<exists>res. execute_get_randomness_impl sample_codec sample_origin_codec sample_nois_lib (sample_env\<lparr>block_time := 1699999995000000000\<rparr>)
     sample_info action sample_proxy_config 1700000000000000000 ''job'' sample_proxy = Inr (sample_proxy, res)"
proof -
  have 1: "plus_seconds 1699999995000000000 TRANSFER_PACKET_LIFETIME = (Inr 1700086395000000000 :: proxy_error failure + timestamp)"
    "plus_seconds 1699999995000000000 REQUEST_BEACON_PACKET_LIFETIME = (Inr 1708639995000000000 :: proxy_error failure + timestamp)"
    by (simp_all add: plus_seconds_eq_Inr)
  have 2: "\<exists>msgs. payment_msgs (sample_env\<lparr>block_time := 1699999995000000000\<rparr>) sample_proxy_config
      = (Inr msgs :: proxy_error failure + receiver_execute_msg cosmos_msg list)"
    using 1 by (simp add: payment_msgs_def sample_proxy_config_def)
  have 3: "validate_payment (prices sample_proxy_config) (funds sample_info) = Inr ()"
    by (simp add: validate_payment_Inr sample_proxy_config_def sample_info_def)
  have 4: "allowed_after sample_proxy_config 1700000000000000000" "kv_has (ALLOWLIST sample_proxy) (sender sample_info)"
    "GATEWAY_CHANNEL sample_proxy = Some ''channel-0''" "length ''job'' \<le> MAX_JOB_ID_LEN sample_nois_lib"
    by (simp_all add: allowed_after_def sample_proxy_config_def sample_proxy_def sample_info_def kv_has_def kv_may_load_def
        sample_nois_lib_def)
  show ?thesis using 1(2) 2 3 4 by (auto simp: get_randomness_impl_Inr)
qed

definition sample_price_tx :: "timestamp \<Rightarrow> u128 \<Rightarrow> querier \<times> env \<times> proxy_call" where
  "sample_price_tx t p = (sample_querier, sample_env, CallPacketReceive
     \<lparr>packet_data = enc_out_packet sample_codec (PushBeaconPrice t p ''unois''), dest_channel_id = ''channel-0'', packet_relayer = ''rel''\<rparr>)"



section \<open>Properties\<close>

text \<open>
  C21: A request for randomness after a given time is accepted exactly if the job id is not too
  long, one of the coins sent covers the price in its denomination, the sender is on the allow list (if
  that is enabled), the time lies within the configured bounds, the channel to the gateway is
  open and no packet timeout overflows. It then emits exactly the payment for the beacon followed by one packet
  on the gateway's channel that carries the time and, as origin, the sender and its job id; the state does not
  change. The payment is one transfer of the price of a beacon, in the configured denomination and over the configured
  channel, to the payment contract, if the proxy pays over IBC, knows its payment contract and the price is not
  zero; in all other cases nothing is paid.
\<close>

theorem request_is_sent_iff_valid:
  "execute_proxy api codec oc lib q env info (GetRandomnessAfter after job) st = Inr (st', res) \<longleftrightarrow>
     (\<exists>config chan payments timeout. CONFIG st = Some config \<and> length job \<le> MAX_JOB_ID_LEN lib \<and>
        (\<exists>f p. f \<in> set (funds info) \<and> List.find (\<lambda>c. denom c = denom f) (rev (prices config)) = Some p \<and>
           amount p \<le> amount f) \<and>
        (unwrap_or (allowlist_enabled config) False \<longrightarrow> kv_has (ALLOWLIST st) (sender info)) \<and>
        unwrap_or (min_after config) MIN_AFTER_FALLBACK \<le> after \<and> after \<le> unwrap_or (max_after config) MAX_AFTER_FALLBACK \<and>
        GATEWAY_CHANNEL st = Some chan \<and>
        (case (mode config, payment config) of
           (IbcPay unois, Some pa) \<Rightarrow>
             if nois_beacon_price config = 0 then payments = []
             else (\<exists>expiry. plus_seconds (block_time env) TRANSFER_PACKET_LIFETIME = (Inr expiry :: proxy_error failure + timestamp) \<and>
               payments = [IbcTransfer (ics20_channel unois) pa
                 \<lparr>amount = nois_beacon_price config, denom = unois_denom unois\<rparr> expiry None])
         | _ \<Rightarrow> payments = []) \<and>
        plus_seconds (block_time env) REQUEST_BEACON_PACKET_LIFETIME = (Inr timeout :: proxy_error failure + timestamp) \<and>
        st' = st \<and>
        res = \<lparr>messages = map new_msg (payments @ [IbcSendPacket chan (enc_in_packet codec
                 (RequestBeacon after (enc_origin oc \<lparr>rbo_sender = sender info, rbo_job_id = job\<rparr>))) timeout]),
               attributes = [(''action'', Text ''execute_get_randomness_after'')], events = []\<rparr>)"
  unfolding payment_msgs_eq_Inr [symmetric]
  by (auto simp: execute_get_randomness_after_def get_randomness_impl_Inr validate_payment_Inr allowed_after_def)

theorem request_is_sent_iff_valid_witness:
  "execute_proxy sample_api sample_codec sample_origin_codec sample_nois_lib sample_querier sample_env sample_info
     (GetRandomnessAfter 1700000000000000000 ''job'') sample_proxy = Inr (sample_proxy,
     \<lparr>messages = map new_msg ([IbcTransfer ''channel-9'' ''pay'' \<lparr>amount = 1000, denom = ''ibc/unois''\<rparr> 1700086400000000000 None] @
        [IbcSendPacket ''channel-0'' (enc_in_packet sample_codec (RequestBeacon 1700000000000000000
          (enc_origin sample_origin_codec \<lparr>rbo_sender = ''dapp'', rbo_job_id = ''job''\<rparr>))) 1708640000000000000]),
      attributes = [(''action'', Text ''execute_get_randomness_after'')], events = []\<rparr>)"
proof -
  have "CONFIG sample_proxy = Some sample_proxy_config" "kv_has (ALLOWLIST sample_proxy) ''dapp''"
    "GATEWAY_CHANNEL sample_proxy = Some ''channel-0''" "sender sample_info = ''dapp''"
    "funds sample_info = [\<lparr>amount = 600, denom = ''ujuno''\<rparr>]" "length ''job'' \<le> MAX_JOB_ID_LEN sample_nois_lib"
    by (simp_all add: sample_proxy_def sample_info_def kv_has_def kv_may_load_def sample_nois_lib_def)
  moreover have "plus_seconds (block_time sample_env) TRANSFER_PACKET_LIFETIME
      = (Inr 1700086400000000000 :: proxy_error failure + timestamp)"
    "plus_seconds (block_time sample_env) REQUEST_BEACON_PACKET_LIFETIME
      = (Inr 1708640000000000000 :: proxy_error failure + timestamp)"
    by (simp_all add: plus_seconds_eq_Inr sample_env_def)
  ultimately show ?thesis
    unfolding request_is_sent_iff_valid
    by (intro exI [of _ sample_proxy_config] exI [of _ "''channel-0''"] exI [of _ "1708640000000000000"]
        exI [of _ "[IbcTransfer ''channel-9'' ''pay'' \<lparr>amount = 1000, denom = ''ibc/unois''\<rparr> 1700086400000000000 None]"])
      (simp add: sample_proxy_config_def)
qed

text \<open>
  C26: A request for the next randomness asks, outside test mode, for randomness published more
  than five seconds after the block of the request: every round the gateway may commit it to is
  published after that moment.
\<close>

theorem next_randomness_is_in_the_future:
  assumes "execute_proxy api codec oc lib q env info (GetNextRandomness job) st = Inr (st', res)"
    and "CONFIG st = Some config" and "\<not> test_mode config"
  shows "st' = st \<and> (\<exists>chan after timeout. GATEWAY_CHANNEL st = Some chan \<and>
     sub_msg (last (messages res)) = IbcSendPacket chan (enc_in_packet codec
       (RequestBeacon after (enc_origin oc \<lparr>rbo_sender = sender info, rbo_job_id = job\<rparr>))) timeout \<and>
     unat after = unat (block_time env) + 5000000000 \<and>
     (\<forall>r t. time_of_round r = (Inr t :: unit failure + timestamp) \<and> round_after after \<le> r \<longrightarrow>
        unat (block_time env) + 5000000000 < unat t))"
proof -
  from assms(1) have "execute_get_next_randomness codec oc lib env info job st = Inr (st', res)" by simp
  then obtain after t where after: "plus_nanos (block_time env) SAFETY_MARGIN = (Inr after :: proxy_error failure + timestamp)"
    and impl: "execute_get_randomness_impl codec oc lib env info ''execute_get_next_randomness'' config after job st = Inr (st', res)"
    using assms(2,3) by (auto simp: execute_get_next_randomness_def Let_def)
  from after have sum: "unat after = unat (block_time env) + 5000000000"
    by (simp add: plus_nanos_eq_Inr SAFETY_MARGIN_def)
  have later: "unat (block_time env) + 5000000000 < unat t" if "time_of_round r = (Inr t :: unit failure + timestamp)" "round_after after \<le> r" for r t
    using round_after_le_iff [OF that(1), of after] that(2) sum by (simp add: word_less_nat_alt)
  from impl obtain chan timeout where "GATEWAY_CHANNEL st = Some chan" "st' = st"
    "sub_msg (last (messages res)) = IbcSendPacket chan (enc_in_packet codec
       (RequestBeacon after (enc_origin oc \<lparr>rbo_sender = sender info, rbo_job_id = job\<rparr>))) timeout"
    by (auto simp: get_randomness_impl_Inr)
  with sum later show ?thesis by blast
qed

theorem next_randomness_is_in_the_future_witness:
  "\<exists>st' res after timeout. execute_proxy sample_api sample_codec sample_origin_codec sample_nois_lib sample_querier
       (sample_env\<lparr>block_time := 1699999995000000000\<rparr>) sample_info (GetNextRandomness ''job'') sample_proxy = Inr (st', res) \<and>
     sub_msg (last (messages res)) = IbcSendPacket ''channel-0'' (enc_in_packet sample_codec (RequestBeacon after
       (enc_origin sample_origin_codec \<lparr>rbo_sender = ''dapp'', rbo_job_id = ''job''\<rparr>))) timeout \<and>
     unat after = 1700000000000000000"
proof -
  let ?env = "sample_env\<lparr>block_time := 1699999995000000000\<rparr>"
  have config: "CONFIG sample_proxy = Some sample_proxy_config" "\<not> test_mode sample_proxy_config"
    by (simp_all add: sample_proxy_def sample_proxy_config_def)
  have "plus_nanos (block_time ?env) SAFETY_MARGIN = (Inr 1700000000000000000 :: proxy_error failure + timestamp)"
    by (simp add: plus_nanos_eq_Inr SAFETY_MARGIN_def)
  moreover obtain res where "execute_get_randomness_impl sample_codec sample_origin_codec sample_nois_lib ?env sample_info
      ''execute_get_next_randomness'' sample_proxy_config 1700000000000000000 ''job'' sample_proxy = Inr (sample_proxy, res)"
    using sample_request_later by blast
  ultimately have step: "execute_proxy sample_api sample_codec sample_origin_codec sample_nois_lib sample_querier ?env
      sample_info (GetNextRandomness ''job'') sample_proxy = Inr (sample_proxy, res)"
    using config by (simp add: execute_get_next_randomness_def load_config_proxy_def del: result_inversion)
  with next_randomness_is_in_the_future [OF step config] show ?thesis
    by (auto simp: sample_proxy_def sample_info_def)
qed





text \<open>
  C22: The latest price wins, in whatever order price information arrives in packets and
  acknowledgements: after any sequence of such calls the proxy holds the price and the time of the latest
  information in unois, if that is not older than what it held before, and is unchanged otherwise; nothing else
  changes. If several pieces of information have the latest time, they must agree on the price.
\<close>

theorem latest_price_wins:
  assumes "CONFIG st = Some c" and "list_all2 (\<lambda>tx u. carries_price codec (snd (snd tx)) u) txs us"
  shows "((\<forall>t p. (t, p, ''unois'') \<in> set us \<longrightarrow> t < nois_beacon_price_updated c) \<longrightarrow>
       run (proxy_tx api codec oc lib) txs st = st) \<and>
     ((t, p, ''unois'') \<in> set us \<and> nois_beacon_price_updated c \<le> t \<and>
       (\<forall>t' p'. (t', p', ''unois'') \<in> set us \<longrightarrow> t' < t \<or> t' = t \<and> p' = p) \<longrightarrow>
       run (proxy_tx api codec oc lib) txs st =
         st\<lparr>CONFIG := Some (c\<lparr>nois_beacon_price := p, nois_beacon_price_updated := t\<rparr>)\<rparr>)"
  using run_prices [OF assms(2,1), of api oc lib t p] by (simp only: with_price_def)

theorem latest_price_wins_witness:
  "run (proxy_tx sample_api sample_codec sample_origin_codec sample_nois_lib)
      [sample_price_tx 9 1200, sample_price_tx 7 1100] sample_proxy
     = sample_proxy\<lparr>CONFIG := Some (sample_proxy_config\<lparr>nois_beacon_price := 1200, nois_beacon_price_updated := 9\<rparr>)\<rparr> \<and>
   run (proxy_tx sample_api sample_codec sample_origin_codec sample_nois_lib) [sample_price_tx 4 900] sample_proxy = sample_proxy"
proof -
  have config: "CONFIG sample_proxy = Some sample_proxy_config" by (simp add: sample_proxy_def)
  have "list_all2 (\<lambda>tx u. carries_price sample_codec (snd (snd tx)) u)
      [sample_price_tx 9 1200, sample_price_tx 7 1100] [(9, 1200, ''unois''), (7, 1100, ''unois'')]"
    "list_all2 (\<lambda>tx u. carries_price sample_codec (snd (snd tx)) u) [sample_price_tx 4 900] [(4, 900, ''unois'')]"
    by (simp_all add: sample_price_tx_def codec_okD [OF sample_codec_ok])
  from latest_price_wins [OF config this(1), of sample_api sample_origin_codec sample_nois_lib 9 1200]
    latest_price_wins [OF config this(2), of sample_api sample_origin_codec sample_nois_lib]
  show ?thesis by (auto simp: sample_proxy_config_def simp del: run.simps)
qed

text \<open>
  C5: The randomness reaches the dapp that asked for it: a beacon with the origin that a request of
  this proxy carried is turned into one callback to the sender of that request, with its job id, the
  publish time and the randomness, within the gas limit and without funds, and is acknowledged as a success.
  Whatever becomes of the callback, the reply to its failure succeeds and leaves the state unchanged, so
  a faulty dapp cannot block the channel.
\<close>

theorem beacon_is_delivered_to_the_requester:
  assumes "codec_ok codec" and "origin_codec_ok oc" and "CONFIG st = Some config"
    and "packet_data msg = enc_out_packet codec (DeliverBeacon sid pub rand
       (enc_origin oc \<lparr>rbo_sender = dapp, rbo_job_id = job\<rparr>))"
  shows "\<exists>res i. ibc_packet_receive_proxy api codec oc msg st
      = (Inr (st, res) :: 'e failure + proxy_state \<times> receiver_execute_msg ibc_receive_response) \<and>
     messages res = [SubMsg i (WasmExecute dapp (ReceiverNoisReceive \<lparr>job_id = job, published = pub, randomness = rand\<rparr>) [])
       (Some (callback_gas_limit config)) ReplyOnError] \<and>
     acknowledgement res = AckSuccess (enc_out_packet_ack codec DeliverBeaconAck) \<and>
     (\<forall>outcome. \<exists>res'. reply_proxy i outcome st = Inr (st, res') \<and> messages res' = [])"
  by (rule beacon_received [OF assms, of api, where 'e = 'e]) (auto simp: reply_proxy_def default_response_def)

theorem beacon_is_delivered_to_the_requester_witness:
  "\<exists>res i. ibc_packet_receive_proxy sample_api sample_codec sample_origin_codec
      \<lparr>packet_data = enc_out_packet sample_codec (DeliverBeacon ''drand'' 9 [1, 2] (enc_origin sample_origin_codec
         \<lparr>rbo_sender = ''dapp'', rbo_job_id = ''job''\<rparr>)), dest_channel_id = ''channel-0'', packet_relayer = ''rel''\<rparr> sample_proxy
      = (Inr (sample_proxy, res) :: unit failure + proxy_state \<times> receiver_execute_msg ibc_receive_response) \<and>
     messages res = [SubMsg i (WasmExecute ''dapp'' (ReceiverNoisReceive
        \<lparr>job_id = ''job'', published = 9, randomness = [1, 2]\<rparr>) []) (Some 500000) ReplyOnError]"
proof -
  have "CONFIG sample_proxy = Some sample_proxy_config" by (simp add: sample_proxy_def)
  from beacon_is_delivered_to_the_requester [OF sample_codec_ok sample_origin_codec_ok this, of
      "\<lparr>packet_data = enc_out_packet sample_codec (DeliverBeacon ''drand'' 9 [1, 2] (enc_origin sample_origin_codec
         \<lparr>rbo_sender = ''dapp'', rbo_job_id = ''job''\<rparr>)), dest_channel_id = ''channel-0'', packet_relayer = ''rel''\<rparr>"
      "''drand''" 9 "[1, 2]" "''dapp''" "''job''" sample_api]
  show ?thesis by (auto simp: sample_proxy_config_def)
qed

text \<open>
  C24: Receiving a packet always succeeds, whatever bytes it holds, so that packets can be
  acknowledged; and all the other side of the channel can change is the payment address and the price of a beacon.
\<close>

theorem packets_never_fail:
  "\<exists>st' res pa bp t. ibc_packet_receive_proxy api codec oc msg st
      = (Inr (st', res) :: 'e failure + proxy_state \<times> receiver_execute_msg ibc_receive_response) \<and>
     st' = st\<lparr>CONFIG := map_option (\<lambda>c. c\<lparr>payment := pa, nois_beacon_price := bp, nois_beacon_price_updated := t\<rparr>) (CONFIG st)\<rparr>"
proof -
  obtain st' res where "ibc_packet_receive_proxy api codec oc msg st
      = (Inr (st', res) :: 'e failure + proxy_state \<times> receiver_execute_msg ibc_receive_response)"
  proof (cases "receive_packet_proxy codec oc msg st")
    case (Inl f)
    with receive_packet_no_panic [of codec oc msg st] obtain e where "f = Error e" by (cases f) auto
    with Inl that show ?thesis by (simp add: ibc_packet_receive_proxy_def)
  next
    case (Inr r)
    with that show ?thesis by (cases r) (simp add: ibc_packet_receive_proxy_def)
  qed
  with ibc_packet_receive_proxy_changed [OF this] show ?thesis by (auto simp: price_and_payment_changed_def)
qed

text \<open>
  C25: The configuration, the allow list and the funds are only in the hands of those with authority. The
  messages that change the configuration or the allow list or withdraw funds fail as unauthorized unless the manager sends
  them, always if no manager is configured. Apart from such messages of the manager, from calls of the chain's
  governance (sudo) and from migrations, no call of the proxy changes the allow list; the configuration
  changes only by packets and acknowledgements, and only in the payment address and the price of a beacon; and funds
  leave the proxy only on a request for randomness, with one transfer of the price of a beacon to the payment contract.
\<close>

theorem proxy_authority:
  assumes "CONFIG st = Some config"
  shows "(manager_only msg \<and> manager config \<noteq> Some (sender info) \<longrightarrow>
       execute_proxy api codec oc lib q env info msg st = Inl (Error Unauthorized)) \<and>
     (\<not> privileged config call \<and> proxy_tx api codec oc lib (q, env, call) st = Inr (st', res) \<longrightarrow>
       ALLOWLIST st' = ALLOWLIST st \<and>
       (\<exists>pa bp t. CONFIG st' = Some (config\<lparr>payment := pa, nois_beacon_price := bp, nois_beacon_price_updated := t\<rparr>)) \<and>
       (CONFIG st' = CONFIG st \<or> (\<exists>msg. call = CallPacketReceive msg) \<or> (\<exists>data. call = CallPacketAck data)) \<and>
       ((\<forall>m \<in> set (messages res). \<not> moves_funds (sub_msg m)) \<or>
        (\<exists>info msg unois pa timeout. call = CallExecute info msg \<and> mode config = IbcPay unois \<and> payment config = Some pa \<and>
          filter moves_funds (map sub_msg (messages res)) = [IbcTransfer (ics20_channel unois) pa
            \<lparr>amount = nois_beacon_price config, denom = unois_denom unois\<rparr> timeout None])))"
proof (intro conjI impI)
  assume "manager_only msg \<and> manager config \<noteq> Some (sender info)"
  then show "execute_proxy api codec oc lib q env info msg st = Inl (Error Unauthorized)"
    by (intro manager_only_refused [OF assms]) simp_all
next
  assume "\<not> privileged config call \<and> proxy_tx api codec oc lib (q, env, call) st = Inr (st', res)"
  then have call: "\<not> privileged config call" "proxy_tx api codec oc lib (q, env, call) st = Inr (st', res)" by simp_all
  from unprivileged_changes [OF call(1) assms call(2)] show "ALLOWLIST st' = ALLOWLIST st"
    "\<exists>pa bp t. CONFIG st' = Some (config\<lparr>payment := pa, nois_beacon_price := bp, nois_beacon_price_updated := t\<rparr>)"
    "CONFIG st' = CONFIG st \<or> (\<exists>msg. call = CallPacketReceive msg) \<or> (\<exists>data. call = CallPacketAck data)"
    by blast+
  show "(\<forall>m \<in> set (messages res). \<not> moves_funds (sub_msg m)) \<or>
      (\<exists>info msg unois pa timeout. call = CallExecute info msg \<and> mode config = IbcPay unois \<and> payment config = Some pa \<and>
        filter moves_funds (map sub_msg (messages res)) = [IbcTransfer (ics20_channel unois) pa
          \<lparr>amount = nois_beacon_price config, denom = unois_denom unois\<rparr> timeout None])"
    using unprivileged_funds [OF call(1) assms call(2)]
  proof (elim disjE exE conjE)
    fix info msg
    assume msg: "call = CallExecute info msg" "\<not> manager_only msg"
    with call(2) have "execute_proxy api codec oc lib q env info msg st = Inr (st', res)" by simp
    from request_payment [OF this msg(2) assms] msg(1) show ?thesis by blast
  qed blast
qed
theorem proxy_authority_witness:
  "execute_proxy sample_api sample_codec sample_origin_codec sample_nois_lib sample_querier sample_env sample_info
     (Withdraw ''ujuno'' None ''dapp'') sample_proxy = Inl (Error Unauthorized) \<and>
   (\<exists>st' res timeout. proxy_tx sample_api sample_codec sample_origin_codec sample_nois_lib (sample_querier, sample_env,
       CallExecute sample_info (GetRandomnessAfter 1700000000000000000 ''job'')) sample_proxy = Inr (st', res) \<and>
     CONFIG st' = CONFIG sample_proxy \<and> ALLOWLIST st' = ALLOWLIST sample_proxy \<and>
     filter moves_funds (map sub_msg (messages res)) =
       [IbcTransfer ''channel-9'' ''pay'' \<lparr>amount = 1000, denom = ''ibc/unois''\<rparr> timeout None])"
proof -
  let ?call = "CallExecute sample_info (GetRandomnessAfter 1700000000000000000 ''job'')"
  have config: "CONFIG sample_proxy = Some sample_proxy_config" "manager sample_proxy_config \<noteq> Some (sender sample_info)"
    by (simp_all add: sample_proxy_def sample_proxy_config_def sample_info_def)
  obtain res where step: "proxy_tx sample_api sample_codec sample_origin_codec sample_nois_lib
      (sample_querier, sample_env, ?call) sample_proxy = Inr (sample_proxy, res)"
    and ms: "messages res = map new_msg [IbcTransfer ''channel-9'' ''pay'' \<lparr>amount = 1000, denom = ''ibc/unois''\<rparr> 1700086400000000000 None,
        IbcSendPacket ''channel-0'' (enc_in_packet sample_codec (RequestBeacon 1700000000000000000
          (enc_origin sample_origin_codec \<lparr>rbo_sender = ''dapp'', rbo_job_id = ''job''\<rparr>))) 1708640000000000000]"
    using sample_request_sent config by (simp add: execute_get_randomness_after_def load_config_proxy_def del: result_inversion)
  note auth = proxy_authority [OF config(1), of _ sample_info sample_api sample_codec sample_origin_codec sample_nois_lib
      sample_querier sample_env ?call sample_proxy res]
  have "filter moves_funds (map sub_msg (messages res)) =
      [IbcTransfer ''channel-9'' ''pay'' \<lparr>amount = 1000, denom = ''ibc/unois''\<rparr> 1700086400000000000 None]" by (simp add: ms)
  with auth [of "Withdraw ''ujuno'' None ''dapp''"] step config(2) show ?thesis
    by (auto simp del: execute_proxy.simps)
qed

text \<open>
  Updating the allow list adds exactly the validated addresses to add and then removes exactly
  the validated addresses to remove.
\<close>

theorem dapp_allowlist_after_update:
  assumes "execute_update_allowlist api info add remove st = Inr (st', res)"
  shows "{a. kv_has (ALLOWLIST st') a} =
     ({a. kv_has (ALLOWLIST st) a} \<union> {a. \<exists>s \<in> set add. addr_validate api s = Inr a}) - {a. \<exists>s \<in> set remove. addr_validate api s = Inr a}"
proof -
  from assms obtain l1 l2 where upd: "allowlist_save_all api add (ALLOWLIST st) = Inr l1"
    "allowlist_remove_all api remove l1 = Inr l2" and st': "st' = st\<lparr>ALLOWLIST := l2\<rparr>"
    by (auto simp: execute_update_allowlist_def update_allowlist_unchecked_def)
  have "Some a = validated_addr api s \<longleftrightarrow> addr_validate api s = Inr a" for a s
    by (cases "addr_validate api s") (auto simp: validated_addr_def)
  then have "Some a \<in> validated_addr api ` set xs \<longleftrightarrow> (\<exists>s \<in> set xs. addr_validate api s = Inr a)" for a xs
    by (simp add: image_iff)
  with dapp_allowlist.listed_add_then_remove [OF upd] st' show ?thesis by (auto simp: kv_has_dom)
qed

theorem dapp_allowlist_after_update_witness:
  "\<exists>st' res. execute_update_allowlist sample_api \<lparr>sender = ''mgr'', funds = []\<rparr> [''new'', ''old''] [''old''] sample_proxy = Inr (st', res) \<and>
     kv_has (ALLOWLIST st') ''new'' \<and> \<not> kv_has (ALLOWLIST st') ''old''"
proof -
  obtain st' res where step: "execute_update_allowlist sample_api \<lparr>sender = ''mgr'', funds = []\<rparr> [''new'', ''old''] [''old''] sample_proxy
      = Inr (st', res)"
    by (simp add: execute_update_allowlist_def update_allowlist_unchecked_def ensure_manager_def load_config_proxy_def sample_api_def
        sample_proxy_def sample_proxy_config_def del: result_inversion)
  from dapp_allowlist_after_update [OF step] have "kv_has (ALLOWLIST st') a \<longleftrightarrow> a \<noteq> ''old'' \<and> (kv_has (ALLOWLIST sample_proxy) a \<or> a = ''new'')" for a
    by (auto simp: set_eq_iff sample_api_def)
  with step show ?thesis by auto
qed

text \<open>
  C27: A payment is accepted exactly if one of the coins covers the price that the price query reports
  for its denomination, provided that the manager has configured at most one price per denomination.
\<close>

theorem payment_covers_the_queried_price:
  assumes "CONFIG st = Some config" and "distinct (map denom (prices config))"
  shows "validate_payment (prices config) paid = Inr () \<longleftrightarrow>
     (\<exists>f p. f \<in> set paid \<and> query_price st (denom f) = Inr (Some p) \<and> p \<le> amount f)"
  using assms by (auto simp: validate_payment_Inr query_price_def find_rev_distinct)

theorem payment_covers_the_queried_price_witness:
  "validate_payment (prices sample_proxy_config) [\<lparr>amount = 600, denom = ''ujuno''\<rparr>] = Inr ()"
proof -
  have "CONFIG sample_proxy = Some sample_proxy_config" "distinct (map denom (prices sample_proxy_config))"
    by (simp_all add: sample_proxy_def sample_proxy_config_def)
  from payment_covers_the_queried_price [OF this] show ?thesis
    by (simp add: query_price_def load_config_proxy_def sample_proxy_def sample_proxy_config_def del: result_inversion)
qed

text \<open>
  With two prices in one denomination the query reports the first, while payments are checked
  against the last.
\<close>

lemma duplicate_price_is_ignored_by_the_query:
  assumes "CONFIG st = Some config"
    and "prices config = [\<lparr>amount = 5, denom = ''ujuno''\<rparr>, \<lparr>amount = 1, denom = ''ujuno''\<rparr>]"
  shows "query_price st ''ujuno'' = Inr (Some 5) \<and> validate_payment (prices config) [\<lparr>amount = 1, denom = ''ujuno''\<rparr>] = Inr ()"
  using assms by (simp add: query_price_def validate_payment_Inr)

text \<open>
  C28: The two bounds on the requested time and the flag that enables the allow list, the three fields of the
  configuration that older versions of the contract left unset, are set after the instantiation and after every run.
\<close>

theorem proxy_config_is_complete:
  assumes "instantiate_proxy api env info msg empty_proxy_state = Inr (st0, res0)"
  shows "\<exists>config enabled mi ma. CONFIG (run (proxy_tx api codec oc lib) ts st0) = Some config \<and>
     allowlist_enabled config = Some enabled \<and> min_after config = Some mi \<and> max_after config = Some ma"
  using proxy_configs.run_inv [OF proxy_inv_init [OF assms], of api codec oc lib ts]
  by (auto simp: proxy_inv_def split: option.splits)

theorem proxy_config_is_complete_witness:
  "\<exists>st0 res0 config. instantiate_proxy sample_api sample_env sample_info
       (ProxyInstantiateMsg [] None None 1 Funded None None) empty_proxy_state = Inr (st0, res0) \<and>
     CONFIG (run (proxy_tx sample_api sample_codec sample_origin_codec sample_nois_lib)
       [(sample_querier, sample_env, CallMigrate)] st0) = Some config \<and>
     allowlist_enabled config \<noteq> None \<and> min_after config \<noteq> None \<and> max_after config \<noteq> None"
proof -
  have "plus_seconds (block_time sample_env) TEN_YEARS_S = (Inr 2015360000000000000 :: std_error failure + timestamp)"
    by (simp add: plus_seconds_eq_Inr sample_env_def TEN_YEARS_S_def)
  then obtain st0 res0 where init: "instantiate_proxy sample_api sample_env sample_info
      (ProxyInstantiateMsg [] None None 1 Funded None None) empty_proxy_state = Inr (st0, res0)"
    by (simp add: instantiate_proxy_def Let_def del: result_inversion)
  with proxy_config_is_complete [OF init, of sample_codec sample_origin_codec sample_nois_lib
      "[(sample_querier, sample_env, CallMigrate)]"] show ?thesis by auto
qed

end
