(* ===== verification/Network.thy ===== *)
theory Network
  imports Gateway Proxy
begin

text \<open>
  The proxy and the gateway connected by a channel: an inductive relation of the steps either chain
  and the relayers between them can make, and what holds in every state that is reached. Packets
  are relayed in any order, at most once, or time out; other customers of the gateway do what
  they like.
\<close>

section \<open>The network\<close>

text \<open>
  The state of the two contracts, the packets under way in either direction and, for the
  statement of the properties, what has happened: the requests the proxy has sent, with the call they were made in,
  the randomness submitted to the gateway, and the callbacks, with the packet each of them answers.
\<close>

record network =
  net_proxy :: proxy_state
  net_gateway :: gateway_state
  to_gateway :: "binary list"
  to_proxy :: "binary list"
  requests :: "(message_info \<times> proxy_execute_msg \<times> binary) list"
  submissions :: "(u64 \<times> binary) list"
  callbacks :: "(binary \<times> addr \<times> nois_callback) list"

fun packet_on :: "string \<Rightarrow> 'm cosmos_msg \<Rightarrow> binary list" where
  "packet_on c (IbcSendPacket c' data _) = (if c' = c then [data] else [])"
| "packet_on c _ = []"

definition packets_on :: "string \<Rightarrow> 'm sub_msg list \<Rightarrow> binary list" where
  "packets_on c msgs = concat (map (\<lambda>m. packet_on c (sub_msg m)) msgs)"

fun callback_of :: "receiver_execute_msg cosmos_msg \<Rightarrow> (addr \<times> nois_callback) list" where
  "callback_of (WasmExecute a (ReceiverNoisReceive cb) _) = [(a, cb)]"
| "callback_of _ = []"

definition callbacks_of :: "receiver_execute_msg sub_msg list \<Rightarrow> (addr \<times> nois_callback) list" where
  "callbacks_of msgs = concat (map (\<lambda>m. callback_of (sub_msg m)) msgs)"

text \<open>Calls that do not concern the channel between the two contracts.\<close>

fun other_gateway_call :: "string \<Rightarrow> gateway_call \<Rightarrow> bool" where
  "other_gateway_call gc (gateway_call.CallExecute _ (gateway_execute_msg.AddVerifiedRound _ _ _)) = False"
| "other_gateway_call gc (gateway_call.CallPacketReceive msg) = (dest_channel_id msg \<noteq> gc)"
| "other_gateway_call gc (gateway_call.CallChannelConnect (OpenConfirm c)) = (channel_id c \<noteq> gc)"
| "other_gateway_call gc _ = True"

fun other_proxy_call :: "proxy_call \<Rightarrow> bool" where
  "other_proxy_call (proxy_call.CallExecute _ _) = False"
| "other_proxy_call (proxy_call.CallPacketReceive _) = False"
| "other_proxy_call _ = True"

inductive net_step ::
  "'a api_scheme \<Rightarrow> codec \<Rightarrow> origin_codec \<Rightarrow> nois_lib \<Rightarrow> string \<Rightarrow> string \<Rightarrow> network \<Rightarrow> network \<Rightarrow> bool"
  for api codec oc lib pc gc where
  dapp_call:
    "execute_proxy api codec oc lib q env info msg (net_proxy s) = Inr (p, res) \<Longrightarrow>
     net_step api codec oc lib pc gc s (s\<lparr>net_proxy := p,
       to_gateway := to_gateway s @ packets_on pc (messages res),
       requests := requests s @ map (\<lambda>d. (info, msg, d)) (packets_on pc (messages res))\<rparr>)"
| proxy_call:
    "proxy_tx api codec oc lib (q, env, call) (net_proxy s) = Inr (p, res) \<Longrightarrow> other_proxy_call call \<Longrightarrow>
     net_step api codec oc lib pc gc s (s\<lparr>net_proxy := p, to_gateway := to_gateway s @ packets_on pc (messages res)\<rparr>)"
| relay_request:
    "d \<in> set (to_gateway s) \<Longrightarrow>
     ibc_packet_receive_gateway api codec env \<lparr>packet_data = d, dest_channel_id = gc, packet_relayer = rel\<rparr> (net_gateway s)
       = (Inr (g, res) :: unit failure + gateway_state \<times> gateway_out_msg ibc_receive_response) \<Longrightarrow>
     net_step api codec oc lib pc gc s (s\<lparr>net_gateway := g, to_gateway := remove1 d (to_gateway s),
       to_proxy := to_proxy s @ packets_on gc (messages res)\<rparr>)"
| submission:
    "execute_gateway api codec env info (gateway_execute_msg.AddVerifiedRound round rand vtx) (net_gateway s) = Inr (g, res) \<Longrightarrow>
     net_step api codec oc lib pc gc s (s\<lparr>net_gateway := g, to_proxy := to_proxy s @ packets_on gc (messages res),
       submissions := submissions s @ [(round, rand)]\<rparr>)"
| gateway_call:
    "gateway_tx api codec (q, env, call) (net_gateway s) = Inr (g, res) \<Longrightarrow> other_gateway_call gc call \<Longrightarrow>
     net_step api codec oc lib pc gc s (s\<lparr>net_gateway := g, to_proxy := to_proxy s @ packets_on gc (messages res)\<rparr>)"
| relay_beacon:
    "d \<in> set (to_proxy s) \<Longrightarrow>
     ibc_packet_receive_proxy api codec oc \<lparr>packet_data = d, dest_channel_id = pc, packet_relayer = rel\<rparr> (net_proxy s)
       = (Inr (p, res) :: unit failure + proxy_state \<times> receiver_execute_msg ibc_receive_response) \<Longrightarrow>
     net_step api codec oc lib pc gc s (s\<lparr>net_proxy := p, to_proxy := remove1 d (to_proxy s),
       callbacks := callbacks s @ map (\<lambda>(a, cb). (d, a, cb)) (callbacks_of (messages res))\<rparr>)"
| request_timeout:
    "d \<in> set (to_gateway s) \<Longrightarrow> net_step api codec oc lib pc gc s (s\<lparr>to_gateway := remove1 d (to_gateway s)\<rparr>)"
| beacon_timeout:
    "d \<in> set (to_proxy s) \<Longrightarrow> net_step api codec oc lib pc gc s (s\<lparr>to_proxy := remove1 d (to_proxy s)\<rparr>)"

section \<open>Tickets\<close>

text \<open>
  What identifies a request on its way: the source it was committed to and its origin. A request
  packet, a queued job and a beacon packet each carry one.
\<close>

type_synonym ticket = "string \<times> binary"

definition ticket_in :: "codec \<Rightarrow> binary \<Rightarrow> ticket multiset" where
  "ticket_in codec d = (case dec_in_packet codec d of
     Inr (RequestBeacon after orig) \<Rightarrow> {#(drand_source_id (round_after after), orig)#} | _ \<Rightarrow> {#})"

definition ticket_out :: "codec \<Rightarrow> binary \<Rightarrow> ticket multiset" where
  "ticket_out codec d = (case dec_out_packet codec d of
     Inr (DeliverBeacon sid _ _ orig) \<Rightarrow> {#(sid, orig)#} | _ \<Rightarrow> {#})"

definition tickets_in :: "codec \<Rightarrow> binary list \<Rightarrow> ticket multiset" where
  "tickets_in codec ds = sum_list (map (ticket_in codec) ds)"

definition tickets_out :: "codec \<Rightarrow> binary list \<Rightarrow> ticket multiset" where
  "tickets_out codec ds = sum_list (map (ticket_out codec) ds)"

definition job_tickets :: "string \<Rightarrow> job list \<Rightarrow> ticket multiset" where
  "job_tickets gc js = mset (map (\<lambda>j. (source_id j, origin j)) (filter (\<lambda>j. channel j = gc) js))"

definition pending_tickets :: "string \<Rightarrow> gateway_state \<Rightarrow> ticket multiset" where
  "pending_tickets gc st = (\<Sum>r\<in>UNIV. job_tickets gc (jobs_of st r))"

lemma tickets_simps [simp]:
  "tickets_in codec [] = {#}" "tickets_in codec (d # ds) = ticket_in codec d + tickets_in codec ds"
  "tickets_in codec (ds @ es) = tickets_in codec ds + tickets_in codec es"
  "tickets_out codec [] = {#}" "tickets_out codec (d # ds) = ticket_out codec d + tickets_out codec ds"
  "tickets_out codec (ds @ es) = tickets_out codec ds + tickets_out codec es"
  by (simp_all add: tickets_in_def tickets_out_def)

lemma tickets_remove1:
  "d \<in> set ds \<Longrightarrow> tickets_in codec ds = ticket_in codec d + tickets_in codec (remove1 d ds)"
  "d \<in> set ds \<Longrightarrow> tickets_out codec ds = ticket_out codec d + tickets_out codec (remove1 d ds)"
  by (simp_all add: tickets_in_def tickets_out_def sum_list_map_remove1)

lemma job_tickets_simps [simp]:
  "job_tickets gc [] = {#}" "job_tickets gc (js @ ks) = job_tickets gc js + job_tickets gc ks"
  "job_tickets gc (j # js) = (if channel j = gc then {#(source_id j, origin j)#} else {#}) + job_tickets gc js"
  by (simp_all add: job_tickets_def)

lemma job_tickets_take_drop: "job_tickets gc (take k js) + job_tickets gc (drop k js) = job_tickets gc js"
  by (metis append_take_drop_id job_tickets_simps(2))

lemma pending_tickets_cong: "jobs_of st' = jobs_of st \<Longrightarrow> pending_tickets gc st' = pending_tickets gc st"
  by (simp add: pending_tickets_def)

lemma pending_tickets_update:
  assumes "jobs_of st' = (jobs_of st)(round := js)"
  shows "pending_tickets gc st' + job_tickets gc (jobs_of st round) = pending_tickets gc st + job_tickets gc js"
proof -
  let ?rest = "\<Sum>r\<in>UNIV - {round}. job_tickets gc (jobs_of st r)"
  have "pending_tickets gc st = job_tickets gc (jobs_of st round) + ?rest"
    unfolding pending_tickets_def by (rule sum.remove) simp_all
  moreover have "pending_tickets gc st' = job_tickets gc (jobs_of st' round) + (\<Sum>r\<in>UNIV - {round}. job_tickets gc (jobs_of st' r))"
    unfolding pending_tickets_def by (rule sum.remove) simp_all
  moreover have "(\<Sum>r\<in>UNIV - {round}. job_tickets gc (jobs_of st' r)) = ?rest"
    by (rule sum.cong) (simp_all add: assms)
  ultimately show ?thesis by (simp add: assms ac_simps)
qed

lemma packets_on_simps [simp]:
  "packets_on c [] = []" "packets_on c (m # ms) = packet_on c (sub_msg m) @ packets_on c ms"
  "packets_on c (ms @ ns) = packets_on c ms @ packets_on c ns"
  by (simp_all add: packets_on_def)

lemma callbacks_of_simps [simp]:
  "callbacks_of [] = []" "callbacks_of (m # ms) = callback_of (sub_msg m) @ callbacks_of ms"
  by (simp_all add: callbacks_of_def)

section \<open>What the gateway does to the tickets of a channel\<close>

text \<open>A beacon packet with randomness that was submitted for the round it names.\<close>

definition good_beacon :: "codec \<Rightarrow> (u64 \<times> binary) set \<Rightarrow> binary \<Rightarrow> bool" where
  "good_beacon codec S d \<longleftrightarrow> (\<exists>r pub rand orig.
     d = enc_out_packet codec (DeliverBeacon (drand_source_id r) pub rand orig) \<and>
     time_of_round r = (Inr pub :: unit failure + timestamp) \<and> (r, rand) \<in> S)"

definition archived :: "gateway_state \<Rightarrow> (u64 \<times> binary) set" where
  "archived st = {(r, rand). archive_lookup st r = Some rand}"

lemma good_beacon_mono: "good_beacon codec S d \<Longrightarrow> S \<subseteq> T \<Longrightarrow> good_beacon codec T d"
  by (auto simp: good_beacon_def)

lemma time_of_round_unit:
  "time_of_round r = (Inr t :: 'e failure + timestamp) \<Longrightarrow> time_of_round r = (Inr t :: 'f failure + timestamp)"
  by (simp add: time_of_round_eq_Inr)

lemma ticket_out_enc:
  "codec_ok codec \<Longrightarrow> ticket_out codec (enc_out_packet codec (DeliverBeacon sid pub rand orig)) = {#(sid, orig)#}"
  by (simp add: ticket_out_def codec_okD)

lemma deliver_job_packet:
  assumes "codec_ok codec" and "deliver_job codec env round rand j = Inr m" and "source_id j = drand_source_id round"
  shows "tickets_out codec (packet_on gc m) = job_tickets gc [j]"
    and "(round, rand) \<in> S \<Longrightarrow> d \<in> set (packet_on gc m) \<Longrightarrow> good_beacon codec S d"
proof -
  from assms(2) obtain published timeout where time: "time_of_round round = (Inr published :: std_error failure + timestamp)"
    and m: "m = IbcSendPacket (channel j) (enc_out_packet codec (DeliverBeacon (source_id j) published rand (origin j))) timeout"
    by (auto simp: deliver_job_Inr)
  show "tickets_out codec (packet_on gc m) = job_tickets gc [j]"
    using assms(1) by (simp add: m ticket_out_enc)
  show "good_beacon codec S d" if "(round, rand) \<in> S" "d \<in> set (packet_on gc m)"
    using that time_of_round_unit [OF time] assms(3) by (auto simp: m good_beacon_def split: if_splits)
qed

lemma route_tickets:
  assumes codec: "codec_ok codec" and inv: "gateway_inv st" and route: "route codec env c after orig st = (st1, Inr receipt)"
  shows "pending_tickets gc st1 + tickets_out codec (packets_on gc (map new_msg (rr_msgs receipt)))
      = pending_tickets gc st + (if c = gc then {#(drand_source_id (round_after after), orig)#} else {#})"
    and "d \<in> set (packets_on gc (map new_msg (rr_msgs receipt))) \<Longrightarrow> good_beacon codec (archived st) d"
proof -
  have jobs: "jobs_inv st" using inv by (simp add: gateway_inv_def)
  note eff = route_effect [OF jobs route]
  let ?r = "round_after after" and ?j = "\<lparr>source_id = drand_source_id (round_after after), channel = c, origin = orig\<rparr>"
  have "pending_tickets gc st1 + tickets_out codec (packets_on gc (map new_msg (rr_msgs receipt)))
      = pending_tickets gc st + (if c = gc then {#(drand_source_id ?r, orig)#} else {#}) \<and>
    (\<forall>d \<in> set (packets_on gc (map new_msg (rr_msgs receipt))). good_beacon codec (archived st) d)"
  proof (cases "archive_lookup st ?r")
    case None
    then have "jobs_of st1 = (jobs_of st)(?r := jobs_of st ?r @ [?j])" using eff by simp
    from pending_tickets_update [OF this, of gc]
    have "pending_tickets gc st1 + job_tickets gc (jobs_of st ?r) = pending_tickets gc st + job_tickets gc [?j] + job_tickets gc (jobs_of st ?r)"
      by (simp add: ac_simps)
    then have "pending_tickets gc st1 = pending_tickets gc st + job_tickets gc [?j]" by simp
    moreover from route None have "packets_on gc (map new_msg (rr_msgs receipt)) = []"
      by (auto simp: route_def handle_drand_request_queued split: option.splits)
    ultimately show ?thesis by simp
  next
    case (Some rand)
    from route Some obtain m where m: "deliver_job codec env ?r rand ?j = Inr m" and msgs: "rr_msgs receipt = [m]"
      by (auto simp: route_def handle_drand_request_archived)
    have "pending_tickets gc st1 = pending_tickets gc st" using eff Some by (intro pending_tickets_cong) simp
    moreover have "(?r, rand) \<in> archived st" using Some by (simp add: archived_def)
    moreover have sid: "source_id ?j = drand_source_id ?r" by simp
    moreover have "tickets_out codec (packet_on gc m) = (if c = gc then {#(drand_source_id ?r, orig)#} else {#})"
      using deliver_job_packet(1) [OF codec m sid, where gc = gc] by simp
    moreover have "\<forall>d \<in> set (packet_on gc m). good_beacon codec (archived st) d"
      using deliver_job_packet(2) [OF codec m sid] Some by (auto simp: archived_def)
    ultimately show ?thesis by (simp add: msgs)
  qed
  then show "pending_tickets gc st1 + tickets_out codec (packets_on gc (map new_msg (rr_msgs receipt)))
      = pending_tickets gc st + (if c = gc then {#(drand_source_id ?r, orig)#} else {#})"
    and "d \<in> set (packets_on gc (map new_msg (rr_msgs receipt))) \<Longrightarrow> good_beacon codec (archived st) d"
    by blast+
qed

lemma charge_customer_jobs:
  assumes "charge_customer c rel st = (st', r)"
  shows "jobs_of st' = jobs_of st" and "r = Inr m \<Longrightarrow> packet_on gc m = []"
  using assms
  by (auto simp: charge_customer_def bind_a_def read_a_def write_a_def return_a_def Let_def split: sum.splits prod.splits)

lemma request_beacon_tickets:
  assumes codec: "codec_ok codec" and inv: "gateway_inv g"
    and request: "receive_request_beacon codec env c rel after orig g = (g', x)" and no_panic: "\<And>p. x \<noteq> Inl (Panic p)"
    and ok: "\<And>r. x = Inr r \<Longrightarrow> ms = messages r" and err: "\<And>e. x = Inl e \<Longrightarrow> ms = []"
  shows "pending_tickets gc g' + tickets_out codec (packets_on gc ms)
      \<subseteq># pending_tickets gc g + (if c = gc then {#(drand_source_id (round_after after), orig)#} else {#}) \<and>
    (\<forall>d \<in> set (packets_on gc ms). good_beacon codec (archived g) d)"
proof -
  from inv obtain config where config: "gateway_state.CONFIG g = Some config" and jobs: "jobs_inv g"
    by (auto simp: gateway_inv_def)
  from config jobs request no_panic show ?thesis
  proof (cases rule: receive_request_beacon_cases)
    case rejected
    with err show ?thesis by simp
  next
    case (routed g1 receipt r1)
    have g': "pending_tickets gc g' = pending_tickets gc g1"
      using charge_customer_jobs(1) [OF routed(3)] by (intro pending_tickets_cong) (simp add: requests_log_add_def)
    note route = route_tickets [OF codec inv routed(2), where gc = gc]
    show ?thesis
    proof (cases r1)
      case (Inl e)
      with routed(4) err have "ms = []" by simp
      moreover have "pending_tickets gc g1
          \<subseteq># pending_tickets gc g + (if c = gc then {#(drand_source_id (round_after after), orig)#} else {#})"
        using route(1) by (metis mset_subset_eq_add_left)
      ultimately show ?thesis using g' by simp
    next
      case (Inr m)
      with routed(4) ok have "ms = map new_msg (rr_msgs receipt @ [m])" by simp
      moreover have "packet_on gc m = []" using charge_customer_jobs(2) [OF routed(3) Inr] .
      ultimately have "packets_on gc ms = packets_on gc (map new_msg (rr_msgs receipt))" by simp
      with route g' show ?thesis by simp
    qed
  qed
qed

lemma receive_tickets:
  assumes codec: "codec_ok codec" and inv: "gateway_inv g"
    and recv: "ibc_packet_receive_gateway api codec env msg g
      = (Inr (g', res) :: 'e failure + gateway_state \<times> gateway_out_msg ibc_receive_response)"
  shows "pending_tickets gc g' + tickets_out codec (packets_on gc (messages res))
      \<subseteq># pending_tickets gc g + (if dest_channel_id msg = gc then ticket_in codec (packet_data msg) else {#})"
    and "d \<in> set (packets_on gc (messages res)) \<Longrightarrow> good_beacon codec (archived g) d"
    and "archived g' = archived g" and "gateway_inv g'"
proof -
  obtain x where recv': "receive_packet_gateway codec env msg g = (g', x)" and no_panic: "\<And>p. x \<noteq> Inl (Panic p)"
    and x: "\<And>r. x = Inr r \<Longrightarrow> messages res = messages r" "\<And>e. x = Inl e \<Longrightarrow> messages res = []"
    using recv by (cases "receive_packet_gateway codec env msg g")
      (auto simp: ibc_packet_receive_gateway_def split: sum.splits failure.splits)
  show "archived g' = archived g" "gateway_inv g'"
    using receive_packet_frame [OF inv recv' no_panic] receive_packet_gateway_inv [OF inv recv' no_panic]
    by (auto simp: archived_def archive_lookup_def)
  have "pending_tickets gc g' + tickets_out codec (packets_on gc (messages res))
      \<subseteq># pending_tickets gc g + (if dest_channel_id msg = gc then ticket_in codec (packet_data msg) else {#}) \<and>
    (\<forall>d \<in> set (packets_on gc (messages res)). good_beacon codec (archived g) d)"
  proof (cases "\<exists>after orig. dec_in_packet codec (packet_data msg) = Inr (RequestBeacon after orig)")
    case False
    then have "g' = g \<and> messages res = []" using recv' x
      by (cases "dec_in_packet codec (packet_data msg)")
        (auto simp: receive_packet_gateway_def receive_pull_beacon_price_def bind_a_def read_a_def return_a_def
          split: sum.splits in_packet.splits)
    then show ?thesis by simp
  next
    case True
    then obtain after orig where dec: "dec_in_packet codec (packet_data msg) = Inr (RequestBeacon after orig)" by blast
    then have "receive_request_beacon codec env (dest_channel_id msg) (packet_relayer msg) after orig g = (g', x)"
      using recv' by (simp add: receive_packet_gateway_def bind_a_def [of "read_a _"] read_a_def)
    then have "pending_tickets gc g' + tickets_out codec (packets_on gc (messages res))
        \<subseteq># pending_tickets gc g + (if dest_channel_id msg = gc then {#(drand_source_id (round_after after), orig)#} else {#}) \<and>
      (\<forall>d \<in> set (packets_on gc (messages res)). good_beacon codec (archived g) d)"
      by (rule request_beacon_tickets [OF codec inv]) (fact no_panic x)+
    moreover have "ticket_in codec (packet_data msg) = {#(drand_source_id (round_after after), orig)#}"
      using dec by (simp add: ticket_in_def)
    ultimately show ?thesis by presburger
  qed
  then show "pending_tickets gc g' + tickets_out codec (packets_on gc (messages res))
      \<subseteq># pending_tickets gc g + (if dest_channel_id msg = gc then ticket_in codec (packet_data msg) else {#})"
    and "d \<in> set (packets_on gc (messages res)) \<Longrightarrow> good_beacon codec (archived g) d"
    by blast+
qed

lemma deliver_jobs_tickets:
  assumes "codec_ok codec" and "map Inr ds = map (deliver_job codec env round rand) js"
    and "\<forall>j \<in> set js. source_id j = drand_source_id round"
  shows "tickets_out codec (packets_on gc (map new_msg ds)) = job_tickets gc js"
    and "(round, rand) \<in> S \<Longrightarrow> d \<in> set (packets_on gc (map new_msg ds)) \<Longrightarrow> good_beacon codec S d"
proof -
  have "tickets_out codec (packets_on gc (map new_msg ds)) = job_tickets gc js \<and>
      ((round, rand) \<in> S \<longrightarrow> (\<forall>d \<in> set (packets_on gc (map new_msg ds)). good_beacon codec S d))"
    using assms(2,3)
  proof (induction js arbitrary: ds)
    case (Cons j js)
    then obtain m ms where ds: "ds = m # ms" and m: "deliver_job codec env round rand j = Inr m"
      and ms: "map Inr ms = map (deliver_job codec env round rand) js" by (cases ds) auto
    from Cons.IH [OF ms] Cons.prems(2) have IH: "tickets_out codec (packets_on gc (map new_msg ms)) = job_tickets gc js"
      "(round, rand) \<in> S \<Longrightarrow> d \<in> set (packets_on gc (map new_msg ms)) \<Longrightarrow> good_beacon codec S d" for d by auto
    have "source_id j = drand_source_id round" using Cons.prems(2) by simp
    from deliver_job_packet(1) [OF assms(1) m this, where gc = gc] deliver_job_packet(2) [OF assms(1) m this, where gc = gc and S = S] IH
    show ?case by (auto simp: ds)
  qed simp
  then show "tickets_out codec (packets_on gc (map new_msg ds)) = job_tickets gc js"
    and "(round, rand) \<in> S \<Longrightarrow> d \<in> set (packets_on gc (map new_msg ds)) \<Longrightarrow> good_beacon codec S d"
    by blast+
qed

lemma submission_tickets:
  assumes codec: "codec_ok codec" and inv: "gateway_inv g"
    and step: "execute_add_verified_round codec env info round rand vtx g = Inr (g', res)"
  shows "pending_tickets gc g' + tickets_out codec (packets_on gc (messages res)) = pending_tickets gc g"
    and "d \<in> set (packets_on gc (messages res)) \<Longrightarrow> good_beacon codec (insert (round, rand) S) d"
    and "archived g' \<subseteq> insert (round, rand) (archived g)" and "gateway_inv g'"
proof -
  let ?js = "jobs_of g round"
  let ?k = "min (if vtx then 1 else 10) (length ?js)"
  from step obtain nd where nd: "new_drand codec env round rand vtx g = Inr (g', nd)" and res: "messages res = map new_msg (nd_msgs nd)"
    by (auto simp: add_verified_round_Inr)
  have jobs: "jobs_inv g" using inv by (simp add: gateway_inv_def)
  have frame: "jobs_of (archive_store round rand g) = jobs_of g" by (simp add: archive_store_def)
  from new_drand_Inr(1) [OF jobs nd] have d: "map Inr (nd_msgs nd) = map (deliver_job codec env round rand) (take ?k ?js)"
    and jobs': "jobs_of g' = (jobs_of g)(round := drop ?k ?js)"
    unfolding drained_def frame by blast+
  have ids: "\<forall>j \<in> set (take ?k ?js). source_id j = drand_source_id round"
    using inv by (auto simp: gateway_inv_def dest: in_set_takeD)
  have "pending_tickets gc g' + job_tickets gc ?js = pending_tickets gc g + job_tickets gc (drop ?k ?js)"
    by (rule pending_tickets_update [OF jobs'])
  then have "pending_tickets gc g' + job_tickets gc (take ?k ?js) + job_tickets gc (drop ?k ?js)
      = pending_tickets gc g + job_tickets gc (drop ?k ?js)"
    by (simp only: job_tickets_take_drop add.assoc)
  then have "pending_tickets gc g' + job_tickets gc (take ?k ?js) = pending_tickets gc g"
    by (rule add_right_imp_eq)
  then show "pending_tickets gc g' + tickets_out codec (packets_on gc (messages res)) = pending_tickets gc g"
    using deliver_jobs_tickets(1) [OF codec d ids, where gc = gc] by (simp add: res)
  show "good_beacon codec (insert (round, rand) S) d" if "d \<in> set (packets_on gc (messages res))"
    using that deliver_jobs_tickets(2) [OF codec d ids, where gc = gc and S = "insert (round, rand) S"] by (simp add: res)
  show "archived g' \<subseteq> insert (round, rand) (archived g)"
    using add_verified_round_frame(2) [OF inv step] by (auto simp: archived_def split: if_splits)
  show "gateway_inv g'" using inv step by (rule add_verified_round_inv)
qed

lemma other_call_tickets:
  assumes codec: "codec_ok codec" and inv: "gateway_inv g" and step: "gateway_tx api codec (q, env, call) g = Inr (g', res)"
    and other: "other_gateway_call gc call"
  shows "pending_tickets gc g' + tickets_out codec (packets_on gc (messages res)) \<subseteq># pending_tickets gc g \<and>
     (\<forall>d \<in> set (packets_on gc (messages res)). good_beacon codec (archived g) d) \<and> archived g' = archived g"
proof (cases call)
  case (CallExecute info msg)
  with other obtain ma pr dr pif ts where "msg = gateway_execute_msg.SetConfig ma pr dr pif ts" by (cases msg) auto
  with step CallExecute have "\<exists>co. g' = g\<lparr>gateway_state.CONFIG := co\<rparr> \<and> messages res = []"
    by (auto simp: execute_set_config_gateway_def Let_def default_response_def split: if_splits)
  then show ?thesis by (auto simp: archived_def archive_lookup_def pending_tickets_def)
next
  case (CallPacketReceive msg)
  with step obtain res' where recv: "ibc_packet_receive_gateway api codec env msg g
      = (Inr (g', res') :: gateway_error failure + gateway_state \<times> gateway_out_msg ibc_receive_response)"
    and "messages res = messages res'"
    by (auto simp: response.truncate_def)
  have "dest_channel_id msg \<noteq> gc" using other CallPacketReceive by simp
  with receive_tickets(1) [OF codec inv recv, where gc = gc] receive_tickets(2,3) [OF codec inv recv] \<open>messages res = _\<close>
  show ?thesis by simp
next
  case (CallChannelConnect msg)
  with step other show ?thesis
    by (cases msg) (auto simp: Let_def archived_def archive_lookup_def pending_tickets_def)
next
  case CallMigrate
  with step have frame: "JOBS g' = JOBS g" "archive_lookup g' = archive_lookup g" and "messages res = []"
    by (auto simp: migrate_gateway_def Let_def set_contract_version_def archive_lookup_def fun_eq_iff default_response_def split: if_splits)
  from frame(1) have "jobs_of g' = jobs_of g" by (simp add: jobs_of_def fun_eq_iff)
  with frame(2) \<open>messages res = []\<close> show ?thesis by (simp add: archived_def pending_tickets_def)
qed (use step in \<open>auto simp: Let_def ibc_channel_close_gateway_def
    ibc_packet_ack_gateway_def ibc_packet_timeout_gateway_def default_response_def archived_def archive_lookup_def pending_tickets_def\<close>)

section \<open>What the proxy sends and calls\<close>

fun requested_job :: "proxy_execute_msg \<Rightarrow> string option" where
  "requested_job (GetNextRandomness job) = Some job"
| "requested_job (GetRandomnessAfter _ job) = Some job"
| "requested_job _ = None"

definition request_packet :: "codec \<Rightarrow> origin_codec \<Rightarrow> message_info \<Rightarrow> proxy_execute_msg \<Rightarrow> binary \<Rightarrow> bool" where
  "request_packet codec oc info msg d \<longleftrightarrow> (\<exists>after job. requested_job msg = Some job \<and>
     d = enc_in_packet codec (RequestBeacon after (enc_origin oc \<lparr>rbo_sender = sender info, rbo_job_id = job\<rparr>)))"

lemma payment_msgs_packets:
  "payment_msgs env config = (Inr msgs :: 'e failure + receiver_execute_msg cosmos_msg list) \<Longrightarrow>
     packets_on pc (map new_msg msgs) = []"
  by (auto simp: payment_msgs_def split: operational_mode.splits option.splits if_splits)

lemma get_randomness_packets:
  assumes "execute_get_randomness_impl codec oc lib env info action config after job st = Inr (st', res)"
    and "d \<in> set (packets_on pc (messages res))"
  shows "d = enc_in_packet codec (RequestBeacon after (enc_origin oc \<lparr>rbo_sender = sender info, rbo_job_id = job\<rparr>))"
  using assms by (auto simp: get_randomness_impl_Inr payment_msgs_packets split: if_splits)

lemma execute_proxy_packets:
  assumes step: "execute_proxy api codec oc lib q env info msg st = Inr (st', res)" and d: "d \<in> set (packets_on pc (messages res))"
  shows "request_packet codec oc info msg d"
proof (cases msg)
  case (GetNextRandomness job)
  then have "execute_get_next_randomness codec oc lib env info job st = Inr (st', res)" using step by simp
  then show ?thesis
    by (rule execute_get_next_randomness_Inr) (use d GetNextRandomness in \<open>auto simp: request_packet_def dest: get_randomness_packets\<close>)
next
  case (GetRandomnessAfter after job)
  with step d show ?thesis
    by (auto simp: execute_get_randomness_after_def request_packet_def dest: get_randomness_packets)
qed (use step d in \<open>auto simp: execute_set_config_proxy_def execute_withdraw_def withdraw_unchecked_def
    execute_update_allowlist_def default_response_def elim!: set_config_unchecked_Inr\<close>)

lemma other_proxy_packets:
  assumes "proxy_tx api codec oc lib (q, env, call) st = Inr (st', res)" and "other_proxy_call call"
  shows "packets_on pc (messages res) = []"
proof (cases call)
  case (CallSudo msg)
  with assms show ?thesis
    by (cases msg) (auto simp: withdraw_unchecked_def withdraw_to_community_pool_unchecked_def elim!: set_config_unchecked_Inr)
next
  case (CallChannelConnect msg)
  with assms show ?thesis by (cases msg) (auto simp: Let_def default_response_def split: if_splits)
next
  case (CallChannelClose msg)
  with assms show ?thesis by (cases msg) (auto simp: default_response_def)
qed (use assms in \<open>auto simp: migrate_proxy_def reply_proxy_def ibc_packet_ack_proxy_def ibc_packet_timeout_proxy_def Let_def
    default_response_def split: if_splits\<close>)

definition good_callback ::
  "codec \<Rightarrow> origin_codec \<Rightarrow> (u64 \<times> binary) set \<Rightarrow> binary \<Rightarrow> addr \<Rightarrow> nois_callback \<Rightarrow> bool" where
  "good_callback codec oc S d a cb \<longleftrightarrow> (\<exists>r orig.
     d = enc_out_packet codec (DeliverBeacon (drand_source_id r) (published cb) (randomness cb) orig) \<and>
     time_of_round r = (Inr (published cb) :: unit failure + timestamp) \<and> (r, randomness cb) \<in> S \<and>
     dec_origin oc orig = Inr \<lparr>rbo_sender = a, rbo_job_id = job_id cb\<rparr>)"

lemma relay_beacon_callbacks:
  assumes codec: "codec_ok codec" and good: "good_beacon codec S d"
    and recv: "ibc_packet_receive_proxy api codec oc \<lparr>packet_data = d, dest_channel_id = pc, packet_relayer = rel\<rparr> p
       = (Inr (p', res) :: 'e failure + proxy_state \<times> receiver_execute_msg ibc_receive_response)"
  shows "callbacks_of (messages res) = [] \<or>
     (\<exists>a cb. callbacks_of (messages res) = [(a, cb)] \<and> good_callback codec oc S d a cb)"
proof -
  from good obtain r pub rand orig where d: "d = enc_out_packet codec (DeliverBeacon (drand_source_id r) pub rand orig)"
    and time: "time_of_round r = (Inr pub :: unit failure + timestamp)" and S: "(r, rand) \<in> S"
    by (auto simp: good_beacon_def)
  let ?msg = "\<lparr>packet_data = d, dest_channel_id = pc, packet_relayer = rel\<rparr>"
  have recv': "receive_packet_proxy codec oc ?msg p = receive_deliver_beacon codec oc pub rand orig p"
    using codec by (simp add: receive_packet_proxy_def d codec_okD del: result_inversion)
  show ?thesis
  proof (cases "receive_deliver_beacon codec oc pub rand orig p")
    case (Inl f)
    with recv recv' have "messages res = []"
      by (cases f) (auto simp: ibc_packet_receive_proxy_def)
    then show ?thesis by simp
  next
    case (Inr x)
    then obtain gl o1 where "dec_origin oc orig = Inr o1"
      and "messages (snd x) = [SubMsg REPLAY_ID_CALLBACK (WasmExecute (rbo_sender o1)
             (ReceiverNoisReceive \<lparr>job_id = rbo_job_id o1, published = pub, randomness = rand\<rparr>) [])
             (Some gl) ReplyOnError]"
      by (cases x) (auto simp: receive_deliver_beacon_def Let_def)
    moreover from this have "callbacks_of (messages (snd x))
        = [(rbo_sender o1, \<lparr>job_id = rbo_job_id o1, published = pub, randomness = rand\<rparr>)]" by simp
    moreover have "res = snd x" using recv recv' Inr by (cases x) (auto simp: ibc_packet_receive_proxy_def)
    ultimately show ?thesis using d time S by (cases o1) (auto simp: good_callback_def)
  qed
qed

section \<open>The invariant of the network\<close>

text \<open>
  Every ticket under way, in a queue or answered stems from a request of its own: the tickets form
  a submultiset of those of the requests sent. Beacons and callbacks carry submitted randomness.
\<close>

definition net_tickets :: "codec \<Rightarrow> string \<Rightarrow> network \<Rightarrow> ticket multiset" where
  "net_tickets codec gc s = tickets_in codec (to_gateway s) + pending_tickets gc (net_gateway s) +
     tickets_out codec (to_proxy s) + tickets_out codec (map fst (callbacks s))"

definition request_tickets :: "codec \<Rightarrow> network \<Rightarrow> ticket multiset" where
  "request_tickets codec s = tickets_in codec (map (\<lambda>r. snd (snd r)) (requests s))"

definition net_inv :: "codec \<Rightarrow> origin_codec \<Rightarrow> string \<Rightarrow> network \<Rightarrow> bool" where
  "net_inv codec oc gc s \<longleftrightarrow>
     gateway_inv (net_gateway s) \<and> archived (net_gateway s) \<subseteq> set (submissions s) \<and>
     (\<forall>d \<in> set (to_proxy s). good_beacon codec (set (submissions s)) d) \<and>
     (\<forall>(info, msg, d) \<in> set (requests s). request_packet codec oc info msg d) \<and>
     (\<forall>(d, a, cb) \<in> set (callbacks s). good_callback codec oc (set (submissions s)) d a cb) \<and>
     net_tickets codec gc s \<subseteq># request_tickets codec s"

text \<open>Two contracts that have not communicated on the channel yet.\<close>

definition net_start :: "string \<Rightarrow> network \<Rightarrow> bool" where
  "net_start gc s \<longleftrightarrow> gateway_inv (net_gateway s) \<and> archived (net_gateway s) \<subseteq> set (submissions s) \<and>
     (\<forall>round. \<forall>j \<in> set (jobs_of (net_gateway s) round). channel j \<noteq> gc) \<and>
     to_gateway s = [] \<and> to_proxy s = [] \<and> requests s = [] \<and> callbacks s = []"

lemma net_start_inv: "net_start gc s \<Longrightarrow> net_inv codec oc gc s"
  by (auto simp: net_start_def net_inv_def net_tickets_def pending_tickets_def job_tickets_def filter_False)

lemma good_callback_mono: "good_callback codec oc S d a cb \<Longrightarrow> S \<subseteq> T \<Longrightarrow> good_callback codec oc T d a cb"
  by (auto simp: good_callback_def)

lemma tickets_out_callbacks: "tickets_out codec (map fst (map (\<lambda>(a, cb). (d, a, cb)) xs)) = tickets_out codec (replicate (length xs) d)"
  by (induction xs) auto

lemma net_inv_gateway:
  assumes inv: "net_inv codec oc gc s" and g: "gateway_inv g" and arch: "archived g \<subseteq> T" and T: "set (submissions s) \<subseteq> T"
    and good: "\<forall>d \<in> set ds. good_beacon codec T d"
    and tickets: "pending_tickets gc g + tickets_out codec ds + tickets_in codec tg
      \<subseteq># pending_tickets gc (net_gateway s) + tickets_in codec (to_gateway s)"
    and s': "net_gateway s' = g" "to_gateway s' = tg" "to_proxy s' = to_proxy s @ ds" "requests s' = requests s"
      "callbacks s' = callbacks s" "set (submissions s') = T"
  shows "net_inv codec oc gc s'"
proof -
  have "net_tickets codec gc s' \<subseteq># net_tickets codec gc s"
  proof -
    have "net_tickets codec gc s' = (pending_tickets gc g + tickets_out codec ds + tickets_in codec tg) +
        (tickets_out codec (to_proxy s) + tickets_out codec (map fst (callbacks s)))"
      by (simp add: net_tickets_def s' ac_simps)
    also have "\<dots> \<subseteq># (pending_tickets gc (net_gateway s) + tickets_in codec (to_gateway s)) +
        (tickets_out codec (to_proxy s) + tickets_out codec (map fst (callbacks s)))"
      using tickets by (rule mset_subset_eq_mono_add) simp
    also have "\<dots> = net_tickets codec gc s" by (simp add: net_tickets_def ac_simps)
    finally show ?thesis .
  qed
  moreover have "request_tickets codec s' = request_tickets codec s" by (simp add: request_tickets_def s')
  ultimately have "net_tickets codec gc s' \<subseteq># request_tickets codec s'"
    using inv by (auto simp: net_inv_def)
  with inv g arch T good show ?thesis
    by (auto simp: net_inv_def s' intro: good_beacon_mono good_callback_mono)
qed

lemma net_inv_request:
  assumes inv: "net_inv codec oc gc s"
    and step: "execute_proxy api codec oc lib q env info msg (net_proxy s) = Inr (p, res)"
    and ds: "ds = packets_on pc (messages res)"
  shows "net_inv codec oc gc (s\<lparr>net_proxy := p, to_gateway := to_gateway s @ ds,
     requests := requests s @ map (\<lambda>d. (info, msg, d)) ds\<rparr>)" (is "net_inv _ _ _ ?s")
proof -
  have req: "request_packet codec oc info msg d" if "d \<in> set ds" for d
    using execute_proxy_packets [OF step] that by (simp add: ds)
  have "net_tickets codec gc ?s = net_tickets codec gc s + tickets_in codec ds"
    by (simp add: net_tickets_def ac_simps)
  moreover have "request_tickets codec ?s = request_tickets codec s + tickets_in codec ds"
    by (simp add: request_tickets_def comp_def)
  ultimately have "net_tickets codec gc ?s \<subseteq># request_tickets codec ?s"
    using inv by (simp add: net_inv_def)
  with inv req show ?thesis by (auto simp: net_inv_def)
qed

lemma net_inv_relayed_request:
  assumes codec: "codec_ok codec" and inv: "net_inv codec oc gc s" and d: "d \<in> set (to_gateway s)"
    and recv: "ibc_packet_receive_gateway api codec env \<lparr>packet_data = d, dest_channel_id = gc, packet_relayer = rel\<rparr> (net_gateway s)
       = (Inr (g, res) :: 'e failure + gateway_state \<times> gateway_out_msg ibc_receive_response)"
  shows "net_inv codec oc gc (s\<lparr>net_gateway := g, to_gateway := remove1 d (to_gateway s),
     to_proxy := to_proxy s @ packets_on gc (messages res)\<rparr>)"
proof -
  have g: "gateway_inv (net_gateway s)" using inv by (simp add: net_inv_def)
  note recv = receive_tickets [OF codec g recv]
  have "pending_tickets gc g + tickets_out codec (packets_on gc (messages res)) + tickets_in codec (remove1 d (to_gateway s))
      \<subseteq># pending_tickets gc (net_gateway s) + ticket_in codec d + tickets_in codec (remove1 d (to_gateway s))"
    using recv(1) [of gc] by simp
  also have "\<dots> = pending_tickets gc (net_gateway s) + tickets_in codec (to_gateway s)"
    using tickets_remove1(1) [OF d, of codec] by (simp add: ac_simps)
  finally show ?thesis
    using inv recv(2-4)
    by (intro net_inv_gateway [OF inv recv(4), of "set (submissions s)"])
      (auto simp: net_inv_def intro: good_beacon_mono)
qed

lemma net_inv_relayed_beacon:
  assumes codec: "codec_ok codec" and inv: "net_inv codec oc gc s" and d: "d \<in> set (to_proxy s)"
    and recv: "ibc_packet_receive_proxy api codec oc \<lparr>packet_data = d, dest_channel_id = pc, packet_relayer = rel\<rparr> (net_proxy s)
       = (Inr (p, res) :: 'e failure + proxy_state \<times> receiver_execute_msg ibc_receive_response)"
    and cs: "cs = callbacks_of (messages res)"
  shows "net_inv codec oc gc (s\<lparr>net_proxy := p, to_proxy := remove1 d (to_proxy s),
     callbacks := callbacks s @ map (\<lambda>(a, cb). (d, a, cb)) cs\<rparr>)" (is "net_inv _ _ _ ?s")
proof -
  have good: "good_beacon codec (set (submissions s)) d" using inv d by (simp add: net_inv_def)
  note cb = relay_beacon_callbacks [OF codec good recv]
  have "tickets_out codec (replicate (length cs) d) \<subseteq># ticket_out codec d" using cb by (auto simp: cs)
  then have "net_tickets codec gc ?s \<subseteq># net_tickets codec gc s"
    using tickets_remove1(2) [OF d, of codec]
    by (simp add: net_tickets_def tickets_out_callbacks [simplified])
  with inv cb show ?thesis
    by (auto simp: net_inv_def request_tickets_def cs dest: in_set_remove1 notin_set_remove1)
qed

lemma net_inv_step:
  assumes codec: "codec_ok codec" and inv: "net_inv codec oc gc s" and step: "net_step api codec oc lib pc gc s s'"
  shows "net_inv codec oc gc s'"
proof -
  have g: "gateway_inv (net_gateway s)" using inv by (simp add: net_inv_def)
  from step show ?thesis
  proof cases
    case (dapp_call q env info msg p res)
    from net_inv_request [OF inv dapp_call(2) refl] show ?thesis by (simp add: dapp_call(1))
  next
    case (proxy_call q env call p res)
    have "packets_on pc (messages res) = []" using proxy_call(2,3) by (rule other_proxy_packets)
    with inv show ?thesis by (simp add: net_inv_def net_tickets_def request_tickets_def proxy_call(1))
  next
    case (relay_request d env rel g res)
    from net_inv_relayed_request [OF codec inv relay_request(2,3)] show ?thesis by (simp add: relay_request(1))
  next
    case (submission env info round rand vtx g' res)
    then have "execute_add_verified_round codec env info round rand vtx (net_gateway s) = Inr (g', res)" by simp
    note sub = submission_tickets [OF codec g this]
    show ?thesis
      using inv sub
      by (intro net_inv_gateway [OF inv sub(4), of "insert (round, rand) (set (submissions s))"])
        (auto simp: submission(1) net_inv_def)
  next
    case (gateway_call q env call g' res)
    show ?thesis
      using inv other_call_tickets [OF codec g gateway_call(2,3)] gateway_tx_inv [OF g gateway_call(2)]
      by (intro net_inv_gateway [OF inv, of g' "set (submissions s)"])
        (auto simp: gateway_call(1) net_inv_def intro: good_beacon_mono)
  next
    case (relay_beacon d rel p res)
    from net_inv_relayed_beacon [OF codec inv relay_beacon(2,3) refl] show ?thesis by (simp add: relay_beacon(1))
  next
    case (request_timeout d)
    with inv show ?thesis
      by (auto simp: net_inv_def net_tickets_def request_tickets_def tickets_remove1(1) [OF request_timeout(2)]
          intro: subset_mset.order_trans [rotated])
  next
    case (beacon_timeout d)
    with inv show ?thesis
      by (auto simp: net_inv_def net_tickets_def request_tickets_def tickets_remove1(2) [OF beacon_timeout(2)]
          intro: subset_mset.order_trans [rotated] dest: notin_set_remove1)
  qed
qed

lemma net_reach_inv:
  assumes "codec_ok codec" and "net_start gc s0" and "(net_step api codec oc lib pc gc)\<^sup>*\<^sup>* s0 s"
  shows "net_inv codec oc gc s"
  using assms(3)
proof (induction rule: rtranclp_induct)
  case base
  show ?case using assms(2) by (rule net_start_inv)
next
  case (step s s')
  from assms(1) step.IH step.hyps(2) show ?case by (rule net_inv_step)
qed

section \<open>What the invariant says about the callbacks\<close>

lemma origin_codec_okD: "origin_codec_ok oc \<Longrightarrow> dec_origin oc (enc_origin oc o1) = Inr o1"
  by (simp add: origin_codec_ok_def codec_roundtrip_def)

lemma callback_has_request:
  assumes codec: "codec_ok codec" and oc: "origin_codec_ok oc" and inv: "net_inv codec oc gc s"
    and cb: "(d, a, cb) \<in> set (callbacks s)"
  obtains info msg after d' where "(info, msg, d') \<in> set (requests s)" and "sender info = a"
    and "requested_job msg = Some (job_id cb)"
    and "d' = enc_in_packet codec (RequestBeacon after (enc_origin oc \<lparr>rbo_sender = a, rbo_job_id = job_id cb\<rparr>))"
    and "time_of_round (round_after after) = (Inr (published cb) :: unit failure + timestamp)"
    and "(round_after after, randomness cb) \<in> set (submissions s)"
proof -
  from inv cb obtain r orig where d: "d = enc_out_packet codec (DeliverBeacon (drand_source_id r) (published cb) (randomness cb) orig)"
    and time: "time_of_round r = (Inr (published cb) :: unit failure + timestamp)"
    and sub: "(r, randomness cb) \<in> set (submissions s)"
    and orig: "dec_origin oc orig = Inr \<lparr>rbo_sender = a, rbo_job_id = job_id cb\<rparr>"
    by (fastforce simp: net_inv_def good_callback_def)
  have "(drand_source_id r, orig) \<in># ticket_out codec d" using codec by (simp add: d ticket_out_enc)
  moreover have "d \<in> set (map fst (callbacks s))" using cb by force
  ultimately have "(drand_source_id r, orig) \<in># tickets_out codec (map fst (callbacks s))"
    by (simp add: tickets_remove1(2) del: set_map list.set_map)
  with inv have "(drand_source_id r, orig) \<in># request_tickets codec s"
    by (auto simp: net_inv_def net_tickets_def dest: mset_subset_eqD)
  then obtain info msg d' where r: "(info, msg, d') \<in> set (requests s)" and t: "(drand_source_id r, orig) \<in># ticket_in codec d'"
    by (fastforce simp: request_tickets_def tickets_in_def set_mset_sum_list)
  from inv r obtain after job where job: "requested_job msg = Some job"
    and d': "d' = enc_in_packet codec (RequestBeacon after (enc_origin oc \<lparr>rbo_sender = sender info, rbo_job_id = job\<rparr>))"
    by (fastforce simp: net_inv_def request_packet_def)
  from t have "r = round_after after" and o1: "orig = enc_origin oc \<lparr>rbo_sender = sender info, rbo_job_id = job\<rparr>"
    using codec by (auto simp: d' ticket_in_def codec_okD)
  moreover from orig o1 oc have "sender info = a" "job = job_id cb" by (simp_all add: origin_codec_okD)
  ultimately show ?thesis using that r job d' time sub by blast
qed

text \<open>The tickets of one dapp and one of its job ids.\<close>

definition ticket_of :: "origin_codec \<Rightarrow> addr \<Rightarrow> string \<Rightarrow> ticket \<Rightarrow> bool" where
  "ticket_of oc a job t \<longleftrightarrow> dec_origin oc (snd t) = Inr \<lparr>rbo_sender = a, rbo_job_id = job\<rparr>"

lemma callbacks_count:
  assumes "codec_ok codec" and "\<forall>(d, a, cb) \<in> set cs. good_callback codec oc S d a cb"
  shows "size (filter_mset (ticket_of oc a job) (tickets_out codec (map fst cs)))
    = length (filter (\<lambda>(d, a', cb). a' = a \<and> job_id cb = job) cs)"
  using assms(2)
proof (induction cs)
  case (Cons c cs)
  then show ?case
    using assms(1) by (cases c) (auto simp: good_callback_def ticket_out_enc ticket_of_def)
qed simp

lemma requests_count:
  assumes "codec_ok codec" and "origin_codec_ok oc" and "\<forall>(info, msg, d) \<in> set rs. request_packet codec oc info msg d"
  shows "size (filter_mset (ticket_of oc a job) (tickets_in codec (map (\<lambda>r. snd (snd r)) rs)))
    = length (filter (\<lambda>(info, msg, d). sender info = a \<and> requested_job msg = Some job) rs)"
  using assms(3)
proof (induction rs)
  case (Cons r rs)
  then show ?case
    using assms(1,2) by (cases r) (auto simp: request_packet_def ticket_in_def codec_okD ticket_of_def origin_codec_okD)
qed simp

lemma callbacks_at_most_requests:
  assumes "codec_ok codec" and "origin_codec_ok oc" and inv: "net_inv codec oc gc s"
  shows "length (filter (\<lambda>(d, a', cb). a' = a \<and> job_id cb = job) (callbacks s))
    \<le> length (filter (\<lambda>(info, msg, d). sender info = a \<and> requested_job msg = Some job) (requests s))"
proof -
  have "tickets_out codec (map fst (callbacks s)) \<subseteq># net_tickets codec gc s" by (simp add: net_tickets_def)
  also have "\<dots> \<subseteq># request_tickets codec s" using inv by (simp add: net_inv_def)
  finally have "size (filter_mset (ticket_of oc a job) (tickets_out codec (map fst (callbacks s))))
      \<le> size (filter_mset (ticket_of oc a job) (request_tickets codec s))"
    by (intro size_mset_mono multiset_filter_mono)
  moreover from inv have "\<forall>(d, a, cb) \<in> set (callbacks s). good_callback codec oc (set (submissions s)) d a cb"
    and "\<forall>(info, msg, d) \<in> set (requests s). request_packet codec oc info msg d"
    by (simp_all add: net_inv_def)
  ultimately show ?thesis
    using assms(1,2) by (simp only: request_tickets_def callbacks_count requests_count)
qed

section \<open>A queued request can be answered\<close>

lemma queued_request_answered:
  fixes env :: env and info :: message_info
  assumes codec: "codec_ok codec" and oc: "origin_codec_ok oc"
    and trusted: "sender info \<in> set (unwrap_or (trusted_sources config) [])" and round: "unat round < 2 ^ 32"
    and time: "time_of_round round = (Inr pub :: std_error failure + timestamp)"
    and timeout: "plus_seconds (block_time env) DELIVER_BEACON_PACKET_LIFETIME = (Inr to :: std_error failure + timestamp)"
    and job: "channel j = gc" "origin j = enc_origin oc \<lparr>rbo_sender = dapp, rbo_job_id = job\<rparr>"
  shows "gateway_inv (net_gateway s) \<Longrightarrow> gateway_state.CONFIG (net_gateway s) = Some config \<Longrightarrow>
    proxy_state.CONFIG (net_proxy s) = Some pconfig \<Longrightarrow> jobs_of (net_gateway s) round = xs @ j # ys \<Longrightarrow>
    unat (get_processed_drand_jobs (net_gateway s) round) + length xs + 10 < 2 ^ 32 \<Longrightarrow>
    \<exists>s' d. (net_step api codec oc lib pc gc)\<^sup>*\<^sup>* s s' \<and>
      (d, dapp, \<lparr>job_id = job, published = pub, randomness = rand\<rparr>) \<in> set (callbacks s')"
proof (induction xs arbitrary: s)
  case (Cons x xs)
  note g = Cons.prems(1,2)
  have counter: "unat (get_processed_drand_jobs (net_gateway s) round) + 10 < 2 ^ 32" using Cons.prems(5) by simp
  obtain g' res where ok: "execute_add_verified_round codec env info round rand True (net_gateway s) = Inr (g', res)"
    and jobs: "jobs_of g' = (jobs_of (net_gateway s))(round := xs @ j # ys)" and co: "gateway_state.CONFIG g' = Some config"
    and count: "unat (get_processed_drand_jobs g' round) = unat (get_processed_drand_jobs (net_gateway s) round) + 1"
    by (rule add_verified_round_total [OF g trusted round time timeout counter, of codec rand True])
      (use Cons.prems(2,4) in \<open>simp add: batch_def\<close>)
  let ?s = "s\<lparr>net_gateway := g', to_proxy := to_proxy s @ packets_on gc (messages res), submissions := submissions s @ [(round, rand)]\<rparr>"
  have "net_step api codec oc lib pc gc s ?s" using ok by (intro submission [of _ _ env info]) simp
  moreover have "\<exists>s' d. (net_step api codec oc lib pc gc)\<^sup>*\<^sup>* ?s s' \<and>
      (d, dapp, \<lparr>job_id = job, published = pub, randomness = rand\<rparr>) \<in> set (callbacks s')"
    using add_verified_round_inv [OF g(1) ok] co Cons.prems(3,5) jobs count by (intro Cons.IH) simp_all
  ultimately show ?case by (meson converse_rtranclp_into_rtranclp)
next
  case Nil
  note g = Nil.prems(1,2)
  let ?d = "enc_out_packet codec (DeliverBeacon (drand_source_id round) pub rand (enc_origin oc \<lparr>rbo_sender = dapp, rbo_job_id = job\<rparr>))"
  have counter: "unat (get_processed_drand_jobs (net_gateway s) round) + 10 < 2 ^ 32" using Nil.prems(5) by simp
  obtain g' res where ok: "execute_add_verified_round codec env info round rand True (net_gateway s) = Inr (g', res)"
    and d: "packets_on gc (messages res) = [?d]"
    by (rule add_verified_round_total [OF g trusted round time timeout counter, of codec rand True])
      (use Nil.prems(2,4) job in \<open>simp add: batch_def\<close>)
  let ?s = "s\<lparr>net_gateway := g', to_proxy := to_proxy s @ packets_on gc (messages res), submissions := submissions s @ [(round, rand)]\<rparr>"
  have 1: "net_step api codec oc lib pc gc s ?s" using ok by (intro submission [of _ _ env info]) simp
  obtain res' where recv: "ibc_packet_receive_proxy api codec oc \<lparr>packet_data = ?d, dest_channel_id = pc, packet_relayer = []\<rparr> (net_proxy ?s)
      = (Inr (net_proxy ?s, res') :: unit failure + proxy_state \<times> receiver_execute_msg ibc_receive_response)"
    and cb: "callbacks_of (messages res') = [(dapp, \<lparr>job_id = job, published = pub, randomness = rand\<rparr>)]"
    by (rule beacon_received [OF codec oc, of "net_proxy ?s" pconfig "\<lparr>packet_data = ?d, dest_channel_id = pc, packet_relayer = []\<rparr>"
          "drand_source_id round" pub rand dapp job api, where 'e = unit])
      (use Nil.prems(3) in simp_all)
  have "?d \<in> set (to_proxy ?s)" by (simp add: d)
  from relay_beacon [OF this recv, of lib gc] obtain s' where 2: "net_step api codec oc lib pc gc ?s s'"
    and "(?d, dapp, \<lparr>job_id = job, published = pub, randomness = rand\<rparr>) \<in> set (callbacks s')"
    by (auto simp: cb)
  moreover have "(net_step api codec oc lib pc gc)\<^sup>*\<^sup>* s s'"
    using 1 2 by (meson converse_rtranclp_into_rtranclp r_into_rtranclp)
  ultimately show ?case by blast
qed

section \<open>A sample run\<close>

text \<open>
  A dapp requests randomness, the request is relayed and queued, the round is submitted and the
  beacon relayed back.
\<close>

definition sample_network :: network where
  "sample_network = \<lparr>net_proxy = sample_proxy, net_gateway = sample_gateway_open, to_gateway = [], to_proxy = [],
     requests = [], submissions = [], callbacks = []\<rparr>"

definition sample_origin :: binary where
  "sample_origin = enc_origin sample_origin_codec \<lparr>rbo_sender = ''dapp'', rbo_job_id = ''job''\<rparr>"

definition sample_network_requested :: network where
  "sample_network_requested = sample_network
     \<lparr>to_gateway := [enc_in_packet sample_codec (RequestBeacon 1700000000000000000 sample_origin)],
      requests := [(sample_info, GetRandomnessAfter 1700000000000000000 ''job'',
        enc_in_packet sample_codec (RequestBeacon 1700000000000000000 sample_origin))]\<rparr>"

definition sample_network_queued :: network where
  "sample_network_queued = sample_network_requested\<lparr>net_gateway := sample_queued sample_origin, to_gateway := []\<rparr>"

lemmas sample_network_defs = sample_network_def sample_network_requested_def sample_network_queued_def

lemma sample_origin_length: "length sample_origin \<le> MAX_ORIGIN_LEN"
  by (simp add: sample_origin_def sample_origin_codec_def enc_bytes_def as_bytes_def MAX_ORIGIN_LEN_def)

lemma sample_network_start: "net_start ''channel-1'' sample_network"
  using sample_gateway_open_inv
  by (simp add: net_start_def sample_network_def archived_def archive_lookup_def)
    (simp add: sample_gateway_open_def jobs_of_def)

lemma sample_network_request:
  "net_step sample_api sample_codec sample_origin_codec sample_nois_lib ''channel-0'' ''channel-1''
     sample_network sample_network_requested"
proof -
  let ?d = "enc_in_packet sample_codec (RequestBeacon 1700000000000000000 sample_origin)"
  obtain res where "execute_proxy sample_api sample_codec sample_origin_codec sample_nois_lib sample_querier sample_env
      sample_info (GetRandomnessAfter 1700000000000000000 ''job'') (net_proxy sample_network) = Inr (sample_proxy, res)"
    and "packets_on ''channel-0'' (messages res) = [?d]"
    using sample_request_sent by (simp add: execute_get_randomness_after_def sample_network_def sample_proxy_def load_config_proxy_def
      sample_origin_def del: result_inversion)
  from dapp_call [OF this(1), where pc = "''channel-0''" and gc = "''channel-1''"] this(2)
  show ?thesis by (simp add: sample_network_defs)
qed

lemma sample_network_relay:
  "net_step sample_api sample_codec sample_origin_codec sample_nois_lib ''channel-0'' ''channel-1''
     sample_network_requested sample_network_queued"
proof -
  let ?s = sample_network_requested
  let ?d = "enc_in_packet sample_codec (RequestBeacon 1700000000000000000 sample_origin)"
  have "?d \<in> set (to_gateway ?s)" by (simp add: sample_network_defs)
  moreover have "ibc_packet_receive_gateway sample_api sample_codec sample_env
      \<lparr>packet_data = ?d, dest_channel_id = ''channel-1'', packet_relayer = ''rel''\<rparr> (net_gateway ?s)
      = (Inr (sample_queued sample_origin, sample_gateway_response) :: unit failure + gateway_state \<times> gateway_out_msg ibc_receive_response)"
    using sample_packet_received [OF sample_origin_length] by (simp add: sample_network_defs)
  ultimately have "net_step sample_api sample_codec sample_origin_codec sample_nois_lib ''channel-0'' ''channel-1'' ?s
      (?s\<lparr>net_gateway := sample_queued sample_origin, to_gateway := remove1 ?d (to_gateway ?s),
       to_proxy := to_proxy ?s @ packets_on ''channel-1'' (messages sample_gateway_response)\<rparr>)"
    by (rule relay_request)
  then show ?thesis by (simp add: sample_network_defs sample_gateway_response_def)
qed

lemma sample_network_run:
  "(net_step sample_api sample_codec sample_origin_codec sample_nois_lib ''channel-0'' ''channel-1'')\<^sup>*\<^sup>*
     sample_network sample_network_queued"
  using sample_network_request sample_network_relay by (meson converse_rtranclp_into_rtranclp r_into_rtranclp)

lemma sample_network_waiting:
  "sender \<lparr>sender = ''drand'', funds = []\<rparr> \<in> set (unwrap_or (trusted_sources sample_gateway_config) [])"
  "channel (sample_job_of sample_origin) = ''channel-1''"
  "origin (sample_job_of sample_origin) = enc_origin sample_origin_codec \<lparr>rbo_sender = ''dapp'', rbo_job_id = ''job''\<rparr>"
  "gateway_inv (net_gateway sample_network_queued)"
  "gateway_state.CONFIG (net_gateway sample_network_queued) = Some sample_gateway_config"
  "proxy_state.CONFIG (net_proxy sample_network_queued) = Some sample_proxy_config"
  "jobs_of (net_gateway sample_network_queued) 7438268 = [] @ sample_job_of sample_origin # []"
  "get_processed_drand_jobs (net_gateway sample_network_queued) 7438268 = 0"
proof -
  show "sender \<lparr>sender = ''drand'', funds = []\<rparr> \<in> set (unwrap_or (trusted_sources sample_gateway_config) [])"
    "channel (sample_job_of sample_origin) = ''channel-1''"
    "origin (sample_job_of sample_origin) = enc_origin sample_origin_codec \<lparr>rbo_sender = ''dapp'', rbo_job_id = ''job''\<rparr>"
    by (simp_all add: sample_gateway_config_def sample_job_of_def sample_origin_def)
qed (simp_all add: sample_network_defs sample_queued_inv [OF sample_origin_length] sample_gateway_queued_jobs sample_proxy_def)

section \<open>Properties\<close>

text \<open>
  C2: No request is answered twice: whatever happens on the two chains and between them, a
  dapp is called back for a job id at most as often as it has requested randomness under that job id.
\<close>

theorem requests_are_answered_at_most_once:
  assumes "codec_ok codec" and "origin_codec_ok oc" and "net_start gc s0"
    and "(net_step api codec oc lib pc gc)\<^sup>*\<^sup>* s0 s"
  shows "length (filter (\<lambda>(d, a, cb). a = dapp \<and> job_id cb = job) (callbacks s))
    \<le> length (filter (\<lambda>(info, msg, d). sender info = dapp \<and> requested_job msg = Some job) (requests s))"
  using assms(1,2) net_reach_inv [OF assms(1,3,4)] by (rule callbacks_at_most_requests)

theorem requests_are_answered_at_most_once_witness:
  "\<exists>s d. (net_step sample_api sample_codec sample_origin_codec sample_nois_lib ''channel-0'' ''channel-1'')\<^sup>*\<^sup>* sample_network s \<and>
     (d, ''dapp'', \<lparr>job_id = ''job'', published = 1700000001000000000, randomness = [9]\<rparr>) \<in> set (callbacks s) \<and>
     length (filter (\<lambda>(d, a, cb). a = ''dapp'' \<and> job_id cb = ''job'') (callbacks s))
       \<le> length (filter (\<lambda>(info, msg, d). sender info = ''dapp'' \<and> requested_job msg = Some ''job'') (requests s))"
proof -
  obtain s d where answered: "(net_step sample_api sample_codec sample_origin_codec sample_nois_lib ''channel-0'' ''channel-1'')\<^sup>*\<^sup>*
      sample_network_queued s"
    "(d, ''dapp'', \<lparr>job_id = ''job'', published = 1700000001000000000, randomness = [9]\<rparr>) \<in> set (callbacks s)"
    using queued_request_answered [OF sample_codec_ok sample_origin_codec_ok sample_network_waiting(1) _ sample_time sample_timeout
        sample_network_waiting(2-7), where api = sample_api and lib = sample_nois_lib and pc = "''channel-0''" and rand = "[9]"]
      sample_network_waiting(8) by auto
  from rtranclp_trans [OF sample_network_run answered(1)] answered(2) show ?thesis
    using requests_are_answered_at_most_once [OF sample_codec_ok sample_origin_codec_ok sample_network_start] by blast
qed

text \<open>
  C10: A queued request can always be answered: from every state of the network in which a job of the
  proxy waits for a round, wherever in the queue it is, trusted submissions of the round and the
  relaying of a packet lead to a state in which the dapp that made the request has been called
  back with its job id, the publish time of the round and the submitted randomness.
\<close>

theorem queued_request_reaches_the_dapp:
  fixes env :: env and info :: message_info
  assumes "codec_ok codec" and "origin_codec_ok oc"
    and "sender info \<in> set (unwrap_or (trusted_sources config) [])" and "unat round < 2 ^ 32"
    and "time_of_round round = (Inr pub :: std_error failure + timestamp)"
    and "plus_seconds (block_time env) DELIVER_BEACON_PACKET_LIFETIME = (Inr to :: std_error failure + timestamp)"
    and "channel j = gc" and "origin j = enc_origin oc \<lparr>rbo_sender = dapp, rbo_job_id = job\<rparr>"
    and "gateway_inv (net_gateway s)" and "gateway_state.CONFIG (net_gateway s) = Some config"
    and "proxy_state.CONFIG (net_proxy s) = Some pconfig" and "jobs_of (net_gateway s) round = xs @ j # ys"
    and "unat (get_processed_drand_jobs (net_gateway s) round) + length xs + 10 < 2 ^ 32"
  shows "\<exists>s' d. (net_step api codec oc lib pc gc)\<^sup>*\<^sup>* s s' \<and>
      (d, dapp, \<lparr>job_id = job, published = pub, randomness = rand\<rparr>) \<in> set (callbacks s')"
  using assms by (rule queued_request_answered)

theorem queued_request_reaches_the_dapp_witness:
  "\<exists>s' d. (net_step sample_api sample_codec sample_origin_codec sample_nois_lib ''channel-0'' ''channel-1'')\<^sup>*\<^sup>*
       sample_network_queued s' \<and>
     (d, ''dapp'', \<lparr>job_id = ''job'', published = 1700000001000000000, randomness = [9]\<rparr>) \<in> set (callbacks s')"
  by (rule queued_request_reaches_the_dapp [OF sample_codec_ok sample_origin_codec_ok sample_network_waiting(1) _ sample_time
        sample_timeout sample_network_waiting(2-7)]) (simp_all add: sample_network_waiting(8))

end
