(* ===== verification/NoisSystem.thy ===== *)
theory NoisSystem
  imports Sink Payment Drand Network
begin

text \<open>
  The whole system: the drand contract, the gateway it forwards randomness to and a proxy connected
  to the gateway.
\<close>

section \<open>The system\<close>

record system =
  sys_drand :: drand_state
  sys_net :: network

fun forwarded_by :: "addr \<Rightarrow> nois_gateway_execute_msg cosmos_msg \<Rightarrow> (u64 \<times> binary \<times> bool) list" where
  "forwarded_by gw (WasmExecute a (nois_gateway_execute_msg.AddVerifiedRound round rand vtx) _) =
     (if a = gw then [(round, rand, vtx)] else [])"
| "forwarded_by gw _ = []"

definition forwarded :: "addr \<Rightarrow> nois_gateway_execute_msg response \<Rightarrow> (u64 \<times> binary \<times> bool) list" where
  "forwarded gw res = concat (map (\<lambda>m. forwarded_by gw (sub_msg m)) (messages res))"

text \<open>
  The gateway's manager lists no other source than the drand contract at the address \<open>da\<close>.
\<close>

definition trusted_only :: "addr \<Rightarrow> gateway_state \<Rightarrow> bool" where
  "trusted_only da g \<longleftrightarrow> (case gateway_state.CONFIG g of None \<Rightarrow> True
     | Some config \<Rightarrow> set (unwrap_or (trusted_sources config) []) \<subseteq> {da})"

text \<open>The network after a submission to the gateway.\<close>

definition after_submission :: "string \<Rightarrow> u64 \<Rightarrow> binary \<Rightarrow> gateway_state \<Rightarrow> gateway_out_msg response \<Rightarrow> network \<Rightarrow> network" where
  "after_submission gc round rand g res n = n\<lparr>net_gateway := g, to_proxy := to_proxy n @ packets_on gc (messages res),
     submissions := submissions n @ [(round, rand)]\<rparr>"

text \<open>
  A transaction on the drand contract runs the message it sends to the gateway at the address
  \<open>gw\<close> as part of it, with the drand contract as sender. Anybody else may submit to the
  gateway as well, under another address.
\<close>

inductive sys_step ::
  "'a api_scheme \<Rightarrow> drand_api \<Rightarrow> codec \<Rightarrow> origin_codec \<Rightarrow> nois_lib \<Rightarrow> string \<Rightarrow> string \<Rightarrow> addr \<Rightarrow> addr
    \<Rightarrow> system \<Rightarrow> system \<Rightarrow> bool"
  for api dapi codec oc lib pc gc da gw where
  drand_only:
    "drand_tx dapi t (sys_drand s) = Inr (d, res) \<Longrightarrow> forwarded gw res = [] \<Longrightarrow>
     sys_step api dapi codec oc lib pc gc da gw s (s\<lparr>sys_drand := d\<rparr>)"
| drand_forward:
    "drand_tx dapi t (sys_drand s) = Inr (d, res) \<Longrightarrow> forwarded gw res = [(round, rand, vtx)] \<Longrightarrow>
     execute_gateway api codec env \<lparr>sender = da, funds = []\<rparr> (gateway_execute_msg.AddVerifiedRound round rand vtx)
       (net_gateway (sys_net s)) = Inr (g, gres) \<Longrightarrow>
     sys_step api dapi codec oc lib pc gc da gw s
       (s\<lparr>sys_drand := d, sys_net := after_submission gc round rand g gres (sys_net s)\<rparr>)"
| foreign_submission:
    "execute_gateway api codec env info (gateway_execute_msg.AddVerifiedRound round rand vtx)
       (net_gateway (sys_net s)) = Inr (g, gres) \<Longrightarrow> sender info \<noteq> da \<Longrightarrow>
     sys_step api dapi codec oc lib pc gc da gw s (s\<lparr>sys_net := after_submission gc round rand g gres (sys_net s)\<rparr>)"
| network_only:
    "net_step api codec oc lib pc gc (sys_net s) n \<Longrightarrow> submissions n = submissions (sys_net s) \<Longrightarrow>
     trusted_only da (net_gateway n) \<Longrightarrow>
     sys_step api dapi codec oc lib pc gc da gw s (s\<lparr>sys_net := n\<rparr>)"

definition sys_start :: "drand_api \<Rightarrow> string \<Rightarrow> addr \<Rightarrow> system \<Rightarrow> bool" where
  "sys_start dapi gc da s \<longleftrightarrow> drand_inv dapi (sys_drand s) \<and> net_start gc (sys_net s) \<and>
     submissions (sys_net s) = [] \<and> trusted_only da (net_gateway (sys_net s))"

text \<open>Randomness is genuine for a round if it derives from a valid signature of the round.\<close>

definition genuine :: "drand_api \<Rightarrow> u64 \<Rightarrow> binary \<Rightarrow> bool" where
  "genuine dapi round rand \<longleftrightarrow> (\<exists>signature. valid_signature dapi round signature \<and> rand = derive_randomness dapi signature)"

lemma forwarded_genuine:
  assumes inv: "drand_inv dapi st" and step: "drand_tx dapi t st = Inr (st', res)"
    and fwd: "(round, rand, vtx) \<in> set (forwarded gw res)"
  shows "genuine dapi round rand"
  using step
proof (cases rule: drand_tx_cases)
  case (submit q env info r signature)
  from submit(2) show ?thesis
  proof (rule execute_add_round_Inr)
    fix config n bots payout rand' vtx' points
    assume check: "check_submission dapi r signature st = Inr (rand', vtx', submission_points (submissions_count st r))"
      and ms: "messages res = (case drand_config.gateway config of None \<Rightarrow> []
         | Some gw \<Rightarrow> [new_msg (WasmExecute gw (nois_gateway_execute_msg.AddVerifiedRound r rand' vtx') [])])
       @ (if amount payout \<noteq> 0 then [new_msg (BankSend (sender info) [payout])] else [])"
    have "round = r" "rand = rand'"
      using fwd by (auto simp: ms forwarded_def split: option.splits if_splits)
    moreover have "genuine dapi r rand'"
    proof (cases vtx')
      case True
      with check show ?thesis by (auto simp: check_submission_Inr genuine_def)
    next
      case False
      with check obtain b where "kv_may_load (BEACONS st) r = Some b" "verified_beacon.randomness b = rand'"
        by (auto simp: check_submission_Inr)
      with inv beacon_genuine [of dapi st r b] show ?thesis by (auto simp: drand_inv_def genuine_def)
    qed
    ultimately show ?thesis by simp
  qed
next
  case other
  with fwd show ?thesis by (simp add: forwarded_def)
qed

section \<open>Reachable states\<close>

lemma submission_config:
  assumes "execute_gateway api codec env info (gateway_execute_msg.AddVerifiedRound round rand vtx) g = Inr (g', res)"
    and "trusted_only da g"
  shows "sender info = da" and "gateway_inv g \<Longrightarrow> trusted_only da g'"
proof -
  from assms(1) have ok: "execute_add_verified_round codec env info round rand vtx g = Inr (g', res)" by simp
  then show "sender info = da"
    using assms(2) by (auto simp: add_verified_round_Inr trusted_only_def)
  show "trusted_only da g'" if "gateway_inv g"
    using assms(2) add_verified_round_frame [OF that ok] by (simp add: trusted_only_def)
qed

lemma sys_reach:
  assumes codec: "codec_ok codec" and start: "sys_start dapi gc da s0"
    and run: "(sys_step api dapi codec oc lib pc gc da gw)\<^sup>*\<^sup>* s0 s"
  shows "drand_inv dapi (sys_drand s) \<and> trusted_only da (net_gateway (sys_net s)) \<and>
     (net_step api codec oc lib pc gc)\<^sup>*\<^sup>* (sys_net s0) (sys_net s) \<and>
     (\<forall>(round, rand) \<in> set (submissions (sys_net s)). genuine dapi round rand)"
  using run
proof (induction rule: rtranclp_induct)
  case base
  show ?case using start by (simp add: sys_start_def)
next
  case (step s s')
  have g: "gateway_inv (net_gateway (sys_net s))"
    using net_reach_inv [OF codec, of gc "sys_net s0" api oc lib pc "sys_net s"] start step.IH by (simp add: sys_start_def net_inv_def)
  from step.hyps(2) show ?case
  proof cases
    case (drand_only t d res)
    with step.IH show ?thesis by (auto intro: beacon_book.handler_inv)
  next
    case (drand_forward t d res round rand vtx env g' gres)
    from step.IH forwarded_genuine [OF _ drand_forward(2), of round rand vtx gw] drand_forward(3)
    have "genuine dapi round rand" by simp
    moreover have "drand_inv dapi d" using step.IH drand_forward(2) by (auto intro: beacon_book.handler_inv)
    moreover have "net_step api codec oc lib pc gc (sys_net s) (sys_net s')"
      using submission [OF drand_forward(4)] by (simp add: drand_forward(1) after_submission_def)
    moreover have "trusted_only da g'" using submission_config(2) [OF drand_forward(4) _ g] step.IH by simp
    ultimately show ?thesis
      using step.IH by (auto simp: drand_forward(1) after_submission_def intro: rtranclp.rtrancl_into_rtrancl)
  next
    case (foreign_submission env info round rand vtx g' gres)
    then show ?thesis using submission_config(1) step.IH by blast
  next
    case (network_only n)
    with step.IH show ?thesis by (auto intro: rtranclp.rtrancl_into_rtrancl)
  qed
qed

section \<open>Callbacks of the system\<close>

lemma callback_genuine:
  assumes codec: "codec_ok codec" and oc: "origin_codec_ok oc" and start: "sys_start dapi gc da s0"
    and run: "(sys_step api dapi codec oc lib pc gc da gw)\<^sup>*\<^sup>* s0 s"
    and cb: "(d, a, cb) \<in> set (callbacks (sys_net s))"
  obtains info msg after d' where "(info, msg, d') \<in> set (requests (sys_net s))" and "sender info = a"
    and "requested_job msg = Some (job_id cb)"
    and "d' = enc_in_packet codec (RequestBeacon after (enc_origin oc \<lparr>rbo_sender = a, rbo_job_id = job_id cb\<rparr>))"
    and "after < published cb" and "publish_time (round_after after) = Some (published cb)"
    and "genuine dapi (round_after after) (randomness cb)"
proof -
  from start have n: "net_start gc (sys_net s0)" by (simp add: sys_start_def)
  from sys_reach [OF codec start run] have steps: "(net_step api codec oc lib pc gc)\<^sup>*\<^sup>* (sys_net s0) (sys_net s)"
    and gen: "\<And>r rand. (r, rand) \<in> set (submissions (sys_net s)) \<Longrightarrow> genuine dapi r rand" by auto
  obtain info msg after d' where "(info, msg, d') \<in> set (requests (sys_net s))" "sender info = a"
    "requested_job msg = Some (job_id cb)"
    "d' = enc_in_packet codec (RequestBeacon after (enc_origin oc \<lparr>rbo_sender = a, rbo_job_id = job_id cb\<rparr>))"
    and time: "time_of_round (round_after after) = (Inr (published cb) :: unit failure + timestamp)"
    and sub: "(round_after after, randomness cb) \<in> set (submissions (sys_net s))"
    by (rule callback_has_request [OF codec oc net_reach_inv [OF codec n steps] cb])
  then show ?thesis
    using gen [OF sub] round_after_le_iff [OF time, of after] by (intro that) (simp_all add: publish_time_eq_Some)
qed

section \<open>Settlement of a request\<close>

text \<open>What the payment contract does with the order of its gateway, and the sink with the burn of the payment contract.\<close>

lemma order_executed:
  assumes "payment_state.CONFIG pst = Some pconfig" and "payment_config.gateway pconfig = g" and "addr_validate api rel = Inr a"
  obtains res where "execute_payment api env \<lparr>sender = g, funds = []\<rparr> (Pay burn pool (rel, reward)) pst = Inr (pst, res)"
    and "sum_list (map (\<lambda>m. msg_funds d (sub_msg m)) (messages res)) = coins_of d [burn, reward]"
    and "amount burn \<noteq> 0 \<Longrightarrow> new_msg (WasmExecute (payment_config.sink pconfig) NoisSinkBurn [burn]) \<in> set (messages res)"
    and "amount pool \<noteq> 0 \<Longrightarrow> new_msg (Stargate MSG_FUND_COMMUNITY_POOL
        (encode_msg_fund_community_pool api pool (contract_address env))) \<in> set (messages res)"
  by (rule that) (use assms in \<open>simp add: execute_pay_Inr; fail\<close>, simp_all add: coins_of_def)

lemma burn_executed:
  assumes "denom coin = BURN_DENOM" and "unat (unwrap_or (ASHES_LAST_ID st) 0) < 2 ^ 32 - 1"
  obtains st' res where "execute_sink q env \<lparr>sender = a, funds = [coin]\<rparr> Burn st = Inr (st', res)"
    and "messages res = [new_msg (BankBurn [coin])]"
proof -
  define i where "i = unwrap_or (ASHES_LAST_ID st) 0 + 1"
  have "add_c (unwrap_or (ASHES_LAST_ID st) 0) 1 = (Inr i :: sink_error failure + u32)"
    using assms(2) by (simp add: add_c_def i_def)
  with assms(1) show ?thesis by (intro that) (simp add: execute_burn_Inr, simp)
qed

section \<open>A sample run\<close>

definition sample_system :: system where
  "sample_system = \<lparr>sys_drand = sample_drand_ready, sys_net = sample_network\<rparr>"

lemma sample_system_start: "sys_start sample_drand_api ''channel-1'' ''drand'' sample_system"
proof -
  have "drand_inv sample_drand_api sample_drand_ready"
    using drand_run_inv [OF sample_drand_instantiated, of sample_drand_api sample_drand_setup] by (simp only: sample_drand_setup_run)
  then show ?thesis
    using sample_network_start
    by (simp add: sys_start_def sample_system_def sample_network_def trusted_only_def sample_gateway_open_def sample_gateway_config_def)
qed

lemma sample_forward:
  obtains d res where "drand_tx sample_drand_api (sample_tx ''rival'' (AddRound 7438268 [188])) sample_drand_ready = Inr (d, res)"
    and "forwarded ''gw'' res = [(7438268, [188], True)]"
proof -
  have check: "check_submission sample_drand_api 7438268 [188] sample_drand_ready = Inr ([188], True, 50)"
    by (simp add: check_submission_Inr sample_drand_sel submission_points_def valid_signature_def sample_drand_api_def)
  show ?thesis
    by (rule that) (simp add: sample_tx_def execute_add_round_def load_config_drand_def check sample_drand_sel
       credit_bot_def add_c_def calculate_payout_def kv_may_load_def kv_has_def Let_def del: result_inversion,
       simp add: forwarded_def)
qed

abbreviation sample_step :: "system \<Rightarrow> system \<Rightarrow> bool" where
  "sample_step \<equiv> sys_step sample_api sample_drand_api sample_codec sample_origin_codec sample_nois_lib
     ''channel-0'' ''channel-1'' ''drand'' ''gw''"

abbreviation sample_beacon :: binary where
  "sample_beacon \<equiv> enc_out_packet sample_codec
     (DeliverBeacon (drand_source_id 7438268) 1700000001000000000 [188] sample_origin)"

lemma sample_system_trusted:
  "trusted_only ''drand'' (net_gateway sample_network_requested)" "trusted_only ''drand'' (net_gateway sample_network_queued)"
  by (simp_all add: trusted_only_def sample_network_defs sample_gateway_queued_jobs sample_customer sample_gateway_config_def)

lemma sample_system_queued:
  "sample_step\<^sup>*\<^sup>* sample_system (sample_system\<lparr>sys_net := sample_network_queued\<rparr>)"
proof -
  let ?s = "sample_system\<lparr>sys_net := sample_network_requested\<rparr>"
  have "sample_step sample_system ?s"
    using sample_network_request sample_system_trusted(1)
    by (intro network_only) (simp_all add: sample_system_def sample_network_defs)
  moreover have "sample_step ?s (?s\<lparr>sys_net := sample_network_queued\<rparr>)"
    using sample_network_relay sample_system_trusted(2) by (intro network_only) (simp_all add: sample_network_defs)
  ultimately show ?thesis by (simp add: rtranclp.rtrancl_into_rtrancl r_into_rtranclp)
qed

lemma sample_system_forwarded:
  obtains s where "sample_step (sample_system\<lparr>sys_net := sample_network_queued\<rparr>) s"
    and "sample_beacon \<in> set (to_proxy (sys_net s))" and "net_proxy (sys_net s) = sample_proxy"
    and "trusted_only ''drand'' (net_gateway (sys_net s))"
proof -
  let ?s = "sample_system\<lparr>sys_net := sample_network_queued\<rparr>"
  obtain d res where fwd: "drand_tx sample_drand_api (sample_tx ''rival'' (AddRound 7438268 [188])) (sys_drand ?s) = Inr (d, res)"
    "forwarded ''gw'' res = [(7438268, [188], True)]"
    using sample_forward by (auto simp: sample_system_def)
  have q: "net_gateway sample_network_queued = sample_queued sample_origin" by (simp add: sample_network_defs)
  have trusted: "sender \<lparr>sender = ''drand'', funds = []\<rparr> \<in> set (unwrap_or (trusted_sources sample_gateway_config) [])"
    by (simp add: sample_gateway_config_def)
  obtain g gres where g: "execute_gateway sample_api sample_codec sample_env \<lparr>sender = ''drand'', funds = []\<rparr>
      (gateway_execute_msg.AddVerifiedRound 7438268 [188] True) (net_gateway (sys_net ?s)) = Inr (g, gres)"
    and d: "packets_on ''channel-1'' (messages gres) = [sample_beacon]"
    by (rule add_verified_round_total [OF sample_queued_inv [OF sample_origin_length] sample_gateway_queued_jobs(2) trusted _
          sample_time sample_timeout, of sample_codec "[188]" True])
      (simp_all add: q sample_gateway_queued_jobs batch_def sample_job_of_def)
  have trusted': "trusted_only ''drand'' g"
    using submission_config(2) [OF g, of "''drand''"] sample_system_trusted(2) sample_queued_inv [OF sample_origin_length]
    by (simp add: q)
  from fwd g have "sample_step ?s (?s\<lparr>sys_drand := d, sys_net := after_submission ''channel-1'' 7438268 [188] g gres (sys_net ?s)\<rparr>)"
    by (rule drand_forward)
  then show ?thesis by (rule that) (simp_all add: after_submission_def d trusted', simp_all add: sample_network_defs)
qed

lemma sample_system_run:
  obtains s where "sample_step\<^sup>*\<^sup>* sample_system s"
    and "(sample_beacon, ''dapp'', \<lparr>job_id = ''job'', published = 1700000001000000000, randomness = [188]\<rparr>)
      \<in> set (callbacks (sys_net s))"
proof -
  obtain s where s: "sample_step (sample_system\<lparr>sys_net := sample_network_queued\<rparr>) s"
    "sample_beacon \<in> set (to_proxy (sys_net s))" "net_proxy (sys_net s) = sample_proxy"
    "trusted_only ''drand'' (net_gateway (sys_net s))"
    by (rule sample_system_forwarded)
  let ?m = "\<lparr>packet_data = sample_beacon, dest_channel_id = ''channel-0'', packet_relayer = ''rel''\<rparr>"
  obtain res where recv: "ibc_packet_receive_proxy sample_api sample_codec sample_origin_codec ?m (net_proxy (sys_net s))
      = (Inr (net_proxy (sys_net s), res) :: unit failure + proxy_state \<times> receiver_execute_msg ibc_receive_response)"
    and cb: "callbacks_of (messages res) = [(''dapp'', \<lparr>job_id = ''job'', published = 1700000001000000000, randomness = [188]\<rparr>)]"
    by (rule beacon_received [OF sample_codec_ok sample_origin_codec_ok, of "net_proxy (sys_net s)" sample_proxy_config ?m
          "drand_source_id 7438268" 1700000001000000000 "[188]" "''dapp''" "''job''" sample_api, where 'e = unit])
      (simp_all add: s(3) sample_proxy_def sample_origin_def)
  from relay_beacon [OF s(2) recv, of sample_nois_lib "''channel-1''"] obtain n where
    n: "net_step sample_api sample_codec sample_origin_codec sample_nois_lib ''channel-0'' ''channel-1'' (sys_net s) n"
    "submissions n = submissions (sys_net s)" "net_gateway n = net_gateway (sys_net s)"
    and c: "(sample_beacon, ''dapp'', \<lparr>job_id = ''job'', published = 1700000001000000000, randomness = [188]\<rparr>) \<in> set (callbacks n)"
    by (auto simp: cb)
  from n(1,2) have "sample_step s (s\<lparr>sys_net := n\<rparr>)" by (rule network_only) (simp add: n(3) s(4))
  with sample_system_queued s(1) have "sample_step\<^sup>*\<^sup>* sample_system (s\<lparr>sys_net := n\<rparr>)"
    by (meson rtranclp.rtrancl_into_rtrancl)
  then show ?thesis by (rule that) (simp add: c)
qed

end
