(* ===== verification/Icecube.thy ===== *)
theory Icecube
  imports Cosmos
begin

text \<open>
  contracts/nois-icecube: holds a supply of tokens its manager can stake but not withdraw. Funds
  leave it only towards the nois-drand contract, whose address is set once.
\<close>

datatype icecube_error = Std std_error | Unauthorized | ContractAlreadySet | NoisDrandAddressUnset

record icecube_config =
  manager :: addr
  drand :: "addr option"

record icecube_state = contract_state +
  CONFIG :: "icecube_config option"

definition empty_icecube_state :: icecube_state where
  "empty_icecube_state = \<lparr>CONTRACT_INFO = None, CONFIG = None\<rparr>"

datatype icecube_instantiate_msg = IcecubeInstantiateMsg (im_manager: string)

datatype icecube_execute_msg =
    Delegate string u128
  | Undelegate string u128
  | Redelegate string string u128
  | ClaimRewards string
  | SetDrandAddr string
  | SendFundsToDrand coin
  | SetManagerAddr string

datatype icecube_query_msg = QueryConfig

definition STAKING_DENOM :: string where
  "STAKING_DENOM = ''unois''"

definition load_config_icecube :: "icecube_state \<Rightarrow> icecube_error failure + icecube_config" where
  "load_config_icecube st = ok_or (Error (Std (NotFound ''config''))) (CONFIG st)"

definition instantiate_icecube ::
  "api \<Rightarrow> env \<Rightarrow> message_info \<Rightarrow> icecube_instantiate_msg \<Rightarrow> icecube_state
    \<Rightarrow> std_error failure + icecube_state \<times> unit response" where
  "instantiate_icecube api env info msg st =
     and_then (map_err Error (addr_validate api (im_manager msg))) (\<lambda>manager.
     let st1 = st\<lparr>CONFIG := Some \<lparr>manager = manager, drand = None\<rparr>\<rparr>
     in Inr (set_contract_version ''nois-icecube'' CARGO_PKG_VERSION st1, default_response))"

definition migrate_icecube ::
  "env \<Rightarrow> icecube_state \<Rightarrow> std_error failure + icecube_state \<times> unit response" where
  "migrate_icecube env st =
     Inr (set_contract_version ''nois-icecube'' CARGO_PKG_VERSION st, default_response)"

definition execute_send_funds_to_drand ::
  "env \<Rightarrow> coin \<Rightarrow> icecube_state \<Rightarrow> icecube_error failure + icecube_state \<times> unit response" where
  "execute_send_funds_to_drand env to_send st =
     and_then (load_config_icecube st) (\<lambda>config.
     case drand config of
       None \<Rightarrow> Inl (Error NoisDrandAddressUnset)
     | Some nois_drand_contract \<Rightarrow>
         Inr (st, \<lparr>messages = [new_msg (BankSend nois_drand_contract [to_send])],
                   attributes = [(''nois-icecube-sent-amount'', CoinText to_send)], events = []\<rparr>))"

definition execute_delegate ::
  "message_info \<Rightarrow> string \<Rightarrow> u128 \<Rightarrow> icecube_state
    \<Rightarrow> icecube_error failure + icecube_state \<times> unit response" where
  "execute_delegate info addr amt st =
     and_then (load_config_icecube st) (\<lambda>config.
     if sender info \<noteq> manager config then Inl (Error Unauthorized)
     else Inr (st, default_response\<lparr>messages :=
            [new_msg (StakingDelegate addr \<lparr>amount = amt, denom = STAKING_DENOM\<rparr>)]\<rparr>))"

definition execute_undelegate ::
  "message_info \<Rightarrow> string \<Rightarrow> u128 \<Rightarrow> icecube_state
    \<Rightarrow> icecube_error failure + icecube_state \<times> unit response" where
  "execute_undelegate info addr amt st =
     and_then (load_config_icecube st) (\<lambda>config.
     if sender info \<noteq> manager config then Inl (Error Unauthorized)
     else Inr (st, default_response\<lparr>messages :=
            [new_msg (StakingUndelegate addr \<lparr>amount = amt, denom = STAKING_DENOM\<rparr>)]\<rparr>))"

definition execute_redelegate ::
  "message_info \<Rightarrow> string \<Rightarrow> string \<Rightarrow> u128 \<Rightarrow> icecube_state
    \<Rightarrow> icecube_error failure + icecube_state \<times> unit response" where
  "execute_redelegate info src_addr dest_addr amt st =
     and_then (load_config_icecube st) (\<lambda>config.
     if sender info \<noteq> manager config then Inl (Error Unauthorized)
     else Inr (st, default_response\<lparr>messages :=
            [new_msg (StakingRedelegate src_addr dest_addr \<lparr>amount = amt, denom = STAKING_DENOM\<rparr>)]\<rparr>))"

definition execute_claim_rewards ::
  "string \<Rightarrow> icecube_state \<Rightarrow> icecube_error failure + icecube_state \<times> unit response" where
  "execute_claim_rewards addr st =
     Inr (st, default_response\<lparr>messages := [new_msg (WithdrawDelegatorReward addr)]\<rparr>)"

definition execute_set_drand_addr ::
  "api \<Rightarrow> message_info \<Rightarrow> env \<Rightarrow> string \<Rightarrow> icecube_state
    \<Rightarrow> icecube_error failure + icecube_state \<times> unit response" where
  "execute_set_drand_addr api info env addr st =
     and_then (load_config_icecube st) (\<lambda>config.
     if sender info \<noteq> manager config then Inl (Error Unauthorized)
     else if drand config \<noteq> None then Inl (Error ContractAlreadySet)
     else and_then (map_err (\<lambda>e. Error (Std e)) (addr_validate api addr)) (\<lambda>nois_drand_address.
       Inr (st\<lparr>CONFIG := Some (config\<lparr>drand := Some nois_drand_address\<rparr>)\<rparr>,
            default_response\<lparr>attributes := [(''nois-drand-address'', Text nois_drand_address)]\<rparr>)))"

definition execute_set_manager_addr ::
  "api \<Rightarrow> message_info \<Rightarrow> env \<Rightarrow> string \<Rightarrow> icecube_state
    \<Rightarrow> icecube_error failure + icecube_state \<times> unit response" where
  "execute_set_manager_addr api info env new_manager st =
     and_then (load_config_icecube st) (\<lambda>config.
     if sender info \<noteq> manager config then Inl (Error Unauthorized)
     else and_then (map_err (\<lambda>e. Error (Std e)) (addr_validate api new_manager)) (\<lambda>manager_addr.
       Inr (st\<lparr>CONFIG := Some (config\<lparr>manager := manager_addr\<rparr>)\<rparr>,
            default_response\<lparr>attributes := [(''manager'', Text manager_addr)]\<rparr>)))"

fun execute_icecube ::
  "api \<Rightarrow> env \<Rightarrow> message_info \<Rightarrow> icecube_execute_msg \<Rightarrow> icecube_state
    \<Rightarrow> icecube_error failure + icecube_state \<times> unit response" where
  "execute_icecube api env info (SendFundsToDrand to_send) st = execute_send_funds_to_drand env to_send st"
| "execute_icecube api env info (Delegate addr amt) st = execute_delegate info addr amt st"
| "execute_icecube api env info (Undelegate addr amt) st = execute_undelegate info addr amt st"
| "execute_icecube api env info (Redelegate src_addr dest_addr amt) st =
     execute_redelegate info src_addr dest_addr amt st"
| "execute_icecube api env info (ClaimRewards addr) st = execute_claim_rewards addr st"
| "execute_icecube api env info (SetDrandAddr addr) st = execute_set_drand_addr api info env addr st"
| "execute_icecube api env info (SetManagerAddr new_manager) st =
     execute_set_manager_addr api info env new_manager st"

definition query_config_icecube :: "icecube_state \<Rightarrow> std_error + icecube_config" where
  "query_config_icecube st = ok_or (NotFound ''config'') (CONFIG st)"

fun query_icecube :: "icecube_query_msg \<Rightarrow> icecube_state \<Rightarrow> std_error + icecube_config" where
  "query_icecube QueryConfig st = query_config_icecube st"

fun icecube_tx ::
  "api \<times> env \<times> message_info \<times> icecube_execute_msg \<Rightarrow> icecube_state
    \<Rightarrow> icecube_error failure + icecube_state \<times> unit response" where
  "icecube_tx (api, env, info, msg) st = execute_icecube api env info msg st"

lemmas icecube_defs = load_config_icecube_def execute_send_funds_to_drand_def execute_delegate_def
  execute_undelegate_def execute_redelegate_def execute_claim_rewards_def
  execute_set_drand_addr_def execute_set_manager_addr_def default_response_def

text \<open>The drand address as a history of at most one entry.\<close>

definition icecube_drand :: "icecube_state \<Rightarrow> unit \<Rightarrow> addr option" where
  "icecube_drand st _ = Option.bind (CONFIG st) drand"

interpretation icecube: history_machine icecube_tx "\<lambda>_. True" icecube_drand
proof unfold_locales
  show "icecube_drand st \<subseteq>\<^sub>m icecube_drand st'" if "icecube_tx t st = Inr (st', res)" for t st st' res
  proof -
    obtain api env info msg where t: "t = (api, env, info, msg)"
      by (cases t) auto
    show ?thesis using that unfolding t
      by (cases msg) (auto simp: icecube_defs icecube_drand_def map_le_def split: if_splits option.splits)
  qed
qed simp

lemma icecube_messages:
  assumes "icecube_tx t st = Inr (st', res)" and "m \<in> set (messages res)" and "msg_funds d (sub_msg m) \<noteq> 0"
  shows "\<exists>a c. sub_msg m = BankSend a [c] \<and> icecube_drand st () = Some a"
proof -
  obtain api env info msg where t: "t = (api, env, info, msg)" by (cases t) auto
  show ?thesis using assms unfolding t
    by (cases msg) (auto simp: icecube_defs icecube_drand_def split: if_splits option.splits)
qed

section \<open>Properties\<close>

text \<open>
  C37: Once the manager has set the address of the drand contract it never changes again, and whoever
  calls the contract, in every later state funds leave it only to that address.
\<close>

theorem funds_go_to_the_drand_contract_only:
  assumes "CONFIG st = Some config" and "drand config = Some a"
  shows "(\<exists>config'. CONFIG (run icecube_tx ts st) = Some config' \<and> drand config' = Some a) \<and>
     (\<forall>t st' res m d. icecube_tx t (run icecube_tx ts st) = Inr (st', res) \<and> m \<in> set (messages res) \<and>
        msg_funds d (sub_msg m) \<noteq> 0 \<longrightarrow> (\<exists>c. sub_msg m = BankSend a [c]))"
proof -
  have "icecube_drand st () = Some a" using assms by (simp add: icecube_drand_def)
  then have kept: "icecube_drand (run icecube_tx ts st) () = Some a" by (rule icecube.run_keeps [OF TrueI])
  then have "\<exists>config'. CONFIG (run icecube_tx ts st) = Some config' \<and> drand config' = Some a"
    by (simp add: icecube_drand_def bind_eq_Some_conv)
  with kept icecube_messages show ?thesis by fastforce
qed

theorem funds_go_to_the_drand_contract_only_witness:
  "\<exists>config'. CONFIG (run icecube_tx [(sample_api, sample_env, \<lparr>sender = ''mgr'', funds = []\<rparr>, SetDrandAddr ''other'')]
     \<lparr>CONTRACT_INFO = None, CONFIG = Some \<lparr>manager = ''mgr'', drand = Some ''drand''\<rparr>\<rparr>) = Some config' \<and> drand config' = Some ''drand''"
  using funds_go_to_the_drand_contract_only [of "\<lparr>CONTRACT_INFO = None, CONFIG = Some \<lparr>manager = ''mgr'', drand = Some ''drand''\<rparr>\<rparr>"
      "\<lparr>manager = ''mgr'', drand = Some ''drand''\<rparr>" "''drand''"
      "[(sample_api, sample_env, \<lparr>sender = ''mgr'', funds = []\<rparr>, SetDrandAddr ''other'')]"]
  by simp

end
