(* ===== verification/Monitoring.thy ===== *)
theory Monitoring
  imports NoisLib
begin

text \<open>
  contracts/nois-monitoring: a dapp that rolls dice through the proxy and records when each request
  was made and answered. Its outcomes are final and come only from the proxy.
\<close>

section \<open>State and messages\<close>

datatype monitoring_error =
    Std std_error
  | Unauthorized
  | InvalidProxyAddress
  | JobIdTooLong
  | JobIdAlreadyPresent
  | UnauthorizedReceive
  | InvalidRandomness

record job_lifecycle_request =
  jlr_height :: u64
  jlr_tx_index :: "u32 option"
  jlr_safety_margin :: u64
  jlr_after :: timestamp

record job_lifecycle_delivery =
  jld_published :: timestamp
  jld_height :: u64
  jld_tx_index :: "u32 option"

record monitoring_state =
  NOIS_PROXY :: "addr option"
  JOB_OUTCOMES :: "(string, u8) kv"
  JOB_REQUESTS :: "(string, job_lifecycle_request) kv"
  JOB_DELIVERIES :: "(string, job_lifecycle_delivery) kv"

definition empty_monitoring_state :: monitoring_state where
  "empty_monitoring_state = \<lparr>NOIS_PROXY = None, JOB_OUTCOMES = [], JOB_REQUESTS = [], JOB_DELIVERIES = []\<rparr>"

datatype monitoring_instantiate_msg = MonitoringInstantiateMsg (mim_nois_proxy: string)

datatype monitoring_execute_msg = RollDice string | NoisReceive nois_callback

datatype monitoring_query_msg =
    QueryOutcome string
  | QueryHistoryOfRounds
  | QueryRequest string
  | QueryDelivery string

datatype monitoring_query_response =
    OutcomeResponse "u8 option"
  | HistoryResponse "string list"
  | RequestResponse "job_lifecycle_request option"
  | DeliveryResponse "job_lifecycle_delivery option"

definition SAFETY_MARGIN :: u64 where
  "SAFETY_MARGIN = 5000000000"

section \<open>Entry points\<close>

definition instantiate_monitoring ::
  "'a api_scheme \<Rightarrow> env \<Rightarrow> message_info \<Rightarrow> monitoring_instantiate_msg \<Rightarrow> monitoring_state
    \<Rightarrow> monitoring_error failure + monitoring_state \<times> nois_proxy_execute_msg response" where
  "instantiate_monitoring api env info msg st =
     and_then (map_err (\<lambda>_. Error InvalidProxyAddress) (addr_validate api (mim_nois_proxy msg))) (\<lambda>nois_proxy_addr.
     Inr (st\<lparr>NOIS_PROXY := Some nois_proxy_addr\<rparr>,
          default_response\<lparr>attributes := [(''method'', Text ''instantiate''), (''owner'', Text (sender info))]\<rparr>))"

definition load_nois_proxy :: "monitoring_state \<Rightarrow> monitoring_error failure + addr" where
  "load_nois_proxy st = ok_or (Error (Std (NotFound ''nois_proxy''))) (NOIS_PROXY st)"

definition validate_job_id_monitoring :: "nois_lib \<Rightarrow> string \<Rightarrow> monitoring_error failure + unit" where
  "validate_job_id_monitoring lib job =
     (if MAX_JOB_ID_LEN lib < length job then Inl (Error JobIdTooLong) else Inr ())"

definition execute_roll_dice ::
  "nois_lib \<Rightarrow> env \<Rightarrow> message_info \<Rightarrow> string \<Rightarrow> monitoring_state
    \<Rightarrow> monitoring_error failure + monitoring_state \<times> nois_proxy_execute_msg response" where
  "execute_roll_dice lib env info job st =
     and_then (load_nois_proxy st) (\<lambda>nois_proxy.
     if kv_may_load (JOB_OUTCOMES st) job \<noteq> None then Inl (Error JobIdAlreadyPresent)
     else and_then (validate_job_id_monitoring lib job) (\<lambda>_.
          and_then (plus_nanos (block_time env) SAFETY_MARGIN) (\<lambda>after.
          let job_lifecycle = \<lparr>jlr_height = block_height env, jlr_tx_index = tx_index env,
                jlr_safety_margin = SAFETY_MARGIN, jlr_after = after\<rparr>
          in Inr (st\<lparr>JOB_REQUESTS := kv_save job job_lifecycle (JOB_REQUESTS st)\<rparr>,
                  default_response\<lparr>messages := [new_msg (WasmExecute nois_proxy
                    (ProxyGetRandomnessAfter after job) (funds info))]\<rparr>))))"

definition execute_receive_monitoring ::
  "nois_lib \<Rightarrow> env \<Rightarrow> message_info \<Rightarrow> nois_callback \<Rightarrow> monitoring_state
    \<Rightarrow> monitoring_error failure + monitoring_state \<times> nois_proxy_execute_msg response" where
  "execute_receive_monitoring lib env info callback st =
     and_then (load_nois_proxy st) (\<lambda>proxy.
     if sender info \<noteq> proxy then Inl (Error UnauthorizedReceive)
     else and_then (map_err (\<lambda>_. Error InvalidRandomness) (to_array_32 (randomness callback))) (\<lambda>rand.
          let dice_outcome = roll_dice lib rand
          in case kv_may_load (JOB_OUTCOMES st) (job_id callback) of
               Some _ \<Rightarrow> Inl (Error JobIdAlreadyPresent)
             | None \<Rightarrow>
                 let st1 = st\<lparr>JOB_OUTCOMES := kv_save (job_id callback) dice_outcome (JOB_OUTCOMES st)\<rparr>;
                     st2 = st1\<lparr>JOB_DELIVERIES := kv_save (job_id callback)
                       \<lparr>jld_published = published callback, jld_height = block_height env, jld_tx_index = tx_index env\<rparr>
                       (JOB_DELIVERIES st1)\<rparr>
                 in Inr (st2, default_response)))"

fun execute_monitoring ::
  "nois_lib \<Rightarrow> env \<Rightarrow> message_info \<Rightarrow> monitoring_execute_msg \<Rightarrow> monitoring_state
    \<Rightarrow> monitoring_error failure + monitoring_state \<times> nois_proxy_execute_msg response" where
  "execute_monitoring lib env info (RollDice job) st = execute_roll_dice lib env info job st"
| "execute_monitoring lib env info (NoisReceive callback) st = execute_receive_monitoring lib env info callback st"

definition query_outcome :: "monitoring_state \<Rightarrow> string \<Rightarrow> u8 option" where
  "query_outcome st job = kv_may_load (JOB_OUTCOMES st) job"

definition query_get_request :: "monitoring_state \<Rightarrow> string \<Rightarrow> job_lifecycle_request option" where
  "query_get_request st job = kv_may_load (JOB_REQUESTS st) job"

definition query_get_delivery :: "monitoring_state \<Rightarrow> string \<Rightarrow> job_lifecycle_delivery option" where
  "query_get_delivery st job = kv_may_load (JOB_DELIVERIES st) job"

definition query_history :: "monitoring_state \<Rightarrow> string list" where
  "query_history st =
     map (\<lambda>(i, v). i @ '':'' @ show_word v) (kv_range None None Ascending (JOB_OUTCOMES st))"

fun query_monitoring :: "monitoring_query_msg \<Rightarrow> monitoring_state \<Rightarrow> monitoring_query_response" where
  "query_monitoring QueryHistoryOfRounds st = HistoryResponse (query_history st)"
| "query_monitoring (QueryOutcome job) st = OutcomeResponse (query_outcome st job)"
| "query_monitoring (QueryRequest job) st = RequestResponse (query_get_request st job)"
| "query_monitoring (QueryDelivery job) st = DeliveryResponse (query_get_delivery st job)"

fun monitoring_tx ::
  "nois_lib \<Rightarrow> env \<times> message_info \<times> monitoring_execute_msg \<Rightarrow> monitoring_state
    \<Rightarrow> monitoring_error failure + monitoring_state \<times> nois_proxy_execute_msg response" where
  "monitoring_tx lib (env, info, msg) st = execute_monitoring lib env info msg st"

section \<open>The log of outcomes\<close>

lemma execute_roll_dice_Inr:
  "execute_roll_dice lib env info job st = Inr (st', res) \<longleftrightarrow>
     (\<exists>proxy after. NOIS_PROXY st = Some proxy \<and> kv_may_load (JOB_OUTCOMES st) job = None \<and>
        length job \<le> MAX_JOB_ID_LEN lib \<and> plus_nanos (block_time env) SAFETY_MARGIN = (Inr after :: monitoring_error failure + timestamp) \<and>
        st' = st\<lparr>JOB_REQUESTS := kv_save job \<lparr>jlr_height = block_height env, jlr_tx_index = tx_index env,
          jlr_safety_margin = SAFETY_MARGIN, jlr_after = after\<rparr> (JOB_REQUESTS st)\<rparr> \<and>
        res = default_response\<lparr>messages := [new_msg (WasmExecute proxy (ProxyGetRandomnessAfter after job) (funds info))]\<rparr>)"
  by (auto simp: execute_roll_dice_def load_nois_proxy_def validate_job_id_monitoring_def Let_def split: if_splits)

lemma execute_receive_monitoring_Inr:
  "execute_receive_monitoring lib env info cb st = Inr (st', res) \<longleftrightarrow>
     NOIS_PROXY st = Some (sender info) \<and> length (randomness cb) = 32 \<and> kv_may_load (JOB_OUTCOMES st) (job_id cb) = None \<and>
     st' = st\<lparr>JOB_OUTCOMES := kv_save (job_id cb) (roll_dice lib (randomness cb)) (JOB_OUTCOMES st),
       JOB_DELIVERIES := kv_save (job_id cb) \<lparr>jld_published = published cb, jld_height = block_height env,
         jld_tx_index = tx_index env\<rparr> (JOB_DELIVERIES st)\<rparr> \<and>
     res = default_response"
  by (auto simp: execute_receive_monitoring_def load_nois_proxy_def to_array_32_def Let_def split: if_splits option.splits)

text \<open>Outcomes and deliveries are recorded together.\<close>

definition monitoring_inv :: "monitoring_state \<Rightarrow> bool" where
  "monitoring_inv st \<longleftrightarrow> NOIS_PROXY st \<noteq> None \<and> (\<forall>job. kv_has (JOB_OUTCOMES st) job = kv_has (JOB_DELIVERIES st) job)"

lemma monitoring_tx_inv:
  "monitoring_inv st \<Longrightarrow> monitoring_tx lib t st = Inr (st', res) \<Longrightarrow> monitoring_inv st'"
  by (cases t; cases "snd (snd t)")
    (auto simp: monitoring_inv_def execute_roll_dice_Inr execute_receive_monitoring_Inr)

interpretation dice_log: history_machine "monitoring_tx lib" monitoring_inv "\<lambda>st. kv_may_load (JOB_OUTCOMES st)" for lib
proof
  show "monitoring_inv s \<Longrightarrow> monitoring_tx lib m s = Inr (s', r) \<Longrightarrow> monitoring_inv s'" for s m s' r
    by (rule monitoring_tx_inv)
  show "kv_may_load (JOB_OUTCOMES s) \<subseteq>\<^sub>m kv_may_load (JOB_OUTCOMES s')" if "monitoring_tx lib m s = Inr (s', r)" for s m s' r
    using that by (cases m; cases "snd (snd m)")
      (auto simp: execute_roll_dice_Inr execute_receive_monitoring_Inr map_le_def)
qed

lemma monitoring_inv_init:
  "instantiate_monitoring api env info msg empty_monitoring_state = Inr (st, res) \<Longrightarrow> monitoring_inv st"
  by (auto simp: instantiate_monitoring_def monitoring_inv_def empty_monitoring_state_def)

section \<open>Properties\<close>

definition sample_monitoring :: monitoring_state where
  "sample_monitoring = \<lparr>NOIS_PROXY = Some ''proxy'', JOB_OUTCOMES = [(''job'', 3)], JOB_REQUESTS = [],
     JOB_DELIVERIES = [(''job'', \<lparr>jld_published = 9, jld_height = 7, jld_tx_index = None\<rparr>)]\<rparr>"

definition sample_callback :: "string \<Rightarrow> nois_callback" where
  "sample_callback job = \<lparr>job_id = job, published = 9, randomness = replicate 32 5\<rparr>"

lemma sample_monitoring_inv: "monitoring_inv sample_monitoring"
  by (simp add: monitoring_inv_def sample_monitoring_def kv_has_def kv_may_load_def)

text \<open>
  C38: History cannot be changed: an outcome that has been recorded for a job is the answer to every
  later query, whatever is executed in between.
\<close>

theorem outcomes_are_final:
  assumes "monitoring_inv st" and "query_outcome st job = Some v"
  shows "query_outcome (run (monitoring_tx lib) ts st) job = Some v"
  using dice_log.run_keeps [OF assms(1), of job v lib ts] assms(2) by (simp add: query_outcome_def)

theorem outcomes_are_final_witness:
  "query_outcome (run (monitoring_tx sample_nois_lib) [(sample_env, \<lparr>sender = ''proxy'', funds = []\<rparr>,
     NoisReceive (sample_callback ''job''))] sample_monitoring) ''job'' = Some 3"
  by (rule outcomes_are_final [OF sample_monitoring_inv]) (simp add: query_outcome_def sample_monitoring_def kv_may_load_def)

text \<open>
  An outcome is recorded only in a callback of the proxy with 32 bytes of randomness; it is the
  roll of the dice for that randomness, and the delivery is recorded with it.
\<close>

theorem outcomes_come_from_the_proxy:
  assumes "monitoring_tx lib (env, info, msg) st = Inr (st', res)" and "query_outcome st' job \<noteq> query_outcome st job"
  shows "\<exists>cb d. msg = NoisReceive cb \<and> job_id cb = job \<and> NOIS_PROXY st = Some (sender info) \<and> length (randomness cb) = 32 \<and>
     query_outcome st job = None \<and> query_outcome st' job = Some (roll_dice lib (randomness cb)) \<and>
     query_get_delivery st' job = Some d \<and> jld_published d = published cb"
  using assms
  by (cases msg) (auto simp: execute_roll_dice_Inr execute_receive_monitoring_Inr query_outcome_def query_get_delivery_def
      split: if_splits)

theorem outcomes_come_from_the_proxy_witness:
  "\<exists>st' res. monitoring_tx sample_nois_lib (sample_env, \<lparr>sender = ''proxy'', funds = []\<rparr>, NoisReceive (sample_callback ''new''))
      sample_monitoring = Inr (st', res) \<and> query_outcome st' ''new'' = Some 3"
proof -
  obtain st' res where step: "monitoring_tx sample_nois_lib (sample_env, \<lparr>sender = ''proxy'', funds = []\<rparr>,
      NoisReceive (sample_callback ''new'')) sample_monitoring = Inr (st', res)"
    and changed: "query_outcome st' ''new'' \<noteq> query_outcome sample_monitoring ''new''"
    by (auto simp: execute_receive_monitoring_Inr query_outcome_def sample_monitoring_def sample_callback_def kv_may_load_def)
  from step outcomes_come_from_the_proxy [OF step changed] show ?thesis by (auto simp: sample_nois_lib_def)
qed

end
