(* ===== verification/Demo.thy ===== *)
theory Demo
  imports NoisLib
begin

text \<open>
  contracts/nois-demo: a dapp that estimates pi from one beacon, by counting how many of 10,000
  random points of the unit square lie within the circle.
\<close>

section \<open>Decimals\<close>

text \<open>
  \<open>cosmwasm_std::Decimal\<close> holds 18 decimal places in a \<open>Uint128\<close>. Products are formed in full
  width and rounded down; what does not fit panics.
\<close>

definition DECIMAL_ONE :: u128 where
  "DECIMAL_ONE = 1000000000000000000"

definition decimal_mul :: "u128 \<Rightarrow> u128 \<Rightarrow> 'e failure + u128" where
  "decimal_mul x y =
     (let r = unat x * unat y div 10 ^ 18
      in if r < 2 ^ 128 then Inr (of_nat r) else Inl (Panic ''attempt to multiply with overflow''))"

datatype checked_from_ratio_error = DivideByZero | Overflow

definition checked_from_ratio :: "u128 \<Rightarrow> u128 \<Rightarrow> checked_from_ratio_error + u128" where
  "checked_from_ratio n d =
     (if d = 0 then Inl DivideByZero
      else let r = unat n * 10 ^ 18 div unat d
           in if r < 2 ^ 128 then Inr (of_nat r) else Inl Overflow)"

section \<open>State and messages\<close>

datatype demo_error = Std std_error | InvalidProxyAddress | UnauthorizedReceive | InvalidRandomness

record demo_state =
  NOIS_PROXY :: "addr option"
  RESULTS :: "(string, u128) kv"

definition empty_demo_state :: demo_state where
  "empty_demo_state = \<lparr>NOIS_PROXY = None, RESULTS = []\<rparr>"

datatype demo_instantiate_msg = DemoInstantiateMsg (dim_nois_proxy: string)

datatype demo_execute_msg = EstimatePi string | NoisReceive nois_callback

datatype demo_query_msg = QueryResults | QueryResult string

datatype demo_query_response = ResultsResponse "string list" | ResultResponse "u128 option"

section \<open>Entry points\<close>

definition instantiate_demo ::
  "'a api_scheme \<Rightarrow> env \<Rightarrow> message_info \<Rightarrow> demo_instantiate_msg \<Rightarrow> demo_state
    \<Rightarrow> demo_error failure + demo_state \<times> nois_proxy_execute_msg response" where
  "instantiate_demo api env info msg st =
     and_then (map_err (\<lambda>_. Error InvalidProxyAddress) (addr_validate api (dim_nois_proxy msg))) (\<lambda>nois_proxy_addr.
     Inr (st\<lparr>NOIS_PROXY := Some nois_proxy_addr\<rparr>,
          default_response\<lparr>attributes := [(''action'', Text ''instantiate''), (''nois_proxy'', Text (dim_nois_proxy msg))]\<rparr>))"

definition load_nois_proxy_demo :: "demo_state \<Rightarrow> demo_error failure + addr" where
  "load_nois_proxy_demo st = ok_or (Error (Std (NotFound ''nois_proxy''))) (NOIS_PROXY st)"

definition execute_estimate_pi ::
  "env \<Rightarrow> message_info \<Rightarrow> string \<Rightarrow> demo_state
    \<Rightarrow> demo_error failure + demo_state \<times> nois_proxy_execute_msg response" where
  "execute_estimate_pi env info job st =
     and_then (load_nois_proxy_demo st) (\<lambda>nois_proxy.
     Inr (st, default_response\<lparr>messages :=
       [new_msg (WasmExecute nois_proxy (ProxyGetNextRandomness job) (funds info))]\<rparr>))"

definition ROUNDS :: u32 where
  "ROUNDS = 10000"

text \<open>The loop over the rounds: \<open>n\<close> rounds to go, \<open>k\<close> values taken from the provider.\<close>

fun count_inside :: "nois_lib \<Rightarrow> binary \<Rightarrow> nat \<Rightarrow> nat \<Rightarrow> u32 \<Rightarrow> 'e failure + u32" where
  "count_inside lib seed 0 k inside = Inr inside"
| "count_inside lib seed (Suc n) k inside =
     (let x = random_decimal lib (sub_randomness lib seed k);
          y = random_decimal lib (sub_randomness lib seed (Suc k))
      in and_then (decimal_mul x x) (\<lambda>xx.
         and_then (decimal_mul y y) (\<lambda>yy.
         and_then (add_c xx yy) (\<lambda>s.
         and_then (if s < DECIMAL_ONE then add_c inside 1 else Inr inside) (\<lambda>inside1.
         count_inside lib seed n (Suc (Suc k)) inside1)))))"

definition execute_receive_demo ::
  "nois_lib \<Rightarrow> env \<Rightarrow> message_info \<Rightarrow> nois_callback \<Rightarrow> demo_state
    \<Rightarrow> demo_error failure + demo_state \<times> nois_proxy_execute_msg response" where
  "execute_receive_demo lib env info callback st =
     and_then (load_nois_proxy_demo st) (\<lambda>proxy.
     if sender info \<noteq> proxy then Inl (Error UnauthorizedReceive)
     else and_then (map_err (\<lambda>_. Error InvalidRandomness) (to_array_32 (randomness callback))) (\<lambda>rand.
          and_then (count_inside lib rand (unat ROUNDS) 0 0) (\<lambda>inside.
          and_then (case checked_from_ratio (ucast inside) (ucast ROUNDS) of
              Inr val \<Rightarrow> Inr val
            | Inl Overflow \<Rightarrow> Inl (Panic ''Input value too low to exceed range'')
            | Inl DivideByZero \<Rightarrow> Inl (Panic ''Number of rounds must not ne zero'')) (\<lambda>in_circle_ratio.
          let four = 4 * DECIMAL_ONE
          in and_then (decimal_mul in_circle_ratio four) (\<lambda>estimated_pi.
             Inr (st\<lparr>RESULTS := kv_save (job_id callback) estimated_pi (RESULTS st)\<rparr>, default_response))))))"

fun execute_demo ::
  "nois_lib \<Rightarrow> env \<Rightarrow> message_info \<Rightarrow> demo_execute_msg \<Rightarrow> demo_state
    \<Rightarrow> demo_error failure + demo_state \<times> nois_proxy_execute_msg response" where
  "execute_demo lib env info (EstimatePi job) st = execute_estimate_pi env info job st"
| "execute_demo lib env info (NoisReceive callback) st = execute_receive_demo lib env info callback st"

text \<open>The rendering of a \<open>Decimal\<close> is an argument.\<close>

definition query_results :: "(u128 \<Rightarrow> string) \<Rightarrow> demo_state \<Rightarrow> string list" where
  "query_results show_decimal st =
     map (\<lambda>(i, v). i @ '':'' @ show_decimal v) (kv_range None None Ascending (RESULTS st))"

definition query_result :: "demo_state \<Rightarrow> string \<Rightarrow> u128 option" where
  "query_result st job = kv_may_load (RESULTS st) job"

fun query_demo :: "(u128 \<Rightarrow> string) \<Rightarrow> demo_query_msg \<Rightarrow> demo_state \<Rightarrow> demo_query_response" where
  "query_demo show_decimal QueryResults st = ResultsResponse (query_results show_decimal st)"
| "query_demo show_decimal (QueryResult job) st = ResultResponse (query_result st job)"

section \<open>The estimate\<close>

text \<open>What the crate documents of \<open>random_decimal\<close>: its values lie between 0 and 1, excluding 1.\<close>

definition random_decimals_below_one :: "nois_lib \<Rightarrow> bool" where
  "random_decimals_below_one lib \<longleftrightarrow> (\<forall>b. unat (random_decimal lib b) < 10 ^ 18)"

text \<open>Whether the point made of the k-th value and the next one lies in the circle, on integers.\<close>

definition in_circle :: "nois_lib \<Rightarrow> binary \<Rightarrow> nat \<Rightarrow> bool" where
  "in_circle lib seed k \<longleftrightarrow>
     (let x = unat (random_decimal lib (sub_randomness lib seed k));
          y = unat (random_decimal lib (sub_randomness lib seed (Suc k)))
      in x * x div 10 ^ 18 + y * y div 10 ^ 18 < 10 ^ 18)"

fun points_inside :: "nois_lib \<Rightarrow> binary \<Rightarrow> nat \<Rightarrow> nat \<Rightarrow> nat" where
  "points_inside lib seed 0 k = 0"
| "points_inside lib seed (Suc n) k = (if in_circle lib seed k then 1 else 0) + points_inside lib seed n (Suc (Suc k))"

lemma points_inside_le: "points_inside lib seed n k \<le> n"
proof (induction n arbitrary: k)
  case (Suc n)
  show ?case using Suc [of "Suc (Suc k)"] by simp
qed simp

lemma decimal_square:
  assumes "unat x < 10 ^ 18"
  shows "\<exists>r. decimal_mul x x = (Inr r :: 'e failure + u128) \<and> unat r = unat x * unat x div 10 ^ 18 \<and> unat r < 10 ^ 18"
proof -
  have "unat x * unat x < 10 ^ 18 * 10 ^ 18" using assms by (intro mult_strict_mono) simp_all
  then have small: "unat x * unat x div 10 ^ 18 < 10 ^ 18" by (intro less_mult_imp_div_less) simp
  then have "unat (of_nat (unat x * unat x div 10 ^ 18) :: u128) = unat x * unat x div 10 ^ 18"
    by (intro unat_of_nat_small) simp
  with small show ?thesis by (simp add: decimal_mul_def Let_def)
qed

lemma count_inside_Inr:
  assumes "random_decimals_below_one lib" and "unat inside + n < 2 ^ 32"
  shows "\<exists>r. count_inside lib seed n k inside = (Inr r :: 'e failure + u32) \<and> unat r = unat inside + points_inside lib seed n k"
  using assms(2)
proof (induction n arbitrary: k inside)
  case (Suc n)
  let ?x = "random_decimal lib (sub_randomness lib seed k)" and ?y = "random_decimal lib (sub_randomness lib seed (Suc k))"
  obtain xx yy where sq: "decimal_mul ?x ?x = (Inr xx :: 'e failure + u128)" "unat xx = unat ?x * unat ?x div 10 ^ 18" "unat xx < 10 ^ 18"
    "decimal_mul ?y ?y = (Inr yy :: 'e failure + u128)" "unat yy = unat ?y * unat ?y div 10 ^ 18" "unat yy < 10 ^ 18"
    using decimal_square [of ?x] decimal_square [of ?y] assms(1) unfolding random_decimals_below_one_def by blast
  have add: "add_c xx yy = (Inr (xx + yy) :: 'e failure + u128)" and sum: "unat (xx + yy) = unat xx + unat yy"
    using sq(3,6) unat_add_lem [of xx yy] by (simp_all add: add_c_def)
  have circle: "xx + yy < DECIMAL_ONE \<longleftrightarrow> in_circle lib seed k"
    using sq(2,5) sum by (simp add: word_less_nat_alt DECIMAL_ONE_def in_circle_def Let_def)
  have one: "add_c inside 1 = (Inr (inside + 1) :: 'e failure + u32)" "unat (inside + 1) = Suc (unat inside)"
    using Suc.prems unat_add_lem [of inside 1] by (simp_all add: add_c_def)
  show ?case
  proof (cases "in_circle lib seed k")
    case True
    from Suc.IH [of "inside + 1" "Suc (Suc k)"] Suc.prems one True show ?thesis
      by (simp add: Let_def sq(1,4) add circle del: result_inversion)
  next
    case False
    from Suc.IH [of inside "Suc (Suc k)"] Suc.prems False show ?thesis
      by (simp add: Let_def sq(1,4) add circle del: result_inversion)
  qed
qed simp

lemma ratio_times_four:
  assumes "unat inside \<le> 10000"
  shows "\<exists>val est. checked_from_ratio (ucast (inside :: u32)) (ucast ROUNDS) = Inr val \<and>
     decimal_mul val (4 * DECIMAL_ONE) = (Inr est :: 'e failure + u128) \<and> unat est = unat inside * (4 * 10 ^ 14)"
proof -
  have u: "unat (ucast inside :: u128) = unat inside" "unat (ucast ROUNDS :: u128) = 10000" "(ucast ROUNDS :: u128) \<noteq> 0"
    using unat_less [of inside] by (simp_all add: ROUNDS_def unsigned_ucast_eq take_bit_nat_eq_self)
  have div: "unat inside * 10 ^ 18 div 10000 = unat inside * 10 ^ 14" by simp
  define val :: u128 where "val = of_nat (unat inside * 10 ^ 14)"
  define est :: u128 where "est = of_nat (unat inside * (4 * 10 ^ 14))"
  have val: "unat val = unat inside * 10 ^ 14" unfolding val_def
    by (rule unat_of_nat_small) (use assms in simp)
  have est: "unat est = unat inside * (4 * 10 ^ 14)" unfolding est_def
    by (rule unat_of_nat_small) (use assms in simp)
  have "checked_from_ratio (ucast inside) (ucast ROUNDS) = Inr val"
    using assms by (simp add: checked_from_ratio_def u div val_def)
  moreover have "decimal_mul val (4 * DECIMAL_ONE) = (Inr est :: 'e failure + u128)"
    using assms by (simp add: decimal_mul_def val DECIMAL_ONE_def est_def)
  ultimately show ?thesis using est by blast
qed

section \<open>Properties\<close>

text \<open>
  C39: A callback of the proxy with 32 bytes of randomness always yields an estimate, none of the checked
  operations on the way overflows, and the estimate is exactly four times the share of the 10,000 points that lie
  in the circle; in particular it lies between 0 and 4.
\<close>

theorem estimate_is_four_times_the_share:
  assumes "random_decimals_below_one lib" and "NOIS_PROXY st = Some (sender info)" and "length (randomness cb) = 32"
  shows "\<exists>st' res est. execute_demo lib env info (NoisReceive cb) st = Inr (st', res) \<and>
     query_result st' (job_id cb) = Some est \<and>
     unat est * 10000 = 4 * 10 ^ 18 * points_inside lib (randomness cb) 10000 0 \<and> unat est \<le> 4 * 10 ^ 18"
proof -
  obtain inside where inside: "count_inside lib (randomness cb) (unat ROUNDS) 0 0 = (Inr inside :: demo_error failure + u32)"
    "unat inside = points_inside lib (randomness cb) 10000 0"
    using count_inside_Inr [OF assms(1), of 0 10000 "randomness cb" 0] by (auto simp: ROUNDS_def)
  then have le: "unat inside \<le> 10000" using points_inside_le [of lib "randomness cb" 10000 0] by simp
  then obtain val est where "checked_from_ratio (ucast inside) (ucast ROUNDS) = Inr val"
    "decimal_mul val (4 * DECIMAL_ONE) = (Inr est :: demo_error failure + u128)" and est: "unat est = unat inside * (4 * 10 ^ 14)"
    using ratio_times_four by blast
  with inside(1) assms(2,3) have "execute_demo lib env info (NoisReceive cb) st
      = Inr (st\<lparr>RESULTS := kv_save (job_id cb) est (RESULTS st)\<rparr>, default_response)"
    by (simp add: execute_receive_demo_def load_nois_proxy_demo_def to_array_32_def Let_def del: result_inversion)
  moreover have "unat est * 10000 = 4 * 10 ^ 18 * points_inside lib (randomness cb) 10000 0" "unat est \<le> 4 * 10 ^ 18"
    using est inside(2) le by simp_all
  ultimately show ?thesis by (auto simp: query_result_def)
qed

theorem estimate_is_four_times_the_share_witness:
  "\<exists>st' res est. execute_demo sample_nois_lib sample_env \<lparr>sender = ''proxy'', funds = []\<rparr>
       (NoisReceive \<lparr>job_id = ''job'', published = 9, randomness = replicate 32 5\<rparr>) \<lparr>NOIS_PROXY = Some ''proxy'', RESULTS = []\<rparr>
      = Inr (st', res) \<and> query_result st' ''job'' = Some est \<and> unat est \<le> 4 * 10 ^ 18"
  using estimate_is_four_times_the_share [of sample_nois_lib "\<lparr>NOIS_PROXY = Some ''proxy'', RESULTS = []\<rparr>"
      "\<lparr>sender = ''proxy'', funds = []\<rparr>" "\<lparr>job_id = ''job'', published = 9, randomness = replicate 32 5\<rparr>" sample_env]
  by (auto simp: random_decimals_below_one_def sample_nois_lib_def)

end
