(* ===== verification/Deployment.thy ===== *)
theory Deployment
  imports Prelude
begin

text \<open>
  packages/misc/src/mainnet_addresses.rs: the addresses of nois-icecube and nois-sink on the main
  network, computed from the checksum of the code, the deploying account and a salt. The crates
  hex and bech32 and the function \<open>instantiate2_address\<close> are the fields of a record.
\<close>

datatype bech32_variant = Bech32 | Bech32m

record address_lib =
  hex_decode :: "string \<Rightarrow> unit + binary"
  bech32_decode :: "string \<Rightarrow> unit + string \<times> u8 list \<times> bech32_variant"
  from_base32 :: "u8 list \<Rightarrow> unit + binary"
  to_base32 :: "binary \<Rightarrow> u8 list"
  bech32_encode :: "string \<Rightarrow> u8 list \<Rightarrow> bech32_variant \<Rightarrow> unit + string"
  address_of_instance :: "binary \<Rightarrow> binary \<Rightarrow> binary \<Rightarrow> unit + binary"

text \<open>\<open>Result::unwrap\<close>\<close>

definition unwrap :: "'x + 'a \<Rightarrow> unit failure + 'a" where
  "unwrap r = map_err (\<lambda>_. Panic ''called `Result::unwrap()` on an `Err` value'') r"

definition DEPLOYMENTS :: string where
  "DEPLOYMENTS = ''nois1p9tw323xdjp5q3yzuecfahmgrpufmm89z93wpk''"

definition PREFIX :: string where
  "PREFIX = ''nois''"

definition SALT :: binary where
  "SALT = [1]"

definition icecube_address :: "address_lib \<Rightarrow> unit failure + string" where
  "icecube_address lib =
     and_then (unwrap (hex_decode lib ''b8cc8ae4201ee757a70c1e6d8b72c3afb94fc36ba95294ab0614011069de0fe5'')) (\<lambda>checksum.
     and_then (unwrap (bech32_decode lib DEPLOYMENTS)) (\<lambda>(_, creator_data, _).
     and_then (unwrap (from_base32 lib creator_data)) (\<lambda>creator.
     and_then (unwrap (address_of_instance lib checksum creator SALT)) (\<lambda>icecube_data.
     unwrap (bech32_encode lib PREFIX (to_base32 lib icecube_data) Bech32)))))"

definition sink_address :: "address_lib \<Rightarrow> unit failure + string" where
  "sink_address lib =
     and_then (unwrap (hex_decode lib ''cb7b021831dd908b673491288b7a76f7ae973b8c1586ce41d9a69cadab5202c7'')) (\<lambda>checksum.
     and_then (unwrap (bech32_decode lib DEPLOYMENTS)) (\<lambda>(_, creator_data, _).
     and_then (unwrap (from_base32 lib creator_data)) (\<lambda>creator.
     and_then (unwrap (address_of_instance lib checksum creator SALT)) (\<lambda>sink_data.
     unwrap (bech32_encode lib PREFIX (to_base32 lib sink_data) Bech32)))))"

lemma unwrap_eq_Inr [simp]: "unwrap r = Inr x \<longleftrightarrow> r = Inr x"
  by (cases r) (simp_all add: unwrap_def)

text \<open>
  The two contracts have different addresses, as the functions involved do not map two arguments to one
  value (for \<open>instantiate2_address\<close>: the checksums differ under the same creator and salt).
\<close>

lemma deployed_addresses_differ:
  assumes "\<And>s t x. hex_decode lib s = Inr x \<Longrightarrow> hex_decode lib t = Inr x \<Longrightarrow> s = t"
    and "\<And>c d x. address_of_instance lib c a SALT = Inr x \<Longrightarrow> address_of_instance lib d a SALT = Inr x \<Longrightarrow> c = d"
    and "bech32_decode lib DEPLOYMENTS = Inr (p, data, v)" and "from_base32 lib data = Inr a"
    and "\<And>x y z. bech32_encode lib PREFIX x Bech32 = Inr z \<Longrightarrow> bech32_encode lib PREFIX y Bech32 = Inr z \<Longrightarrow> x = y"
    and "inj (to_base32 lib)" and "icecube_address lib = Inr i" and "sink_address lib = Inr s"
  shows "i \<noteq> s"
proof
  assume eq: "i = s"
  obtain c x where c: "hex_decode lib ''b8cc8ae4201ee757a70c1e6d8b72c3afb94fc36ba95294ab0614011069de0fe5'' = Inr c"
    "address_of_instance lib c a SALT = Inr x" "bech32_encode lib PREFIX (to_base32 lib x) Bech32 = Inr s"
    using assms(3,4,7) by (auto simp: icecube_address_def eq)
  obtain d y where d: "hex_decode lib ''cb7b021831dd908b673491288b7a76f7ae973b8c1586ce41d9a69cadab5202c7'' = Inr d"
    "address_of_instance lib d a SALT = Inr y" "bech32_encode lib PREFIX (to_base32 lib y) Bech32 = Inr s"
    using assms(3,4,8) by (auto simp: sink_address_def)
  from assms(5) [OF c(3) d(3)] have "x = y" by (rule injD [OF assms(6)])
  with c(2) d(2) have "c = d" by (intro assms(2)) simp_all
  with c(1) d(1) have "''b8cc8ae4201ee757a70c1e6d8b72c3afb94fc36ba95294ab0614011069de0fe5''
      = ''cb7b021831dd908b673491288b7a76f7ae973b8c1586ce41d9a69cadab5202c7''" by (intro assms(1)) simp_all
  then show False by simp
qed

end
