(* ===== verification/Spec2Isabelle.thy ===== *)
theory Spec2Isabelle
  imports NoisSystem Icecube Monitoring Demo Deployment
begin

text \<open>
  A verification development for the Nois contracts (src/contracts, src/packages), a service that
  brings the public randomness of the drand network to dapps on other chains.

  \<^bold>\<open>The program.\<close> On the Nois chain, bots submit drand beacons to nois-drand, which verifies them, rewards
  the bots and forwards the randomness to nois-gateway. On a consumer chain, a dapp asks nois-proxy for the
  randomness published after a point in time; the proxy sends the request over an IBC channel to the
  gateway, which commits it to a drand round, charges the customer through the nois-payment contract of
  the channel, and answers at once or when the randomness of the round arrives. The proxy
  calls the dapp back. nois-payment passes a share of each payment to nois-sink, which burns it;
  nois-icecube holds a supply for the rewards; nois-monitoring and nois-demo are dapps.

  \<^bold>\<open>Theories and sources.\<close> A contract's storage is a record with one field per storage item, each entry point and each
  helper is one definition that carries the name of its Rust function (with the contract as suffix
  where several contracts have one of that name), and messages are datatypes with the constructors of the source.
  \<^item> \<open>Prelude\<close>: machine integers as words, results with errors and panics, actions (code whose writes
    survive an error), overflow-checked arithmetic, runs of transactions and their responses, and the locales
    \<open>invariant_machine\<close>, \<open>history_machine\<close> and \<open>metered_machine\<close> about runs.
  \<^item> \<open>KVStore\<close>: \<open>cw_storage_plus\<close> maps as association lists in ascending key order, with their laws in the locale \<open>kv_store\<close>.
  \<^item> \<open>Cosmos\<close>: what the contracts use of cosmwasm-std; locale \<open>allowlist\<close>.
  \<^item> \<open>DrandCommon\<close>: packages/drand-common/src/lib.rs and rounds.rs; locale \<open>round_schedule\<close>.
  \<^item> \<open>Protocol\<close>: packages/nois-protocol/src (packets, channel checks, lifetimes).
  \<^item> \<open>NoisLib\<close>: the interface of the nois crate, a dependency.
  \<^item> \<open>Sink\<close>, \<open>Payment\<close>, \<open>Icecube\<close>, \<open>Drand\<close>, \<open>Monitoring\<close>, \<open>Demo\<close>: contracts/nois-sink, nois-payment, nois-icecube,
    nois-drand, nois-monitoring and nois-demo, one theory each.
  \<^item> \<open>GatewayState\<close>, \<open>Router\<close>, \<open>Gateway\<close>: contracts/nois-gateway, namely src/state, drand_archive.rs and job_id.rs (locale
    \<open>fifo_queues\<close>), request_router.rs, and contract.rs.
  \<^item> \<open>Proxy\<close>: contracts/nois-proxy, with the messages of the feature governance_owned.
  \<^item> \<open>Deployment\<close>: packages/misc/src/mainnet_addresses.rs, the addresses of two deployed contracts.
  \<^item> \<open>Network\<close>: gateway and proxy joined by a channel, an inductive step relation in which dapps, submitters
    and relayers act in any order; packets are relayed at most once or time out.
  \<^item> \<open>NoisSystem\<close>: the network with the drand contract that feeds it, and the settlement of a request
    through payment contract and sink.

  \<^bold>\<open>What the lemmas show.\<close>
  \<^item> End to end (this theory and \<open>Network\<close>): a callback answers a request of the called dapp with genuine randomness of the
    right round, no request is answered twice, a queued request can always be brought to its dapp, and
    the price of a request is settled without remainder.
  \<^item> nois-drand: stored beacons are genuine and final, rewards are bounded and earned, submissions are listed in order and forward the stored randomness, and a
    second submission of a bot fails.
  \<^item> nois-gateway: the job table refines a family of queues; log, queue and statistics balance; every
    request is answered or queued and charged once; submissions answer the oldest jobs, the loop over the
    jobs ends, and queues are emptied by exactly the answers to their jobs; bad packets are acknowledged as errors; who may change what.
  \<^item> nois-proxy: when a request is accepted and what it sends, the choice of the round, delivery to
    the requester, the rounds of the test mode, the latest price in whatever order prices arrive, the life of the channel, who may change
    what and move funds, complete configurations.
  \<^item> The other contracts: exact payments, an accountable record of burns and its pages, funds that leave the icecube only towards
    nois-drand, final outcomes, and the estimate of the demo.

  \<^bold>\<open>Errors, overflow and loops.\<close> A handler returns \<open>Inl (Error e)\<close> for \<open>Err(e)\<close> and \<open>Inl (Panic s)\<close> for a panic. The chain
  discards the writes of a failed transaction (\<open>commit\<close>), so handlers return no state on failure, except the receipt of a packet by the
  gateway: it turns errors into acknowledgements, keeping the writes made before the error, and
  is therefore written with actions. Integers keep their width and arithmetic is checked, as the
  workspace is built with overflow checks. The one loop that is not structural,
  \<open>new_drand_loop\<close>, terminates because the count of processed jobs approaches the limit; no definition has fuel.

  \<^bold>\<open>Parameters.\<close> Code outside the repository is an argument of the definitions that use it: the services of the chain
  (records \<open>api\<close> and \<open>querier\<close>), signature verification and hashing (\<open>drand_api\<close>), the JSON codecs of
  packets and origins (\<open>codec\<close>, \<open>origin_codec\<close>, of which \<open>codec_ok\<close> and \<open>origin_codec_ok\<close> state that decoding an encoded value
  gives it back), the nois crate (\<open>nois_lib\<close>) and the crates behind addresses (\<open>address_lib\<close>). Each hypothesis a property makes about them is met by a
  concrete instance in a witness.

  \<^bold>\<open>Abstractions.\<close> A storage item holds any value; that the host refuses an empty byte string, which only an empty randomness of a
  trusted source could be, is left out. The request log of a channel is a list without the index arithmetic of the deque, which
  would wrap after 2 to the power of 32 entries. \<open>Network\<close> has one channel between one proxy and the gateway, which also serves other channels.
  Runs of nois-drand, nois-sink and nois-icecube consist of execute messages.

  \<^bold>\<open>Not modelled.\<close> The unit tests, the integration tests (packages/multitest, tests), the examples that print JSON schemas and the scripts;
  the sample beacons of drand-common/src/testing.rs, which only tests use; nois-proxy-governance-owned, which re-exports nois-proxy with a
  feature. JSON and
  protobuf encodings, gas, and the consensus and light clients under IBC are outside the sources; the
  network delivers packets at most once, as IBC promises. Genuineness is stated relative to the signature check of the
  drand_verify crate.
\<close>

section \<open>Properties\<close>

text \<open>
  C1: What a dapp is called back with is the randomness it asked for. In every reachable state of the
  system of drand contract, gateway and proxy, in which the gateway trusts only the drand contract,
  whatever bots, dapps, other submitters and relayers do, a callback answers a request of the called dapp with its job id; the randomness derives from a valid drand
  signature of the first round after the requested time, and the publish time handed over
  is that of the round and later than the requested time.
\<close>

theorem callbacks_carry_genuine_randomness:
  assumes "codec_ok codec" and "origin_codec_ok oc" and "sys_start dapi gc da s0"
    and "(sys_step api dapi codec oc lib pc gc da gw)\<^sup>*\<^sup>* s0 s"
    and "(d, a, cb) \<in> set (callbacks (sys_net s))"
  shows "\<exists>info msg after d'. (info, msg, d') \<in> set (requests (sys_net s)) \<and> sender info = a \<and>
     requested_job msg = Some (job_id cb) \<and>
     d' = enc_in_packet codec (RequestBeacon after (enc_origin oc \<lparr>rbo_sender = a, rbo_job_id = job_id cb\<rparr>)) \<and>
     after < published cb \<and> publish_time (round_after after) = Some (published cb) \<and>
     (\<exists>signature. valid_signature dapi (round_after after) signature \<and> randomness cb = derive_randomness dapi signature)"
  by (rule callback_genuine [OF assms]) (auto simp: genuine_def)

theorem callbacks_carry_genuine_randomness_witness:
  "\<exists>s after. sample_step\<^sup>*\<^sup>* sample_system s \<and>
     (sample_beacon, ''dapp'', \<lparr>job_id = ''job'', published = 1700000001000000000, randomness = [188]\<rparr>)
       \<in> set (callbacks (sys_net s)) \<and>
     after < 1700000001000000000 \<and> publish_time (round_after after) = Some 1700000001000000000 \<and>
     (\<exists>signature. valid_signature sample_drand_api (round_after after) signature \<and>
        [188] = derive_randomness sample_drand_api signature)"
proof -
  obtain s where s: "sample_step\<^sup>*\<^sup>* sample_system s"
    "(sample_beacon, ''dapp'', \<lparr>job_id = ''job'', published = 1700000001000000000, randomness = [188]\<rparr>)
      \<in> set (callbacks (sys_net s))"
    by (rule sample_system_run)
  with callbacks_carry_genuine_randomness [OF sample_codec_ok sample_origin_codec_ok sample_system_start s] show ?thesis by auto
qed

text \<open>
  C11: The price of an accepted request, in the denomination the sink burns, is settled in full across the contracts: the gateway's order
  splits the price without remainder; the payment contract of the customer, set up for this
  gateway, executes the order and sends exactly the burn and the relayer's reward, next to the message that hands
  the rest to the community pool; and the sink burns exactly the coin it is sent.
\<close>

theorem request_price_is_settled:
  assumes "gateway_inv st" and "gateway_state.CONFIG st = Some config"
    and "kv_may_load (CUSTOMERS st) (dest_channel_id msg) = Some c"
    and "dec_in_packet codec (packet_data msg) = Inr (RequestBeacon after orig)" and "length orig \<le> MAX_ORIGIN_LEN"
    and "ibc_packet_receive_gateway api codec env msg st
      = (Inr (st', res) :: 'e failure + gateway_state \<times> gateway_out_msg ibc_receive_response)"
    and "payment_state.CONFIG pst = Some pconfig" and "payment_config.gateway pconfig = contract_address env"
    and "addr_validate papi (packet_relayer msg) = Inr a"
    and "denom (price config) = BURN_DENOM" and "unat (unwrap_or (ASHES_LAST_ID sst) 0) < 2 ^ 32 - 1"
  shows "\<exists>burn pool reward pres. let order = Pay burn pool (packet_relayer msg, reward) in
     sub_msg (last (messages res)) = WasmExecute (customer.payment c) (ToPayment order) [] \<and>
     coins_of BURN_DENOM [burn, pool, reward] = unat (amount (price config)) \<and>
     execute_payment papi penv \<lparr>sender = contract_address env, funds = []\<rparr> order pst = Inr (pst, pres) \<and>
     sum_list (map (\<lambda>m. msg_funds BURN_DENOM (sub_msg m)) (messages pres)) = coins_of BURN_DENOM [burn, reward] \<and>
     (amount pool = 0 \<or> new_msg (Stargate MSG_FUND_COMMUNITY_POOL
        (encode_msg_fund_community_pool papi pool (contract_address penv))) \<in> set (messages pres)) \<and>
     (amount burn = 0 \<or> new_msg (WasmExecute (payment_config.sink pconfig) NoisSinkBurn [burn]) \<in> set (messages pres)) \<and>
     (\<exists>sst' sres. execute_sink q senv \<lparr>sender = customer.payment c, funds = [burn]\<rparr> Burn sst = Inr (sst', sres) \<and>
        messages sres = [new_msg (BankBurn [burn])])"
proof -
  obtain ms b r rest n where "messages res = ms @ [new_msg (WasmExecute (customer.payment c) (ToPayment
        (Pay \<lparr>amount = b, denom = BURN_DENOM\<rparr> \<lparr>amount = rest, denom = BURN_DENOM\<rparr>
          (packet_relayer msg, \<lparr>amount = r, denom = BURN_DENOM\<rparr>))) [])]"
    and total: "unat b + unat r + unat rest = unat (amount (price config))"
    by (rule accepted_request_order [OF assms(1-6), unfolded assms(10)])
  then have order: "sub_msg (last (messages res)) = WasmExecute (customer.payment c) (ToPayment
        (Pay \<lparr>amount = b, denom = BURN_DENOM\<rparr> \<lparr>amount = rest, denom = BURN_DENOM\<rparr>
          (packet_relayer msg, \<lparr>amount = r, denom = BURN_DENOM\<rparr>))) []" by simp
  let ?burn = "\<lparr>amount = b, denom = BURN_DENOM\<rparr>" and ?pool = "\<lparr>amount = rest, denom = BURN_DENOM\<rparr>"
    and ?reward = "\<lparr>amount = r, denom = BURN_DENOM\<rparr>"
  have "coins_of BURN_DENOM [?burn, ?pool, ?reward] = unat (amount (price config))"
    using total by (simp add: coins_of_def)
  moreover obtain pres where "execute_payment papi penv \<lparr>sender = contract_address env, funds = []\<rparr>
      (Pay ?burn ?pool (packet_relayer msg, ?reward)) pst = Inr (pst, pres)"
    "sum_list (map (\<lambda>m. msg_funds BURN_DENOM (sub_msg m)) (messages pres)) = coins_of BURN_DENOM [?burn, ?reward]"
    "amount ?burn = 0 \<or> new_msg (WasmExecute (payment_config.sink pconfig) NoisSinkBurn [?burn]) \<in> set (messages pres)"
    "amount ?pool = 0 \<or> new_msg (Stargate MSG_FUND_COMMUNITY_POOL
        (encode_msg_fund_community_pool papi ?pool (contract_address penv))) \<in> set (messages pres)"
    by (rule order_executed [OF assms(7-9), of penv ?burn ?pool ?reward BURN_DENOM]) blast
  moreover have "\<exists>sst' sres. execute_sink q senv \<lparr>sender = customer.payment c, funds = [?burn]\<rparr> Burn sst = Inr (sst', sres) \<and>
        messages sres = [new_msg (BankBurn [?burn])]"
    by (rule burn_executed [of ?burn sst q senv "customer.payment c"]) (use assms(11) in auto)
  ultimately show ?thesis
    using order unfolding Let_def by (intro exI [of _ ?burn] exI [of _ ?pool] exI [of _ ?reward] exI [of _ pres] conjI)
qed

theorem request_price_is_settled_witness:
  "\<exists>burn pool reward. sub_msg (last (messages sample_gateway_response))
       = WasmExecute ''pay'' (ToPayment (Pay burn pool (''rel'', reward))) [] \<and>
     coins_of BURN_DENOM [burn, pool, reward] = 1000"
proof -
  let ?pst = "\<lparr>CONTRACT_INFO = None, payment_state.CONFIG = Some \<lparr>payment_config.sink = ''sink'',
      gateway = contract_address sample_env\<rparr>\<rparr> :: payment_state"
  have "length [1, 2, 3 :: 8 word] \<le> MAX_ORIGIN_LEN" "payment_state.CONFIG ?pst = Some (the (payment_state.CONFIG ?pst))"
    "payment_config.gateway (the (payment_state.CONFIG ?pst)) = contract_address sample_env"
    "addr_validate sample_api (packet_relayer (sample_request ''channel-1'')) = Inr ''rel''"
    "denom (price sample_gateway_config) = BURN_DENOM" "unat (unwrap_or (ASHES_LAST_ID empty_sink_state) 0) < 2 ^ 32 - 1"
    by (simp_all add: MAX_ORIGIN_LEN_def sample_api_def sample_request_def sample_gateway_config_def BURN_DENOM_def empty_sink_state_def)
  from request_price_is_settled [OF sample_gateway_open_inv sample_customer(3,1) sample_request_decoded this(1)
      sample_ibc_received [of sample_api] this(2-), of sample_env sample_querier sample_env]
  obtain burn pool reward where "sub_msg (last (messages sample_gateway_response))
      = WasmExecute ''pay'' (ToPayment (Pay burn pool (packet_relayer (sample_request ''channel-1''), reward))) []"
    "coins_of BURN_DENOM [burn, pool, reward] = unat (amount (price sample_gateway_config))"
    unfolding Let_def customer.simps by blast
  moreover have "packet_relayer (sample_request ''channel-1'') = ''rel''" "unat (amount (price sample_gateway_config)) = 1000"
    by (simp_all add: sample_request_def sample_gateway_config_def)
  ultimately show ?thesis by metis
qed

end
